(* ===== verification/Prelude.thy ===== *)
theory Prelude
  imports Main "HOL-Library.AList"
begin

text \<open>
  Shared vocabulary of the development: the result type of a Go function
  returning (value, error), the combinators that stand for
  ``if err != nil { return err }'', string helpers of Go's standard library
  (prefix tests, \<^verbatim>\<open>strings.SplitN\<close>, \<^verbatim>\<open>strconv\<close>), Go maps as
  association lists, and generic lemmas on lists used by the components.
\<close>

named_theorems res_simps \<open>unfolding rules of the error combinators\<close>
named_theorems sql_simps \<open>rules of the table operations\<close>

type_synonym ('e, 'a) res = "'e + 'a"

section \<open>Results and guards\<close>

definition bindE :: "'e + 'a \<Rightarrow> ('a \<Rightarrow> 'e + 'b) \<Rightarrow> 'e + 'b" where
  "bindE r k = (case r of Inl e \<Rightarrow> Inl e | Inr x \<Rightarrow> k x)"

definition guardE :: "'e option \<Rightarrow> 'e + 'b \<Rightarrow> 'e + 'b" where
  "guardE c k = (case c of Some e \<Rightarrow> Inl e | None \<Rightarrow> k)"

definition map_err :: "('e \<Rightarrow> 'f) \<Rightarrow> 'e + 'a \<Rightarrow> 'f + 'a" where
  "map_err f r = (case r of Inl e \<Rightarrow> Inl (f e) | Inr x \<Rightarrow> Inr x)"

definition map_res :: "('a \<Rightarrow> 'b) \<Rightarrow> 'e + 'a \<Rightarrow> 'e + 'b" where
  "map_res f r = (case r of Inl e \<Rightarrow> Inl e | Inr x \<Rightarrow> Inr (f x))"

fun is_ok :: "'e + 'a \<Rightarrow> bool" where
  "is_ok (Inl _) = False"
| "is_ok (Inr _) = True"

fun err_of :: "'e + 'a \<Rightarrow> 'e option" where
  "err_of (Inl e) = Some e"
| "err_of (Inr _) = None"

lemma bindE_simps [simp, res_simps]:
  "bindE (Inl e) k = Inl e" "bindE (Inr x) k = k x"
  by (simp_all add: bindE_def)

lemma guardE_simps [simp, res_simps]:
  "guardE (Some e) k = Inl e" "guardE None k = k"
  by (simp_all add: guardE_def)

lemma map_err_simps [simp, res_simps]:
  "map_err f (Inl e) = Inl (f e)" "map_err f (Inr x) = Inr x"
  by (simp_all add: map_err_def)

lemma map_res_simps [simp, res_simps]:
  "map_res f (Inl e) = Inl e" "map_res f (Inr x) = Inr (f x)"
  by (simp_all add: map_res_def)

lemma bindE_Inr_iff: "bindE r k = Inr y \<longleftrightarrow> (\<exists>x. r = Inr x \<and> k x = Inr y)"
  by (cases r) auto

lemma bindE_InrE [elim!]:
  assumes "bindE r k = Inr y"
  obtains x where "r = Inr x" "k x = Inr y"
  using assms by (cases r) auto

lemma guardE_Inr_iff [simp]: "guardE c k = Inr y \<longleftrightarrow> c = None \<and> k = Inr y"
  by (cases c) auto

lemma map_err_Inr_iff [simp]: "map_err f r = Inr y \<longleftrightarrow> r = Inr y"
  by (cases r) auto

lemma map_err_Inl_iff: "map_err f r = Inl y \<longleftrightarrow> (\<exists>e. r = Inl e \<and> y = f e)"
  by (cases r) auto

lemma map_res_Inr_iff: "map_res f r = Inr y \<longleftrightarrow> (\<exists>x. r = Inr x \<and> y = f x)"
  by (cases r) auto

lemma is_ok_iff: "is_ok r \<longleftrightarrow> (\<exists>x. r = Inr x)"
  by (cases r) auto

section \<open>Strings\<close>

fun has_prefix :: "string \<Rightarrow> string \<Rightarrow> bool" where
  "has_prefix s [] = True"
| "has_prefix [] (c # p) = False"
| "has_prefix (d # s) (c # p) = (c = d \<and> has_prefix s p)"

text \<open>strings.CutPrefix\<close>

definition cut_prefix :: "string \<Rightarrow> string \<Rightarrow> string option" where
  "cut_prefix s p = (if has_prefix s p then Some (drop (size p) s) else None)"

fun contains_str :: "string \<Rightarrow> string \<Rightarrow> bool" where
  "contains_str [] p = (p = [])"
| "contains_str (c # s) p = (has_prefix (c # s) p \<or> contains_str s p)"

fun join_str :: "string \<Rightarrow> string list \<Rightarrow> string" where
  "join_str sep [] = []"
| "join_str sep [x] = x"
| "join_str sep (x # y # xs) = x @ sep @ join_str sep (y # xs)"

lemma has_prefix_append [simp]: "has_prefix (p @ s) p"
  by (induction p) auto

lemma has_prefix_iff: "has_prefix s p \<longleftrightarrow> (\<exists>t. s = p @ t)"
  by (induction s p rule: has_prefix.induct) auto

lemma cut_prefix_append [simp]: "cut_prefix (p @ s) p = Some s"
  by (simp add: cut_prefix_def)

text \<open>ASCII lower-casing, strings.ToLower on the resource kinds of this program\<close>

definition to_lower_char :: "char \<Rightarrow> char" where
  "to_lower_char c =
    (let n = of_char c :: nat in if 65 \<le> n \<and> n \<le> 90 then char_of (n + 32) else c)"

definition to_lower :: "string \<Rightarrow> string" where
  "to_lower s = List.map to_lower_char s"

section \<open>Decimal integers\<close>

definition digit_char :: "nat \<Rightarrow> char" where
  "digit_char d = char_of (48 + d)"

fun nat_dec :: "nat \<Rightarrow> string" where
  "nat_dec n = (if n < 10 then [digit_char n] else nat_dec (n div 10) @ [digit_char (n mod 10)])"

declare nat_dec.simps [simp del]

text \<open>strconv.FormatInt(n, 10)\<close>

definition int_dec :: "int \<Rightarrow> string" where
  "int_dec n = (if n < 0 then CHR ''-'' # nat_dec (nat (- n)) else nat_dec (nat n))"

definition char_digit :: "char \<Rightarrow> nat option" where
  "char_digit c = (let n = of_char c :: nat in if 48 \<le> n \<and> n \<le> 57 then Some (n - 48) else None)"

fun parse_digits :: "nat \<Rightarrow> string \<Rightarrow> nat option" where
  "parse_digits acc [] = Some acc"
| "parse_digits acc (c # cs) =
    (case char_digit c of None \<Rightarrow> None | Some d \<Rightarrow> parse_digits (10 * acc + d) cs)"

definition parse_nat :: "string \<Rightarrow> nat option" where
  "parse_nat s = (if s = [] then None else parse_digits 0 s)"

definition int64_min :: int where "int64_min = - 9223372036854775808"
definition int64_max :: int where "int64_max = 9223372036854775807"

definition in_int64 :: "int \<Rightarrow> bool" where
  "in_int64 n \<longleftrightarrow> int64_min \<le> n \<and> n \<le> int64_max"

text \<open>strconv.ParseInt(s, 10, 64): optional sign, decimal digits, range check\<close>

definition parse_int64 :: "string \<Rightarrow> int option" where
  "parse_int64 s =
    (let (neg, ds) = (case s of c # cs \<Rightarrow> if c = CHR ''-'' then (True, cs)
                                     else if c = CHR ''+'' then (False, cs) else (False, s)
                     | [] \<Rightarrow> (False, s))
     in case parse_nat ds of None \<Rightarrow> None
        | Some n \<Rightarrow> (let v = (if neg then - int n else int n)
                    in if in_int64 v then Some v else None))"

lemma char_digit_digit_char [simp]: "d < 10 \<Longrightarrow> char_digit (digit_char d) = Some d"
  by (simp add: char_digit_def digit_char_def)

lemma parse_digits_append:
  "parse_digits a (xs @ ys) = (case parse_digits a xs of None \<Rightarrow> None | Some b \<Rightarrow> parse_digits b ys)"
  by (induction a xs rule: parse_digits.induct) (auto split: option.splits)

lemma parse_digits_nat_dec: "parse_digits 0 (nat_dec n) = Some n"
proof (induction n rule: nat_dec.induct)
  case (1 n)
  show ?case
  proof (cases "n < 10")
    case True
    then show ?thesis by (simp add: nat_dec.simps [of n])
  next
    case False
    then have IH: "parse_digits 0 (nat_dec (n div 10)) = Some (n div 10)" using 1 by blast
    have "parse_digits 0 (nat_dec n) = Some (10 * (n div 10) + n mod 10)"
      using False IH by (simp add: nat_dec.simps [of n] parse_digits_append)
    then show ?thesis by simp
  qed
qed

lemma nat_dec_nonempty [simp]: "nat_dec n \<noteq> []"
  by (simp add: nat_dec.simps [of n])

lemma parse_nat_nat_dec [simp]: "parse_nat (nat_dec n) = Some n"
  by (simp add: parse_nat_def parse_digits_nat_dec)

lemma nat_dec_digits: "c \<in> set (nat_dec n) \<Longrightarrow> \<exists>d<10. c = digit_char d"
proof (induction n rule: nat_dec.induct)
  case (1 n)
  then show ?case
    by (cases "n < 10") (auto simp: nat_dec.simps [of n] intro: exI [of _ "n mod 10"])
qed

lemma digit_char_neq [simp]:
  assumes "d < 10"
  shows "digit_char d \<noteq> CHR '':''" "digit_char d \<noteq> CHR ''-''" "digit_char d \<noteq> CHR ''+''"
proof -
  have "char_digit (digit_char d) = Some d" using assms by simp
  then show "digit_char d \<noteq> CHR '':''" "digit_char d \<noteq> CHR ''-''" "digit_char d \<noteq> CHR ''+''"
    by (auto simp: char_digit_def)
qed

lemma hd_nat_dec: "nat_dec n = c # cs \<Longrightarrow> c \<noteq> CHR ''-'' \<and> c \<noteq> CHR ''+''"
  using nat_dec_digits [of c n] by auto

lemma parse_int64_int_dec [simp]:
  assumes "in_int64 n"
  shows "parse_int64 (int_dec n) = Some n"
proof (cases "n < 0")
  case True
  then show ?thesis using assms by (simp add: parse_int64_def int_dec_def)
next
  case False
  obtain c cs where d: "nat_dec (nat n) = c # cs" by (cases "nat_dec (nat n)") auto
  then have h: "c \<noteq> CHR ''-''" "c \<noteq> CHR ''+''" using hd_nat_dec by blast+
  have p: "parse_nat (c # cs) = Some (nat n)" using parse_nat_nat_dec [of "nat n"] d by simp
  show ?thesis using False assms h p by (simp add: parse_int64_def int_dec_def d)
qed

lemma int_dec_no_colon: "CHR '':'' \<notin> set (int_dec n)"
proof
  assume "CHR '':'' \<in> set (int_dec n)"
  then have "CHR '':'' \<in> set (nat_dec (nat (- n))) \<or> CHR '':'' \<in> set (nat_dec (nat n))"
    by (auto simp: int_dec_def split: if_splits)
  then obtain d where "d < 10" "CHR '':'' = digit_char d"
    using nat_dec_digits by blast
  then show False using digit_char_neq(1) by metis
qed

lemma nat_dec_inj: "nat_dec m = nat_dec n \<Longrightarrow> m = n"
  by (metis parse_nat_nat_dec option.inject)

text \<open>strings.SplitN(s, sep, 2) for a one-character separator\<close>

definition split2 :: "char \<Rightarrow> string \<Rightarrow> string list" where
  "split2 c s =
    (let a = takeWhile (\<lambda>x. x \<noteq> c) s; b = dropWhile (\<lambda>x. x \<noteq> c) s
     in case b of [] \<Rightarrow> [a] | _ # r \<Rightarrow> [a, r])"

lemma split2_join: "c \<notin> set a \<Longrightarrow> split2 c (a @ c # b) = [a, b]"
proof -
  assume c: "c \<notin> set a"
  then have "takeWhile (\<lambda>x. x \<noteq> c) (a @ c # b) = a" "dropWhile (\<lambda>x. x \<noteq> c) (a @ c # b) = c # b"
    by (auto simp: takeWhile_append dropWhile_append)
  then show ?thesis by (simp add: split2_def)
qed

section \<open>Go maps\<close>

text \<open>A \<^verbatim>\<open>map[string]string\<close>: None is the nil map, the order of the
  association list is not observable.\<close>

type_synonym gomap = "(string \<times> string) list option"

definition gomap_entries :: "gomap \<Rightarrow> (string \<times> string) list" where
  "gomap_entries m = (case m of None \<Rightarrow> [] | Some xs \<Rightarrow> xs)"

definition gomap_get :: "gomap \<Rightarrow> string \<Rightarrow> string option" where
  "gomap_get m k = map_of (gomap_entries m) k"

section \<open>Lists\<close>

lemma find_Some_D: "List.find P xs = Some x \<Longrightarrow> x \<in> set xs \<and> P x"
  by (induction xs) (auto split: if_splits)

lemma find_None_D: "List.find P xs = None \<longleftrightarrow> (\<forall>x\<in>set xs. \<not> P x)"
  by (induction xs) auto

lemma find_append: "List.find P (xs @ ys) = (case List.find P xs of Some x \<Rightarrow> Some x | None \<Rightarrow> List.find P ys)"
  by (induction xs) auto

lemma find_cong_set: "(\<And>x. x \<in> set xs \<Longrightarrow> P x = Q x) \<Longrightarrow> List.find P xs = List.find Q xs"
  by (induction xs) auto

end
