(* ===== verification/GoError.thy ===== *)
theory GoError
  imports Prelude
begin

text \<open>
  The error values of the program: the sentinels of internal/ports/errors.go,
  errors built with \<^verbatim>\<open>fmt.Errorf\<close> around them, gRPC status errors with
  field violations, the driver's errors (SQLSTATE, no rows) and plain errors;
  and the mappers of the three layers: repo (\<^verbatim>\<open>wrapPgErr\<close>), service
  (\<^verbatim>\<open>mapRepoErr\<close> and friends) and handler (\<^verbatim>\<open>internalMapErr\<close>).
\<close>

section \<open>Error values\<close>

datatype code = OK | Canceled | Unknown | InvalidArgument | DeadlineExceeded | NotFound
  | AlreadyExists | PermissionDenied | ResourceExhausted | FailedPrecondition | Aborted
  | OutOfRange | Unimplemented | Internal | Unavailable | DataLoss | Unauthenticated

fun code_string :: "code \<Rightarrow> string" where
  "code_string OK = ''OK''"
| "code_string Canceled = ''Canceled''"
| "code_string Unknown = ''Unknown''"
| "code_string InvalidArgument = ''InvalidArgument''"
| "code_string DeadlineExceeded = ''DeadlineExceeded''"
| "code_string NotFound = ''NotFound''"
| "code_string AlreadyExists = ''AlreadyExists''"
| "code_string PermissionDenied = ''PermissionDenied''"
| "code_string ResourceExhausted = ''ResourceExhausted''"
| "code_string FailedPrecondition = ''FailedPrecondition''"
| "code_string Aborted = ''Aborted''"
| "code_string OutOfRange = ''OutOfRange''"
| "code_string Unimplemented = ''Unimplemented''"
| "code_string Internal = ''Internal''"
| "code_string Unavailable = ''Unavailable''"
| "code_string DataLoss = ''DataLoss''"
| "code_string Unauthenticated = ''Unauthenticated''"

datatype sentinel = ErrNotFound | ErrAlreadyExists | ErrInvalidArg | ErrFailedPrecondition | ErrInternal

fun sentinel_text :: "sentinel \<Rightarrow> string" where
  "sentinel_text ErrNotFound = ''not found''"
| "sentinel_text ErrAlreadyExists = ''already exists''"
| "sentinel_text ErrInvalidArg = ''invalid argument''"
| "sentinel_text ErrFailedPrecondition = ''failed precondition''"
| "sentinel_text ErrInternal = ''internal database error''"

text \<open>
  \<^verbatim>\<open>Wrapped s m\<close> is \<^verbatim>\<open>fmt.Errorf("%w: m", s)\<close>,
  \<^verbatim>\<open>Prefixed m e\<close> is \<^verbatim>\<open>fmt.Errorf("m: %w", e)\<close>.
\<close>

datatype go_error =
    Sentinel sentinel
  | Wrapped sentinel string
  | Prefixed string go_error
  | Status code string "(string \<times> string) list"
  | PgError string string
  | NoRows
  | Plain string

fun err_text :: "go_error \<Rightarrow> string" where
  "err_text (Sentinel s) = sentinel_text s"
| "err_text (Wrapped s m) = sentinel_text s @ '': '' @ m"
| "err_text (Prefixed m e) = m @ '': '' @ err_text e"
| "err_text (Status c m _) = ''rpc error: code = '' @ code_string c @ '' desc = '' @ m"
| "err_text (PgError c m) = m @ '' (SQLSTATE '' @ c @ '')''"
| "err_text NoRows = ''no rows in result set''"
| "err_text (Plain m) = m"

text \<open>errors.Is(err, sentinel)\<close>

fun is_sentinel :: "go_error \<Rightarrow> sentinel \<Rightarrow> bool" where
  "is_sentinel (Sentinel t) s = (t = s)"
| "is_sentinel (Wrapped t _) s = (t = s)"
| "is_sentinel (Prefixed _ e) s = is_sentinel e s"
| "is_sentinel _ _ = False"

text \<open>errors.Is(err, pgx.ErrNoRows)\<close>

fun is_no_rows :: "go_error \<Rightarrow> bool" where
  "is_no_rows NoRows = True"
| "is_no_rows (Prefixed _ e) = is_no_rows e"
| "is_no_rows _ = False"

text \<open>errors.As(err, *pgconn.PgError)\<close>

fun as_pg :: "go_error \<Rightarrow> string option" where
  "as_pg (PgError c _) = Some c"
| "as_pg (Prefixed _ e) = as_pg e"
| "as_pg _ = None"

text \<open>status.FromError: the code carried by a status error, also below a
  wrapper; None when the error carries no status.\<close>

fun from_error :: "go_error \<Rightarrow> code option" where
  "from_error (Status c _ _) = Some c"
| "from_error (Prefixed _ e) = from_error e"
| "from_error _ = None"

text \<open>What a gRPC client sees for an error a handler returns.\<close>

definition wire_code :: "go_error \<Rightarrow> code" where
  "wire_code e = (case from_error e of Some c \<Rightarrow> c | None \<Rightarrow> Unknown)"

fun wire_msg :: "go_error \<Rightarrow> string" where
  "wire_msg (Status _ m _) = m"
| "wire_msg e = err_text e"

abbreviation status :: "code \<Rightarrow> string \<Rightarrow> go_error" where
  "status c m \<equiv> Status c m []"

definition invalidArg :: "string \<Rightarrow> string \<Rightarrow> go_error" where
  "invalidArg field desc = Status InvalidArgument desc [(field, desc)]"

section \<open>Repository layer\<close>

definition isUniqueViolation :: "go_error \<Rightarrow> bool" where
  "isUniqueViolation e = (case as_pg e of Some c \<Rightarrow> c = ''23505''
    | None \<Rightarrow> contains_str (err_text e) ''23505'' \<or> contains_str (err_text e) ''duplicate key value'')"

definition isFKViolation :: "go_error \<Rightarrow> bool" where
  "isFKViolation e = (case as_pg e of Some c \<Rightarrow> c = ''23503''
    | None \<Rightarrow> contains_str (err_text e) ''23503'' \<or> contains_str (err_text e) ''violates foreign key'')"

definition isCheckViolation :: "go_error \<Rightarrow> bool" where
  "isCheckViolation e = (case as_pg e of Some c \<Rightarrow> c = ''23514''
    | None \<Rightarrow> contains_str (err_text e) ''23514'')"

definition isExclusionViolation :: "go_error \<Rightarrow> bool" where
  "isExclusionViolation e = (case as_pg e of Some c \<Rightarrow> c = ''23P01''
    | None \<Rightarrow> contains_str (err_text e) ''23P01'')"

definition wrapPgErr :: "string \<Rightarrow> string \<Rightarrow> go_error \<Rightarrow> go_error" where
  "wrapPgErr kind rid err =
    (if is_no_rows err then
       (if rid \<noteq> '''' then Wrapped ErrNotFound (kind @ '' '' @ rid @ '' not found'')
        else Sentinel ErrNotFound)
     else if isUniqueViolation err then Sentinel ErrAlreadyExists
     else if isFKViolation err then
       Wrapped ErrFailedPrecondition (''The '' @ to_lower kind @ '' '' @ rid @ '' is being used'')
     else if isCheckViolation err then Sentinel ErrInvalidArg
     else if isExclusionViolation err then Sentinel ErrFailedPrecondition
     else Sentinel ErrInternal)"

section \<open>Service layer\<close>

definition stripSentinel :: "go_error \<Rightarrow> sentinel \<Rightarrow> string" where
  "stripSentinel err s =
    (case cut_prefix (err_text err) (sentinel_text s @ '': '') of Some rest \<Rightarrow> rest | None \<Rightarrow> err_text err)"

definition mapRepoErr :: "go_error \<Rightarrow> go_error" where
  "mapRepoErr err =
    (if is_sentinel err ErrNotFound then status NotFound (stripSentinel err ErrNotFound)
     else if is_sentinel err ErrAlreadyExists then status AlreadyExists (stripSentinel err ErrAlreadyExists)
     else if is_sentinel err ErrFailedPrecondition
       then status FailedPrecondition (stripSentinel err ErrFailedPrecondition)
     else if is_sentinel err ErrInvalidArg then status InvalidArgument (stripSentinel err ErrInvalidArg)
     else if is_sentinel err ErrInternal then status Internal ''internal database error''
     else case from_error err of
       Some c \<Rightarrow> if c \<noteq> Unknown then err else status Internal ''internal database error''
     | None \<Rightarrow> status Internal ''internal database error'')"

definition mapRefErr :: "string \<Rightarrow> string \<Rightarrow> go_error \<Rightarrow> go_error" where
  "mapRefErr resource rid err =
    (if is_sentinel err ErrNotFound then status NotFound (resource @ '' '' @ rid @ '' not found'')
     else mapRepoErr err)"

definition crossProjectNotFound :: "string \<Rightarrow> string \<Rightarrow> go_error" where
  "crossProjectNotFound resource rid = status NotFound (resource @ '' '' @ rid @ '' not found'')"

definition mapZoneRefErr :: "string \<Rightarrow> go_error \<Rightarrow> go_error" where
  "mapZoneRefErr zoneID err =
    (if is_sentinel err ErrNotFound then status InvalidArgument (''Zone '' @ zoneID @ '' not found'')
     else if from_error err = Some NotFound then status InvalidArgument (''Zone '' @ zoneID @ '' not found'')
     else status Unavailable ''zone check: upstream geo service unavailable'')"

section \<open>Handler layer\<close>

definition internalMapErr :: "string \<Rightarrow> go_error \<Rightarrow> go_error" where
  "internalMapErr tag err =
    (if is_sentinel err ErrNotFound then status NotFound (sentinel_text ErrNotFound)
     else if is_sentinel err ErrAlreadyExists then status AlreadyExists (sentinel_text ErrAlreadyExists)
     else if is_sentinel err ErrFailedPrecondition
       then status FailedPrecondition (sentinel_text ErrFailedPrecondition)
     else if is_sentinel err ErrInvalidArg then status InvalidArgument (sentinel_text ErrInvalidArg)
     else case from_error err of
       Some c \<Rightarrow> if c \<noteq> Unknown then err
                 else status Internal (if tag = '''' then ''internal error'' else tag)
     | None \<Rightarrow> status Internal (if tag = '''' then ''internal error'' else tag))"

section \<open>Lemmas\<close>

fun is_db_error :: "go_error \<Rightarrow> bool" where
  "is_db_error (Sentinel _) = False"
| "is_db_error (Wrapped _ _) = False"
| "is_db_error (Status _ _ _) = False"
| "is_db_error (Prefixed _ e) = is_db_error e"
| "is_db_error _ = True"

lemma is_db_error_no_sentinel: "is_db_error e \<Longrightarrow> \<not> is_sentinel e s"
  by (induction e) auto

lemma is_db_error_no_status: "is_db_error e \<Longrightarrow> from_error e = None"
  by (induction e) auto

lemma wrapPgErr_cases:
  "wrapPgErr k i e \<in> {Wrapped ErrNotFound (k @ '' '' @ i @ '' not found''), Sentinel ErrNotFound,
     Sentinel ErrAlreadyExists, Wrapped ErrFailedPrecondition (''The '' @ to_lower k @ '' '' @ i @ '' is being used''),
     Sentinel ErrInvalidArg, Sentinel ErrFailedPrecondition, Sentinel ErrInternal}"
  by (simp add: wrapPgErr_def)

lemma wrapPgErr_NoRows: "wrapPgErr k i NoRows =
   (if i \<noteq> '''' then Wrapped ErrNotFound (k @ '' '' @ i @ '' not found'') else Sentinel ErrNotFound)"
  by (simp add: wrapPgErr_def)

lemma stripSentinel_simps [simp]:
  "stripSentinel (Wrapped s m) s = m"
  by (simp add: stripSentinel_def cut_prefix_append [of "sentinel_text s @ '': ''", simplified])

lemma stripSentinel_Sentinel [simp]: "stripSentinel (Sentinel s) s = sentinel_text s"
  by (cases s) (simp_all add: stripSentinel_def cut_prefix_def)

lemma mapRepoErr_simps [simp]:
  "mapRepoErr (Sentinel ErrNotFound) = status NotFound ''not found''"
  "mapRepoErr (Sentinel ErrAlreadyExists) = status AlreadyExists ''already exists''"
  "mapRepoErr (Sentinel ErrFailedPrecondition) = status FailedPrecondition ''failed precondition''"
  "mapRepoErr (Sentinel ErrInvalidArg) = status InvalidArgument ''invalid argument''"
  "mapRepoErr (Sentinel ErrInternal) = status Internal ''internal database error''"
  "mapRepoErr (Wrapped ErrNotFound m) = status NotFound m"
  "mapRepoErr (Wrapped ErrAlreadyExists m) = status AlreadyExists m"
  "mapRepoErr (Wrapped ErrFailedPrecondition m) = status FailedPrecondition m"
  "mapRepoErr (Wrapped ErrInvalidArg m) = status InvalidArgument m"
  "mapRepoErr (Wrapped ErrInternal m) = status Internal ''internal database error''"
  by (simp_all add: mapRepoErr_def)

lemma mapRepoErr_status [simp]: "c \<noteq> Unknown \<Longrightarrow> mapRepoErr (Status c m v) = Status c m v"
  by (simp add: mapRepoErr_def)

lemma from_error_mapRepoErr: "\<exists>c. from_error (mapRepoErr e) = Some c \<and> c \<noteq> Unknown"
  by (auto simp: mapRepoErr_def split: option.splits)

lemma is_sentinel_unique: "is_sentinel e s \<Longrightarrow> is_sentinel e t \<Longrightarrow> s = t"
  by (induction e) auto

lemma is_sentinel_no_status: "is_sentinel e s \<Longrightarrow> from_error e = None"
  by (induction e) auto

end
