(* ===== verification/Domain.thy ===== *)
theory Domain
  imports GoError
begin

text \<open>
  The entities of internal/domain and the value objects of internal/ports.
  Nested protobuf messages the program only stores and returns are opaque
  (\<^verbatim>\<open>proto_msg\<close>, None is the nil pointer). Times are Unix nanoseconds.
  \<^verbatim>\<open>int64\<close> fields are integers; the operations that bound them state
  the bounds. Access modes are plain Go integers, because the program casts
  between two enumerations by ordinal.
\<close>

type_synonym proto_msg = string
type_synonym gotime = int

text \<open>The zero time.Time, 0001-01-01 UTC.\<close>

definition zero_time :: gotime where "zero_time = - 62135596800 * 1000000000"

section \<open>Statuses\<close>

datatype disk_status = DiskStatusUnspecified | DiskStatusCreating | DiskStatusReady
  | DiskStatusError | DiskStatusDeleting

datatype image_status = ImageStatusUnspecified | ImageStatusCreating | ImageStatusReady
  | ImageStatusError | ImageStatusDeleting

datatype os_type = OsTypeUnspecified | OsTypeLinux | OsTypeWindows

datatype snapshot_status = SnapshotStatusUnspecified | SnapshotStatusCreating | SnapshotStatusReady
  | SnapshotStatusError | SnapshotStatusDeleting

datatype instance_status = InstanceStatusUnspecified | InstanceStatusProvisioning
  | InstanceStatusRunning | InstanceStatusStopping | InstanceStatusStopped
  | InstanceStatusStarting | InstanceStatusRestarting | InstanceStatusUpdating
  | InstanceStatusError | InstanceStatusCrashed | InstanceStatusDeleting

section \<open>Resources\<close>

record disk_type =
  dt_id :: string
  dt_description :: string
  dt_zone_ids :: "string list"
  dt_created_at :: gotime

record disk =
  d_id :: string
  d_project_id :: string
  d_created_at :: gotime
  d_name :: string
  d_description :: string
  d_labels :: gomap
  d_type_id :: string
  d_zone_id :: string
  d_size :: int
  d_block_size :: int
  d_product_ids :: "string list"
  d_status :: disk_status
  d_source_image_id :: string
  d_source_snapshot_id :: string
  d_placement_policy :: "proto_msg option"
  d_hardware_generation :: "proto_msg option"
  d_kms_key :: "proto_msg option"

record image =
  im_id :: string
  im_project_id :: string
  im_created_at :: gotime
  im_name :: string
  im_description :: string
  im_labels :: gomap
  im_family :: string
  im_storage_size :: int
  im_min_disk_size :: int
  im_product_ids :: "string list"
  im_status :: image_status
  im_os_type :: os_type
  im_os_nvidia_driver :: string
  im_pooled :: bool
  im_hardware_generation :: "proto_msg option"
  im_kms_key :: "proto_msg option"
  im_source_image_id :: string
  im_source_snapshot_id :: string
  im_source_disk_id :: string
  im_source_uri :: string

record snapshot =
  sn_id :: string
  sn_project_id :: string
  sn_created_at :: gotime
  sn_name :: string
  sn_description :: string
  sn_labels :: gomap
  sn_storage_size :: int
  sn_disk_size :: int
  sn_product_ids :: "string list"
  sn_status :: snapshot_status
  sn_source_disk_id :: string
  sn_hardware_generation :: "proto_msg option"
  sn_kms_key :: "proto_msg option"

text \<open>domain.AttachedDiskMode and ports.VolumeAttachMode, both Go integers\<close>

definition AttachedDiskModeUnspecified :: int where "AttachedDiskModeUnspecified = 0"
definition AttachedDiskModeReadOnly :: int where "AttachedDiskModeReadOnly = 1"
definition AttachedDiskModeReadWrite :: int where "AttachedDiskModeReadWrite = 2"

definition VolumeAttachModeUnspecified :: int where "VolumeAttachModeUnspecified = 0"
definition VolumeAttachModeReadWrite :: int where "VolumeAttachModeReadWrite = 1"
definition VolumeAttachModeReadOnly :: int where "VolumeAttachModeReadOnly = 2"

record attached_disk =
  ad_disk_id :: string
  ad_is_boot :: bool
  ad_mode :: int
  ad_device_name :: string
  ad_auto_delete :: bool
  ad_attached_at :: gotime

record one_to_one_nat =
  nat_address :: string
  nat_address_id :: string
  nat_ephemeral :: bool
  nat_ip_version :: int
  nat_dns_records :: "char list"

record network_interface =
  ni_index :: string
  ni_nic_id :: string
  ni_mac_address :: string
  ni_subnet_id :: string
  ni_primary_v4_address :: string
  ni_primary_v4_address_id :: string
  ni_primary_v4_nat :: "one_to_one_nat option"
  ni_primary_v6_address :: string
  ni_primary_v6_nat :: "one_to_one_nat option"
  ni_security_group_ids :: "string list"

record instance_row =
  in_id :: string
  in_project_id :: string
  in_created_at :: gotime
  in_name :: string
  in_description :: string
  in_labels :: gomap
  in_zone_id :: string
  in_platform_id :: string
  in_cores :: int
  in_memory :: int
  in_core_fraction :: int
  in_gpus :: int
  in_cpu_guarantee :: int
  in_image :: string
  in_image_digest :: string
  in_status :: instance_status
  in_metadata :: gomap
  in_metadata_options :: "proto_msg option"
  in_service_account_id :: string
  in_hostname :: string
  in_fqdn :: string
  in_network_settings_type :: string
  in_preemptible :: bool
  in_placement_policy :: "proto_msg option"
  in_serial_ssh :: string
  in_gpu_cluster_id :: string
  in_hardware_generation :: "proto_msg option"
  in_maintenance_policy :: string
  in_maintenance_grace :: int
  in_reserved_pool_id :: string
  in_host_group_id :: string
  in_host_id :: string
  in_application :: "proto_msg option"
  in_nics :: "network_interface list"
  in_disks :: "attached_disk list"

definition MaxCPUGuaranteePercent :: int where "MaxCPUGuaranteePercent = 100"

definition ErrInvalidCPUGuaranteePercent :: go_error where
  "ErrInvalidCPUGuaranteePercent = Plain ''cpu_guarantee_percent out of range''"

definition ValidCPUGuaranteePercent :: "int \<Rightarrow> bool" where
  "ValidCPUGuaranteePercent v \<longleftrightarrow> 0 \<le> v \<and> v \<le> MaxCPUGuaranteePercent"

text \<open>Instance.Validate\<close>

definition instance_validate :: "instance_row \<Rightarrow> go_error option" where
  "instance_validate i =
    (if \<not> ValidCPUGuaranteePercent (in_cpu_guarantee i) then Some ErrInvalidCPUGuaranteePercent else None)"

text \<open>Instance.BootDisk: the first attached disk with the boot flag\<close>

definition boot_disk :: "instance_row \<Rightarrow> attached_disk option" where
  "boot_disk i = List.find ad_is_boot (in_disks i)"

section \<open>Ports: value objects\<close>

record pagination =
  pg_token :: string
  pg_size :: int

record list_filter =
  lf_project_id :: string
  lf_filter :: string
  lf_allowed_ids :: "string list option"

record nic_attach_spec =
  ns_nic_id :: string
  ns_instance_id :: string
  ns_instance_name :: string
  ns_zone_id :: string
  ns_project_id :: string
  ns_index :: int

record nic_attachment =
  na_nic_id :: string
  na_instance_id :: string
  na_index :: int
  na_subnet_id :: string
  na_v4 :: string
  na_v6 :: string
  na_sgs :: "string list"
  na_mac :: string

record volume_attach_spec =
  vs_volume_id :: string
  vs_instance_id :: string
  vs_instance_name :: string
  vs_zone_id :: string
  vs_project_id :: string
  vs_device_name :: string
  vs_is_boot :: bool
  vs_mode :: int
  vs_auto_delete :: bool

record volume_attachment =
  va_volume_id :: string
  va_instance_id :: string
  va_instance_name :: string
  va_device_name :: string
  va_is_boot :: bool
  va_mode :: int
  va_auto_delete :: bool

end
