(* ===== verification/Sql.thy ===== *)
theory Sql
  imports Domain
begin

text \<open>
  The storage substrate of internal/repo: JSON values and the JSONB helpers of
  jsonb.go, the column-scoped SET accumulator of update_set.go, tables with
  their PRIMARY KEY, partial UNIQUE index and CHECK (internal/migrations) and
  the four statements the program issues on them, the per-call driver
  outcomes, and the transaction bracket every writer uses
  (Begin / deferred Rollback / Commit).
\<close>

section \<open>JSON\<close>

text \<open>JTime stands for an RFC 3339 string, kept as the instant it denotes; None is
  the zero time.\<close>

datatype json = JNull | JBool bool | JNum int | JStr string | JTime "gotime option" | JArr "json list"
  | JObj "(string \<times> json) list"

text \<open>encoding/json on \<^verbatim>\<open>map[string]string\<close> and \<^verbatim>\<open>[]string\<close>\<close>

definition json_of_map :: "gomap \<Rightarrow> json" where
  "json_of_map m = (case m of None \<Rightarrow> JNull | Some xs \<Rightarrow> JObj (List.map (\<lambda>(k, v). (k, JStr v)) xs))"

definition json_of_strs :: "string list \<Rightarrow> json" where
  "json_of_strs xs = JArr (List.map JStr xs)"

fun json_str :: "json \<Rightarrow> string option" where
  "json_str (JStr s) = Some s"
| "json_str JNull = Some ''''"
| "json_str _ = None"

fun those_pairs :: "(string \<times> json) list \<Rightarrow> (string \<times> string) list option" where
  "those_pairs [] = Some []"
| "those_pairs ((k, j) # r) =
    (case json_str j of None \<Rightarrow> None
     | Some v \<Rightarrow> (case those_pairs r of None \<Rightarrow> None | Some vs \<Rightarrow> Some ((k, v) # vs)))"

fun json_to_map :: "json \<Rightarrow> gomap option" where
  "json_to_map JNull = Some None"
| "json_to_map (JObj xs) = (case those_pairs xs of None \<Rightarrow> None | Some m \<Rightarrow> Some (Some m))"
| "json_to_map _ = None"

fun json_to_strs :: "json \<Rightarrow> string list option" where
  "json_to_strs JNull = Some []"
| "json_to_strs (JArr xs) = those (List.map json_str xs)"
| "json_to_strs _ = None"

lemma those_pairs_map [simp]: "those_pairs (List.map (\<lambda>(k, v). (k, JStr v)) xs) = Some xs"
  by (induction xs) auto

lemma json_map_roundtrip [simp]: "json_to_map (json_of_map m) = Some m"
  by (cases m) (auto simp: json_of_map_def)

lemma those_map_Some [simp]: "those (List.map Some xs) = Some xs"
  by (induction xs) auto

lemma json_strs_roundtrip [simp]: "json_to_strs (json_of_strs xs) = Some xs"
  by (simp add: json_of_strs_def comp_def)

text \<open>protojson (google.golang.org/protobuf) is a parameter.\<close>

record protojson =
  pj_marshal :: "proto_msg \<Rightarrow> json option"
  pj_unmarshal :: "json \<Rightarrow> proto_msg option"

definition protojson_ok :: "protojson \<Rightarrow> bool" where
  "protojson_ok P \<longleftrightarrow> (\<forall>m j. pj_marshal P m = Some j \<longrightarrow> pj_unmarshal P j = Some m)"

definition marshal_err :: "string \<Rightarrow> go_error" where
  "marshal_err field = Wrapped ErrInternal (''marshal proto JSONB '' @ field)"

definition corrupted_err :: "string \<Rightarrow> go_error" where
  "corrupted_err field = Wrapped ErrInternal (''corrupted JSONB '' @ field)"

text \<open>A JSONB column is None for SQL NULL. unmarshalJSONB leaves the target
  untouched on NULL.\<close>

definition unmarshalJSONB :: "(json \<Rightarrow> 'a option) \<Rightarrow> 'a \<Rightarrow> json option \<Rightarrow> string \<Rightarrow> go_error + 'a" where
  "unmarshalJSONB dec dflt raw field =
    (case raw of None \<Rightarrow> Inr dflt
     | Some j \<Rightarrow> (case dec j of None \<Rightarrow> Inl (corrupted_err field) | Some x \<Rightarrow> Inr x))"

definition marshalProtoJSONB :: "protojson \<Rightarrow> proto_msg option \<Rightarrow> string \<Rightarrow> go_error + json option" where
  "marshalProtoJSONB P m field =
    (case m of None \<Rightarrow> Inr None
     | Some p \<Rightarrow> (case pj_marshal P p of None \<Rightarrow> Inl (marshal_err field) | Some j \<Rightarrow> Inr (Some j)))"

definition unmarshalProtoJSONB :: "protojson \<Rightarrow> json option \<Rightarrow> string \<Rightarrow> go_error + proto_msg option" where
  "unmarshalProtoJSONB P raw field =
    (case raw of None \<Rightarrow> Inr None
     | Some j \<Rightarrow> (case pj_unmarshal P j of None \<Rightarrow> Inl (corrupted_err field) | Some m \<Rightarrow> Inr (Some m)))"

lemma unmarshalJSONB_simps [simp]:
  "unmarshalJSONB dec d None f = Inr d"
  "dec j = Some x \<Longrightarrow> unmarshalJSONB dec d (Some j) f = Inr x"
  by (simp_all add: unmarshalJSONB_def)

lemma proto_roundtrip:
  assumes "protojson_ok P" "marshalProtoJSONB P m f = Inr c"
  shows "unmarshalProtoJSONB P c g = Inr m"
proof (cases m)
  case None
  then show ?thesis using assms by (auto simp: marshalProtoJSONB_def unmarshalProtoJSONB_def)
next
  case (Some p)
  then obtain j where "pj_marshal P p = Some j" "c = Some j"
    using assms(2) by (auto simp: marshalProtoJSONB_def split: option.splits)
  then show ?thesis using assms(1) Some by (simp add: unmarshalProtoJSONB_def protojson_ok_def)
qed

section \<open>update\_set.go\<close>

datatype sqlval = VText string | VInt int | VBool bool | VJson "json option"

text \<open>cols holds \<^verbatim>\<open>col = $N\<close> fragments as (column, N) pairs.\<close>

record update_set =
  us_cols :: "(string \<times> nat) list"
  us_args :: "sqlval list"

definition newUpdateSet :: "string \<Rightarrow> update_set" where
  "newUpdateSet rid = \<lparr> us_cols = [], us_args = [VText rid] \<rparr>"

definition us_add :: "string \<Rightarrow> sqlval \<Rightarrow> update_set \<Rightarrow> update_set" where
  "us_add col val u =
    (let args = us_args u @ [val]
     in \<lparr> us_cols = us_cols u @ [(col, size args)], us_args = args \<rparr>)"

definition us_empty :: "update_set \<Rightarrow> bool" where
  "us_empty u \<longleftrightarrow> us_cols u = []"

definition us_clause :: "update_set \<Rightarrow> string" where
  "us_clause u = ''SET '' @ join_str '', '' (List.map (\<lambda>(c, n). c @ '' = $'' @ nat_dec n) (us_cols u))"

text \<open>What the server does with the clause and its arguments: \<^verbatim>\<open>$n\<close> is argument n.\<close>

definition us_exec :: "(string \<Rightarrow> sqlval \<Rightarrow> 'r \<Rightarrow> 'r) \<Rightarrow> update_set \<Rightarrow> 'r \<Rightarrow> 'r" where
  "us_exec setc u r = fold (\<lambda>(c, n). setc c (us_args u ! (n - 1))) (us_cols u) r"

text \<open>``if _, ok := ch[field]; ok { us.add(...) }''\<close>

definition us_add_if :: "string list \<Rightarrow> string \<Rightarrow> string \<Rightarrow> sqlval \<Rightarrow> update_set \<Rightarrow> update_set" where
  "us_add_if ch field col val u = (if field \<in> set ch then us_add col val u else u)"

definition us_ok :: "update_set \<Rightarrow> bool" where
  "us_ok u \<longleftrightarrow> size (us_args u) = Suc (size (us_cols u)) \<and> List.map snd (us_cols u) = [2..<2 + size (us_cols u)]"

definition us_pairs :: "update_set \<Rightarrow> (string \<times> sqlval) list" where
  "us_pairs u = List.map (\<lambda>(c, n). (c, us_args u ! (n - 1))) (us_cols u)"

lemma us_ok_new [simp]: "us_ok (newUpdateSet rid)"
  by (simp add: us_ok_def newUpdateSet_def)

lemma us_ok_add [simp]: "us_ok u \<Longrightarrow> us_ok (us_add c v u)"
  by (simp add: us_ok_def us_add_def Let_def)

lemma us_ok_add_if [simp]: "us_ok u \<Longrightarrow> us_ok (us_add_if ch f c v u)"
  by (simp add: us_add_if_def)

lemma us_ok_bound: "us_ok u \<Longrightarrow> (c, n) \<in> set (us_cols u) \<Longrightarrow> 2 \<le> n \<and> n \<le> size (us_args u)"
proof -
  assume a: "us_ok u" "(c, n) \<in> set (us_cols u)"
  then have "n \<in> set (List.map snd (us_cols u))" by force
  then have "n \<in> set [2..<2 + size (us_cols u)]" using a(1) unfolding us_ok_def by metis
  then show ?thesis using a(1) unfolding us_ok_def by auto
qed

lemma us_pairs_new [simp]: "us_pairs (newUpdateSet rid) = []"
  by (simp add: us_pairs_def newUpdateSet_def)

lemma us_pairs_add [simp]:
  assumes "us_ok u"
  shows "us_pairs (us_add c v u) = us_pairs u @ [(c, v)]"
proof -
  have "List.map (\<lambda>(c, n). (c, (us_args u @ [v]) ! (n - 1))) (us_cols u) = us_pairs u"
    unfolding us_pairs_def
  proof (rule map_cong [OF refl])
    fix x assume x: "x \<in> set (us_cols u)"
    obtain c n where "x = (c, n)" by (cases x)
    with x us_ok_bound [OF assms] have "n - 1 < size (us_args u)" by fastforce
    then show "(case x of (c, n) \<Rightarrow> (c, (us_args u @ [v]) ! (n - 1))) = (case x of (c, n) \<Rightarrow> (c, us_args u ! (n - 1)))"
      using \<open>x = (c, n)\<close> by (simp add: nth_append)
  qed
  then show ?thesis by (simp add: us_add_def us_pairs_def Let_def)
qed

lemma us_pairs_add_if [simp]:
  "us_ok u \<Longrightarrow> us_pairs (us_add_if ch f c v u) = us_pairs u @ (if f \<in> set ch then [(c, v)] else [])"
  by (simp add: us_add_if_def)

lemma us_exec_pairs: "us_exec setc u r = fold (\<lambda>(c, v). setc c v) (us_pairs u) r"
proof -
  have "fold (\<lambda>(c, n). setc c (us_args u ! (n - 1))) xs r
      = fold (\<lambda>(c, v). setc c v) (List.map (\<lambda>(c, n). (c, us_args u ! (n - 1))) xs) r" for xs
    by (induction xs arbitrary: r) auto
  then show ?thesis by (simp add: us_exec_def us_pairs_def)
qed

lemma us_empty_pairs: "us_empty u \<longleftrightarrow> us_pairs u = []"
  by (simp add: us_empty_def us_pairs_def)

section \<open>Tables\<close>

text \<open>
  A table is the list of its rows. \<^verbatim>\<open>pk\<close> is the primary key, \<^verbatim>\<open>uq\<close>
  the key of the partial unique index (None outside the index predicate),
  \<^verbatim>\<open>chk\<close> the CHECK constraint.
\<close>

definition pg_unique :: go_error where
  "pg_unique = PgError ''23505'' ''duplicate key value violates unique constraint''"

definition pg_check :: go_error where
  "pg_check = PgError ''23514'' ''new row violates check constraint''"

definition name_key :: "string \<Rightarrow> string \<Rightarrow> (string \<times> string) option" where
  "name_key proj nm = (if nm = '''' then None else Some (proj, nm))"

definition sql_select :: "('r \<Rightarrow> string) \<Rightarrow> string \<Rightarrow> 'r list \<Rightarrow> 'r option" where
  "sql_select pk i t = List.find (\<lambda>r. pk r = i) t"

definition uq_clash :: "('r \<Rightarrow> 'k option) \<Rightarrow> 'r \<Rightarrow> 'r list \<Rightarrow> bool" where
  "uq_clash uq r t \<longleftrightarrow> uq r \<noteq> None \<and> (\<exists>r'\<in>set t. uq r' = uq r)"

definition sql_insert ::
  "('r \<Rightarrow> string) \<Rightarrow> ('r \<Rightarrow> 'k option) \<Rightarrow> ('r \<Rightarrow> bool) \<Rightarrow> 'r \<Rightarrow> 'r list \<Rightarrow> go_error + 'r list" where
  "sql_insert pk uq chk r t =
    (if \<not> chk r then Inl pg_check
     else if sql_select pk (pk r) t \<noteq> None \<or> uq_clash uq r t then Inl pg_unique
     else Inr (t @ [r]))"

text \<open>UPDATE ... WHERE id = i AND p: the updated row (RETURNING), or None for 0 rows\<close>

definition sql_update ::
  "('r \<Rightarrow> string) \<Rightarrow> ('r \<Rightarrow> 'k option) \<Rightarrow> ('r \<Rightarrow> bool) \<Rightarrow> string \<Rightarrow> ('r \<Rightarrow> bool) \<Rightarrow> ('r \<Rightarrow> 'r)
    \<Rightarrow> 'r list \<Rightarrow> go_error + ('r \<times> 'r list) option" where
  "sql_update pk uq chk i p f t =
    (case sql_select pk i t of None \<Rightarrow> Inr None
     | Some r \<Rightarrow>
        (if \<not> p r then Inr None
         else if \<not> chk (f r) then Inl pg_check
         else if uq_clash uq (f r) (filter (\<lambda>x. pk x \<noteq> i) t) then Inl pg_unique
         else Inr (Some (f r, List.map (\<lambda>x. if pk x = i then f r else x) t))))"

definition sql_delete :: "('r \<Rightarrow> string) \<Rightarrow> string \<Rightarrow> 'r list \<Rightarrow> ('r \<times> 'r list) option" where
  "sql_delete pk i t =
    (case sql_select pk i t of None \<Rightarrow> None | Some r \<Rightarrow> Some (r, filter (\<lambda>x. pk x \<noteq> i) t))"

definition uq_distinct :: "('r \<Rightarrow> 'k option) \<Rightarrow> 'r list \<Rightarrow> bool" where
  "uq_distinct uq t \<longleftrightarrow> distinct (List.map uq (filter (\<lambda>r. uq r \<noteq> None) t))"

definition table_ok :: "('r \<Rightarrow> string) \<Rightarrow> ('r \<Rightarrow> 'k option) \<Rightarrow> ('r \<Rightarrow> bool) \<Rightarrow> 'r list \<Rightarrow> bool" where
  "table_ok pk uq chk t \<longleftrightarrow> distinct (List.map pk t) \<and> uq_distinct uq t \<and> list_all chk t"


section \<open>Table lemmas\<close>

lemma sql_select_Some_D: "sql_select pk i t = Some r \<Longrightarrow> r \<in> set t \<and> pk r = i"
  unfolding sql_select_def by (rule find_Some_D)

lemma sql_select_None: "sql_select pk i t = None \<longleftrightarrow> i \<notin> pk ` set t"
  by (auto simp: sql_select_def find_None_D)

lemma sql_select_snoc:
  "sql_select pk i (t @ [r]) = (case sql_select pk i t of Some x \<Rightarrow> Some x | None \<Rightarrow> if pk r = i then Some r else None)"
  by (simp add: sql_select_def find_append split: option.splits)

lemma sql_insert_Inr:
  "sql_insert pk uq chk r t = Inr t' \<longleftrightarrow>
     chk r \<and> sql_select pk (pk r) t = None \<and> \<not> uq_clash uq r t \<and> t' = t @ [r]"
  by (auto simp: sql_insert_def)

lemma sql_insert_select:
  "sql_insert pk uq chk r t = Inr t' \<Longrightarrow> sql_select pk i t' = (if i = pk r then Some r else sql_select pk i t)"
  by (auto simp: sql_insert_Inr sql_select_snoc split: option.splits dest: sql_select_Some_D)

lemma table_ok_insert:
  assumes "sql_insert pk uq chk r t = Inr t'" "table_ok pk uq chk t"
  shows "table_ok pk uq chk t'"
  using assms by (auto simp: sql_insert_Inr table_ok_def uq_distinct_def uq_clash_def sql_select_None)

lemma sql_update_Some:
  "sql_update pk uq chk i p f t = Inr (Some (r, t')) \<longleftrightarrow>
    (\<exists>r0. sql_select pk i t = Some r0 \<and> p r0 \<and> r = f r0 \<and> chk r
       \<and> \<not> uq_clash uq r (filter (\<lambda>x. pk x \<noteq> i) t)
       \<and> t' = List.map (\<lambda>x. if pk x = i then f r0 else x) t)"
  by (auto simp: sql_update_def split: option.splits if_splits)

lemma sql_update_None:
  "sql_update pk uq chk i p f t = Inr None \<longleftrightarrow>
    (case sql_select pk i t of None \<Rightarrow> True | Some r0 \<Rightarrow> \<not> p r0)"
  by (auto simp: sql_update_def split: option.splits)

lemma find_map_upd:
  assumes "\<And>x. x \<in> set t \<Longrightarrow> pk x = i \<Longrightarrow> pk (g x) = i"
  shows "List.find (\<lambda>r. pk r = j) (List.map (\<lambda>x. if pk x = i then g x else x) t)
       = (case List.find (\<lambda>r. pk r = j) t of None \<Rightarrow> None | Some x \<Rightarrow> Some (if j = i then g x else x))"
  using assms by (induction t) auto

lemma sql_update_select:
  assumes "sql_update pk uq chk i p f t = Inr (Some (r, t'))" "\<And>x. pk (f x) = pk x"
  shows "sql_select pk j t' = (if j = i then Some r else sql_select pk j t)"
proof -
  obtain r0 where r0: "sql_select pk i t = Some r0" "r = f r0"
    "t' = List.map (\<lambda>x. if pk x = i then f r0 else x) t"
    using assms(1) by (auto simp: sql_update_Some)
  have "pk (f r0) = i" using r0(1) assms(2) by (simp add: sql_select_Some_D)
  then show ?thesis
    using find_map_upd [of t pk i "\<lambda>_. f r0" j] r0 by (auto simp: sql_select_def split: option.splits)
qed

lemma distinct_map_upd:
  assumes "distinct (List.map g (filter (\<lambda>x. g x \<noteq> None) t))" "distinct (List.map pk t)"
    "g r \<noteq> None \<Longrightarrow> \<forall>x\<in>set t. pk x \<noteq> i \<longrightarrow> g x \<noteq> g r"
  shows "distinct (List.map g (filter (\<lambda>x. g x \<noteq> None) (List.map (\<lambda>x. if pk x = i then r else x) t)))"
  using assms
proof (induction t)
  case Nil
  then show ?case by simp
next
  case (Cons a t)
  have IH: "distinct (List.map g (filter (\<lambda>x. g x \<noteq> None) (List.map (\<lambda>x. if pk x = i then r else x) t)))"
    using Cons by (auto split: if_splits)
  show ?case
  proof (cases "pk a = i")
    case True
    then have "\<forall>x\<in>set t. pk x \<noteq> i" using Cons.prems(2) by (force simp: image_iff)
    then have "List.map (\<lambda>x. if pk x = i then r else x) t = t" by (simp add: map_idI)
    then show ?thesis using IH True Cons.prems(3) \<open>\<forall>x\<in>set t. pk x \<noteq> i\<close> by (auto dest: sym)
  next
    case False
    have "g a \<noteq> None \<Longrightarrow> g a \<notin> g ` set (List.map (\<lambda>x. if pk x = i then r else x) t)"
      using Cons.prems(1,3) False by (auto split: if_splits)
    then show ?thesis using IH False by auto
  qed
qed

lemma table_ok_update:
  assumes "sql_update pk uq chk i p f t = Inr (Some (r, t'))" "\<And>x. pk (f x) = pk x" "table_ok pk uq chk t"
  shows "table_ok pk uq chk t'"
proof -
  obtain r0 where r0: "sql_select pk i t = Some r0" "r = f r0" "chk r"
    "\<not> uq_clash uq r (filter (\<lambda>x. pk x \<noteq> i) t)"
    "t' = List.map (\<lambda>x. if pk x = i then r else x) t"
    using assms(1) by (auto simp: sql_update_Some)
  have pkr: "pk r = i" using r0 assms(2) by (simp add: sql_select_Some_D)
  have "List.map pk t' = List.map pk t" using r0(5) pkr by auto
  moreover have "uq_distinct uq t'"
    using assms(3) r0(4) unfolding r0(5) uq_distinct_def table_ok_def
    by (intro distinct_map_upd) (auto simp: uq_clash_def)
  moreover have "list_all chk t'" using assms(3) r0 by (auto simp: table_ok_def list_all_iff)
  ultimately show ?thesis using assms(3) by (simp add: table_ok_def)
qed

lemma sql_delete_Some:
  "sql_delete pk i t = Some (r, t') \<longleftrightarrow> sql_select pk i t = Some r \<and> t' = filter (\<lambda>x. pk x \<noteq> i) t"
  by (auto simp: sql_delete_def split: option.splits)

lemma sql_delete_None [simp]: "sql_delete pk i t = None \<longleftrightarrow> sql_select pk i t = None"
  by (auto simp: sql_delete_def split: option.splits)

lemma find_filter_neq:
  "List.find (\<lambda>r. pk r = j) (filter (\<lambda>x. pk x \<noteq> i) t) = (if j = i then None else List.find (\<lambda>r. pk r = j) t)"
  by (induction t) auto

lemma sql_delete_select:
  "sql_delete pk i t = Some (r, t') \<Longrightarrow> sql_select pk j t' = (if j = i then None else sql_select pk j t)"
  by (auto simp: sql_delete_Some sql_select_def find_filter_neq)

lemma distinct_map_filter_filter: "distinct (List.map g (filter P t)) \<Longrightarrow> distinct (List.map g (filter (\<lambda>x. Q x \<and> P x) t))"
  by (induction t) (auto split: if_splits)

lemma table_ok_delete:
  assumes "sql_delete pk i t = Some (r, t')" "table_ok pk uq chk t"
  shows "table_ok pk uq chk t'"
  using assms
  by (auto simp: sql_delete_Some table_ok_def uq_distinct_def distinct_map_filter list_all_iff
      intro: distinct_map_filter_filter)


section \<open>The interface of a table\<close>

text \<open>
  What the repositories rely on: a keyed store with insert, conditional update
  and delete, and a well-formedness predicate every statement keeps.
\<close>

locale row_store =
  fixes sel :: "'t \<Rightarrow> string \<Rightarrow> 'r option"
    and ins :: "'r \<Rightarrow> 't \<Rightarrow> 'e + 't"
    and upd :: "string \<Rightarrow> ('r \<Rightarrow> bool) \<Rightarrow> ('r \<Rightarrow> 'r) \<Rightarrow> 't \<Rightarrow> 'e + ('r \<times> 't) option"
    and del :: "string \<Rightarrow> 't \<Rightarrow> ('r \<times> 't) option"
    and key :: "'r \<Rightarrow> string"
    and ok :: "'t \<Rightarrow> bool"
  assumes sel_key: "sel t i = Some r \<Longrightarrow> key r = i"
    and ins_fresh: "ins r t = Inr t' \<Longrightarrow> sel t (key r) = None"
    and ins_sel: "ins r t = Inr t' \<Longrightarrow> sel t' i = (if i = key r then Some r else sel t i)"
    and ins_ok: "ins r t = Inr t' \<Longrightarrow> ok t \<Longrightarrow> ok t'"
    and upd_row: "upd i p f t = Inr (Some (r, t')) \<Longrightarrow> \<exists>r0. sel t i = Some r0 \<and> p r0 \<and> r = f r0"
    and upd_none: "upd i p f t = Inr None \<Longrightarrow> sel t i = Some r0 \<Longrightarrow> \<not> p r0"
    and upd_sel: "upd i p f t = Inr (Some (r, t')) \<Longrightarrow> (\<And>x. key (f x) = key x) \<Longrightarrow>
                  sel t' j = (if j = i then Some r else sel t j)"
    and upd_ok: "upd i p f t = Inr (Some (r, t')) \<Longrightarrow> (\<And>x. key (f x) = key x) \<Longrightarrow> ok t \<Longrightarrow> ok t'"
    and del_sel: "del i t = Some (r, t') \<Longrightarrow> sel t' j = (if j = i then None else sel t j)"
    and del_row: "del i t = Some (r, t') \<Longrightarrow> sel t i = Some r"
    and del_none: "del i t = None \<Longrightarrow> sel t i = None"
    and del_ok: "del i t = Some (r, t') \<Longrightarrow> ok t \<Longrightarrow> ok t'"
begin

lemma upd_upd_sel:
  assumes "upd i p f t = Inr (Some (r1, t1))" "upd i q g t1 = Inr (Some (r2, t2))"
    "\<And>x. key (f x) = key x"
  shows "\<exists>r0. sel t i = Some r0 \<and> p r0 \<and> q (f r0) \<and> r2 = g (f r0)"
proof -
  obtain r0 where r0: "sel t i = Some r0" "p r0" "r1 = f r0" using upd_row [OF assms(1)] by blast
  have "sel t1 i = Some r1" using upd_sel [OF assms(1)] assms(3) by simp
  then show ?thesis using upd_row [OF assms(2)] r0 by auto
qed

lemma upd_keeps_present:
  assumes "upd i p f t = Inr (Some (r, t'))" "\<And>x. key (f x) = key x" "sel t j \<noteq> None"
  shows "sel t' j \<noteq> None"
  using upd_sel [OF assms(1), of j] assms(2,3) by (auto split: if_splits)

lemma ins_del:
  assumes "ins r t = Inr t'" "del (key r) t' = Some (r', t'')"
  shows "r' = r" "sel t'' i = sel t i"
proof -
  show "r' = r" using del_row [OF assms(2)] ins_sel [OF assms(1)] by simp
  show "sel t'' i = sel t i"
    using del_sel [OF assms(2)] ins_sel [OF assms(1)] ins_fresh [OF assms(1)] by simp
qed

lemma del_again: "del i t = Some (r, t') \<Longrightarrow> del i t' = None"
  using del_sel [of i t r t' i] del_row [of i t'] by (cases "del i t'") auto

end

section \<open>Driver outcomes and the transaction bracket\<close>

text \<open>
  The outcome the driver reports for each call of one repository operation;
  None is success. \<^verbatim>\<open>f_query\<close> is a failure of the statement itself (a lost
  connection), distinct from a constraint violation, which the tables produce.
\<close>

record faults =
  f_begin :: "go_error option"
  f_query :: "go_error option"
  f_probe :: "go_error option"
  f_reload :: "go_error option"
  f_emit :: "go_error option"
  f_intent :: "go_error option"
  f_commit :: "go_error option"

definition no_faults :: faults where
  "no_faults = \<lparr> f_begin = None, f_query = None, f_probe = None, f_reload = None, f_emit = None, f_intent = None, f_commit = None \<rparr>"

text \<open>\<^verbatim>\<open>Begin\<close>, the body on the transaction's state, the deferred
  \<^verbatim>\<open>Rollback\<close> on any error, \<^verbatim>\<open>Commit\<close> with its own error mapping.\<close>

definition in_tx ::
  "faults \<Rightarrow> (go_error \<Rightarrow> go_error) \<Rightarrow> ('s \<Rightarrow> go_error + ('a \<times> 's)) \<Rightarrow> 's \<Rightarrow> (go_error + 'a) \<times> 's" where
  "in_tx F wrap body s =
    (case f_begin F of Some _ \<Rightarrow> (Inl (Sentinel ErrInternal), s)
     | None \<Rightarrow>
       (case body s of Inl e \<Rightarrow> (Inl e, s)
        | Inr (x, s') \<Rightarrow> (case f_commit F of Some e \<Rightarrow> (Inl (wrap e), s) | None \<Rightarrow> (Inr x, s'))))"

lemma in_tx_ok:
  "in_tx F w b s = (Inr x, s') \<longleftrightarrow> f_begin F = None \<and> f_commit F = None \<and> b s = Inr (x, s')"
  by (auto simp: in_tx_def split: option.splits sum.splits prod.splits)

lemma in_tx_err: "in_tx F w b s = (Inl e, s') \<Longrightarrow> s' = s"
  by (auto simp: in_tx_def split: option.splits sum.splits prod.splits)

text \<open>A statement that returns a row: driver failure, constraint violation or result.\<close>

definition run_query :: "faults \<Rightarrow> (go_error + 'a) \<Rightarrow> go_error + 'a" where
  "run_query F r = guardE (f_query F) r"

lemma run_query_ok [simp]: "run_query F r = Inr x \<longleftrightarrow> f_query F = None \<and> r = Inr x"
  by (simp add: run_query_def)

section \<open>Tables are row stores\<close>

lemma row_store_sql:
  "row_store (\<lambda>t i. sql_select pk i t) (sql_insert pk uq chk) (sql_update pk uq chk) (sql_delete pk) pk
     (table_ok pk uq chk)"
proof
  show "sql_select pk i t = Some r \<Longrightarrow> pk r = i" for t i r
    by (simp add: sql_select_Some_D)
  show "sql_insert pk uq chk r t = Inr t' \<Longrightarrow> sql_select pk (pk r) t = None" for r t t'
    by (simp add: sql_insert_Inr)
  show "sql_insert pk uq chk r t = Inr t' \<Longrightarrow> sql_select pk i t' = (if i = pk r then Some r else sql_select pk i t)" for r t t' i
    by (rule sql_insert_select)
  show "sql_insert pk uq chk r t = Inr t' \<Longrightarrow> table_ok pk uq chk t \<Longrightarrow> table_ok pk uq chk t'" for r t t'
    by (rule table_ok_insert)
  show "sql_update pk uq chk i p f t = Inr (Some (r, t')) \<Longrightarrow> \<exists>r0. sql_select pk i t = Some r0 \<and> p r0 \<and> r = f r0" for i p f t r t'
    by (auto simp: sql_update_Some)
  show "sql_update pk uq chk i p f t = Inr None \<Longrightarrow> sql_select pk i t = Some r0 \<Longrightarrow> \<not> p r0" for i p f t r0
    by (simp add: sql_update_None)
  show "sql_update pk uq chk i p f t = Inr (Some (r, t')) \<Longrightarrow> (\<And>x. pk (f x) = pk x) \<Longrightarrow>
      sql_select pk j t' = (if j = i then Some r else sql_select pk j t)" for i p f t r t' j
    by (rule sql_update_select)
  show "sql_update pk uq chk i p f t = Inr (Some (r, t')) \<Longrightarrow> (\<And>x. pk (f x) = pk x) \<Longrightarrow>
      table_ok pk uq chk t \<Longrightarrow> table_ok pk uq chk t'" for i p f t r t'
    by (rule table_ok_update)
  show "sql_delete pk i t = Some (r, t') \<Longrightarrow> sql_select pk j t' = (if j = i then None else sql_select pk j t)" for i t r t' j
    by (rule sql_delete_select)
  show "sql_delete pk i t = Some (r, t') \<Longrightarrow> sql_select pk i t = Some r" for i t r t'
    by (simp add: sql_delete_Some)
  show "sql_delete pk i t = None \<Longrightarrow> sql_select pk i t = None" for i t
    by simp
  show "sql_delete pk i t = Some (r, t') \<Longrightarrow> table_ok pk uq chk t \<Longrightarrow> table_ok pk uq chk t'" for i t r t'
    by (rule table_ok_delete)
qed

end
