(* ===== verification/FgaIntent.thy ===== *)
theory FgaIntent
  imports Sql
begin

text \<open>
  internal/fgaintent: the register/unregister intent a writer transaction
  leaves in compute\_fga\_register\_outbox, its JSON form and the
  project-hierarchy tuple it carries.
\<close>

definition EventRegister :: string where "EventRegister = ''fga.register''"
definition EventUnregister :: string where "EventUnregister = ''fga.unregister''"

record fga_tuple =
  tp_subject :: string
  tp_relation :: string
  tp_object :: string

record fga_payload =
  pl_tuples :: "fga_tuple list option"
  pl_labels :: gomap
  pl_parent_project :: string
  pl_parent_account :: string
  pl_source_version :: "gotime option"

definition fgaTypeByKind :: "(string \<times> string) list" where
  "fgaTypeByKind = [(''Instance'', ''compute_instance''), (''Disk'', ''compute_disk''),
    (''Image'', ''compute_image''), (''Snapshot'', ''compute_snapshot'')]"

definition FGAType :: "string \<Rightarrow> string" where
  "FGAType kind = (case map_of fgaTypeByKind kind of Some t \<Rightarrow> t | None \<Rightarrow> '''')"

definition ProjectHierarchyTuple :: "string \<Rightarrow> string \<Rightarrow> string \<Rightarrow> fga_tuple option" where
  "ProjectHierarchyTuple kind resourceID projectID =
    (let objType = FGAType kind in
     if objType = '''' \<or> resourceID = '''' \<or> projectID = '''' then None
     else Some \<lparr> tp_subject = ''project:'' @ projectID, tp_relation = ''project'',
                 tp_object = objType @ '':'' @ resourceID \<rparr>)"

section \<open>JSON form\<close>

definition encode_tuple :: "fga_tuple \<Rightarrow> json" where
  "encode_tuple t = JObj [(''subject_id'', JStr (tp_subject t)), (''relation'', JStr (tp_relation t)),
                          (''object'', JStr (tp_object t))]"

definition omit_str :: "string \<Rightarrow> string \<Rightarrow> (string \<times> json) list" where
  "omit_str k s = (if s = '''' then [] else [(k, JStr s)])"

definition fga_encode :: "fga_payload \<Rightarrow> json" where
  "fga_encode p = JObj (
     [(''tuples'', case pl_tuples p of None \<Rightarrow> JNull | Some ts \<Rightarrow> JArr (List.map encode_tuple ts))]
     @ (if gomap_entries (pl_labels p) = [] then [] else [(''labels'', json_of_map (pl_labels p))])
     @ omit_str ''parent_project_id'' (pl_parent_project p)
     @ omit_str ''parent_account_id'' (pl_parent_account p)
     @ [(''source_version'', JTime (pl_source_version p))])"

definition field :: "string \<Rightarrow> (string \<times> json) list \<Rightarrow> json" where
  "field k xs = (case map_of xs k of Some j \<Rightarrow> j | None \<Rightarrow> JNull)"

fun decode_tuple :: "json \<Rightarrow> fga_tuple option" where
  "decode_tuple (JObj xs) =
    (case (json_str (field ''subject_id'' xs), json_str (field ''relation'' xs), json_str (field ''object'' xs)) of
       (Some s, Some r, Some b) \<Rightarrow> Some \<lparr> tp_subject = s, tp_relation = r, tp_object = b \<rparr>
     | _ \<Rightarrow> None)"
| "decode_tuple JNull = Some \<lparr> tp_subject = '''', tp_relation = '''', tp_object = '''' \<rparr>"
| "decode_tuple _ = None"

fun decode_tuples :: "json \<Rightarrow> fga_tuple list option option" where
  "decode_tuples JNull = Some None"
| "decode_tuples (JArr js) = (case those (List.map decode_tuple js) of None \<Rightarrow> None | Some ts \<Rightarrow> Some (Some ts))"
| "decode_tuples _ = None"

fun decode_time :: "json \<Rightarrow> gotime option option" where
  "decode_time (JTime t) = Some t"
| "decode_time JNull = Some None"
| "decode_time _ = None"

fun fga_decode_obj :: "json \<Rightarrow> fga_payload option" where
  "fga_decode_obj (JObj xs) =
    (case (decode_tuples (field ''tuples'' xs), json_to_map (field ''labels'' xs),
           json_str (field ''parent_project_id'' xs), json_str (field ''parent_account_id'' xs),
           decode_time (field ''source_version'' xs)) of
       (Some ts, Some ls, Some pp, Some pa, Some sv) \<Rightarrow>
         Some \<lparr> pl_tuples = ts, pl_labels = ls, pl_parent_project = pp, pl_parent_account = pa,
                pl_source_version = sv \<rparr>
     | _ \<Rightarrow> None)"
| "fga_decode_obj JNull = Some \<lparr> pl_tuples = None, pl_labels = None, pl_parent_project = '''',
                                pl_parent_account = '''', pl_source_version = None \<rparr>"
| "fga_decode_obj _ = None"

definition fga_decode :: "json \<Rightarrow> go_error + fga_payload" where
  "fga_decode j = (case fga_decode_obj j of Some p \<Rightarrow> Inr p
     | None \<Rightarrow> Inl (Plain ''fgaintent: unmarshal payload''))"

text \<open>\<^verbatim>\<open>jsonb_set(j, '{k}', v)\<close> of the server\<close>

fun jsonb_set :: "string \<Rightarrow> json \<Rightarrow> json \<Rightarrow> json" where
  "jsonb_set k v (JObj xs) = JObj (AList.update k v xs)"
| "jsonb_set k v j = j"

section \<open>Lemmas\<close>

lemma decode_encode_tuple [simp]: "decode_tuple (encode_tuple t) = Some t"
  by (simp add: encode_tuple_def field_def)

lemma decode_encode_tuples [simp]:
  "decode_tuples (case ts of None \<Rightarrow> JNull | Some ts \<Rightarrow> JArr (List.map encode_tuple ts)) = Some ts"
  by (cases ts) (auto simp: comp_def)

definition norm_labels :: "gomap \<Rightarrow> gomap" where
  "norm_labels m = (if gomap_entries m = [] then None else m)"

lemma fga_decode_encode:
  "fga_decode (jsonb_set ''source_version'' (JTime (Some t)) (fga_encode p))
    = Inr (p\<lparr> pl_labels := norm_labels (pl_labels p), pl_source_version := Some t \<rparr>)"
  by (simp add: fga_decode_def fga_encode_def field_def omit_str_def norm_labels_def)

lemma FGAType_known: "FGAType k \<noteq> '''' \<longleftrightarrow> k \<in> {''Instance'', ''Disk'', ''Image'', ''Snapshot''}"
  by (auto simp: FGAType_def fgaTypeByKind_def)

lemma ProjectHierarchyTuple_Some_iff:
  "ProjectHierarchyTuple k r p \<noteq> None \<longleftrightarrow> k \<in> {''Instance'', ''Disk'', ''Image'', ''Snapshot''} \<and> r \<noteq> '''' \<and> p \<noteq> ''''"
  using FGAType_known [of k] by (auto simp: ProjectHierarchyTuple_def Let_def)

end
