(* ===== verification/Db.thy ===== *)
theory Db
  imports FgaIntent
begin

text \<open>
  The database of the service: one table per resource, the event outbox
  compute\_outbox and the FGA intent outbox, with the two emitters of
  internal/repo/outbox.go. Rows hold what the columns hold: status names as
  text, JSONB columns as JSON values (None is SQL NULL), timestamps with the
  microsecond precision of timestamptz.
\<close>

record disk_row =
  dr_id :: string
  dr_project_id :: string
  dr_created_at :: int
  dr_name :: string
  dr_description :: string
  dr_labels :: "json option"
  dr_type_id :: string
  dr_zone_id :: string
  dr_size :: int
  dr_block_size :: int
  dr_product_ids :: "json option"
  dr_status :: string
  dr_source_image_id :: string
  dr_source_snapshot_id :: string
  dr_placement_policy :: "json option"
  dr_hardware_generation :: "json option"
  dr_kms_key :: "json option"

record image_row =
  ir_id :: string
  ir_project_id :: string
  ir_created_at :: int
  ir_name :: string
  ir_description :: string
  ir_labels :: "json option"
  ir_family :: string
  ir_storage_size :: int
  ir_min_disk_size :: int
  ir_product_ids :: "json option"
  ir_status :: string
  ir_os_type :: string
  ir_os_nvidia_driver :: string
  ir_pooled :: bool
  ir_hardware_generation :: "json option"
  ir_kms_key :: "json option"
  ir_source_image_id :: string
  ir_source_snapshot_id :: string
  ir_source_disk_id :: string
  ir_source_uri :: string

record snapshot_row =
  sr_id :: string
  sr_project_id :: string
  sr_created_at :: int
  sr_name :: string
  sr_description :: string
  sr_labels :: "json option"
  sr_storage_size :: int
  sr_disk_size :: int
  sr_product_ids :: "json option"
  sr_status :: string
  sr_source_disk_id :: string
  sr_hardware_generation :: "json option"
  sr_kms_key :: "json option"

record instance_trow =
  tr_id :: string
  tr_project_id :: string
  tr_created_at :: int
  tr_name :: string
  tr_description :: string
  tr_labels :: "json option"
  tr_zone_id :: string
  tr_platform_id :: string
  tr_cores :: int
  tr_memory :: int
  tr_core_fraction :: int
  tr_gpus :: int
  tr_cpu_guarantee :: int
  tr_image :: string
  tr_image_digest :: string
  tr_status :: string
  tr_metadata :: "json option"
  tr_metadata_options :: "json option"
  tr_service_account_id :: string
  tr_hostname :: string
  tr_fqdn :: string
  tr_network_settings_type :: string
  tr_preemptible :: bool
  tr_placement_policy :: "json option"
  tr_serial_ssh :: string
  tr_gpu_cluster_id :: string
  tr_hardware_generation :: "json option"
  tr_maintenance_policy :: string
  tr_maintenance_grace :: int
  tr_reserved_pool_id :: string
  tr_host_group_id :: string
  tr_host_id :: string
  tr_application :: "json option"

record disk_type_row =
  ty_id :: string
  ty_description :: string
  ty_zone_ids :: "json option"
  ty_created_at :: int

text \<open>The payload map of an event is the JSON image of the domain object; the row keeps the
  object, and theory Payload has the map.\<close>

datatype event_payload = PDisk disk | PImage image | PSnapshot snapshot | PInstance instance_row
  | PId string | PEmpty

record outbox_row =
  ob_seq :: nat
  ob_kind :: string
  ob_id :: string
  ob_event :: string
  ob_payload :: event_payload

record fga_row =
  fg_event :: string
  fg_kind :: string
  fg_id :: string
  fg_payload :: json

record db =
  disks :: "disk_row list"
  images :: "image_row list"
  snapshots :: "snapshot_row list"
  instances :: "instance_trow list"
  disk_types :: "disk_type_row list"
  outbox :: "outbox_row list"
  fga_outbox :: "fga_row list"

definition empty_db :: db where
  "empty_db = \<lparr> disks = [], images = [], snapshots = [], instances = [], disk_types = [],
     outbox = [], fga_outbox = [] \<rparr>"

text \<open>What one repository call gets from outside: driver outcomes, the
  transaction timestamp, the next value of the outbox sequence, protojson.\<close>

record env =
  e_faults :: faults
  e_now :: int
  e_seq :: nat
  e_pj :: protojson

definition pg_time :: "gotime \<Rightarrow> int" where
  "pg_time t = 1000 * (t div 1000)"

definition emitCompute :: "env \<Rightarrow> string \<Rightarrow> string \<Rightarrow> string \<Rightarrow> event_payload \<Rightarrow> db \<Rightarrow> go_error + db" where
  "emitCompute E kind rid event payload s =
    (case f_emit (e_faults E) of Some e \<Rightarrow> Inl e
     | None \<Rightarrow> Inr (s\<lparr> outbox := outbox s @
         [\<lparr> ob_seq = e_seq E, ob_kind = kind, ob_id = rid, ob_event = event, ob_payload = payload \<rparr>] \<rparr>))"

definition intent_row :: "env \<Rightarrow> string \<Rightarrow> string \<Rightarrow> string \<Rightarrow> string \<Rightarrow> gomap \<Rightarrow> fga_tuple \<Rightarrow> fga_row" where
  "intent_row E event kind rid projectID labels tuple =
    \<lparr> fg_event = event, fg_kind = kind, fg_id = rid,
      fg_payload = jsonb_set ''source_version'' (JTime (Some (e_now E)))
        (fga_encode \<lparr> pl_tuples = Some [tuple], pl_labels = labels, pl_parent_project = projectID,
                      pl_parent_account = '''', pl_source_version = None \<rparr>) \<rparr>"

definition emitFGARegisterIntent ::
  "env \<Rightarrow> string \<Rightarrow> string \<Rightarrow> string \<Rightarrow> string \<Rightarrow> gomap \<Rightarrow> db \<Rightarrow> go_error + db" where
  "emitFGARegisterIntent E event kind rid projectID labels s =
    (case ProjectHierarchyTuple kind rid projectID of
       None \<Rightarrow> Inr s
     | Some tuple \<Rightarrow>
        (case f_intent (e_faults E) of
           Some e \<Rightarrow> Inl (Prefixed ''emit fga register intent'' e)
         | None \<Rightarrow> Inr (s\<lparr> fga_outbox := fga_outbox s @ [intent_row E event kind rid projectID labels tuple] \<rparr>)))"

text \<open>``if err := emit...; err != nil { return ports.ErrInternal }''\<close>

definition or_internal :: "go_error + 'a \<Rightarrow> go_error + 'a" where
  "or_internal r = map_err (\<lambda>_. Sentinel ErrInternal) r"

lemma or_internal_ok [simp]: "or_internal r = Inr x \<longleftrightarrow> r = Inr x"
  by (simp add: or_internal_def)

section \<open>What a write leaves behind\<close>

definition event_of :: "env \<Rightarrow> string \<Rightarrow> string \<Rightarrow> string \<Rightarrow> event_payload \<Rightarrow> outbox_row" where
  "event_of E kind rid event payload =
    \<lparr> ob_seq = e_seq E, ob_kind = kind, ob_id = rid, ob_event = event, ob_payload = payload \<rparr>"

definition intents_of :: "env \<Rightarrow> string \<Rightarrow> string \<Rightarrow> string \<Rightarrow> string \<Rightarrow> gomap \<Rightarrow> fga_row list" where
  "intents_of E event kind rid projectID labels =
    (case ProjectHierarchyTuple kind rid projectID of None \<Rightarrow> []
     | Some tuple \<Rightarrow> [intent_row E event kind rid projectID labels tuple])"

lemma emitCompute_ok:
  "emitCompute E k i ev p s = Inr s' \<longleftrightarrow>
     f_emit (e_faults E) = None \<and> s' = s\<lparr> outbox := outbox s @ [event_of E k i ev p] \<rparr>"
  by (auto simp: emitCompute_def event_of_def split: option.splits)

lemma emitIntent_ok:
  "emitFGARegisterIntent E ev k i p l s = Inr s' \<Longrightarrow>
     s' = s\<lparr> fga_outbox := fga_outbox s @ intents_of E ev k i p l \<rparr>"
  by (auto simp: emitFGARegisterIntent_def intents_of_def split: option.splits)

lemma emitIntent_iff:
  "emitFGARegisterIntent E ev k i p l s = Inr s' \<longleftrightarrow>
     (ProjectHierarchyTuple k i p = None \<or> f_intent (e_faults E) = None)
     \<and> s' = s\<lparr> fga_outbox := fga_outbox s @ intents_of E ev k i p l \<rparr>"
  by (auto simp: emitFGARegisterIntent_def intents_of_def split: option.splits)

section \<open>Shared shapes of the repository methods\<close>

text \<open>Errors found before the transaction is opened.\<close>

definition pre_tx :: "go_error + 'x \<Rightarrow> ('x \<Rightarrow> 's \<Rightarrow> (go_error + 'a) \<times> 's) \<Rightarrow> 's \<Rightarrow> (go_error + 'a) \<times> 's" where
  "pre_tx r k s = (case r of Inl e \<Rightarrow> (Inl e, s) | Inr x \<Rightarrow> k x s)"

text \<open>QueryRow + Scan of a single row: no row is pgx.ErrNoRows.\<close>

definition scan_row :: "('r \<Rightarrow> go_error + 'd) \<Rightarrow> 'r option \<Rightarrow> go_error + 'd" where
  "scan_row sc o1 = (case o1 of None \<Rightarrow> Inl NoRows | Some r \<Rightarrow> sc r)"

definition scan_returning ::
  "('r \<Rightarrow> go_error + 'd) \<Rightarrow> go_error + ('r \<times> 't) option \<Rightarrow> go_error + ('d \<times> 't)" where
  "scan_returning sc q =
    bindE q (\<lambda>o1. case o1 of None \<Rightarrow> Inl NoRows | Some (r, t) \<Rightarrow> bindE (sc r) (\<lambda>d. Inr (d, t)))"

lemma scan_row_ok [simp]: "scan_row sc o1 = Inr d \<longleftrightarrow> (\<exists>r. o1 = Some r \<and> sc r = Inr d)"
  by (auto simp: scan_row_def split: option.splits)

lemma scan_returning_ok [simp]:
  "scan_returning sc q = Inr (d, t) \<longleftrightarrow> (\<exists>r. q = Inr (Some (r, t)) \<and> sc r = Inr d)"
  by (cases q) (auto simp: scan_returning_def split: option.splits prod.splits)

lemma pre_tx_ok: "pre_tx r k s = (Inr x, s') \<longleftrightarrow> (\<exists>y. r = Inr y \<and> k y s = (Inr x, s'))"
  by (cases r) (auto simp: pre_tx_def)

lemma pre_tx_err:
  assumes "pre_tx r k s = (Inl e, s')" "\<And>x s s' e. k x s = (Inl e, s') \<Longrightarrow> s' = s"
  shows "s' = s"
  using assms by (cases r) (auto simp: pre_tx_def)

lemma ext_of_pairI: "fst p = a \<Longrightarrow> snd p = b \<Longrightarrow> p = (a, b)"
  by auto

text \<open>``if us.empty() { SELECT } else { UPDATE ... RETURNING }''\<close>

definition plain_update_stmt ::
  "env \<Rightarrow> (go_error \<Rightarrow> go_error) \<Rightarrow> ('r \<Rightarrow> string) \<Rightarrow> ('r \<Rightarrow> 'k option) \<Rightarrow> ('r \<Rightarrow> bool) \<Rightarrow> ('r \<Rightarrow> go_error + 'd)
    \<Rightarrow> (string \<Rightarrow> sqlval \<Rightarrow> 'r \<Rightarrow> 'r) \<Rightarrow> string \<Rightarrow> update_set \<Rightarrow> 'r list \<Rightarrow> go_error + ('d \<times> 'r list)" where
  "plain_update_stmt E wrap pk uq chk sc setc i u t =
    (if us_empty u
     then map_err wrap (run_query (e_faults E) (map_res (\<lambda>d. (d, t)) (scan_row sc (sql_select pk i t))))
     else map_err wrap (run_query (e_faults E) (scan_returning sc
            (sql_update pk uq chk i (\<lambda>_. True) (us_exec setc u) t))))"

lemma plain_update_stmt_ok:
  assumes "plain_update_stmt E wrap pk uq chk sc setc i u t = Inr (d, t')"
    and ex: "\<And>r. us_exec setc u r = ex r" and pk: "\<And>r. pk (ex r) = pk r"
  shows "\<exists>r0. sql_select pk i t = Some r0 \<and> sc (ex r0) = Inr d
     \<and> (\<forall>j. sql_select pk j t' = (if j = i then Some (ex r0) else sql_select pk j t))
     \<and> (table_ok pk uq chk t \<longrightarrow> table_ok pk uq chk t')"
proof (cases "us_empty u")
  case True
  then have "ex r = r" for r using ex [of r] by (simp add: us_exec_pairs us_empty_pairs)
  then show ?thesis using assms(1) True by (auto simp: plain_update_stmt_def map_res_Inr_iff)
next
  case False
  then obtain r where q: "sql_update pk uq chk i (\<lambda>_. True) (us_exec setc u) t = Inr (Some (r, t'))" "sc r = Inr d"
    using assms(1) by (auto simp: plain_update_stmt_def)
  have pk': "pk (us_exec setc u x) = pk x" for x using ex pk by simp
  obtain r0 where "sql_select pk i t = Some r0" "r = ex r0"
    using q(1) ex by (auto simp: sql_update_Some)
  then show ?thesis
    using q sql_update_select [OF q(1) pk'] table_ok_update [OF q(1) pk'] by auto
qed

end
