(* ===== verification/Paging.thy ===== *)
theory Paging
  imports Db "HOL-Library.Char_ord" "HOL-Library.List_Lexorder" "HOL-Library.Product_Lexorder"
begin

text \<open>
  Cursor pagination of internal/repo/paging.go: the opaque page token
  (base64url of \<^verbatim>\<open>unixnano:id\<close>) and the query all List methods share:
  conditions, keyset cursor, \<^verbatim>\<open>ORDER BY created_at, id LIMIT n + 1\<close>.
  The validators of kacho-corelib are the parameters of \<^verbatim>\<open>corelib\<close>.
\<close>

record corelib =
  cl_page_size :: "int \<Rightarrow> go_error + int"
  cl_parse_filter :: "string \<Rightarrow> go_error + (string \<Rightarrow> bool) option"
  cl_name :: "string \<Rightarrow> string \<Rightarrow> go_error option"
  cl_description :: "string \<Rightarrow> string \<Rightarrow> go_error option"
  cl_labels :: "string \<Rightarrow> gomap \<Rightarrow> go_error option"
  cl_update_mask :: "string \<Rightarrow> string list \<Rightarrow> string list \<Rightarrow> go_error option"
  cl_resource_id :: "string \<Rightarrow> string \<Rightarrow> string \<Rightarrow> go_error option"

section \<open>base64.RawURLEncoding\<close>

definition b64_alphabet :: string where
  "b64_alphabet = ''ABCDEFGHIJKLMNOPQRSTUVWXYZabcdefghijklmnopqrstuvwxyz0123456789-_''"

definition b64_char :: "nat \<Rightarrow> char" where
  "b64_char n = b64_alphabet ! n"

definition b64_table :: "(char \<times> nat) list" where
  "b64_table = zip b64_alphabet [0..<64]"

definition b64_val :: "char \<Rightarrow> nat option" where
  "b64_val c = map_of b64_table c"

fun b64_encode :: "nat list \<Rightarrow> string" where
  "b64_encode [] = []"
| "b64_encode [a] = [b64_char (a div 4), b64_char ((a mod 4) * 16)]"
| "b64_encode [a, b] = [b64_char (a div 4), b64_char ((a mod 4) * 16 + b div 16), b64_char ((b mod 16) * 4)]"
| "b64_encode (a # b # c # r) =
    b64_char (a div 4) # b64_char ((a mod 4) * 16 + b div 16) # b64_char ((b mod 16) * 4 + c div 64)
      # b64_char (c mod 64) # b64_encode r"

fun b64_groups :: "nat list \<Rightarrow> nat list option" where
  "b64_groups [] = Some []"
| "b64_groups [x] = None"
| "b64_groups [x, y] = Some [x * 4 + y div 16]"
| "b64_groups [x, y, z] = Some [x * 4 + y div 16, (y mod 16) * 16 + z div 4]"
| "b64_groups (x # y # z # w # r) =
    (case b64_groups r of None \<Rightarrow> None
     | Some bs \<Rightarrow> Some ((x * 4 + y div 16) # ((y mod 16) * 16 + z div 4) # ((z mod 4) * 64 + w) # bs))"

text \<open>DecodeString skips CR and LF, refuses other characters outside the alphabet.\<close>

definition b64_decode :: "string \<Rightarrow> nat list option" where
  "b64_decode s =
    (case those (List.map b64_val (filter (\<lambda>c. c \<noteq> CHR 0x0A \<and> c \<noteq> CHR 0x0D) s)) of
       None \<Rightarrow> None | Some vs \<Rightarrow> b64_groups vs)"

definition bytes_of :: "string \<Rightarrow> nat list" where "bytes_of s = List.map of_char s"
definition string_of :: "nat list \<Rightarrow> string" where "string_of bs = List.map char_of bs"

section \<open>Page tokens\<close>

definition invalidPageTokenErr :: "go_error \<Rightarrow> go_error" where
  "invalidPageTokenErr e = status InvalidArgument (''page_token is invalid: '' @ err_text e)"

definition invalidFilterErr :: "go_error \<Rightarrow> go_error" where
  "invalidFilterErr e = status InvalidArgument (err_text e)"

definition encodePageToken :: "gotime \<Rightarrow> string \<Rightarrow> string" where
  "encodePageToken createdAt rid = b64_encode (bytes_of (int_dec createdAt @ CHR '':'' # rid))"

definition decodePageToken :: "string \<Rightarrow> go_error + (gotime \<times> string)" where
  "decodePageToken token =
    (case b64_decode token of
       None \<Rightarrow> Inl (Plain ''illegal base64 data'')
     | Some b \<Rightarrow>
        (case split2 (CHR '':'') (string_of b) of
           [p, i] \<Rightarrow> (case parse_int64 p of None \<Rightarrow> Inl (Plain ''strconv.ParseInt: invalid syntax'')
                      | Some ns \<Rightarrow> Inr (ns, i))
         | _ \<Rightarrow> Inl (Plain ''malformed token'')))"

section \<open>List queries\<close>

record ('r, 'd) list_view =
  lv_kind :: string
  lv_project :: "'r \<Rightarrow> string"
  lv_name :: "'r \<Rightarrow> string"
  lv_cursor :: "'r \<Rightarrow> int \<times> string"
  lv_scan :: "'r \<Rightarrow> go_error + 'd"
  lv_dom_cursor :: "'d \<Rightarrow> gotime \<times> string"

text \<open>SELECT ... WHERE conds ORDER BY created\_at ASC, id ASC LIMIT n\<close>

definition sql_page :: "('r \<Rightarrow> int \<times> string) \<Rightarrow> ('r \<Rightarrow> bool) \<Rightarrow> nat \<Rightarrow> 'r list \<Rightarrow> 'r list" where
  "sql_page cur conds n t = take n (filter conds (sort_key cur t))"

fun scan_all :: "('r \<Rightarrow> go_error + 'd) \<Rightarrow> 'r list \<Rightarrow> go_error + 'd list" where
  "scan_all sc [] = Inr []"
| "scan_all sc (r # rs) = bindE (sc r) (\<lambda>d. bindE (scan_all sc rs) (\<lambda>ds. Inr (d # ds)))"

text \<open>The cursor condition of a non-empty token.\<close>

definition after_cursor :: "('r \<Rightarrow> int \<times> string) \<Rightarrow> (int \<times> string) option \<Rightarrow> 'r \<Rightarrow> bool" where
  "after_cursor cur c r = (case c of None \<Rightarrow> True | Some k \<Rightarrow> k < cur r)"

lemma after_cursor_simps [simp]:
  "after_cursor cur None = (\<lambda>r. True)" "after_cursor cur (Some k) = (\<lambda>r. k < cur r)"
  by (auto simp: after_cursor_def)

definition list_conds ::
  "('r, 'd) list_view \<Rightarrow> list_filter \<Rightarrow> (string \<Rightarrow> bool) option \<Rightarrow> (int \<times> string) option \<Rightarrow> 'r \<Rightarrow> bool" where
  "list_conds V f ast c r \<longleftrightarrow>
     (lf_project_id f = '''' \<or> lv_project V r = lf_project_id f)
     \<and> (case lf_allowed_ids f of None \<Rightarrow> True | Some ids \<Rightarrow> snd (lv_cursor V r) \<in> set ids)
     \<and> (case ast of None \<Rightarrow> True | Some p \<Rightarrow> p (lv_name V r))
     \<and> after_cursor (lv_cursor V) c r"

definition parse_token :: "string \<Rightarrow> go_error + (int \<times> string) option" where
  "parse_token tok =
    (if tok = '''' then Inr None
     else bindE (map_err invalidPageTokenErr (decodePageToken tok)) (\<lambda>(ns, i). Inr (Some (pg_time ns, i))))"

definition parse_list_filter :: "corelib \<Rightarrow> list_filter \<Rightarrow> go_error + (string \<Rightarrow> bool) option" where
  "parse_list_filter C f =
    (if lf_filter f = '''' then Inr None else map_err invalidFilterErr (cl_parse_filter C (lf_filter f)))"

definition cut_page :: "('d \<Rightarrow> gotime \<times> string) \<Rightarrow> nat \<Rightarrow> 'd list \<Rightarrow> 'd list \<times> string" where
  "cut_page cur n result =
    (if n < size result
     then (let l = result ! (n - 1) in (take n result, encodePageToken (fst (cur l)) (snd (cur l))))
     else (result, ''''))"

definition repo_list ::
  "corelib \<Rightarrow> env \<Rightarrow> ('r, 'd) list_view \<Rightarrow> list_filter \<Rightarrow> pagination \<Rightarrow> 'r list \<Rightarrow> go_error + ('d list \<times> string)" where
  "repo_list C E V f p t =
    bindE (cl_page_size C (pg_size p)) (\<lambda>pageSize.
    if lf_allowed_ids f = Some [] then Inr ([], '''') else
    bindE (parse_list_filter C f) (\<lambda>ast.
    bindE (parse_token (pg_token p)) (\<lambda>c.
    bindE (map_err (wrapPgErr (lv_kind V) '''') (run_query (e_faults E)
             (Inr (sql_page (lv_cursor V) (list_conds V f ast c) (nat (pageSize + 1)) t)))) (\<lambda>rows.
    bindE (map_err (wrapPgErr (lv_kind V) '''') (scan_all (lv_scan V) rows)) (\<lambda>result.
    Inr (cut_page (lv_dom_cursor V) (nat pageSize) result))))))"

section \<open>Round trip of page tokens\<close>

lemma b64_table_check:
  "list_all (\<lambda>n. b64_val (b64_char n) = Some n \<and> b64_char n \<noteq> CHR 0x0A \<and> b64_char n \<noteq> CHR 0x0D) [0..<64]"
  by code_simp

lemma b64_char_val [simp]:
  assumes "n < 64"
  shows "b64_val (b64_char n) = Some n" "b64_char n \<noteq> CHR 0x0A" "b64_char n \<noteq> CHR 0x0D"
  using b64_table_check assms by (auto simp: list_all_iff)

fun sextets :: "nat list \<Rightarrow> nat list" where
  "sextets [] = []"
| "sextets [a] = [a div 4, (a mod 4) * 16]"
| "sextets [a, b] = [a div 4, (a mod 4) * 16 + b div 16, (b mod 16) * 4]"
| "sextets (a # b # c # r) =
    (a div 4) # ((a mod 4) * 16 + b div 16) # ((b mod 16) * 4 + c div 64) # (c mod 64) # sextets r"

lemma b64_encode_sextets: "b64_encode bs = List.map b64_char (sextets bs)"
  by (induction bs rule: b64_encode.induct) auto

lemma sextets_bound: "\<forall>b\<in>set bs. b < 256 \<Longrightarrow> \<forall>x\<in>set (sextets bs). x < 64"
  by (induction bs rule: sextets.induct) auto

lemma div_mod_base:
  fixes p q m :: nat
  assumes "q < m"
  shows "(p * m + q) div m = p" "(p * m + q) mod m = q"
  using assms by simp_all

lemma b64_groups_sextets:
  "\<forall>b\<in>set bs. b < 256 \<Longrightarrow> b64_groups (sextets bs) = Some bs"
proof (induction bs rule: sextets.induct)
  case (2 a)
  have "(a mod 4) * 16 div 16 = a mod 4" by simp
  then show ?case by simp
next
  case (3 a b)
  have "((a mod 4) * 16 + b div 16) div 16 = a mod 4" "((a mod 4) * 16 + b div 16) mod 16 = b div 16"
    using 3 by (auto intro!: div_mod_base)
  then show ?case using 3 by simp
next
  case (4 a b c r)
  have "((a mod 4) * 16 + b div 16) div 16 = a mod 4" "((a mod 4) * 16 + b div 16) mod 16 = b div 16"
    "((b mod 16) * 4 + c div 64) div 4 = b mod 16" "((b mod 16) * 4 + c div 64) mod 4 = c div 64"
    using 4(2) by (auto intro!: div_mod_base)
  then show ?case using 4 by simp
qed simp

lemma those_map_Some_ex: "\<forall>x\<in>set xs. f (g x) = Some x \<Longrightarrow> those (List.map f (List.map g xs)) = Some xs"
  by (induction xs) auto

lemma b64_roundtrip:
  assumes "\<forall>b\<in>set bs. b < 256"
  shows "b64_decode (b64_encode bs) = Some bs"
proof -
  have b: "\<forall>x\<in>set (sextets bs). x < 64" by (rule sextets_bound [OF assms])
  have "filter (\<lambda>c. c \<noteq> CHR 0x0A \<and> c \<noteq> CHR 0x0D) (List.map b64_char (sextets bs)) = List.map b64_char (sextets bs)"
    using b by (auto simp: filter_id_conv)
  moreover have "those (List.map b64_val (List.map b64_char (sextets bs))) = Some (sextets bs)"
    using b by (intro those_map_Some_ex) auto
  ultimately show ?thesis
    using b64_groups_sextets [OF assms] by (simp add: b64_decode_def b64_encode_sextets)
qed

lemma bytes_of_bound: "\<forall>b\<in>set (bytes_of s). b < 256"
  by (auto simp: bytes_of_def)

lemma string_of_bytes_of [simp]: "string_of (bytes_of s) = s"
  by (simp add: string_of_def bytes_of_def comp_def)

lemma decode_encode_token:
  assumes "in_int64 t"
  shows "decodePageToken (encodePageToken t i) = Inr (t, i)"
  using assms split2_join [OF int_dec_no_colon, of t i]
  by (simp add: decodePageToken_def encodePageToken_def b64_roundtrip [OF bytes_of_bound])

lemma encodePageToken_nonempty: "encodePageToken t i \<noteq> ''''"
proof -
  have "bytes_of (int_dec t @ CHR '':'' # i) \<noteq> []" by (simp add: bytes_of_def)
  moreover have "b64_encode bs = [] \<Longrightarrow> bs = []" for bs by (cases bs rule: b64_encode.cases) auto
  ultimately show ?thesis by (auto simp: encodePageToken_def)
qed

section \<open>Walking the pages\<close>

text \<open>A client following the tokens from the empty one; fuel bounds the number of requests.\<close>

fun list_walk :: "nat \<Rightarrow> (string \<Rightarrow> go_error + ('d list \<times> string)) \<Rightarrow> string \<Rightarrow> go_error + 'd list" where
  "list_walk 0 page tok = Inl (Plain ''too many pages'')"
| "list_walk (Suc k) page tok =
    bindE (page tok) (\<lambda>(ds, nt). if nt = '''' then Inr ds
      else bindE (list_walk k page nt) (\<lambda>r. Inr (ds @ r)))"

definition row_readable :: "('r, 'd) list_view \<Rightarrow> 'r \<Rightarrow> bool" where
  "row_readable V r \<longleftrightarrow>
     (case lv_scan V r of Inl _ \<Rightarrow> False | Inr d \<Rightarrow> lv_dom_cursor V d = lv_cursor V r)
     \<and> in_int64 (fst (lv_cursor V r)) \<and> pg_time (fst (lv_cursor V r)) = fst (lv_cursor V r)"

definition visible :: "('r, 'd) list_view \<Rightarrow> list_filter \<Rightarrow> (string \<Rightarrow> bool) option \<Rightarrow> 'r list \<Rightarrow> 'r list" where
  "visible V f ast t = filter (list_conds V f ast None) (sort_key (lv_cursor V) t)"

lemma sql_page_visible:
  "sql_page (lv_cursor V) (list_conds V f ast c) n t = take n (filter (after_cursor (lv_cursor V) c) (visible V f ast t))"
  unfolding sql_page_def visible_def
  by (auto simp: list_conds_def after_cursor_def intro!: arg_cong [where f = "take n"] filter_cong)

lemma filter_after_drop:
  assumes "sorted (List.map k xs)" "distinct (List.map k xs)" "i < size xs"
  shows "filter (\<lambda>r. k (xs ! i) < k r) xs = drop (Suc i) xs"
  using assms
proof (induction xs arbitrary: i)
  case Nil
  then show ?case by simp
next
  case (Cons a xs)
  show ?case
  proof (cases i)
    case 0
    have "\<forall>x\<in>set xs. k a < k x" using Cons.prems by (auto simp: image_iff order.strict_iff_order)
    then show ?thesis using 0 by (simp add: filter_id_conv)
  next
    case (Suc j)
    then have j: "j < size xs" using Cons.prems(3) by simp
    then have "k a \<le> k (xs ! j)" using Cons.prems(1) by simp
    then have "\<not> k (xs ! j) < k a" by (simp add: not_less)
    then show ?thesis using Cons.IH [of j] Cons.prems Suc j by simp
  qed
qed

lemma scan_all_ok:
  "\<forall>r\<in>set rs. \<exists>d. sc r = Inr d \<Longrightarrow> scan_all sc rs = Inr (List.map (\<lambda>r. projr (sc r)) rs)"
  by (induction rs) auto

lemma scan_all_readable:
  "\<forall>r\<in>set rs. row_readable V r \<Longrightarrow> scan_all (lv_scan V) rs = Inr (List.map (\<lambda>r. projr (lv_scan V r)) rs)"
proof (rule scan_all_ok, rule ballI)
  fix r assume "\<forall>r\<in>set rs. row_readable V r" "r \<in> set rs"
  then have "row_readable V r" by blast
  then show "\<exists>d. lv_scan V r = Inr d" by (cases "lv_scan V r") (auto simp: row_readable_def)
qed

lemma readable_cursor: "row_readable V r \<Longrightarrow> lv_dom_cursor V (projr (lv_scan V r)) = lv_cursor V r"
  by (auto simp: row_readable_def split: sum.splits)

lemma visible_subset: "set (visible V f ast t) \<subseteq> set t"
  by (auto simp: visible_def)

lemma visible_sorted: "sorted (List.map (lv_cursor V) (visible V f ast t))"
  unfolding visible_def by (rule sorted_filter) simp

lemma visible_distinct:
  assumes "distinct (List.map (lv_cursor V) t)"
  shows "distinct (List.map (lv_cursor V) (visible V f ast t))"
  using assms by (auto simp: visible_def distinct_map intro: inj_on_subset)

lemma repo_list_page:
  assumes "cl_page_size C (pg_size p) = Inr (int n)" "lf_allowed_ids f \<noteq> Some []"
    "parse_list_filter C f = Inr ast" "f_query (e_faults E) = None"
    "parse_token (pg_token p) = Inr c" "\<forall>r\<in>set t. row_readable V r"
  shows "repo_list C E V f p t =
     Inr (cut_page (lv_dom_cursor V) n
       (List.map (\<lambda>r. projr (lv_scan V r)) (take (Suc n) (filter (after_cursor (lv_cursor V) c) (visible V f ast t)))))"
proof -
  let ?rows = "take (Suc n) (filter (after_cursor (lv_cursor V) c) (visible V f ast t))"
  have "set ?rows \<subseteq> set t" using visible_subset [of V f ast t] by (auto dest!: in_set_takeD)
  then have sc: "scan_all (lv_scan V) ?rows = Inr (List.map (\<lambda>r. projr (lv_scan V r)) ?rows)"
    using assms(6) by (intro scan_all_readable) auto
  have "nat (int n + 1) = Suc n" by simp
  then show ?thesis
    using assms(1-5) sc by (simp add: repo_list_def run_query_def sql_page_visible)
qed

lemma cut_page_full: "size xs \<le> n \<Longrightarrow> cut_page cur n xs = (xs, '''')"
  by (simp add: cut_page_def)

lemma parse_token_encode:
  assumes "in_int64 t" "pg_time t = t"
  shows "parse_token (encodePageToken t i) = Inr (Some (t, i))"
  using assms by (simp add: parse_token_def encodePageToken_nonempty decode_encode_token)

lemma list_walk_from:
  assumes h: "cl_page_size C (pg_size p) = Inr (int n)" "0 < n" "lf_allowed_ids f \<noteq> Some []"
      "parse_list_filter C f = Inr ast" "f_query (e_faults E) = None"
      "\<forall>r\<in>set t. row_readable V r" "distinct (List.map (lv_cursor V) t)"
    and tok: "parse_token tok = Inr c"
      "filter (after_cursor (lv_cursor V) c) (visible V f ast t) = drop m (visible V f ast t)"
    and fuel: "size (visible V f ast t) - m < k"
  shows "list_walk k (\<lambda>tok. repo_list C E V f (p\<lparr>pg_token := tok\<rparr>) t) tok
       = Inr (List.map (\<lambda>r. projr (lv_scan V r)) (drop m (visible V f ast t)))"
  using tok fuel
proof (induction k arbitrary: tok c m)
  case 0
  then show ?case by simp
next
  case (Suc k)
  let ?xs = "visible V f ast t" and ?g = "\<lambda>r. projr (lv_scan V r)"
  have pg: "repo_list C E V f (p\<lparr>pg_token := tok\<rparr>) t =
      Inr (cut_page (lv_dom_cursor V) n (List.map ?g (take (Suc n) (drop m ?xs))))"
    using repo_list_page [of C "p\<lparr>pg_token := tok\<rparr>" n f ast E c t V] h Suc.prems(1,2) by simp
  show ?case
  proof (cases "size (drop m ?xs) \<le> n")
    case True
    then show ?thesis using pg by (simp add: cut_page_full)
  next
    case False
    then have lt: "m + n < size ?xs" by simp
    define l where "l = ?xs ! (m + n - 1)"
    have ix: "m + n - 1 < size ?xs" using lt by simp
    then have "l \<in> set t" using visible_subset [of V f ast t] by (auto simp: l_def)
    then have rl: "row_readable V l" using h(6) by blast
    have "List.map ?g (take (Suc n) (drop m ?xs)) ! (n - 1) = ?g l"
      using lt h(2) by (cases n) (simp_all add: l_def)
    then have cp: "cut_page (lv_dom_cursor V) n (List.map ?g (take (Suc n) (drop m ?xs)))
        = (List.map ?g (take n (drop m ?xs)), encodePageToken (fst (lv_cursor V l)) (snd (lv_cursor V l)))"
    proof -
      have "n < size (List.map ?g (take (Suc n) (drop m ?xs)))" using lt by simp
      then show ?thesis using \<open>_ ! (n - 1) = ?g l\<close> readable_cursor [OF rl]
        unfolding cut_page_def Let_def by (simp add: take_map min_def)
    qed
    have pt: "parse_token (encodePageToken (fst (lv_cursor V l)) (snd (lv_cursor V l))) = Inr (Some (lv_cursor V l))"
      using rl by (simp add: parse_token_encode row_readable_def)
    have "filter (after_cursor (lv_cursor V) (Some (lv_cursor V l))) ?xs = drop (m + n) ?xs"
      using filter_after_drop [OF visible_sorted visible_distinct [OF h(7)] ix] h(2)
      by (simp add: l_def)
    moreover have "size ?xs - (m + n) < k" using Suc.prems(3) lt h(2) by linarith
    ultimately have "list_walk k (\<lambda>tok. repo_list C E V f (p\<lparr>pg_token := tok\<rparr>) t)
        (encodePageToken (fst (lv_cursor V l)) (snd (lv_cursor V l))) = Inr (List.map ?g (drop (m + n) ?xs))"
      using Suc.IH [OF pt] by blast
    moreover have "take n (drop m ?xs) @ drop (m + n) ?xs = drop m ?xs"
      by (metis append_take_drop_id drop_drop add.commute)
    ultimately show ?thesis using pg cp encodePageToken_nonempty by (simp flip: map_append)
  qed
qed

lemma list_walk_complete:
  assumes "cl_page_size C (pg_size p) = Inr (int n)" "0 < n" "lf_allowed_ids f \<noteq> Some []"
    "parse_list_filter C f = Inr ast" "f_query (e_faults E) = None"
    "\<forall>r\<in>set t. row_readable V r" "distinct (List.map (lv_cursor V) t)"
  shows "list_walk (Suc (size t)) (\<lambda>tok. repo_list C E V f (p\<lparr>pg_token := tok\<rparr>) t) ''''
       = Inr (List.map (\<lambda>r. projr (lv_scan V r)) (visible V f ast t))"
proof -
  have "size (visible V f ast t) \<le> size t"
    unfolding visible_def by (rule order_trans [OF length_filter_le]) simp
  moreover have "parse_token '''' = Inr None" by (simp add: parse_token_def)
  moreover have "filter (after_cursor (lv_cursor V) None) (visible V f ast t) = drop 0 (visible V f ast t)"
    by simp
  ultimately show ?thesis
    using list_walk_from [OF assms, of "''''" None 0 "Suc (size t)"] by simp
qed

lemma scan_all_in: "scan_all sc rs = Inr xs \<Longrightarrow> x \<in> set xs \<Longrightarrow> \<exists>r\<in>set rs. sc r = Inr x"
  by (induction rs arbitrary: xs) auto

lemma cut_page_in: "x \<in> set (fst (cut_page cur m xs)) \<Longrightarrow> x \<in> set xs"
  by (auto simp: cut_page_def Let_def split: if_splits dest: in_set_takeD)

lemma repo_list_sound:
  assumes "repo_list C E V f p t = Inr (ds, nt)" "d \<in> set ds"
  shows "\<exists>r\<in>set t. lv_scan V r = Inr d \<and> (lf_project_id f = '''' \<or> lv_project V r = lf_project_id f)
           \<and> (case lf_allowed_ids f of None \<Rightarrow> True | Some ids \<Rightarrow> snd (lv_cursor V r) \<in> set ids)"
proof -
  show ?thesis
  proof (cases "lf_allowed_ids f = Some []")
    case True
    then show ?thesis using assms by (auto simp: repo_list_def)
  next
    case False
    then obtain ps ast c rows xs where r: "rows = sql_page (lv_cursor V) (list_conds V f ast c) (nat (ps + 1)) t"
      "scan_all (lv_scan V) rows = Inr xs" "cut_page (lv_dom_cursor V) (nat ps) xs = (ds, nt)"
      using assms(1) by (auto simp: repo_list_def)
    have "d \<in> set xs" using cut_page_in [of d "lv_dom_cursor V" "nat ps" xs] r(3) assms(2) by simp
    then obtain r' where r': "r' \<in> set rows" "lv_scan V r' = Inr d" using scan_all_in [OF r(2)] by blast
    have "set rows \<subseteq> {r\<in>set t. list_conds V f ast c r}" using r(1) by (auto simp: sql_page_def dest!: in_set_takeD)
    then show ?thesis using r' by (auto simp: list_conds_def)
  qed
qed

end
