(* ===== verification/DiskRepo.thy ===== *)
theory DiskRepo
  imports Paging
begin

text \<open>
  internal/repo/disk\_repo.go: columns, scan and insert arguments of the table
  disks, and the methods of DiskRepo (Get, List, Insert, Update with the
  monotone-size compare-and-set, SetZoneIfDetached, Delete).
\<close>

section \<open>Columns\<close>

fun diskStatusName :: "disk_status \<Rightarrow> string" where
  "diskStatusName DiskStatusCreating = ''CREATING''"
| "diskStatusName DiskStatusReady = ''READY''"
| "diskStatusName DiskStatusError = ''ERROR''"
| "diskStatusName DiskStatusDeleting = ''DELETING''"
| "diskStatusName _ = ''STATUS_UNSPECIFIED''"

definition diskStatusFromName :: "string \<Rightarrow> disk_status" where
  "diskStatusFromName s =
    (if s = ''CREATING'' then DiskStatusCreating
     else if s = ''READY'' then DiskStatusReady
     else if s = ''ERROR'' then DiskStatusError
     else if s = ''DELETING'' then DiskStatusDeleting
     else DiskStatusUnspecified)"

definition disk_uq :: "disk_row \<Rightarrow> (string \<times> string) option" where
  "disk_uq r = name_key (dr_project_id r) (dr_name r)"

definition disk_chk :: "disk_row \<Rightarrow> bool" where "disk_chk r = True"

definition diskInsertArgs :: "protojson \<Rightarrow> disk \<Rightarrow> go_error + disk_row" where
  "diskInsertArgs P d =
    bindE (marshalProtoJSONB P (d_placement_policy d) ''Disk.disk_placement_policy'') (\<lambda>dpp.
    bindE (marshalProtoJSONB P (d_hardware_generation d) ''Disk.hardware_generation'') (\<lambda>hg.
    bindE (marshalProtoJSONB P (d_kms_key d) ''Disk.kms_key'') (\<lambda>kms.
    Inr \<lparr> dr_id = d_id d, dr_project_id = d_project_id d, dr_created_at = pg_time (d_created_at d),
          dr_name = d_name d, dr_description = d_description d, dr_labels = Some (json_of_map (d_labels d)),
          dr_type_id = d_type_id d, dr_zone_id = d_zone_id d, dr_size = d_size d,
          dr_block_size = d_block_size d, dr_product_ids = Some (json_of_strs (d_product_ids d)),
          dr_status = diskStatusName (d_status d), dr_source_image_id = d_source_image_id d,
          dr_source_snapshot_id = d_source_snapshot_id d, dr_placement_policy = dpp,
          dr_hardware_generation = hg, dr_kms_key = kms \<rparr>)))"

definition scanDisk :: "protojson \<Rightarrow> disk_row \<Rightarrow> go_error + disk" where
  "scanDisk P r =
    bindE (unmarshalJSONB json_to_map None (dr_labels r) ''Disk.labels'') (\<lambda>labels.
    bindE (unmarshalJSONB json_to_strs [] (dr_product_ids r) ''Disk.product_ids'') (\<lambda>prods.
    bindE (unmarshalProtoJSONB P (dr_placement_policy r) ''Disk.disk_placement_policy'') (\<lambda>dpp.
    bindE (unmarshalProtoJSONB P (dr_hardware_generation r) ''Disk.hardware_generation'') (\<lambda>hg.
    bindE (unmarshalProtoJSONB P (dr_kms_key r) ''Disk.kms_key'') (\<lambda>kms.
    Inr \<lparr> d_id = dr_id r, d_project_id = dr_project_id r, d_created_at = dr_created_at r,
          d_name = dr_name r, d_description = dr_description r, d_labels = labels,
          d_type_id = dr_type_id r, d_zone_id = dr_zone_id r, d_size = dr_size r,
          d_block_size = dr_block_size r, d_product_ids = prods,
          d_status = diskStatusFromName (dr_status r), d_source_image_id = dr_source_image_id r,
          d_source_snapshot_id = dr_source_snapshot_id r, d_placement_policy = dpp,
          d_hardware_generation = hg, d_kms_key = kms \<rparr>)))))"

text \<open>Assignment of one column of disks in an UPDATE.\<close>

definition disk_set :: "string \<Rightarrow> sqlval \<Rightarrow> disk_row \<Rightarrow> disk_row" where
  "disk_set c v r =
    (case v of
       VText x \<Rightarrow> (if c = ''name'' then r\<lparr> dr_name := x \<rparr>
                   else if c = ''description'' then r\<lparr> dr_description := x \<rparr>
                   else if c = ''zone_id'' then r\<lparr> dr_zone_id := x \<rparr> else r)
     | VInt n \<Rightarrow> (if c = ''size'' then r\<lparr> dr_size := n \<rparr> else r)
     | VJson j \<Rightarrow> (if c = ''labels'' then r\<lparr> dr_labels := j \<rparr>
                   else if c = ''disk_placement_policy'' then r\<lparr> dr_placement_policy := j \<rparr> else r)
     | VBool _ \<Rightarrow> r)"

section \<open>Methods\<close>

definition disk_get :: "env \<Rightarrow> string \<Rightarrow> db \<Rightarrow> go_error + disk" where
  "disk_get E i s =
    map_err (wrapPgErr ''Disk'' i)
      (run_query (e_faults E) (scan_row (scanDisk (e_pj E)) (sql_select dr_id i (disks s))))"

definition disk_view :: "env \<Rightarrow> (disk_row, disk) list_view" where
  "disk_view E = \<lparr> lv_kind = ''Disk'', lv_project = dr_project_id, lv_name = dr_name,
     lv_cursor = (\<lambda>r. (dr_created_at r, dr_id r)), lv_scan = scanDisk (e_pj E),
     lv_dom_cursor = (\<lambda>d. (d_created_at d, d_id d)) \<rparr>"

definition disk_list :: "corelib \<Rightarrow> env \<Rightarrow> list_filter \<Rightarrow> pagination \<Rightarrow> db \<Rightarrow> go_error + (disk list \<times> string)" where
  "disk_list C E f p s = repo_list C E (disk_view E) f p (disks s)"

definition disk_insert :: "env \<Rightarrow> disk \<Rightarrow> db \<Rightarrow> (go_error + disk) \<times> db" where
  "disk_insert E d =
    pre_tx (diskInsertArgs (e_pj E) d) (\<lambda>row.
    in_tx (e_faults E) (wrapPgErr ''Disk'' (d_name d)) (\<lambda>s.
      bindE (map_err (wrapPgErr ''Disk'' (d_name d)) (run_query (e_faults E)
              (scan_returning (scanDisk (e_pj E))
                (map_res (\<lambda>t. Some (row, t)) (sql_insert dr_id disk_uq disk_chk row (disks s)))))) (\<lambda>(result, t).
      bindE (or_internal (emitCompute E ''Disk'' (d_id result) ''CREATED'' (PDisk result) (s\<lparr> disks := t \<rparr>))) (\<lambda>s1.
      bindE (or_internal (emitFGARegisterIntent E EventRegister ''Disk'' (d_id result) (d_project_id result)
              (d_labels result) s1)) (\<lambda>s2. Inr (result, s2))))))"

definition disk_update_set :: "protojson \<Rightarrow> disk \<Rightarrow> string list \<Rightarrow> go_error + (update_set \<times> nat)" where
  "disk_update_set P d ch =
    (let u1 = us_add_if ch ''name'' ''name'' (VText (d_name d)) (newUpdateSet (d_id d));
         u2 = us_add_if ch ''description'' ''description'' (VText (d_description d)) u1;
         u3 = us_add_if ch ''labels'' ''labels'' (VJson (Some (json_of_map (d_labels d)))) u2;
         u4 = us_add_if ch ''size'' ''size'' (VInt (d_size d)) u3;
         sizeParam = (if ''size'' \<in> set ch then size (us_args u4) else 0)
     in if ''disk_placement_policy'' \<in> set ch
        then bindE (marshalProtoJSONB P (d_placement_policy d) ''Disk.disk_placement_policy'') (\<lambda>j.
               Inr (us_add ''disk_placement_policy'' (VJson j) u4, sizeParam))
        else Inr (u4, sizeParam))"

text \<open>\<^verbatim>\<open>size <= $n\<close>\<close>

definition size_le :: "update_set \<Rightarrow> nat \<Rightarrow> disk_row \<Rightarrow> bool" where
  "size_le u n r = (case us_args u ! (n - 1) of VInt v \<Rightarrow> dr_size r \<le> v | _ \<Rightarrow> False)"

definition disk_update_stmt :: "env \<Rightarrow> string \<Rightarrow> update_set \<Rightarrow> nat \<Rightarrow> db \<Rightarrow> go_error + (disk \<times> disk_row list)" where
  "disk_update_stmt E i u sizeParam s =
    (if us_empty u then
       map_err (wrapPgErr ''Disk'' i) (run_query (e_faults E)
         (map_res (\<lambda>d. (d, disks s)) (scan_row (scanDisk (e_pj E)) (sql_select dr_id i (disks s)))))
     else if 0 < sizeParam then
       (case run_query (e_faults E) (scan_returning (scanDisk (e_pj E))
               (sql_update dr_id disk_uq disk_chk i (size_le u sizeParam) (us_exec disk_set u) (disks s))) of
          Inr x \<Rightarrow> Inr x
        | Inl e \<Rightarrow>
           (if is_no_rows e then
              (case f_probe (e_faults E) of
                 Some e' \<Rightarrow> Inl (wrapPgErr ''Disk'' i e')
               | None \<Rightarrow>
                  if sql_select dr_id i (disks s) \<noteq> None
                  then Inl (Wrapped ErrFailedPrecondition ''Disk size can only be increased'')
                  else Inl (Wrapped ErrNotFound (''Disk '' @ i @ '' not found'')))
            else Inl (wrapPgErr ''Disk'' i e)))
     else
       map_err (wrapPgErr ''Disk'' i) (run_query (e_faults E) (scan_returning (scanDisk (e_pj E))
         (sql_update dr_id disk_uq disk_chk i (\<lambda>_. True) (us_exec disk_set u) (disks s)))))"

definition disk_update :: "env \<Rightarrow> disk \<Rightarrow> bool \<Rightarrow> string list \<Rightarrow> db \<Rightarrow> (go_error + disk) \<times> db" where
  "disk_update E d emitLabelsRegister changed =
    pre_tx (disk_update_set (e_pj E) d changed) (\<lambda>(u, sizeParam).
    in_tx (e_faults E) (wrapPgErr ''Disk'' (d_id d)) (\<lambda>s.
      bindE (disk_update_stmt E (d_id d) u sizeParam s) (\<lambda>(result, t).
      bindE (or_internal (emitCompute E ''Disk'' (d_id result) ''UPDATED'' (PDisk result) (s\<lparr> disks := t \<rparr>))) (\<lambda>s1.
      bindE (if emitLabelsRegister
             then or_internal (emitFGARegisterIntent E EventRegister ''Disk'' (d_id result) (d_project_id result)
                    (d_labels result) s1)
             else Inr s1) (\<lambda>s2. Inr (result, s2))))))"

definition disk_set_zone :: "env \<Rightarrow> string \<Rightarrow> string \<Rightarrow> db \<Rightarrow> (go_error + disk) \<times> db" where
  "disk_set_zone E i zoneID =
    in_tx (e_faults E) (wrapPgErr ''Disk'' i) (\<lambda>s.
      bindE (map_err (wrapPgErr ''Disk'' i) (run_query (e_faults E) (scan_returning (scanDisk (e_pj E))
              (sql_update dr_id disk_uq disk_chk i (\<lambda>_. True) (disk_set ''zone_id'' (VText zoneID)) (disks s))))) (\<lambda>(result, t).
      bindE (or_internal (emitCompute E ''Disk'' (d_id result) ''UPDATED'' (PDisk result) (s\<lparr> disks := t \<rparr>))) (\<lambda>s1.
      Inr (result, s1))))"

definition disk_delete_err :: "string \<Rightarrow> go_error \<Rightarrow> go_error" where
  "disk_delete_err i e =
    (if is_no_rows e then Wrapped ErrNotFound (''Disk '' @ i @ '' not found'')
     else if isFKViolation e then Wrapped ErrFailedPrecondition (''The disk '' @ i @ '' is being used'')
     else wrapPgErr ''Disk'' i e)"

definition disk_delete :: "env \<Rightarrow> string \<Rightarrow> db \<Rightarrow> (go_error + unit) \<times> db" where
  "disk_delete E i =
    in_tx (e_faults E) (wrapPgErr ''Disk'' i) (\<lambda>s.
      bindE (map_err (disk_delete_err i) (run_query (e_faults E)
              (scan_returning (\<lambda>r. Inr (dr_project_id r)) (Inr (sql_delete dr_id i (disks s)))))) (\<lambda>(projectID, t).
      bindE (or_internal (emitCompute E ''Disk'' i ''DELETED'' (PId i) (s\<lparr> disks := t \<rparr>))) (\<lambda>s1.
      bindE (or_internal (emitFGARegisterIntent E EventUnregister ''Disk'' i projectID None s1)) (\<lambda>s2.
      Inr ((), s2)))))"

section \<open>Columns: lemmas\<close>

lemma diskStatus_roundtrip [simp]: "diskStatusFromName (diskStatusName st) = st"
  by (cases st) (simp_all add: diskStatusFromName_def)

lemma scanDisk_insertArgs:
  assumes "protojson_ok P" "diskInsertArgs P d = Inr row"
  shows "scanDisk P row = Inr (d\<lparr> d_created_at := pg_time (d_created_at d) \<rparr>)"
  using assms(2) proto_roundtrip [OF assms(1)]
  by (auto simp: diskInsertArgs_def scanDisk_def)

lemma diskInsertArgs_cols:
  "diskInsertArgs P d = Inr row \<Longrightarrow> dr_id row = d_id d \<and> dr_project_id row = d_project_id d
     \<and> dr_name row = d_name d \<and> dr_size row = d_size d \<and> dr_created_at row = pg_time (d_created_at d)"
  by (auto simp: diskInsertArgs_def)

lemma scanDisk_cols:
  "scanDisk P row = Inr d \<Longrightarrow> d_id d = dr_id row \<and> d_project_id d = dr_project_id row
     \<and> d_created_at d = dr_created_at row \<and> d_name d = dr_name row \<and> d_size d = dr_size row
     \<and> d_zone_id d = dr_zone_id row \<and> d_description d = dr_description row
     \<and> d_status d = diskStatusFromName (dr_status row)"
  by (auto simp: scanDisk_def)

lemma disk_set_pk [simp]:
  "dr_id (disk_set c v r) = dr_id r" "dr_project_id (disk_set c v r) = dr_project_id r"
  by (auto simp: disk_set_def split: sqlval.splits)

lemma us_exec_disk_pk [simp]: "dr_id (us_exec disk_set u r) = dr_id r"
proof -
  have "dr_id (fold (\<lambda>(c, v). disk_set c v) xs r) = dr_id r" for xs
    by (induction xs arbitrary: r) auto
  then show ?thesis by (simp add: us_exec_pairs)
qed

section \<open>disks as a row store\<close>

abbreviation disk_sel :: "disk_row list \<Rightarrow> string \<Rightarrow> disk_row option" where
  "disk_sel t i \<equiv> sql_select dr_id i t"

abbreviation disks_ok :: "disk_row list \<Rightarrow> bool" where
  "disks_ok \<equiv> table_ok dr_id disk_uq disk_chk"

interpretation disk_store: row_store disk_sel "sql_insert dr_id disk_uq disk_chk"
  "sql_update dr_id disk_uq disk_chk" "sql_delete dr_id" dr_id disks_ok
  by (rule row_store_sql)

section \<open>Methods: outcomes\<close>

lemma disk_get_ok: "disk_get E i s = Inr d \<Longrightarrow> \<exists>r. disk_sel (disks s) i = Some r \<and> scanDisk (e_pj E) r = Inr d"
  by (auto simp: disk_get_def)

lemma disk_get_id: "disk_get E i s = Inr d \<Longrightarrow> d_id d = i"
  using disk_get_ok disk_store.sel_key scanDisk_cols by fastforce

lemma disk_insert_ok:
  assumes "disk_insert E d s = (Inr d', s')"
  shows "\<exists>row t. diskInsertArgs (e_pj E) d = Inr row \<and> sql_insert dr_id disk_uq disk_chk row (disks s) = Inr t
     \<and> scanDisk (e_pj E) row = Inr d'
     \<and> s' = s\<lparr> disks := t, outbox := outbox s @ [event_of E ''Disk'' (d_id d') ''CREATED'' (PDisk d')],
            fga_outbox := fga_outbox s @ intents_of E EventRegister ''Disk'' (d_id d') (d_project_id d') (d_labels d') \<rparr>"
  using assms
  by (auto simp: disk_insert_def pre_tx_ok in_tx_ok emitCompute_ok emitIntent_iff map_res_Inr_iff)

lemma disk_insert_err: "disk_insert E d s = (Inl e, s') \<Longrightarrow> s' = s"
  unfolding disk_insert_def by (rule pre_tx_err) (auto dest: in_tx_err)

lemma disk_delete_ok:
  assumes "disk_delete E i s = (Inr (), s')"
  shows "\<exists>r t. sql_delete dr_id i (disks s) = Some (r, t)
     \<and> s' = s\<lparr> disks := t, outbox := outbox s @ [event_of E ''Disk'' i ''DELETED'' (PId i)],
            fga_outbox := fga_outbox s @ intents_of E EventUnregister ''Disk'' i (dr_project_id r) None \<rparr>"
  using assms by (auto simp: disk_delete_def in_tx_ok emitCompute_ok emitIntent_iff)

lemma disk_delete_error: "disk_delete E i s = (Inl e, s') \<Longrightarrow> s' = s"
  unfolding disk_delete_def by (rule in_tx_err)

lemma disk_set_zone_ok:
  assumes "disk_set_zone E i z s = (Inr d', s')"
  shows "\<exists>r t. sql_update dr_id disk_uq disk_chk i (\<lambda>_. True) (disk_set ''zone_id'' (VText z)) (disks s) = Inr (Some (r, t))
     \<and> scanDisk (e_pj E) r = Inr d'
     \<and> s' = s\<lparr> disks := t, outbox := outbox s @ [event_of E ''Disk'' (d_id d') ''UPDATED'' (PDisk d')] \<rparr>"
  using assms by (auto simp: disk_set_zone_def in_tx_ok emitCompute_ok)

lemma disk_set_zone_err: "disk_set_zone E i z s = (Inl e, s') \<Longrightarrow> s' = s"
  unfolding disk_set_zone_def by (rule in_tx_err)

section \<open>Update\<close>

text \<open>The row a column-scoped update leaves.\<close>

definition disk_exec :: "protojson \<Rightarrow> disk \<Rightarrow> string list \<Rightarrow> disk_row \<Rightarrow> disk_row" where
  "disk_exec P d ch r = r\<lparr>
     dr_name := (if ''name'' \<in> set ch then d_name d else dr_name r),
     dr_description := (if ''description'' \<in> set ch then d_description d else dr_description r),
     dr_labels := (if ''labels'' \<in> set ch then Some (json_of_map (d_labels d)) else dr_labels r),
     dr_size := (if ''size'' \<in> set ch then d_size d else dr_size r),
     dr_placement_policy := (if ''disk_placement_policy'' \<in> set ch
        then (case marshalProtoJSONB P (d_placement_policy d) ''Disk.disk_placement_policy'' of Inr j \<Rightarrow> j | Inl _ \<Rightarrow> None)
        else dr_placement_policy r) \<rparr>"

lemma disk_exec_pk [simp]: "dr_id (disk_exec P d ch r) = dr_id r" "dr_project_id (disk_exec P d ch r) = dr_project_id r"
  by (simp_all add: disk_exec_def)

lemma disk_update_set_ok:
  assumes "disk_update_set P d ch = Inr (u, sp)"
  shows "us_ok u \<and> us_pairs u =
      (if ''name'' \<in> set ch then [(''name'', VText (d_name d))] else [])
      @ (if ''description'' \<in> set ch then [(''description'', VText (d_description d))] else [])
      @ (if ''labels'' \<in> set ch then [(''labels'', VJson (Some (json_of_map (d_labels d))))] else [])
      @ (if ''size'' \<in> set ch then [(''size'', VInt (d_size d))] else [])
      @ (if ''disk_placement_policy'' \<in> set ch then [(''disk_placement_policy'', VJson
          (case marshalProtoJSONB P (d_placement_policy d) ''Disk.disk_placement_policy'' of Inr j \<Rightarrow> j | Inl _ \<Rightarrow> None))] else [])"
proof (cases "''disk_placement_policy'' \<in> set ch")
  case True
  then obtain j where "marshalProtoJSONB P (d_placement_policy d) ''Disk.disk_placement_policy'' = Inr j"
    using assms by (auto simp: disk_update_set_def Let_def split del: if_split)
  then show ?thesis using assms True
    by (auto simp: disk_update_set_def Let_def split del: if_split)
next
  case False
  then show ?thesis using assms
    by (auto simp: disk_update_set_def Let_def split del: if_split)
qed

lemma disk_set_simps:
  "disk_set ''name'' (VText x) r = r\<lparr> dr_name := x \<rparr>"
  "disk_set ''description'' (VText x) r = r\<lparr> dr_description := x \<rparr>"
  "disk_set ''zone_id'' (VText x) r = r\<lparr> dr_zone_id := x \<rparr>"
  "disk_set ''labels'' (VJson j) r = r\<lparr> dr_labels := j \<rparr>"
  "disk_set ''size'' (VInt n) r = r\<lparr> dr_size := n \<rparr>"
  "disk_set ''disk_placement_policy'' (VJson j) r = r\<lparr> dr_placement_policy := j \<rparr>"
  by (simp_all add: disk_set_def)

lemma fold_if_append:
  "fold f ((if b then [x] else []) @ ys) r = fold f ys (if b then f x r else r)"
  "fold f (if b then [x] else []) r = (if b then f x r else r)"
  by simp_all

lemma disk_exec_us:
  assumes "disk_update_set P d ch = Inr (u, sp)"
  shows "us_exec disk_set u r = disk_exec P d ch r"
  using disk_update_set_ok [OF assms]
  by (simp add: us_exec_pairs fold_if_append disk_set_simps disk_exec_def)

lemma disk_exec_empty:
  assumes "disk_update_set P d ch = Inr (u, sp)" "us_empty u"
  shows "disk_exec P d ch r = r"
proof -
  have "us_exec disk_set u r = r" using assms(2) by (simp add: us_exec_pairs us_empty_pairs)
  then show ?thesis using disk_exec_us [OF assms(1)] by simp
qed

lemma us_add_args: "us_args (us_add c v u) = us_args u @ [v]"
  by (simp add: us_add_def Let_def)

lemma disk_update_size_param:
  assumes "disk_update_set P d ch = Inr (u, sp)"
  shows "(0 < sp \<longleftrightarrow> ''size'' \<in> set ch) \<and> (''size'' \<in> set ch \<longrightarrow> us_args u ! (sp - 1) = VInt (d_size d))"
proof -
  define w where "w = us_add_if ch ''labels'' ''labels'' (VJson (Some (json_of_map (d_labels d))))
    (us_add_if ch ''description'' ''description'' (VText (d_description d))
      (us_add_if ch ''name'' ''name'' (VText (d_name d)) (newUpdateSet (d_id d))))"
  have sp: "sp = (if ''size'' \<in> set ch then Suc (size (us_args w)) else 0)"
    using assms by (auto simp: disk_update_set_def Let_def w_def us_add_if_def us_add_args split: if_splits)
  have "\<exists>r. us_args u = us_args (us_add_if ch ''size'' ''size'' (VInt (d_size d)) w) @ r"
    using assms unfolding disk_update_set_def Let_def w_def [symmetric]
    by (auto simp: us_add_args split: if_splits)
  then show ?thesis using sp by (auto simp: us_add_if_def us_add_args nth_append)
qed

lemma disk_update_ok:
  assumes "disk_update E d el ch s = (Inr d', s')"
  shows "\<exists>r0 t. disk_sel (disks s) (d_id d) = Some r0 \<and> (''size'' \<in> set ch \<longrightarrow> dr_size r0 \<le> d_size d)
     \<and> scanDisk (e_pj E) (disk_exec (e_pj E) d ch r0) = Inr d'
     \<and> (\<forall>j. disk_sel t j = (if j = d_id d then Some (disk_exec (e_pj E) d ch r0) else disk_sel (disks s) j))
     \<and> (disks_ok (disks s) \<longrightarrow> disks_ok t)
     \<and> s' = s\<lparr> disks := t, outbox := outbox s @ [event_of E ''Disk'' (d_id d') ''UPDATED'' (PDisk d')],
            fga_outbox := fga_outbox s @ (if el then intents_of E EventRegister ''Disk'' (d_id d') (d_project_id d') (d_labels d') else []) \<rparr>"
proof -
  obtain u sp t s1 where us: "disk_update_set (e_pj E) d ch = Inr (u, sp)"
    and st: "disk_update_stmt E (d_id d) u sp s = Inr (d', t)"
    and s': "s' = s\<lparr> disks := t, outbox := outbox s @ [event_of E ''Disk'' (d_id d') ''UPDATED'' (PDisk d')],
            fga_outbox := fga_outbox s @ (if el then intents_of E EventRegister ''Disk'' (d_id d') (d_project_id d') (d_labels d') else []) \<rparr>"
    using assms
    by (cases el) (auto simp: disk_update_def pre_tx_ok in_tx_ok emitCompute_ok emitIntent_iff)
  note ex = disk_exec_us [OF us] and sz = disk_update_size_param [OF us]
  have upd: "\<exists>r0. disk_sel (disks s) (d_id d) = Some r0 \<and> p r0 \<and> scanDisk (e_pj E) (disk_exec (e_pj E) d ch r0) = Inr d'
      \<and> (\<forall>j. disk_sel t j = (if j = d_id d then Some (disk_exec (e_pj E) d ch r0) else disk_sel (disks s) j))
      \<and> (disks_ok (disks s) \<longrightarrow> disks_ok t)"
    if q: "sql_update dr_id disk_uq disk_chk (d_id d) p (us_exec disk_set u) (disks s) = Inr (Some (r, t))"
      "scanDisk (e_pj E) r = Inr d'" for p r
    using disk_store.upd_row [OF q(1)] disk_store.upd_sel [OF q(1)] disk_store.upd_ok [OF q(1)] q(2) ex by auto
  consider (e) "us_empty u" | (c) "\<not> us_empty u" "0 < sp" | (n) "\<not> us_empty u" "\<not> 0 < sp" by blast
  then have "\<exists>r0. disk_sel (disks s) (d_id d) = Some r0 \<and> (''size'' \<in> set ch \<longrightarrow> dr_size r0 \<le> d_size d)
     \<and> scanDisk (e_pj E) (disk_exec (e_pj E) d ch r0) = Inr d'
     \<and> (\<forall>j. disk_sel t j = (if j = d_id d then Some (disk_exec (e_pj E) d ch r0) else disk_sel (disks s) j))
     \<and> (disks_ok (disks s) \<longrightarrow> disks_ok t)"
  proof cases
    case e
    then have "''size'' \<notin> set ch" using disk_update_set_ok [OF us] by (auto simp: us_empty_pairs split: if_splits)
    then show ?thesis using st e disk_exec_empty [OF us e] by (auto simp: disk_update_stmt_def map_res_Inr_iff)
  next
    case c
    then obtain r where q: "sql_update dr_id disk_uq disk_chk (d_id d) (size_le u sp) (us_exec disk_set u) (disks s) = Inr (Some (r, t))"
      "scanDisk (e_pj E) r = Inr d'"
      using st by (auto simp: disk_update_stmt_def split: sum.splits if_splits option.splits)
    show ?thesis using upd [OF q] sz c by (auto simp: size_le_def)
  next
    case n
    then obtain r where q: "sql_update dr_id disk_uq disk_chk (d_id d) (\<lambda>_. True) (us_exec disk_set u) (disks s) = Inr (Some (r, t))"
      "scanDisk (e_pj E) r = Inr d'"
      using st by (auto simp: disk_update_stmt_def)
    show ?thesis using upd [OF q] sz n by auto
  qed
  then show ?thesis using s' by blast
qed

lemma disk_update_err: "disk_update E d el ch s = (Inl e, s') \<Longrightarrow> s' = s"
  unfolding disk_update_def by (rule pre_tx_err) (auto dest: in_tx_err)

lemma disk_update_shrink:
  assumes "disk_sel (disks s) (d_id d) = Some r0" "''size'' \<in> set ch" "d_size d < dr_size r0" "e_faults E = no_faults"
    "disk_update_set (e_pj E) d ch = Inr (u, sp)"
  shows "disk_update E d el ch s = (Inl (Wrapped ErrFailedPrecondition ''Disk size can only be increased''), s)"
proof -
  note sz = disk_update_size_param [OF assms(5)]
  have ne: "\<not> us_empty u" using disk_update_set_ok [OF assms(5)] assms(2) by (auto simp: us_empty_pairs)
  have "\<not> size_le u sp r0" using sz assms(2,3) by (simp add: size_le_def)
  then have "sql_update dr_id disk_uq disk_chk (d_id d) (size_le u sp) (us_exec disk_set u) (disks s) = Inr None"
    using assms(1) by (simp add: sql_update_None)
  then show ?thesis
    using assms sz ne
    by (simp add: disk_update_def pre_tx_def in_tx_def disk_update_stmt_def run_query_def scan_returning_def no_faults_def)
qed

end
