(* ===== verification/ImageRepo.thy ===== *)
theory ImageRepo
  imports Paging
begin

text \<open>
  internal/repo/image\_repo.go: columns, scan and insert arguments of the table
  images, and the methods of ImageRepo, GetLatestByFamily included.
\<close>

section \<open>Columns\<close>

fun imageStatusName :: "image_status \<Rightarrow> string" where
  "imageStatusName ImageStatusCreating = ''CREATING''"
| "imageStatusName ImageStatusReady = ''READY''"
| "imageStatusName ImageStatusError = ''ERROR''"
| "imageStatusName ImageStatusDeleting = ''DELETING''"
| "imageStatusName _ = ''STATUS_UNSPECIFIED''"

definition imageStatusFromName :: "string \<Rightarrow> image_status" where
  "imageStatusFromName s =
    (if s = ''CREATING'' then ImageStatusCreating
     else if s = ''READY'' then ImageStatusReady
     else if s = ''ERROR'' then ImageStatusError
     else if s = ''DELETING'' then ImageStatusDeleting
     else ImageStatusUnspecified)"

fun osTypeName :: "os_type \<Rightarrow> string" where
  "osTypeName OsTypeLinux = ''LINUX''"
| "osTypeName OsTypeWindows = ''WINDOWS''"
| "osTypeName _ = ''TYPE_UNSPECIFIED''"

definition osTypeFromName :: "string \<Rightarrow> os_type" where
  "osTypeFromName s =
    (if s = ''LINUX'' then OsTypeLinux else if s = ''WINDOWS'' then OsTypeWindows else OsTypeUnspecified)"

definition image_uq :: "image_row \<Rightarrow> (string \<times> string) option" where
  "image_uq r = name_key (ir_project_id r) (ir_name r)"

definition image_chk :: "image_row \<Rightarrow> bool" where "image_chk r = True"

definition imageInsertArgs :: "protojson \<Rightarrow> image \<Rightarrow> go_error + image_row" where
  "imageInsertArgs P i =
    bindE (marshalProtoJSONB P (im_hardware_generation i) ''Image.hardware_generation'') (\<lambda>hg.
    bindE (marshalProtoJSONB P (im_kms_key i) ''Image.kms_key'') (\<lambda>kms.
    Inr \<lparr> ir_id = im_id i, ir_project_id = im_project_id i, ir_created_at = pg_time (im_created_at i),
          ir_name = im_name i, ir_description = im_description i, ir_labels = Some (json_of_map (im_labels i)),
          ir_family = im_family i, ir_storage_size = im_storage_size i, ir_min_disk_size = im_min_disk_size i,
          ir_product_ids = Some (json_of_strs (im_product_ids i)), ir_status = imageStatusName (im_status i),
          ir_os_type = osTypeName (im_os_type i), ir_os_nvidia_driver = im_os_nvidia_driver i,
          ir_pooled = im_pooled i, ir_hardware_generation = hg, ir_kms_key = kms,
          ir_source_image_id = im_source_image_id i, ir_source_snapshot_id = im_source_snapshot_id i,
          ir_source_disk_id = im_source_disk_id i, ir_source_uri = im_source_uri i \<rparr>))"

definition scanImage :: "protojson \<Rightarrow> image_row \<Rightarrow> go_error + image" where
  "scanImage P r =
    bindE (unmarshalJSONB json_to_map None (ir_labels r) ''Image.labels'') (\<lambda>labels.
    bindE (unmarshalJSONB json_to_strs [] (ir_product_ids r) ''Image.product_ids'') (\<lambda>prods.
    bindE (unmarshalProtoJSONB P (ir_hardware_generation r) ''Image.hardware_generation'') (\<lambda>hg.
    bindE (unmarshalProtoJSONB P (ir_kms_key r) ''Image.kms_key'') (\<lambda>kms.
    Inr \<lparr> im_id = ir_id r, im_project_id = ir_project_id r, im_created_at = ir_created_at r,
          im_name = ir_name r, im_description = ir_description r, im_labels = labels, im_family = ir_family r,
          im_storage_size = ir_storage_size r, im_min_disk_size = ir_min_disk_size r, im_product_ids = prods,
          im_status = imageStatusFromName (ir_status r), im_os_type = osTypeFromName (ir_os_type r),
          im_os_nvidia_driver = ir_os_nvidia_driver r, im_pooled = ir_pooled r,
          im_hardware_generation = hg, im_kms_key = kms, im_source_image_id = ir_source_image_id r,
          im_source_snapshot_id = ir_source_snapshot_id r, im_source_disk_id = ir_source_disk_id r,
          im_source_uri = ir_source_uri r \<rparr>))))"

definition image_set :: "string \<Rightarrow> sqlval \<Rightarrow> image_row \<Rightarrow> image_row" where
  "image_set c v r =
    (case v of
       VText x \<Rightarrow> (if c = ''name'' then r\<lparr> ir_name := x \<rparr>
                   else if c = ''description'' then r\<lparr> ir_description := x \<rparr> else r)
     | VInt n \<Rightarrow> (if c = ''min_disk_size'' then r\<lparr> ir_min_disk_size := n \<rparr> else r)
     | VJson j \<Rightarrow> (if c = ''labels'' then r\<lparr> ir_labels := j \<rparr> else r)
     | VBool _ \<Rightarrow> r)"

section \<open>Methods\<close>

definition image_get :: "env \<Rightarrow> string \<Rightarrow> db \<Rightarrow> go_error + image" where
  "image_get E i s =
    map_err (wrapPgErr ''Image'' i)
      (run_query (e_faults E) (scan_row (scanImage (e_pj E)) (sql_select ir_id i (images s))))"

text \<open>\<^verbatim>\<open>ORDER BY created_at DESC, id DESC LIMIT 1\<close>\<close>

definition latest_row :: "image_row list \<Rightarrow> image_row option" where
  "latest_row rows = (case rev (sort_key (\<lambda>r. (ir_created_at r, ir_id r)) rows) of [] \<Rightarrow> None | r # _ \<Rightarrow> Some r)"

definition image_latest_by_family :: "env \<Rightarrow> string \<Rightarrow> string \<Rightarrow> db \<Rightarrow> go_error + image" where
  "image_latest_by_family E folderID family s =
    map_err (wrapPgErr ''Image'' family) (run_query (e_faults E) (scan_row (scanImage (e_pj E))
      (latest_row (filter (\<lambda>r. ir_project_id r = folderID \<and> ir_family r = family) (images s)))))"

definition image_view :: "env \<Rightarrow> (image_row, image) list_view" where
  "image_view E = \<lparr> lv_kind = ''Image'', lv_project = ir_project_id, lv_name = ir_name,
     lv_cursor = (\<lambda>r. (ir_created_at r, ir_id r)), lv_scan = scanImage (e_pj E),
     lv_dom_cursor = (\<lambda>d. (im_created_at d, im_id d)) \<rparr>"

definition image_list :: "corelib \<Rightarrow> env \<Rightarrow> list_filter \<Rightarrow> pagination \<Rightarrow> db \<Rightarrow> go_error + (image list \<times> string)" where
  "image_list C E f p s = repo_list C E (image_view E) f p (images s)"

definition image_insert :: "env \<Rightarrow> image \<Rightarrow> db \<Rightarrow> (go_error + image) \<times> db" where
  "image_insert E i =
    pre_tx (imageInsertArgs (e_pj E) i) (\<lambda>row.
    in_tx (e_faults E) (wrapPgErr ''Image'' (im_name i)) (\<lambda>s.
      bindE (map_err (wrapPgErr ''Image'' (im_name i)) (run_query (e_faults E)
              (scan_returning (scanImage (e_pj E))
                (map_res (\<lambda>t. Some (row, t)) (sql_insert ir_id image_uq image_chk row (images s)))))) (\<lambda>(result, t).
      bindE (or_internal (emitCompute E ''Image'' (im_id result) ''CREATED'' (PImage result) (s\<lparr> images := t \<rparr>))) (\<lambda>s1.
      bindE (or_internal (emitFGARegisterIntent E EventRegister ''Image'' (im_id result) (im_project_id result)
              (im_labels result) s1)) (\<lambda>s2. Inr (result, s2))))))"

definition image_update_set :: "image \<Rightarrow> string list \<Rightarrow> update_set" where
  "image_update_set i ch =
    us_add_if ch ''min_disk_size'' ''min_disk_size'' (VInt (im_min_disk_size i))
    (us_add_if ch ''labels'' ''labels'' (VJson (Some (json_of_map (im_labels i))))
    (us_add_if ch ''description'' ''description'' (VText (im_description i))
    (us_add_if ch ''name'' ''name'' (VText (im_name i)) (newUpdateSet (im_id i)))))"

definition image_update :: "env \<Rightarrow> image \<Rightarrow> bool \<Rightarrow> string list \<Rightarrow> db \<Rightarrow> (go_error + image) \<times> db" where
  "image_update E i emitLabelsRegister changed =
    in_tx (e_faults E) (wrapPgErr ''Image'' (im_id i)) (\<lambda>s.
      bindE (plain_update_stmt E (wrapPgErr ''Image'' (im_id i)) ir_id image_uq image_chk (scanImage (e_pj E))
               image_set (im_id i) (image_update_set i changed) (images s)) (\<lambda>(result, t).
      bindE (or_internal (emitCompute E ''Image'' (im_id result) ''UPDATED'' (PImage result) (s\<lparr> images := t \<rparr>))) (\<lambda>s1.
      bindE (if emitLabelsRegister
             then or_internal (emitFGARegisterIntent E EventRegister ''Image'' (im_id result) (im_project_id result)
                    (im_labels result) s1)
             else Inr s1) (\<lambda>s2. Inr (result, s2)))))"

definition image_delete_err :: "string \<Rightarrow> go_error \<Rightarrow> go_error" where
  "image_delete_err i e =
    (if is_no_rows e then Wrapped ErrNotFound (''Image '' @ i @ '' not found'') else wrapPgErr ''Image'' i e)"

definition image_delete :: "env \<Rightarrow> string \<Rightarrow> db \<Rightarrow> (go_error + unit) \<times> db" where
  "image_delete E i =
    in_tx (e_faults E) (wrapPgErr ''Image'' i) (\<lambda>s.
      bindE (map_err (image_delete_err i) (run_query (e_faults E)
              (scan_returning (\<lambda>r. Inr (ir_project_id r)) (Inr (sql_delete ir_id i (images s)))))) (\<lambda>(projectID, t).
      bindE (or_internal (emitCompute E ''Image'' i ''DELETED'' (PId i) (s\<lparr> images := t \<rparr>))) (\<lambda>s1.
      bindE (or_internal (emitFGARegisterIntent E EventUnregister ''Image'' i projectID None s1)) (\<lambda>s2.
      Inr ((), s2)))))"

section \<open>Lemmas\<close>

lemma imageStatus_roundtrip [simp]: "imageStatusFromName (imageStatusName st) = st"
  by (cases st) (simp_all add: imageStatusFromName_def)

lemma osType_roundtrip [simp]: "osTypeFromName (osTypeName st) = st"
  by (cases st) (simp_all add: osTypeFromName_def)

lemma scanImage_insertArgs:
  assumes "protojson_ok P" "imageInsertArgs P i = Inr row"
  shows "scanImage P row = Inr (i\<lparr> im_created_at := pg_time (im_created_at i) \<rparr>)"
  using assms(2) proto_roundtrip [OF assms(1)]
  by (auto simp: imageInsertArgs_def scanImage_def)

lemma scanImage_cols:
  "scanImage P row = Inr d \<Longrightarrow> im_id d = ir_id row \<and> im_project_id d = ir_project_id row
     \<and> im_created_at d = ir_created_at row \<and> im_name d = ir_name row \<and> im_min_disk_size d = ir_min_disk_size row
     \<and> im_family d = ir_family row"
  by (auto simp: scanImage_def)

abbreviation image_sel :: "image_row list \<Rightarrow> string \<Rightarrow> image_row option" where
  "image_sel t i \<equiv> sql_select ir_id i t"

abbreviation images_ok :: "image_row list \<Rightarrow> bool" where
  "images_ok \<equiv> table_ok ir_id image_uq image_chk"

interpretation image_store: row_store image_sel "sql_insert ir_id image_uq image_chk"
  "sql_update ir_id image_uq image_chk" "sql_delete ir_id" ir_id images_ok
  by (rule row_store_sql)

lemma image_get_ok: "image_get E i s = Inr d \<Longrightarrow> \<exists>r. image_sel (images s) i = Some r \<and> scanImage (e_pj E) r = Inr d"
  by (auto simp: image_get_def)

lemma image_insert_ok:
  assumes "image_insert E d s = (Inr d', s')"
  shows "\<exists>row t. imageInsertArgs (e_pj E) d = Inr row \<and> sql_insert ir_id image_uq image_chk row (images s) = Inr t
     \<and> scanImage (e_pj E) row = Inr d'
     \<and> s' = s\<lparr> images := t, outbox := outbox s @ [event_of E ''Image'' (im_id d') ''CREATED'' (PImage d')],
            fga_outbox := fga_outbox s @ intents_of E EventRegister ''Image'' (im_id d') (im_project_id d') (im_labels d') \<rparr>"
  using assms
  by (auto simp: image_insert_def pre_tx_ok in_tx_ok emitCompute_ok emitIntent_iff map_res_Inr_iff)

lemma image_insert_err: "image_insert E d s = (Inl e, s') \<Longrightarrow> s' = s"
  unfolding image_insert_def by (rule pre_tx_err) (auto dest: in_tx_err)

lemma image_delete_ok:
  assumes "image_delete E i s = (Inr (), s')"
  shows "\<exists>r t. sql_delete ir_id i (images s) = Some (r, t)
     \<and> s' = s\<lparr> images := t, outbox := outbox s @ [event_of E ''Image'' i ''DELETED'' (PId i)],
            fga_outbox := fga_outbox s @ intents_of E EventUnregister ''Image'' i (ir_project_id r) None \<rparr>"
  using assms by (auto simp: image_delete_def in_tx_ok emitCompute_ok emitIntent_iff)

lemma image_delete_error: "image_delete E i s = (Inl e, s') \<Longrightarrow> s' = s"
  unfolding image_delete_def by (rule in_tx_err)

definition image_exec :: "image \<Rightarrow> string list \<Rightarrow> image_row \<Rightarrow> image_row" where
  "image_exec i ch r = r\<lparr>
     ir_name := (if ''name'' \<in> set ch then im_name i else ir_name r),
     ir_description := (if ''description'' \<in> set ch then im_description i else ir_description r),
     ir_labels := (if ''labels'' \<in> set ch then Some (json_of_map (im_labels i)) else ir_labels r),
     ir_min_disk_size := (if ''min_disk_size'' \<in> set ch then im_min_disk_size i else ir_min_disk_size r) \<rparr>"

lemma image_exec_us: "us_exec image_set (image_update_set i ch) r = image_exec i ch r"
  by (simp add: us_exec_pairs image_update_set_def image_exec_def image_set_def)

lemma image_exec_pk [simp]: "ir_id (image_exec i ch r) = ir_id r"
  by (simp add: image_exec_def)

lemma image_update_ok:
  assumes "image_update E d el ch s = (Inr d', s')"
  shows "\<exists>r0 t. image_sel (images s) (im_id d) = Some r0
     \<and> scanImage (e_pj E) (image_exec d ch r0) = Inr d'
     \<and> (\<forall>j. image_sel t j = (if j = im_id d then Some (image_exec d ch r0) else image_sel (images s) j))
     \<and> (images_ok (images s) \<longrightarrow> images_ok t)
     \<and> s' = s\<lparr> images := t, outbox := outbox s @ [event_of E ''Image'' (im_id d') ''UPDATED'' (PImage d')],
            fga_outbox := fga_outbox s @ (if el then intents_of E EventRegister ''Image'' (im_id d') (im_project_id d') (im_labels d') else []) \<rparr>"
proof -
  obtain t where st: "plain_update_stmt E (wrapPgErr ''Image'' (im_id d)) ir_id image_uq image_chk (scanImage (e_pj E))
               image_set (im_id d) (image_update_set d ch) (images s) = Inr (d', t)"
    and s': "s' = s\<lparr> images := t, outbox := outbox s @ [event_of E ''Image'' (im_id d') ''UPDATED'' (PImage d')],
            fga_outbox := fga_outbox s @ (if el then intents_of E EventRegister ''Image'' (im_id d') (im_project_id d') (im_labels d') else []) \<rparr>"
    using assms by (cases el) (auto simp: image_update_def in_tx_ok emitCompute_ok emitIntent_iff)
  show ?thesis
    using plain_update_stmt_ok [where ex = "image_exec d ch", OF st image_exec_us image_exec_pk] s' by blast
qed

lemma image_update_err: "image_update E d el ch s = (Inl e, s') \<Longrightarrow> s' = s"
  unfolding image_update_def by (rule in_tx_err)

lemma latest_row_Some:
  assumes "latest_row rows = Some r"
  shows "r \<in> set rows" "\<forall>x\<in>set rows. (ir_created_at x, ir_id x) \<le> (ir_created_at r, ir_id r)"
proof -
  define k :: "image_row \<Rightarrow> int \<times> string" where "k = (\<lambda>r. (ir_created_at r, ir_id r))"
  obtain ys where ys: "rev (sort_key k rows) = r # ys"
    using assms by (auto simp: latest_row_def k_def split: list.splits)
  then have "sort_key k rows = rev ys @ [r]" by (metis rev.simps(2) rev_rev_ident)
  moreover from this have "set rows = set ys \<union> {r}" by (metis set_sort set_append set_rev list.set(1,2))
  moreover have "sorted (List.map k (sort_key k rows))" by simp
  ultimately have "r \<in> set rows \<and> (\<forall>x\<in>set rows. k x \<le> k r)"
    by (auto simp: sorted_append)
  then show "r \<in> set rows" "\<forall>x\<in>set rows. (ir_created_at x, ir_id x) \<le> (ir_created_at r, ir_id r)"
    by (auto simp: k_def)
qed

lemma latest_row_None [simp]: "latest_row rows = None \<longleftrightarrow> rows = []"
  by (auto simp: latest_row_def split: list.splits) (metis length_0_conv length_sort)

end
