(* ===== verification/SnapshotRepo.thy ===== *)
theory SnapshotRepo
  imports Paging
begin

text \<open>
  internal/repo/snapshot\_repo.go: columns, scan and insert arguments of the
  table snapshots, and the methods of SnapshotRepo.
\<close>

section \<open>Columns\<close>

fun snapshotStatusName :: "snapshot_status \<Rightarrow> string" where
  "snapshotStatusName SnapshotStatusCreating = ''CREATING''"
| "snapshotStatusName SnapshotStatusReady = ''READY''"
| "snapshotStatusName SnapshotStatusError = ''ERROR''"
| "snapshotStatusName SnapshotStatusDeleting = ''DELETING''"
| "snapshotStatusName _ = ''STATUS_UNSPECIFIED''"

definition snapshotStatusFromName :: "string \<Rightarrow> snapshot_status" where
  "snapshotStatusFromName s =
    (if s = ''CREATING'' then SnapshotStatusCreating
     else if s = ''READY'' then SnapshotStatusReady
     else if s = ''ERROR'' then SnapshotStatusError
     else if s = ''DELETING'' then SnapshotStatusDeleting
     else SnapshotStatusUnspecified)"

definition snapshot_uq :: "snapshot_row \<Rightarrow> (string \<times> string) option" where
  "snapshot_uq r = name_key (sr_project_id r) (sr_name r)"

definition snapshot_chk :: "snapshot_row \<Rightarrow> bool" where "snapshot_chk r = True"

definition snapshotInsertArgs :: "protojson \<Rightarrow> snapshot \<Rightarrow> go_error + snapshot_row" where
  "snapshotInsertArgs P i =
    bindE (marshalProtoJSONB P (sn_hardware_generation i) ''Snapshot.hardware_generation'') (\<lambda>hg.
    bindE (marshalProtoJSONB P (sn_kms_key i) ''Snapshot.kms_key'') (\<lambda>kms.
    Inr \<lparr> sr_id = sn_id i, sr_project_id = sn_project_id i, sr_created_at = pg_time (sn_created_at i),
          sr_name = sn_name i, sr_description = sn_description i, sr_labels = Some (json_of_map (sn_labels i)),
          sr_storage_size = sn_storage_size i, sr_disk_size = sn_disk_size i,
          sr_product_ids = Some (json_of_strs (sn_product_ids i)), sr_status = snapshotStatusName (sn_status i),
          sr_source_disk_id = sn_source_disk_id i, sr_hardware_generation = hg, sr_kms_key = kms \<rparr>))"

definition scanSnapshot :: "protojson \<Rightarrow> snapshot_row \<Rightarrow> go_error + snapshot" where
  "scanSnapshot P r =
    bindE (unmarshalJSONB json_to_map None (sr_labels r) ''Snapshot.labels'') (\<lambda>labels.
    bindE (unmarshalJSONB json_to_strs [] (sr_product_ids r) ''Snapshot.product_ids'') (\<lambda>prods.
    bindE (unmarshalProtoJSONB P (sr_hardware_generation r) ''Snapshot.hardware_generation'') (\<lambda>hg.
    bindE (unmarshalProtoJSONB P (sr_kms_key r) ''Snapshot.kms_key'') (\<lambda>kms.
    Inr \<lparr> sn_id = sr_id r, sn_project_id = sr_project_id r, sn_created_at = sr_created_at r,
          sn_name = sr_name r, sn_description = sr_description r, sn_labels = labels,
          sn_storage_size = sr_storage_size r, sn_disk_size = sr_disk_size r, sn_product_ids = prods,
          sn_status = snapshotStatusFromName (sr_status r), sn_source_disk_id = sr_source_disk_id r,
          sn_hardware_generation = hg, sn_kms_key = kms \<rparr>))))"

definition snapshot_set :: "string \<Rightarrow> sqlval \<Rightarrow> snapshot_row \<Rightarrow> snapshot_row" where
  "snapshot_set c v r =
    (case v of
       VText x \<Rightarrow> (if c = ''name'' then r\<lparr> sr_name := x \<rparr>
                   else if c = ''description'' then r\<lparr> sr_description := x \<rparr> else r)
     | VJson j \<Rightarrow> (if c = ''labels'' then r\<lparr> sr_labels := j \<rparr> else r)
     | VInt _ \<Rightarrow> r | VBool _ \<Rightarrow> r)"

section \<open>Methods\<close>

definition snapshot_get :: "env \<Rightarrow> string \<Rightarrow> db \<Rightarrow> go_error + snapshot" where
  "snapshot_get E i s =
    map_err (wrapPgErr ''Snapshot'' i)
      (run_query (e_faults E) (scan_row (scanSnapshot (e_pj E)) (sql_select sr_id i (snapshots s))))"

definition snapshot_view :: "env \<Rightarrow> (snapshot_row, snapshot) list_view" where
  "snapshot_view E = \<lparr> lv_kind = ''Snapshot'', lv_project = sr_project_id, lv_name = sr_name,
     lv_cursor = (\<lambda>r. (sr_created_at r, sr_id r)), lv_scan = scanSnapshot (e_pj E),
     lv_dom_cursor = (\<lambda>d. (sn_created_at d, sn_id d)) \<rparr>"

definition snapshot_list :: "corelib \<Rightarrow> env \<Rightarrow> list_filter \<Rightarrow> pagination \<Rightarrow> db \<Rightarrow> go_error + (snapshot list \<times> string)" where
  "snapshot_list C E f p s = repo_list C E (snapshot_view E) f p (snapshots s)"

definition snapshot_insert :: "env \<Rightarrow> snapshot \<Rightarrow> db \<Rightarrow> (go_error + snapshot) \<times> db" where
  "snapshot_insert E i =
    pre_tx (snapshotInsertArgs (e_pj E) i) (\<lambda>row.
    in_tx (e_faults E) (wrapPgErr ''Snapshot'' (sn_name i)) (\<lambda>s.
      bindE (map_err (wrapPgErr ''Snapshot'' (sn_name i)) (run_query (e_faults E)
              (scan_returning (scanSnapshot (e_pj E))
                (map_res (\<lambda>t. Some (row, t)) (sql_insert sr_id snapshot_uq snapshot_chk row (snapshots s)))))) (\<lambda>(result, t).
      bindE (or_internal (emitCompute E ''Snapshot'' (sn_id result) ''CREATED'' (PSnapshot result) (s\<lparr> snapshots := t \<rparr>))) (\<lambda>s1.
      bindE (or_internal (emitFGARegisterIntent E EventRegister ''Snapshot'' (sn_id result) (sn_project_id result)
              (sn_labels result) s1)) (\<lambda>s2. Inr (result, s2))))))"

definition snapshot_update_set :: "snapshot \<Rightarrow> string list \<Rightarrow> update_set" where
  "snapshot_update_set i ch =
    us_add_if ch ''labels'' ''labels'' (VJson (Some (json_of_map (sn_labels i))))
    (us_add_if ch ''description'' ''description'' (VText (sn_description i))
    (us_add_if ch ''name'' ''name'' (VText (sn_name i)) (newUpdateSet (sn_id i))))"

definition snapshot_update :: "env \<Rightarrow> snapshot \<Rightarrow> bool \<Rightarrow> string list \<Rightarrow> db \<Rightarrow> (go_error + snapshot) \<times> db" where
  "snapshot_update E i emitLabelsRegister changed =
    in_tx (e_faults E) (wrapPgErr ''Snapshot'' (sn_id i)) (\<lambda>s.
      bindE (plain_update_stmt E (wrapPgErr ''Snapshot'' (sn_id i)) sr_id snapshot_uq snapshot_chk (scanSnapshot (e_pj E))
               snapshot_set (sn_id i) (snapshot_update_set i changed) (snapshots s)) (\<lambda>(result, t).
      bindE (or_internal (emitCompute E ''Snapshot'' (sn_id result) ''UPDATED'' (PSnapshot result) (s\<lparr> snapshots := t \<rparr>))) (\<lambda>s1.
      bindE (if emitLabelsRegister
             then or_internal (emitFGARegisterIntent E EventRegister ''Snapshot'' (sn_id result) (sn_project_id result)
                    (sn_labels result) s1)
             else Inr s1) (\<lambda>s2. Inr (result, s2)))))"

definition snapshot_delete_err :: "string \<Rightarrow> go_error \<Rightarrow> go_error" where
  "snapshot_delete_err i e =
    (if is_no_rows e then Wrapped ErrNotFound (''Snapshot '' @ i @ '' not found'') else wrapPgErr ''Snapshot'' i e)"

definition snapshot_delete :: "env \<Rightarrow> string \<Rightarrow> db \<Rightarrow> (go_error + unit) \<times> db" where
  "snapshot_delete E i =
    in_tx (e_faults E) (wrapPgErr ''Snapshot'' i) (\<lambda>s.
      bindE (map_err (snapshot_delete_err i) (run_query (e_faults E)
              (scan_returning (\<lambda>r. Inr (sr_project_id r)) (Inr (sql_delete sr_id i (snapshots s)))))) (\<lambda>(projectID, t).
      bindE (or_internal (emitCompute E ''Snapshot'' i ''DELETED'' (PId i) (s\<lparr> snapshots := t \<rparr>))) (\<lambda>s1.
      bindE (or_internal (emitFGARegisterIntent E EventUnregister ''Snapshot'' i projectID None s1)) (\<lambda>s2.
      Inr ((), s2)))))"

section \<open>Lemmas\<close>

lemma snapshotStatus_roundtrip [simp]: "snapshotStatusFromName (snapshotStatusName st) = st"
  by (cases st) (simp_all add: snapshotStatusFromName_def)

lemma scanSnapshot_insertArgs:
  assumes "protojson_ok P" "snapshotInsertArgs P i = Inr row"
  shows "scanSnapshot P row = Inr (i\<lparr> sn_created_at := pg_time (sn_created_at i) \<rparr>)"
  using assms(2) proto_roundtrip [OF assms(1)]
  by (auto simp: snapshotInsertArgs_def scanSnapshot_def)

lemma scanSnapshot_cols:
  "scanSnapshot P row = Inr d \<Longrightarrow> sn_id d = sr_id row \<and> sn_project_id d = sr_project_id row
     \<and> sn_created_at d = sr_created_at row \<and> sn_name d = sr_name row \<and> sn_disk_size d = sr_disk_size row"
  by (auto simp: scanSnapshot_def)

abbreviation snapshot_sel :: "snapshot_row list \<Rightarrow> string \<Rightarrow> snapshot_row option" where
  "snapshot_sel t i \<equiv> sql_select sr_id i t"

abbreviation snapshots_ok :: "snapshot_row list \<Rightarrow> bool" where
  "snapshots_ok \<equiv> table_ok sr_id snapshot_uq snapshot_chk"

interpretation snapshot_store: row_store snapshot_sel "sql_insert sr_id snapshot_uq snapshot_chk"
  "sql_update sr_id snapshot_uq snapshot_chk" "sql_delete sr_id" sr_id snapshots_ok
  by (rule row_store_sql)

lemma snapshot_get_ok: "snapshot_get E i s = Inr d \<Longrightarrow> \<exists>r. snapshot_sel (snapshots s) i = Some r \<and> scanSnapshot (e_pj E) r = Inr d"
  by (auto simp: snapshot_get_def)

lemma snapshot_insert_ok:
  assumes "snapshot_insert E d s = (Inr d', s')"
  shows "\<exists>row t. snapshotInsertArgs (e_pj E) d = Inr row \<and> sql_insert sr_id snapshot_uq snapshot_chk row (snapshots s) = Inr t
     \<and> scanSnapshot (e_pj E) row = Inr d'
     \<and> s' = s\<lparr> snapshots := t, outbox := outbox s @ [event_of E ''Snapshot'' (sn_id d') ''CREATED'' (PSnapshot d')],
            fga_outbox := fga_outbox s @ intents_of E EventRegister ''Snapshot'' (sn_id d') (sn_project_id d') (sn_labels d') \<rparr>"
  using assms
  by (auto simp: snapshot_insert_def pre_tx_ok in_tx_ok emitCompute_ok emitIntent_iff map_res_Inr_iff)

lemma snapshot_insert_err: "snapshot_insert E d s = (Inl e, s') \<Longrightarrow> s' = s"
  unfolding snapshot_insert_def by (rule pre_tx_err) (auto dest: in_tx_err)

lemma snapshot_delete_ok:
  assumes "snapshot_delete E i s = (Inr (), s')"
  shows "\<exists>r t. sql_delete sr_id i (snapshots s) = Some (r, t)
     \<and> s' = s\<lparr> snapshots := t, outbox := outbox s @ [event_of E ''Snapshot'' i ''DELETED'' (PId i)],
            fga_outbox := fga_outbox s @ intents_of E EventUnregister ''Snapshot'' i (sr_project_id r) None \<rparr>"
  using assms by (auto simp: snapshot_delete_def in_tx_ok emitCompute_ok emitIntent_iff)

lemma snapshot_delete_error: "snapshot_delete E i s = (Inl e, s') \<Longrightarrow> s' = s"
  unfolding snapshot_delete_def by (rule in_tx_err)

definition snapshot_exec :: "snapshot \<Rightarrow> string list \<Rightarrow> snapshot_row \<Rightarrow> snapshot_row" where
  "snapshot_exec i ch r = r\<lparr>
     sr_name := (if ''name'' \<in> set ch then sn_name i else sr_name r),
     sr_description := (if ''description'' \<in> set ch then sn_description i else sr_description r),
     sr_labels := (if ''labels'' \<in> set ch then Some (json_of_map (sn_labels i)) else sr_labels r) \<rparr>"

lemma snapshot_exec_us: "us_exec snapshot_set (snapshot_update_set i ch) r = snapshot_exec i ch r"
  by (simp add: us_exec_pairs snapshot_update_set_def snapshot_exec_def snapshot_set_def)

lemma snapshot_exec_pk [simp]: "sr_id (snapshot_exec i ch r) = sr_id r"
  by (simp add: snapshot_exec_def)

lemma snapshot_update_ok:
  assumes "snapshot_update E d el ch s = (Inr d', s')"
  shows "\<exists>r0 t. snapshot_sel (snapshots s) (sn_id d) = Some r0
     \<and> scanSnapshot (e_pj E) (snapshot_exec d ch r0) = Inr d'
     \<and> (\<forall>j. snapshot_sel t j = (if j = sn_id d then Some (snapshot_exec d ch r0) else snapshot_sel (snapshots s) j))
     \<and> (snapshots_ok (snapshots s) \<longrightarrow> snapshots_ok t)
     \<and> s' = s\<lparr> snapshots := t, outbox := outbox s @ [event_of E ''Snapshot'' (sn_id d') ''UPDATED'' (PSnapshot d')],
            fga_outbox := fga_outbox s @ (if el then intents_of E EventRegister ''Snapshot'' (sn_id d') (sn_project_id d') (sn_labels d') else []) \<rparr>"
proof -
  obtain t where st: "plain_update_stmt E (wrapPgErr ''Snapshot'' (sn_id d)) sr_id snapshot_uq snapshot_chk (scanSnapshot (e_pj E))
               snapshot_set (sn_id d) (snapshot_update_set d ch) (snapshots s) = Inr (d', t)"
    and s': "s' = s\<lparr> snapshots := t, outbox := outbox s @ [event_of E ''Snapshot'' (sn_id d') ''UPDATED'' (PSnapshot d')],
            fga_outbox := fga_outbox s @ (if el then intents_of E EventRegister ''Snapshot'' (sn_id d') (sn_project_id d') (sn_labels d') else []) \<rparr>"
    using assms by (cases el) (auto simp: snapshot_update_def in_tx_ok emitCompute_ok emitIntent_iff)
  show ?thesis
    using plain_update_stmt_ok [where ex = "snapshot_exec d ch", OF st snapshot_exec_us snapshot_exec_pk] s' by blast
qed

lemma snapshot_update_err: "snapshot_update E d el ch s = (Inl e, s') \<Longrightarrow> s' = s"
  unfolding snapshot_update_def by (rule in_tx_err)

end
