(* ===== verification/CatalogRepo.thy ===== *)
theory CatalogRepo
  imports Paging
begin

text \<open>
  internal/repo/catalog\_repo.go: the DiskType catalog, a table without
  outbox and transactions, listed by id.
\<close>

definition scanDiskType :: "disk_type_row \<Rightarrow> go_error + disk_type" where
  "scanDiskType r =
    bindE (unmarshalJSONB json_to_strs [] (ty_zone_ids r) ''DiskType.zone_ids'') (\<lambda>z.
    Inr \<lparr> dt_id = ty_id r, dt_description = ty_description r, dt_zone_ids = z, dt_created_at = ty_created_at r \<rparr>)"

definition disk_type_chk :: "disk_type_row \<Rightarrow> bool" where "disk_type_chk r = True"
definition disk_type_uq :: "disk_type_row \<Rightarrow> unit option" where "disk_type_uq r = None"

definition disk_type_get :: "env \<Rightarrow> string \<Rightarrow> db \<Rightarrow> go_error + disk_type" where
  "disk_type_get E i s =
    (case run_query (e_faults E) (case sql_select ty_id i (disk_types s) of None \<Rightarrow> Inl NoRows | Some r \<Rightarrow> Inr r) of
       Inl e \<Rightarrow> Inl (wrapPgErr ''Disk type'' i e)
     | Inr r \<Rightarrow> scanDiskType r)"

definition disk_type_list :: "corelib \<Rightarrow> env \<Rightarrow> pagination \<Rightarrow> db \<Rightarrow> go_error + (disk_type list \<times> string)" where
  "disk_type_list C E p s =
    bindE (cl_page_size C (pg_size p)) (\<lambda>pageSize.
    bindE (if pg_token p = '''' then Inr None
           else map_res (\<lambda>(_, i). Some i) (map_err invalidPageTokenErr (decodePageToken (pg_token p)))) (\<lambda>c.
    bindE (map_err (wrapPgErr ''Disk type'' '''') (run_query (e_faults E)
            (Inr (take (nat (pageSize + 1))
              (filter (\<lambda>r. case c of None \<Rightarrow> True | Some i \<Rightarrow> i < ty_id r) (sort_key ty_id (disk_types s))))))) (\<lambda>rows.
    bindE (scan_all scanDiskType rows) (\<lambda>out.
    Inr (cut_page (\<lambda>t. (dt_created_at t, dt_id t)) (nat pageSize) out)))))"

definition disk_type_insert :: "env \<Rightarrow> disk_type \<Rightarrow> db \<Rightarrow> (go_error + disk_type) \<times> db" where
  "disk_type_insert E t s =
    (let row = \<lparr> ty_id = dt_id t, ty_description = dt_description t,
                 ty_zone_ids = Some (json_of_strs (dt_zone_ids t)), ty_created_at = pg_time (e_now E) \<rparr>
     in case run_query (e_faults E) (sql_insert ty_id disk_type_uq disk_type_chk row (disk_types s)) of
          Inl e \<Rightarrow> (Inl (wrapPgErr ''Disk type'' (dt_id t) e), s)
        | Inr ts \<Rightarrow> (scanDiskType row, s\<lparr> disk_types := ts \<rparr>))"

definition disk_type_update :: "env \<Rightarrow> disk_type \<Rightarrow> db \<Rightarrow> (go_error + disk_type) \<times> db" where
  "disk_type_update E t s =
    (case run_query (e_faults E) (sql_update ty_id disk_type_uq disk_type_chk (dt_id t) (\<lambda>_. True)
        (\<lambda>r. r\<lparr> ty_description := dt_description t, ty_zone_ids := Some (json_of_strs (dt_zone_ids t)) \<rparr>)
        (disk_types s)) of
       Inl e \<Rightarrow> (Inl (wrapPgErr ''Disk type'' (dt_id t) e), s)
     | Inr None \<Rightarrow> (Inl (wrapPgErr ''Disk type'' (dt_id t) NoRows), s)
     | Inr (Some (r, ts)) \<Rightarrow> (scanDiskType r, s\<lparr> disk_types := ts \<rparr>))"

definition disk_type_delete :: "env \<Rightarrow> string \<Rightarrow> db \<Rightarrow> (go_error + unit) \<times> db" where
  "disk_type_delete E i s =
    (case f_query (e_faults E) of
       Some e \<Rightarrow> (Inl (wrapPgErr ''Disk type'' i e), s)
     | None \<Rightarrow> (case sql_delete ty_id i (disk_types s) of
         None \<Rightarrow> (Inl (Sentinel ErrNotFound), s)
       | Some (_, ts) \<Rightarrow> (Inr (), s\<lparr> disk_types := ts \<rparr>)))"

abbreviation disk_types_ok :: "disk_type_row list \<Rightarrow> bool" where
  "disk_types_ok \<equiv> table_ok ty_id disk_type_uq disk_type_chk"

interpretation disk_type_store: row_store "\<lambda>t i. sql_select ty_id i t" "sql_insert ty_id disk_type_uq disk_type_chk"
  "sql_update ty_id disk_type_uq disk_type_chk" "sql_delete ty_id" ty_id disk_types_ok
  by (rule row_store_sql)

lemma disk_type_insert_ok:
  assumes "disk_type_insert E t s = (Inr t', s')"
  shows "sql_select ty_id (dt_id t) (disk_types s) = None \<and> t' = t\<lparr> dt_created_at := pg_time (e_now E) \<rparr>
    \<and> disk_type_get (E\<lparr> e_faults := no_faults \<rparr>) (dt_id t) s' = Inr t'
    \<and> (\<forall>j. j \<noteq> dt_id t \<longrightarrow> sql_select ty_id j (disk_types s') = sql_select ty_id j (disk_types s))"
proof -
  define row where "row = \<lparr> ty_id = dt_id t, ty_description = dt_description t,
                 ty_zone_ids = Some (json_of_strs (dt_zone_ids t)), ty_created_at = pg_time (e_now E) \<rparr>"
  obtain ts where i: "sql_insert ty_id disk_type_uq disk_type_chk row (disk_types s) = Inr ts"
    and r: "scanDiskType row = Inr t'" "s' = s\<lparr> disk_types := ts \<rparr>"
    using assms by (auto simp: disk_type_insert_def Let_def row_def [symmetric] split: sum.splits)
  have "sql_select ty_id j ts = (if j = dt_id t then Some row else sql_select ty_id j (disk_types s))" for j
    using disk_type_store.ins_sel [OF i] by (simp add: row_def)
  then show ?thesis
    using r disk_type_store.ins_fresh [OF i]
    by (auto simp: disk_type_get_def run_query_def no_faults_def scanDiskType_def row_def)
qed

end
