(* ===== verification/InstanceRepo.thy ===== *)
theory InstanceRepo
  imports Paging
begin

text \<open>
  internal/repo/instance\_repo.go: columns, scan and insert arguments of the
  table instances, and the methods of InstanceRepo: the status
  compare-and-set, the attach gate, MarkDeleting, the metadata merge and the
  sizing update guarded by status = 'STOPPED'.
\<close>

section \<open>Columns\<close>

text \<open>The value names of the enum Instance.Status (docs/architecture/03-instance-lifecycle.md).\<close>

definition Instance_Status_name :: "(instance_status \<times> string) list" where
  "Instance_Status_name = [(InstanceStatusUnspecified, ''STATUS_UNSPECIFIED''),
    (InstanceStatusProvisioning, ''PROVISIONING''), (InstanceStatusRunning, ''RUNNING''),
    (InstanceStatusStopping, ''STOPPING''), (InstanceStatusStopped, ''STOPPED''),
    (InstanceStatusStarting, ''STARTING''), (InstanceStatusRestarting, ''RESTARTING''),
    (InstanceStatusUpdating, ''UPDATING''), (InstanceStatusError, ''ERROR''),
    (InstanceStatusCrashed, ''CRASHED''), (InstanceStatusDeleting, ''DELETING'')]"

definition instanceStatusName :: "instance_status \<Rightarrow> string" where
  "instanceStatusName st = (case map_of Instance_Status_name st of Some v \<Rightarrow> v | None \<Rightarrow> ''STATUS_UNSPECIFIED'')"

definition instanceStatusFromName :: "string \<Rightarrow> instance_status" where
  "instanceStatusFromName s =
    (case map_of (List.map (\<lambda>(a, b). (b, a)) Instance_Status_name) s of
       Some v \<Rightarrow> v | None \<Rightarrow> InstanceStatusUnspecified)"

definition orEmptyMap :: "gomap \<Rightarrow> gomap" where
  "orEmptyMap m = (case m of None \<Rightarrow> Some [] | Some xs \<Rightarrow> Some xs)"

definition instance_uq :: "instance_trow \<Rightarrow> (string \<times> string) option" where
  "instance_uq r = name_key (tr_project_id r) (tr_name r)"

text \<open>CHECK of migration 0014\<close>

definition instance_chk :: "instance_trow \<Rightarrow> bool" where
  "instance_chk r \<longleftrightarrow> 0 \<le> tr_cpu_guarantee r \<and> tr_cpu_guarantee r \<le> 100"

definition instanceInsertArgs :: "protojson \<Rightarrow> instance_row \<Rightarrow> go_error + instance_trow" where
  "instanceInsertArgs P i =
    bindE (marshalProtoJSONB P (in_metadata_options i) ''Instance.metadata_options'') (\<lambda>mdo.
    bindE (marshalProtoJSONB P (in_placement_policy i) ''Instance.placement_policy'') (\<lambda>pp.
    bindE (marshalProtoJSONB P (in_hardware_generation i) ''Instance.hardware_generation'') (\<lambda>hg.
    bindE (marshalProtoJSONB P (in_application i) ''Instance.application'') (\<lambda>ap.
    Inr \<lparr> tr_id = in_id i, tr_project_id = in_project_id i, tr_created_at = pg_time (in_created_at i),
          tr_name = in_name i, tr_description = in_description i,
          tr_labels = Some (json_of_map (orEmptyMap (in_labels i))), tr_zone_id = in_zone_id i,
          tr_platform_id = in_platform_id i, tr_cores = in_cores i, tr_memory = in_memory i,
          tr_core_fraction = in_core_fraction i, tr_gpus = in_gpus i, tr_cpu_guarantee = in_cpu_guarantee i,
          tr_image = in_image i, tr_image_digest = in_image_digest i,
          tr_status = instanceStatusName (in_status i),
          tr_metadata = Some (json_of_map (orEmptyMap (in_metadata i))), tr_metadata_options = mdo,
          tr_service_account_id = in_service_account_id i, tr_hostname = in_hostname i, tr_fqdn = in_fqdn i,
          tr_network_settings_type = in_network_settings_type i, tr_preemptible = in_preemptible i,
          tr_placement_policy = pp, tr_serial_ssh = in_serial_ssh i, tr_gpu_cluster_id = in_gpu_cluster_id i,
          tr_hardware_generation = hg, tr_maintenance_policy = in_maintenance_policy i,
          tr_maintenance_grace = in_maintenance_grace i, tr_reserved_pool_id = in_reserved_pool_id i,
          tr_host_group_id = in_host_group_id i, tr_host_id = in_host_id i, tr_application = ap \<rparr>))))"

definition scanInstance :: "protojson \<Rightarrow> instance_trow \<Rightarrow> go_error + instance_row" where
  "scanInstance P r =
    bindE (unmarshalJSONB json_to_map None (tr_labels r) ''Instance.labels'') (\<lambda>labels.
    bindE (unmarshalJSONB json_to_map None (tr_metadata r) ''Instance.metadata'') (\<lambda>md.
    bindE (unmarshalProtoJSONB P (tr_metadata_options r) ''Instance.metadata_options'') (\<lambda>mdo.
    bindE (unmarshalProtoJSONB P (tr_placement_policy r) ''Instance.placement_policy'') (\<lambda>pp.
    bindE (unmarshalProtoJSONB P (tr_hardware_generation r) ''Instance.hardware_generation'') (\<lambda>hg.
    bindE (unmarshalProtoJSONB P (tr_application r) ''Instance.application'') (\<lambda>ap.
    Inr \<lparr> in_id = tr_id r, in_project_id = tr_project_id r, in_created_at = tr_created_at r,
          in_name = tr_name r, in_description = tr_description r, in_labels = labels,
          in_zone_id = tr_zone_id r, in_platform_id = tr_platform_id r, in_cores = tr_cores r,
          in_memory = tr_memory r, in_core_fraction = tr_core_fraction r, in_gpus = tr_gpus r,
          in_cpu_guarantee = tr_cpu_guarantee r, in_image = tr_image r, in_image_digest = tr_image_digest r,
          in_status = instanceStatusFromName (tr_status r), in_metadata = md, in_metadata_options = mdo,
          in_service_account_id = tr_service_account_id r, in_hostname = tr_hostname r, in_fqdn = tr_fqdn r,
          in_network_settings_type = tr_network_settings_type r, in_preemptible = tr_preemptible r,
          in_placement_policy = pp, in_serial_ssh = tr_serial_ssh r, in_gpu_cluster_id = tr_gpu_cluster_id r,
          in_hardware_generation = hg, in_maintenance_policy = tr_maintenance_policy r,
          in_maintenance_grace = tr_maintenance_grace r, in_reserved_pool_id = tr_reserved_pool_id r,
          in_host_group_id = tr_host_group_id r, in_host_id = tr_host_id r, in_application = ap,
          in_nics = [], in_disks = [] \<rparr>))))))"

definition instance_set :: "string \<Rightarrow> sqlval \<Rightarrow> instance_trow \<Rightarrow> instance_trow" where
  "instance_set c v r =
    (case v of
       VText x \<Rightarrow> (if c = ''name'' then r\<lparr> tr_name := x \<rparr>
                   else if c = ''description'' then r\<lparr> tr_description := x \<rparr>
                   else if c = ''service_account_id'' then r\<lparr> tr_service_account_id := x \<rparr>
                   else if c = ''network_settings_type'' then r\<lparr> tr_network_settings_type := x \<rparr>
                   else if c = ''image'' then r\<lparr> tr_image := x \<rparr>
                   else if c = ''platform_id'' then r\<lparr> tr_platform_id := x \<rparr>
                   else if c = ''status'' then r\<lparr> tr_status := x \<rparr> else r)
     | VInt n \<Rightarrow> (if c = ''cores'' then r\<lparr> tr_cores := n \<rparr>
                  else if c = ''memory'' then r\<lparr> tr_memory := n \<rparr>
                  else if c = ''core_fraction'' then r\<lparr> tr_core_fraction := n \<rparr>
                  else if c = ''gpus'' then r\<lparr> tr_gpus := n \<rparr>
                  else if c = ''cpu_guarantee_percent'' then r\<lparr> tr_cpu_guarantee := n \<rparr> else r)
     | VJson j \<Rightarrow> (if c = ''labels'' then r\<lparr> tr_labels := j \<rparr>
                   else if c = ''placement_policy'' then r\<lparr> tr_placement_policy := j \<rparr>
                   else if c = ''metadata'' then r\<lparr> tr_metadata := j \<rparr> else r)
     | VBool _ \<Rightarrow> r)"

section \<open>Methods\<close>

definition instance_get :: "env \<Rightarrow> string \<Rightarrow> db \<Rightarrow> go_error + instance_row" where
  "instance_get E i s =
    map_err (wrapPgErr ''Instance'' i)
      (run_query (e_faults E) (scan_row (scanInstance (e_pj E)) (sql_select tr_id i (instances s))))"

definition instance_view :: "env \<Rightarrow> (instance_trow, instance_row) list_view" where
  "instance_view E = \<lparr> lv_kind = ''Instance'', lv_project = tr_project_id, lv_name = tr_name,
     lv_cursor = (\<lambda>r. (tr_created_at r, tr_id r)), lv_scan = scanInstance (e_pj E),
     lv_dom_cursor = (\<lambda>d. (in_created_at d, in_id d)) \<rparr>"

definition instance_list ::
  "corelib \<Rightarrow> env \<Rightarrow> list_filter \<Rightarrow> pagination \<Rightarrow> db \<Rightarrow> go_error + (instance_row list \<times> string)" where
  "instance_list C E f p s = repo_list C E (instance_view E) f p (instances s)"

definition instance_insert :: "env \<Rightarrow> instance_row \<Rightarrow> db \<Rightarrow> (go_error + instance_row) \<times> db" where
  "instance_insert E i =
    pre_tx (instanceInsertArgs (e_pj E) i) (\<lambda>row.
    in_tx (e_faults E) (wrapPgErr ''Instance'' (in_name i)) (\<lambda>s.
      bindE (map_err (wrapPgErr ''Instance'' (in_name i)) (run_query (e_faults E)
              (scan_returning (scanInstance (e_pj E))
                (map_res (\<lambda>t. Some (row, t)) (sql_insert tr_id instance_uq instance_chk row (instances s)))))) (\<lambda>(created, t).
      bindE (or_internal (emitCompute E ''Instance'' (in_id created) ''CREATED'' (PInstance created) (s\<lparr> instances := t \<rparr>))) (\<lambda>s1.
      bindE (or_internal (emitFGARegisterIntent E EventRegister ''Instance'' (in_id created) (in_project_id created)
              (in_labels created) s1)) (\<lambda>s2. Inr (created, s2))))))"

text \<open>The SET accumulator of Update; the flag is requireStopped.\<close>

definition instance_update_set :: "protojson \<Rightarrow> instance_row \<Rightarrow> string list \<Rightarrow> go_error + (update_set \<times> bool)" where
  "instance_update_set P i ch =
    (let u1 = us_add_if ch ''name'' ''name'' (VText (in_name i)) (newUpdateSet (in_id i));
         u2 = us_add_if ch ''description'' ''description'' (VText (in_description i)) u1;
         u3 = us_add_if ch ''labels'' ''labels'' (VJson (Some (json_of_map (in_labels i)))) u2;
         u4 = us_add_if ch ''service_account_id'' ''service_account_id'' (VText (in_service_account_id i)) u3
     in bindE (if ''placement_policy'' \<in> set ch
               then map_res (\<lambda>j. us_add ''placement_policy'' (VJson j) u4)
                      (marshalProtoJSONB P (in_placement_policy i) ''Instance.placement_policy'')
               else Inr u4) (\<lambda>u5.
        let u6 = us_add_if ch ''network_settings'' ''network_settings_type'' (VText (in_network_settings_type i)) u5;
            u7 = us_add_if ch ''image'' ''image'' (VText (in_image i)) u6;
            u8 = us_add_if ch ''resources_spec'' ''cores'' (VInt (in_cores i)) u7;
            u9 = us_add_if ch ''resources_spec'' ''memory'' (VInt (in_memory i)) u8;
            u10 = us_add_if ch ''resources_spec'' ''core_fraction'' (VInt (in_core_fraction i)) u9;
            u11 = us_add_if ch ''resources_spec'' ''gpus'' (VInt (in_gpus i)) u10;
            u12 = us_add_if ch ''resources_spec'' ''cpu_guarantee_percent'' (VInt (in_cpu_guarantee i)) u11;
            u13 = us_add_if ch ''platform_id'' ''platform_id'' (VText (in_platform_id i)) u12
        in Inr (u13, ''resources_spec'' \<in> set ch \<or> ''platform_id'' \<in> set ch)))"

text \<open>\<^verbatim>\<open>AND status = $n\<close>, n the last argument\<close>

definition status_is :: "update_set \<Rightarrow> instance_trow \<Rightarrow> bool" where
  "status_is u r = (case last (us_args u) of VText x \<Rightarrow> tr_status r = x | _ \<Rightarrow> False)"

definition exists_probe :: "env \<Rightarrow> string \<Rightarrow> instance_trow list \<Rightarrow> string \<Rightarrow> go_error" where
  "exists_probe E i t msg =
    (case f_probe (e_faults E) of
       Some e \<Rightarrow> wrapPgErr ''Instance'' i e
     | None \<Rightarrow> if sql_select tr_id i t = None then Wrapped ErrNotFound (''Instance '' @ i @ '' not found'')
               else Wrapped ErrFailedPrecondition msg)"

definition instance_update_stmt ::
  "env \<Rightarrow> string \<Rightarrow> update_set \<Rightarrow> bool \<Rightarrow> instance_trow list \<Rightarrow> go_error + (instance_row \<times> instance_trow list)" where
  "instance_update_stmt E i u requireStopped t =
    (let r = (if us_empty u
              then run_query (e_faults E) (map_res (\<lambda>d. (d, t)) (scan_row (scanInstance (e_pj E)) (sql_select tr_id i t)))
              else let u' = (if requireStopped
                             then u\<lparr> us_args := us_args u @ [VText (instanceStatusName InstanceStatusStopped)] \<rparr> else u)
                   in run_query (e_faults E) (scan_returning (scanInstance (e_pj E))
                       (sql_update tr_id instance_uq instance_chk i (if requireStopped then status_is u' else (\<lambda>_. True))
                         (us_exec instance_set u') t)))
     in map_err (\<lambda>e. if requireStopped \<and> is_no_rows e
                     then exists_probe E i t ''Instance must be STOPPED to change sizing''
                     else wrapPgErr ''Instance'' i e) r)"

definition instance_update :: "env \<Rightarrow> instance_row \<Rightarrow> bool \<Rightarrow> string list \<Rightarrow> db \<Rightarrow> (go_error + instance_row) \<times> db" where
  "instance_update E i emitLabelsRegister changed =
    pre_tx (instance_update_set (e_pj E) i changed) (\<lambda>(u, requireStopped).
    in_tx (e_faults E) (wrapPgErr ''Instance'' (in_id i)) (\<lambda>s.
      bindE (instance_update_stmt E (in_id i) u requireStopped (instances s)) (\<lambda>(updated, t).
      bindE (or_internal (emitCompute E ''Instance'' (in_id updated) ''UPDATED'' (PInstance updated) (s\<lparr> instances := t \<rparr>))) (\<lambda>s1.
      bindE (if emitLabelsRegister
             then or_internal (emitFGARegisterIntent E EventRegister ''Instance'' (in_id updated) (in_project_id updated)
                    (in_labels updated) s1)
             else Inr s1) (\<lambda>s2. Inr (updated, s2))))))"

text \<open>\<^verbatim>\<open>SELECT cols FROM instances WHERE id = $1\<close> inside the transaction\<close>

definition instance_reload :: "env \<Rightarrow> string \<Rightarrow> instance_trow list \<Rightarrow> go_error + instance_row" where
  "instance_reload E i t = guardE (f_reload (e_faults E)) (scan_row (scanInstance (e_pj E)) (sql_select tr_id i t))"

definition setStatusCAS ::
  "env \<Rightarrow> string \<Rightarrow> instance_status \<Rightarrow> instance_status \<Rightarrow> db \<Rightarrow> (go_error + instance_row) \<times> db" where
  "setStatusCAS E i expected nxt =
    in_tx (e_faults E) (wrapPgErr ''Instance'' i) (\<lambda>s.
      bindE (map_err (wrapPgErr ''Instance'' i) (run_query (e_faults E)
              (sql_update tr_id instance_uq instance_chk i (\<lambda>r. tr_status r = instanceStatusName expected)
                (instance_set ''status'' (VText (instanceStatusName nxt))) (instances s)))) (\<lambda>tag.
      case tag of
        None \<Rightarrow> Inl (exists_probe E i (instances s) ''state transition not allowed from current status'')
      | Some (_, t) \<Rightarrow>
          bindE (map_err (wrapPgErr ''Instance'' i) (instance_reload E i t)) (\<lambda>x.
          bindE (or_internal (emitCompute E ''Instance'' (in_id x) ''UPDATED'' (PInstance x) (s\<lparr> instances := t \<rparr>))) (\<lambda>s1.
          Inr (x, s1)))))"

definition attachable :: "instance_trow \<Rightarrow> bool" where
  "attachable r \<longleftrightarrow> tr_status r \<in> {''RUNNING'', ''STOPPED''}"

definition gateForAttach :: "env \<Rightarrow> string \<Rightarrow> db \<Rightarrow> go_error + (string \<times> string \<times> string)" where
  "gateForAttach E i s =
    (case f_query (e_faults E) of
       Some e \<Rightarrow> Inl (if is_no_rows e then exists_probe E i (instances s) ''Instance must be RUNNING or STOPPED''
                      else wrapPgErr ''Instance'' i e)
     | None \<Rightarrow>
        (case sql_select tr_id i (instances s) of
           Some r \<Rightarrow> if attachable r then Inr (tr_zone_id r, tr_project_id r, tr_name r)
                     else Inl (exists_probe E i (instances s) ''Instance must be RUNNING or STOPPED'')
         | None \<Rightarrow> Inl (exists_probe E i (instances s) ''Instance must be RUNNING or STOPPED'')))"

definition markDeleting :: "env \<Rightarrow> string \<Rightarrow> db \<Rightarrow> (go_error + instance_row) \<times> db" where
  "markDeleting E i =
    in_tx (e_faults E) (wrapPgErr ''Instance'' i) (\<lambda>s.
      bindE (map_err (wrapPgErr ''Instance'' i) (run_query (e_faults E)
              (sql_update tr_id instance_uq instance_chk i (\<lambda>r. tr_status r \<noteq> ''DELETING'')
                (instance_set ''status'' (VText ''DELETING'')) (instances s)))) (\<lambda>tag.
      let t = (case tag of None \<Rightarrow> instances s | Some (_, t) \<Rightarrow> t) in
      bindE (map_err (\<lambda>e. if is_no_rows e then Wrapped ErrNotFound (''Instance '' @ i @ '' not found'')
                          else wrapPgErr ''Instance'' i e) (instance_reload E i t)) (\<lambda>x.
      bindE (if tag \<noteq> None
             then or_internal (emitCompute E ''Instance'' (in_id x) ''UPDATED'' (PInstance x) (s\<lparr> instances := t \<rparr>))
             else Inr s) (\<lambda>s1. Inr (x, s1)))))"

text \<open>\<^verbatim>\<open>(COALESCE(metadata, '{}') - keys) || upsert\<close> of the server\<close>

definition metadata_merge :: "string list \<Rightarrow> json \<Rightarrow> json option \<Rightarrow> go_error + json" where
  "metadata_merge keys up md =
    (case (case md of None \<Rightarrow> JObj [] | Some j \<Rightarrow> j) of
       JObj xs \<Rightarrow> (case up of
           JObj ys \<Rightarrow> Inr (JObj (filter (\<lambda>(k, _). k \<notin> set keys \<and> k \<notin> fst ` set ys) xs @ ys))
         | _ \<Rightarrow> Inl (PgError ''22023'' ''invalid concatenation of jsonb objects''))
     | JArr xs \<Rightarrow> Inr (JArr (filter (\<lambda>j. \<forall>k\<in>set keys. j \<noteq> JStr k) xs @ [up]))
     | _ \<Rightarrow> Inl (PgError ''22023'' ''cannot delete from scalar''))"

definition mutateAndReload ::
  "env \<Rightarrow> string \<Rightarrow> string \<Rightarrow> (instance_trow list \<Rightarrow> go_error + instance_trow list) \<Rightarrow> db \<Rightarrow> (go_error + instance_row) \<times> db" where
  "mutateAndReload E i eventType mutate =
    in_tx (e_faults E) (wrapPgErr ''Instance'' i) (\<lambda>s.
      guardE (map_option (wrapPgErr ''Instance'' i) (f_probe (e_faults E)))
      (if sql_select tr_id i (instances s) = None
       then Inl (Wrapped ErrNotFound (''Instance '' @ i @ '' not found''))
       else
        bindE (map_err (wrapPgErr ''Instance'' i) (run_query (e_faults E) (mutate (instances s)))) (\<lambda>t.
        bindE (map_err (wrapPgErr ''Instance'' i) (instance_reload E i t)) (\<lambda>x.
        bindE (or_internal (emitCompute E ''Instance'' (in_id x) eventType (PInstance x) (s\<lparr> instances := t \<rparr>))) (\<lambda>s1.
        Inr (x, s1))))))"

definition mergeMetadata :: "env \<Rightarrow> string \<Rightarrow> string list \<Rightarrow> gomap \<Rightarrow> db \<Rightarrow> (go_error + instance_row) \<times> db" where
  "mergeMetadata E i del upsert =
    mutateAndReload E i ''UPDATED'' (\<lambda>t.
      case sql_select tr_id i t of
        None \<Rightarrow> Inr t
      | Some r \<Rightarrow> bindE (metadata_merge del (json_of_map (orEmptyMap upsert)) (tr_metadata r)) (\<lambda>j.
          map_res (\<lambda>q. case q of None \<Rightarrow> t | Some (_, t') \<Rightarrow> t')
            (sql_update tr_id instance_uq instance_chk i (\<lambda>_. True) (instance_set ''metadata'' (VJson (Some j))) t)))"

definition instance_delete_err :: "string \<Rightarrow> go_error \<Rightarrow> go_error" where
  "instance_delete_err i e =
    (if is_no_rows e then Wrapped ErrNotFound (''Instance '' @ i @ '' not found'') else wrapPgErr ''Instance'' i e)"

definition instance_delete :: "env \<Rightarrow> string \<Rightarrow> db \<Rightarrow> (go_error + unit) \<times> db" where
  "instance_delete E i =
    in_tx (e_faults E) (wrapPgErr ''Instance'' i) (\<lambda>s.
      bindE (map_err (instance_delete_err i) (run_query (e_faults E)
              (scan_returning (\<lambda>r. Inr (tr_project_id r)) (Inr (sql_delete tr_id i (instances s)))))) (\<lambda>(projectID, t).
      bindE (or_internal (emitCompute E ''Instance'' i ''DELETED'' (PId i) (s\<lparr> instances := t \<rparr>))) (\<lambda>s1.
      bindE (or_internal (emitFGARegisterIntent E EventUnregister ''Instance'' i projectID None s1)) (\<lambda>s2.
      Inr ((), s2)))))"

section \<open>Columns: lemmas\<close>

lemma instanceStatus_roundtrip [simp]: "instanceStatusFromName (instanceStatusName st) = st"
  by (cases st) (simp_all add: instanceStatusFromName_def instanceStatusName_def Instance_Status_name_def)

lemma instanceStatusName_inj [simp]: "instanceStatusName a = instanceStatusName b \<longleftrightarrow> a = b"
  by (metis instanceStatus_roundtrip)

lemma instanceStatusName_lits [simp]:
  "instanceStatusName InstanceStatusRunning = ''RUNNING''"
  "instanceStatusName InstanceStatusStopped = ''STOPPED''"
  "instanceStatusName InstanceStatusDeleting = ''DELETING''"
  by (simp_all add: instanceStatusName_def Instance_Status_name_def)

definition stored_instance :: "instance_row \<Rightarrow> instance_row" where
  "stored_instance i = i\<lparr> in_created_at := pg_time (in_created_at i), in_labels := orEmptyMap (in_labels i),
     in_metadata := orEmptyMap (in_metadata i), in_nics := [], in_disks := [] \<rparr>"

lemma scanInstance_insertArgs:
  assumes "protojson_ok P" "instanceInsertArgs P i = Inr row"
  shows "scanInstance P row = Inr (stored_instance i)"
  using assms(2) proto_roundtrip [OF assms(1)]
  by (auto simp: instanceInsertArgs_def scanInstance_def stored_instance_def)

lemma scanInstance_cols:
  "scanInstance P row = Inr d \<Longrightarrow> in_id d = tr_id row \<and> in_project_id d = tr_project_id row
     \<and> in_created_at d = tr_created_at row \<and> in_name d = tr_name row \<and> in_zone_id d = tr_zone_id row
     \<and> in_status d = instanceStatusFromName (tr_status row) \<and> in_cores d = tr_cores row \<and> in_memory d = tr_memory row
     \<and> in_nics d = [] \<and> in_disks d = []"
  by (auto simp: scanInstance_def)

lemma instanceInsertArgs_cols:
  "instanceInsertArgs P i = Inr row \<Longrightarrow> tr_id row = in_id i \<and> tr_project_id row = in_project_id i
     \<and> tr_name row = in_name i \<and> tr_status row = instanceStatusName (in_status i)"
  by (auto simp: instanceInsertArgs_def)

lemma instance_set_pk [simp]: "tr_id (instance_set c v r) = tr_id r"
  by (auto simp: instance_set_def split: sqlval.splits)

lemma instance_set_status [simp]: "instance_set ''status'' (VText x) r = r\<lparr> tr_status := x \<rparr>"
  by (simp add: instance_set_def)

lemma instance_set_metadata [simp]: "instance_set ''metadata'' (VJson j) r = r\<lparr> tr_metadata := j \<rparr>"
  by (simp add: instance_set_def)

lemma us_exec_instance_pk [simp]: "tr_id (us_exec instance_set u r) = tr_id r"
proof -
  have "tr_id (fold (\<lambda>(c, v). instance_set c v) xs r) = tr_id r" for xs
    by (induction xs arbitrary: r) auto
  then show ?thesis by (simp add: us_exec_pairs)
qed

section \<open>instances as a row store\<close>

abbreviation inst_sel :: "instance_trow list \<Rightarrow> string \<Rightarrow> instance_trow option" where
  "inst_sel t i \<equiv> sql_select tr_id i t"

abbreviation instances_ok :: "instance_trow list \<Rightarrow> bool" where
  "instances_ok \<equiv> table_ok tr_id instance_uq instance_chk"

interpretation instance_store: row_store inst_sel "sql_insert tr_id instance_uq instance_chk"
  "sql_update tr_id instance_uq instance_chk" "sql_delete tr_id" tr_id instances_ok
  by (rule row_store_sql)

section \<open>Methods: outcomes\<close>

lemma instance_get_ok: "instance_get E i s = Inr d \<Longrightarrow> \<exists>r. inst_sel (instances s) i = Some r \<and> scanInstance (e_pj E) r = Inr d"
  by (auto simp: instance_get_def)

lemma instance_insert_ok:
  assumes "instance_insert E d s = (Inr d', s')"
  shows "\<exists>row t. instanceInsertArgs (e_pj E) d = Inr row \<and> sql_insert tr_id instance_uq instance_chk row (instances s) = Inr t
     \<and> scanInstance (e_pj E) row = Inr d'
     \<and> s' = s\<lparr> instances := t, outbox := outbox s @ [event_of E ''Instance'' (in_id d') ''CREATED'' (PInstance d')],
            fga_outbox := fga_outbox s @ intents_of E EventRegister ''Instance'' (in_id d') (in_project_id d') (in_labels d') \<rparr>"
  using assms
  by (auto simp: instance_insert_def pre_tx_ok in_tx_ok emitCompute_ok emitIntent_iff map_res_Inr_iff)

lemma instance_insert_err: "instance_insert E d s = (Inl e, s') \<Longrightarrow> s' = s"
  unfolding instance_insert_def by (rule pre_tx_err) (auto dest: in_tx_err)

lemma instance_delete_ok:
  assumes "instance_delete E i s = (Inr (), s')"
  shows "\<exists>r t. sql_delete tr_id i (instances s) = Some (r, t)
     \<and> s' = s\<lparr> instances := t, outbox := outbox s @ [event_of E ''Instance'' i ''DELETED'' (PId i)],
            fga_outbox := fga_outbox s @ intents_of E EventUnregister ''Instance'' i (tr_project_id r) None \<rparr>"
  using assms by (auto simp: instance_delete_def in_tx_ok emitCompute_ok emitIntent_iff)

lemma instance_delete_error: "instance_delete E i s = (Inl e, s') \<Longrightarrow> s' = s"
  unfolding instance_delete_def by (rule in_tx_err)

lemma setStatusCAS_ok:
  assumes "setStatusCAS E i a b s = (Inr x, s')"
  shows "\<exists>r t. inst_sel (instances s) i = Some r \<and> tr_status r = instanceStatusName a
     \<and> (\<forall>j. inst_sel t j = (if j = i then Some (r\<lparr> tr_status := instanceStatusName b \<rparr>) else inst_sel (instances s) j))
     \<and> (instances_ok (instances s) \<longrightarrow> instances_ok t)
     \<and> scanInstance (e_pj E) (r\<lparr> tr_status := instanceStatusName b \<rparr>) = Inr x
     \<and> s' = s\<lparr> instances := t, outbox := outbox s @ [event_of E ''Instance'' (in_id x) ''UPDATED'' (PInstance x)] \<rparr>"
proof -
  obtain r t where q: "sql_update tr_id instance_uq instance_chk i (\<lambda>r. tr_status r = instanceStatusName a)
                (instance_set ''status'' (VText (instanceStatusName b))) (instances s) = Inr (Some (r, t))"
    and rl: "instance_reload E i t = Inr x"
    and s': "s' = s\<lparr> instances := t, outbox := outbox s @ [event_of E ''Instance'' (in_id x) ''UPDATED'' (PInstance x)] \<rparr>"
    using assms by (auto simp: setStatusCAS_def in_tx_ok emitCompute_ok split: option.splits prod.splits)
  obtain r0 where "inst_sel (instances s) i = Some r0" "tr_status r0 = instanceStatusName a"
    "r = r0\<lparr> tr_status := instanceStatusName b \<rparr>"
    using instance_store.upd_row [OF q] by auto
  then show ?thesis
    using instance_store.upd_sel [OF q] instance_store.upd_ok [OF q] rl s'
    by (intro exI [of _ r0] exI [of _ t]) (simp add: instance_reload_def)
qed

lemma setStatusCAS_err: "setStatusCAS E i a b s = (Inl e, s') \<Longrightarrow> s' = s"
  unfolding setStatusCAS_def by (rule in_tx_err)

lemma setStatusCAS_refused:
  assumes "inst_sel (instances s) i = Some r" "tr_status r \<noteq> instanceStatusName a" "e_faults E = no_faults"
  shows "setStatusCAS E i a b s =
    (Inl (Wrapped ErrFailedPrecondition ''state transition not allowed from current status''), s)"
proof -
  have "sql_update tr_id instance_uq instance_chk i (\<lambda>r. tr_status r = instanceStatusName a)
                (instance_set ''status'' (VText (instanceStatusName b))) (instances s) = Inr None"
    using assms by (simp add: sql_update_None)
  then show ?thesis using assms by (simp add: setStatusCAS_def in_tx_def run_query_def no_faults_def exists_probe_def)
qed

lemma gate_ok_iff:
  "gateForAttach E i s = Inr (z, p, n) \<longleftrightarrow> f_query (e_faults E) = None \<and>
     (\<exists>r. inst_sel (instances s) i = Some r \<and> attachable r \<and> z = tr_zone_id r \<and> p = tr_project_id r \<and> n = tr_name r)"
  by (auto simp: gateForAttach_def split: option.splits)

lemma markDeleting_ok:
  assumes "markDeleting E i s = (Inr x, s')"
  shows "\<exists>r t. inst_sel (instances s) i = Some r
     \<and> (\<forall>j. inst_sel t j = (if j = i then Some (r\<lparr> tr_status := ''DELETING'' \<rparr>) else inst_sel (instances s) j))
     \<and> (instances_ok (instances s) \<longrightarrow> instances_ok t)
     \<and> scanInstance (e_pj E) (r\<lparr> tr_status := ''DELETING'' \<rparr>) = Inr x
     \<and> s' = s\<lparr> instances := t, outbox := outbox s @
          (if tr_status r = ''DELETING'' then [] else [event_of E ''Instance'' (in_id x) ''UPDATED'' (PInstance x)]) \<rparr>"
proof -
  let ?u = "sql_update tr_id instance_uq instance_chk i (\<lambda>r. tr_status r \<noteq> ''DELETING'')
                (instance_set ''status'' (VText ''DELETING'')) (instances s)"
  obtain tag where q: "?u = Inr tag" using assms
    by (auto simp: markDeleting_def in_tx_ok)
  show ?thesis
  proof (cases tag)
    case None
    then obtain r where r: "inst_sel (instances s) i = Some r" "scanInstance (e_pj E) r = Inr x" "s' = s"
      using assms q by (auto simp: markDeleting_def in_tx_ok instance_reload_def)
    then have d: "tr_status r = ''DELETING''" using q None by (simp add: sql_update_None)
    have e: "r\<lparr> tr_status := ''DELETING'' \<rparr> = r" using d by (cases r) simp
    have "scanInstance (e_pj E) (r\<lparr> tr_status := ''DELETING'' \<rparr>) = Inr x" by (simp only: e r(2))
    moreover have "\<forall>j. inst_sel (instances s) j =
        (if j = i then Some (r\<lparr> tr_status := ''DELETING'' \<rparr>) else inst_sel (instances s) j)"
      using r(1) by (simp only: e) simp
    ultimately show ?thesis using r d by (intro exI [of _ r] exI [of _ "instances s"]) auto
  next
    case (Some p)
    obtain r t where p: "p = (r, t)" by (cases p)
    with q Some have q': "?u = Inr (Some (r, t))" by simp
    have rl: "instance_reload E i t = Inr x" and
      s': "s' = s\<lparr> instances := t, outbox := outbox s @ [event_of E ''Instance'' (in_id x) ''UPDATED'' (PInstance x)] \<rparr>"
      using assms q' by (auto simp: markDeleting_def in_tx_ok emitCompute_ok)
    obtain r0 where "inst_sel (instances s) i = Some r0" "tr_status r0 \<noteq> ''DELETING''"
      "r = r0\<lparr> tr_status := ''DELETING'' \<rparr>"
      using instance_store.upd_row [OF q'] by auto
    then show ?thesis
      using instance_store.upd_sel [OF q'] instance_store.upd_ok [OF q'] rl s'
      by (intro exI [of _ r0] exI [of _ t]) (simp add: instance_reload_def)
  qed
qed

lemma markDeleting_err: "markDeleting E i s = (Inl e, s') \<Longrightarrow> s' = s"
  unfolding markDeleting_def by (rule in_tx_err)

lemma mutateAndReload_ok:
  assumes "mutateAndReload E i ev m s = (Inr x, s')"
  shows "inst_sel (instances s) i \<noteq> None \<and> (\<exists>t. m (instances s) = Inr t \<and> instance_reload E i t = Inr x
     \<and> s' = s\<lparr> instances := t, outbox := outbox s @ [event_of E ''Instance'' (in_id x) ev (PInstance x)] \<rparr>)"
  using assms by (auto simp: mutateAndReload_def in_tx_ok emitCompute_ok split: if_splits)

lemma mergeMetadata_ok:
  assumes "mergeMetadata E i del up s = (Inr x, s')"
  shows "\<exists>r t j. inst_sel (instances s) i = Some r
     \<and> metadata_merge del (json_of_map (orEmptyMap up)) (tr_metadata r) = Inr j
     \<and> (\<forall>k. inst_sel t k = (if k = i then Some (r\<lparr> tr_metadata := Some j \<rparr>) else inst_sel (instances s) k))
     \<and> (instances_ok (instances s) \<longrightarrow> instances_ok t)
     \<and> scanInstance (e_pj E) (r\<lparr> tr_metadata := Some j \<rparr>) = Inr x
     \<and> s' = s\<lparr> instances := t, outbox := outbox s @ [event_of E ''Instance'' (in_id x) ''UPDATED'' (PInstance x)] \<rparr>"
proof -
  obtain r t where r: "inst_sel (instances s) i = Some r"
    and m: "(case inst_sel (instances s) i of None \<Rightarrow> Inr (instances s)
      | Some r \<Rightarrow> bindE (metadata_merge del (json_of_map (orEmptyMap up)) (tr_metadata r)) (\<lambda>j.
          map_res (\<lambda>q. case q of None \<Rightarrow> instances s | Some (_, t') \<Rightarrow> t')
            (sql_update tr_id instance_uq instance_chk i (\<lambda>_. True) (instance_set ''metadata'' (VJson (Some j))) (instances s)))) = Inr t"
    and rl: "instance_reload E i t = Inr x"
    and s': "s' = s\<lparr> instances := t, outbox := outbox s @ [event_of E ''Instance'' (in_id x) ''UPDATED'' (PInstance x)] \<rparr>"
    using mutateAndReload_ok [OF assms [unfolded mergeMetadata_def]] by blast
  obtain j where j: "metadata_merge del (json_of_map (orEmptyMap up)) (tr_metadata r) = Inr j"
    using m r by auto
  obtain q where q: "sql_update tr_id instance_uq instance_chk i (\<lambda>_. True) (instance_set ''metadata'' (VJson (Some j))) (instances s) = Inr q"
    and t: "t = (case q of None \<Rightarrow> instances s | Some (_, t') \<Rightarrow> t')"
    using m r j by (auto simp: map_res_Inr_iff)
  obtain r1 t1 where q1: "q = Some (r1, t1)" using q r by (cases q) (auto simp: sql_update_None)
  have "r1 = r\<lparr> tr_metadata := Some j \<rparr>" using instance_store.upd_row [OF q [unfolded q1]] r by auto
  then show ?thesis
    using instance_store.upd_sel [OF q [unfolded q1]] instance_store.upd_ok [OF q [unfolded q1]] r j rl s' t q1
    by (intro exI [of _ r] exI [of _ t] exI [of _ j]) (simp add: instance_reload_def)
qed

lemma mergeMetadata_err: "mergeMetadata E i del up s = (Inl e, s') \<Longrightarrow> s' = s"
  unfolding mergeMetadata_def mutateAndReload_def by (rule in_tx_err)

section \<open>Update\<close>

definition instance_exec :: "protojson \<Rightarrow> instance_row \<Rightarrow> string list \<Rightarrow> instance_trow \<Rightarrow> instance_trow" where
  "instance_exec P i ch r = r\<lparr>
     tr_name := (if ''name'' \<in> set ch then in_name i else tr_name r),
     tr_description := (if ''description'' \<in> set ch then in_description i else tr_description r),
     tr_labels := (if ''labels'' \<in> set ch then Some (json_of_map (in_labels i)) else tr_labels r),
     tr_service_account_id := (if ''service_account_id'' \<in> set ch then in_service_account_id i else tr_service_account_id r),
     tr_placement_policy := (if ''placement_policy'' \<in> set ch
        then (case marshalProtoJSONB P (in_placement_policy i) ''Instance.placement_policy'' of Inr j \<Rightarrow> j | Inl _ \<Rightarrow> None)
        else tr_placement_policy r),
     tr_network_settings_type := (if ''network_settings'' \<in> set ch then in_network_settings_type i else tr_network_settings_type r),
     tr_image := (if ''image'' \<in> set ch then in_image i else tr_image r),
     tr_cores := (if ''resources_spec'' \<in> set ch then in_cores i else tr_cores r),
     tr_memory := (if ''resources_spec'' \<in> set ch then in_memory i else tr_memory r),
     tr_core_fraction := (if ''resources_spec'' \<in> set ch then in_core_fraction i else tr_core_fraction r),
     tr_gpus := (if ''resources_spec'' \<in> set ch then in_gpus i else tr_gpus r),
     tr_cpu_guarantee := (if ''resources_spec'' \<in> set ch then in_cpu_guarantee i else tr_cpu_guarantee r),
     tr_platform_id := (if ''platform_id'' \<in> set ch then in_platform_id i else tr_platform_id r) \<rparr>"

lemma instance_exec_keys [simp]:
  "tr_id (instance_exec P i ch r) = tr_id r" "tr_status (instance_exec P i ch r) = tr_status r"
  "tr_project_id (instance_exec P i ch r) = tr_project_id r" "tr_metadata (instance_exec P i ch r) = tr_metadata r"
  by (simp_all add: instance_exec_def)

lemma instance_set_simps:
  "instance_set ''name'' (VText x) r = r\<lparr> tr_name := x \<rparr>"
  "instance_set ''description'' (VText x) r = r\<lparr> tr_description := x \<rparr>"
  "instance_set ''labels'' (VJson j) r = r\<lparr> tr_labels := j \<rparr>"
  "instance_set ''service_account_id'' (VText x) r = r\<lparr> tr_service_account_id := x \<rparr>"
  "instance_set ''placement_policy'' (VJson j) r = r\<lparr> tr_placement_policy := j \<rparr>"
  "instance_set ''network_settings_type'' (VText x) r = r\<lparr> tr_network_settings_type := x \<rparr>"
  "instance_set ''image'' (VText x) r = r\<lparr> tr_image := x \<rparr>"
  "instance_set ''cores'' (VInt n) r = r\<lparr> tr_cores := n \<rparr>"
  "instance_set ''memory'' (VInt n) r = r\<lparr> tr_memory := n \<rparr>"
  "instance_set ''core_fraction'' (VInt n) r = r\<lparr> tr_core_fraction := n \<rparr>"
  "instance_set ''gpus'' (VInt n) r = r\<lparr> tr_gpus := n \<rparr>"
  "instance_set ''cpu_guarantee_percent'' (VInt n) r = r\<lparr> tr_cpu_guarantee := n \<rparr>"
  "instance_set ''platform_id'' (VText x) r = r\<lparr> tr_platform_id := x \<rparr>"
  by (simp_all add: instance_set_def)

text \<open>The accumulator's assignments, one column at a time.\<close>

definition instance_set_pairs :: "protojson \<Rightarrow> instance_row \<Rightarrow> string list \<Rightarrow> (string \<times> sqlval) list" where
  "instance_set_pairs P i ch =
      (if ''name'' \<in> set ch then [(''name'', VText (in_name i))] else [])
      @ (if ''description'' \<in> set ch then [(''description'', VText (in_description i))] else [])
      @ (if ''labels'' \<in> set ch then [(''labels'', VJson (Some (json_of_map (in_labels i))))] else [])
      @ (if ''service_account_id'' \<in> set ch then [(''service_account_id'', VText (in_service_account_id i))] else [])
      @ (if ''placement_policy'' \<in> set ch then [(''placement_policy'', VJson
          (case marshalProtoJSONB P (in_placement_policy i) ''Instance.placement_policy'' of Inr j \<Rightarrow> j | Inl _ \<Rightarrow> None))] else [])
      @ (if ''network_settings'' \<in> set ch then [(''network_settings_type'', VText (in_network_settings_type i))] else [])
      @ (if ''image'' \<in> set ch then [(''image'', VText (in_image i))] else [])
      @ (if ''resources_spec'' \<in> set ch then [(''cores'', VInt (in_cores i))] else [])
      @ (if ''resources_spec'' \<in> set ch then [(''memory'', VInt (in_memory i))] else [])
      @ (if ''resources_spec'' \<in> set ch then [(''core_fraction'', VInt (in_core_fraction i))] else [])
      @ (if ''resources_spec'' \<in> set ch then [(''gpus'', VInt (in_gpus i))] else [])
      @ (if ''resources_spec'' \<in> set ch then [(''cpu_guarantee_percent'', VInt (in_cpu_guarantee i))] else [])
      @ (if ''platform_id'' \<in> set ch then [(''platform_id'', VText (in_platform_id i))] else [])"

lemma instance_update_set_ok:
  assumes "instance_update_set P i ch = Inr (u, rs)"
  shows "us_ok u \<and> us_pairs u = instance_set_pairs P i ch \<and> rs = (''resources_spec'' \<in> set ch \<or> ''platform_id'' \<in> set ch)"
proof (cases "''placement_policy'' \<in> set ch")
  case True
  then obtain j where "marshalProtoJSONB P (in_placement_policy i) ''Instance.placement_policy'' = Inr j"
    using assms by (auto simp: instance_update_set_def Let_def map_res_Inr_iff split del: if_split)
  then show ?thesis using assms True
    by (auto simp: instance_update_set_def Let_def instance_set_pairs_def split del: if_split)
next
  case False
  then show ?thesis using assms
    by (auto simp: instance_update_set_def Let_def instance_set_pairs_def split del: if_split)
qed

lemma instance_if_upd:
  fixes r :: instance_trow
  shows
  "(if b then r\<lparr> tr_name := x0 \<rparr> else r) = tr_name_update (\<lambda>y. if b then x0 else y) r"
  "(if b then r\<lparr> tr_description := x1 \<rparr> else r) = tr_description_update (\<lambda>y. if b then x1 else y) r"
  "(if b then r\<lparr> tr_labels := x2 \<rparr> else r) = tr_labels_update (\<lambda>y. if b then x2 else y) r"
  "(if b then r\<lparr> tr_service_account_id := x3 \<rparr> else r) = tr_service_account_id_update (\<lambda>y. if b then x3 else y) r"
  "(if b then r\<lparr> tr_placement_policy := x4 \<rparr> else r) = tr_placement_policy_update (\<lambda>y. if b then x4 else y) r"
  "(if b then r\<lparr> tr_network_settings_type := x5 \<rparr> else r) = tr_network_settings_type_update (\<lambda>y. if b then x5 else y) r"
  "(if b then r\<lparr> tr_image := x6 \<rparr> else r) = tr_image_update (\<lambda>y. if b then x6 else y) r"
  "(if b then r\<lparr> tr_cores := x7 \<rparr> else r) = tr_cores_update (\<lambda>y. if b then x7 else y) r"
  "(if b then r\<lparr> tr_memory := x8 \<rparr> else r) = tr_memory_update (\<lambda>y. if b then x8 else y) r"
  "(if b then r\<lparr> tr_core_fraction := x9 \<rparr> else r) = tr_core_fraction_update (\<lambda>y. if b then x9 else y) r"
  "(if b then r\<lparr> tr_gpus := x10 \<rparr> else r) = tr_gpus_update (\<lambda>y. if b then x10 else y) r"
  "(if b then r\<lparr> tr_cpu_guarantee := x11 \<rparr> else r) = tr_cpu_guarantee_update (\<lambda>y. if b then x11 else y) r"
  "(if b then r\<lparr> tr_platform_id := x12 \<rparr> else r) = tr_platform_id_update (\<lambda>y. if b then x12 else y) r"
  by simp_all

lemma instance_fold_pairs: "fold (\<lambda>(c, v). instance_set c v) (instance_set_pairs P i ch) r = instance_exec P i ch r"
proof -
  have f1: "fold f ((if b then [x] else []) @ ys) r = fold f ys (if b then f x r else r)"
    "fold f (if b then [x] else []) r = (if b then f x r else r)"
    for f :: "string \<times> sqlval \<Rightarrow> instance_trow \<Rightarrow> instance_trow" and b x ys r by simp_all
  show ?thesis
    unfolding instance_set_pairs_def instance_exec_def f1 prod.case instance_set_simps instance_if_upd
    by (cases r, hypsubst, simp cong: if_cong split del: if_split)
qed

lemma us_exec_extra_args:
  assumes "us_ok u"
  shows "us_exec f (u\<lparr> us_args := us_args u @ xs \<rparr>) r = us_exec f u r"
proof -
  have "(us_args u @ xs) ! (n - 1) = us_args u ! (n - 1)" if "(c, n) \<in> set (us_cols u)" for c n
    using us_ok_bound [OF assms that] by (auto simp: nth_append)
  then have "fold (\<lambda>(c, n). f c ((us_args u @ xs) ! (n - 1))) ys r = fold (\<lambda>(c, n). f c (us_args u ! (n - 1))) ys r"
    if "set ys \<subseteq> set (us_cols u)" for ys
    using that by (induction ys arbitrary: r) auto
  then show ?thesis by (simp add: us_exec_def)
qed

lemma instance_update_ok:
  assumes "instance_update E d el ch s = (Inr d', s')"
  shows "\<exists>r0 t. inst_sel (instances s) (in_id d) = Some r0
     \<and> (''resources_spec'' \<in> set ch \<or> ''platform_id'' \<in> set ch \<longrightarrow> tr_status r0 = ''STOPPED'')
     \<and> scanInstance (e_pj E) (instance_exec (e_pj E) d ch r0) = Inr d'
     \<and> (\<forall>j. inst_sel t j = (if j = in_id d then Some (instance_exec (e_pj E) d ch r0) else inst_sel (instances s) j))
     \<and> (instances_ok (instances s) \<longrightarrow> instances_ok t)
     \<and> s' = s\<lparr> instances := t, outbox := outbox s @ [event_of E ''Instance'' (in_id d') ''UPDATED'' (PInstance d')],
            fga_outbox := fga_outbox s @ (if el then intents_of E EventRegister ''Instance'' (in_id d') (in_project_id d') (in_labels d') else []) \<rparr>"
proof -
  obtain u rs t where us: "instance_update_set (e_pj E) d ch = Inr (u, rs)"
    and st: "instance_update_stmt E (in_id d) u rs (instances s) = Inr (d', t)"
    and s': "s' = s\<lparr> instances := t, outbox := outbox s @ [event_of E ''Instance'' (in_id d') ''UPDATED'' (PInstance d')],
            fga_outbox := fga_outbox s @ (if el then intents_of E EventRegister ''Instance'' (in_id d') (in_project_id d') (in_labels d') else []) \<rparr>"
    using assms by (cases el) (auto simp: instance_update_def pre_tx_ok in_tx_ok emitCompute_ok emitIntent_iff)
  note ok = instance_update_set_ok [OF us]
  have ex: "us_exec instance_set u r = instance_exec (e_pj E) d ch r" for r
    using ok by (simp add: us_exec_pairs instance_fold_pairs)
  define u' where "u' = (if rs then u\<lparr> us_args := us_args u @ [VText (instanceStatusName InstanceStatusStopped)] \<rparr> else u)"
  have ex': "us_exec instance_set u' = instance_exec (e_pj E) d ch"
    using ok ex us_exec_extra_args [of u instance_set] by (auto simp: u'_def fun_eq_iff)
  have "\<exists>r0. inst_sel (instances s) (in_id d) = Some r0 \<and> (rs \<longrightarrow> tr_status r0 = ''STOPPED'')
     \<and> scanInstance (e_pj E) (instance_exec (e_pj E) d ch r0) = Inr d'
     \<and> (\<forall>j. inst_sel t j = (if j = in_id d then Some (instance_exec (e_pj E) d ch r0) else inst_sel (instances s) j))
     \<and> (instances_ok (instances s) \<longrightarrow> instances_ok t)"
  proof (cases "us_empty u")
    case True
    then have "instance_exec (e_pj E) d ch r = r" for r using ex [of r] by (simp add: us_exec_pairs us_empty_pairs)
    moreover have "\<not> rs" using True ok by (auto simp: us_empty_pairs instance_set_pairs_def)
    ultimately show ?thesis using st True by (auto simp: instance_update_stmt_def map_res_Inr_iff)
  next
    case False
    then obtain r where q: "sql_update tr_id instance_uq instance_chk (in_id d) (if rs then status_is u' else (\<lambda>_. True))
        (us_exec instance_set u') (instances s) = Inr (Some (r, t))" "scanInstance (e_pj E) r = Inr d'"
      using st by (auto simp: instance_update_stmt_def Let_def simp flip: u'_def)
    have "rs \<Longrightarrow> status_is u' r0 \<longleftrightarrow> tr_status r0 = ''STOPPED''" for r0 by (simp add: status_is_def u'_def)
    then obtain r0 where "inst_sel (instances s) (in_id d) = Some r0" "rs \<longrightarrow> tr_status r0 = ''STOPPED''"
      "r = instance_exec (e_pj E) d ch r0"
      using instance_store.upd_row [OF q(1)] ex' by (auto split: if_splits)
    then show ?thesis
      using instance_store.upd_sel [OF q(1)] instance_store.upd_ok [OF q(1)] q(2) ex' by auto
  qed
  then show ?thesis using s' ok by blast
qed

lemma instance_update_err: "instance_update E d el ch s = (Inl e, s') \<Longrightarrow> s' = s"
  unfolding instance_update_def by (rule pre_tx_err) (auto dest: in_tx_err)

end
