(* ===== verification/Ports.thy ===== *)
theory Ports
  imports DiskRepo ImageRepo SnapshotRepo CatalogRepo InstanceRepo
begin

text \<open>
  The ports the use cases depend on (internal/ports/ports.go) as records of
  functions over an abstract state, their Postgres implementation, and the
  dispatch of asynchronous operations (internal/service/runop.go). A mutating
  use case returns the Operation snapshot together with the worker that
  operations.Run executes later on the then-current state.
\<close>

section \<open>Repository ports\<close>

record 's disk_port =
  diskGet :: "string \<Rightarrow> 's \<Rightarrow> go_error + disk"
  diskList :: "list_filter \<Rightarrow> pagination \<Rightarrow> 's \<Rightarrow> go_error + (disk list \<times> string)"
  diskInsert :: "disk \<Rightarrow> 's \<Rightarrow> (go_error + disk) \<times> 's"
  diskUpdate :: "disk \<Rightarrow> bool \<Rightarrow> string list \<Rightarrow> 's \<Rightarrow> (go_error + disk) \<times> 's"
  diskDelete :: "string \<Rightarrow> 's \<Rightarrow> (go_error + unit) \<times> 's"
  diskSetZone :: "string \<Rightarrow> string \<Rightarrow> 's \<Rightarrow> (go_error + disk) \<times> 's"

record 's image_port =
  imageGet :: "string \<Rightarrow> 's \<Rightarrow> go_error + image"
  imageLatest :: "string \<Rightarrow> string \<Rightarrow> 's \<Rightarrow> go_error + image"
  imageList :: "list_filter \<Rightarrow> pagination \<Rightarrow> 's \<Rightarrow> go_error + (image list \<times> string)"
  imageInsert :: "image \<Rightarrow> 's \<Rightarrow> (go_error + image) \<times> 's"
  imageUpdate :: "image \<Rightarrow> bool \<Rightarrow> string list \<Rightarrow> 's \<Rightarrow> (go_error + image) \<times> 's"
  imageDelete :: "string \<Rightarrow> 's \<Rightarrow> (go_error + unit) \<times> 's"

record 's snapshot_port =
  snapshotGet :: "string \<Rightarrow> 's \<Rightarrow> go_error + snapshot"
  snapshotList :: "list_filter \<Rightarrow> pagination \<Rightarrow> 's \<Rightarrow> go_error + (snapshot list \<times> string)"
  snapshotInsert :: "snapshot \<Rightarrow> 's \<Rightarrow> (go_error + snapshot) \<times> 's"
  snapshotUpdate :: "snapshot \<Rightarrow> bool \<Rightarrow> string list \<Rightarrow> 's \<Rightarrow> (go_error + snapshot) \<times> 's"
  snapshotDelete :: "string \<Rightarrow> 's \<Rightarrow> (go_error + unit) \<times> 's"

record 's instance_port =
  instanceGet :: "string \<Rightarrow> 's \<Rightarrow> go_error + instance_row"
  instanceList :: "list_filter \<Rightarrow> pagination \<Rightarrow> 's \<Rightarrow> go_error + (instance_row list \<times> string)"
  instanceInsert :: "instance_row \<Rightarrow> 's \<Rightarrow> (go_error + instance_row) \<times> 's"
  instanceUpdate :: "instance_row \<Rightarrow> bool \<Rightarrow> string list \<Rightarrow> 's \<Rightarrow> (go_error + instance_row) \<times> 's"
  instanceSetStatusCAS :: "string \<Rightarrow> instance_status \<Rightarrow> instance_status \<Rightarrow> 's \<Rightarrow> (go_error + instance_row) \<times> 's"
  instanceGate :: "string \<Rightarrow> 's \<Rightarrow> go_error + (string \<times> string \<times> string)"
  instanceMarkDeleting :: "string \<Rightarrow> 's \<Rightarrow> (go_error + instance_row) \<times> 's"
  instanceMergeMetadata :: "string \<Rightarrow> string list \<Rightarrow> gomap \<Rightarrow> 's \<Rightarrow> (go_error + instance_row) \<times> 's"
  instanceDelete :: "string \<Rightarrow> 's \<Rightarrow> (go_error + unit) \<times> 's"

record 's disk_type_port =
  diskTypeGet :: "string \<Rightarrow> 's \<Rightarrow> go_error + disk_type"
  diskTypeList :: "pagination \<Rightarrow> 's \<Rightarrow> go_error + (disk_type list \<times> string)"
  diskTypeInsert :: "disk_type \<Rightarrow> 's \<Rightarrow> (go_error + disk_type) \<times> 's"
  diskTypeUpdate :: "disk_type \<Rightarrow> 's \<Rightarrow> (go_error + disk_type) \<times> 's"
  diskTypeDelete :: "string \<Rightarrow> 's \<Rightarrow> (go_error + unit) \<times> 's"

text \<open>ProjectClient.Exists and ZoneRegistry.GetZone: the peers' answers.\<close>

record peers =
  pe_project_exists :: "string \<Rightarrow> go_error + bool"
  pe_get_zone :: "string \<Rightarrow> go_error option"

section \<open>Postgres implementation\<close>

definition pg_disk_port :: "corelib \<Rightarrow> env \<Rightarrow> db disk_port" where
  "pg_disk_port C E = \<lparr> diskGet = disk_get E, diskList = disk_list C E, diskInsert = disk_insert E,
     diskUpdate = disk_update E, diskDelete = disk_delete E, diskSetZone = disk_set_zone E \<rparr>"

definition pg_image_port :: "corelib \<Rightarrow> env \<Rightarrow> db image_port" where
  "pg_image_port C E = \<lparr> imageGet = image_get E, imageLatest = image_latest_by_family E,
     imageList = image_list C E, imageInsert = image_insert E, imageUpdate = image_update E,
     imageDelete = image_delete E \<rparr>"

definition pg_snapshot_port :: "corelib \<Rightarrow> env \<Rightarrow> db snapshot_port" where
  "pg_snapshot_port C E = \<lparr> snapshotGet = snapshot_get E, snapshotList = snapshot_list C E,
     snapshotInsert = snapshot_insert E, snapshotUpdate = snapshot_update E, snapshotDelete = snapshot_delete E \<rparr>"

definition pg_instance_port :: "corelib \<Rightarrow> env \<Rightarrow> db instance_port" where
  "pg_instance_port C E = \<lparr> instanceGet = instance_get E, instanceList = instance_list C E,
     instanceInsert = instance_insert E, instanceUpdate = instance_update E,
     instanceSetStatusCAS = setStatusCAS E, instanceGate = gateForAttach E,
     instanceMarkDeleting = markDeleting E, instanceMergeMetadata = mergeMetadata E,
     instanceDelete = instance_delete E \<rparr>"

definition pg_disk_type_port :: "corelib \<Rightarrow> env \<Rightarrow> db disk_type_port" where
  "pg_disk_type_port C E = \<lparr> diskTypeGet = disk_type_get E, diskTypeList = disk_type_list C E,
     diskTypeInsert = disk_type_insert E, diskTypeUpdate = disk_type_update E, diskTypeDelete = disk_type_delete E \<rparr>"

section \<open>Operations\<close>

text \<open>The Any a worker returns: protoconv of the object, or Empty.\<close>

datatype any_msg = AnyDisk disk | AnyImage image | AnySnapshot snapshot | AnyInstance instance_row | AnyEmpty

record op_meta =
  om_type :: string
  om_fields :: "(string \<times> string) list"

record principal =
  pr_type :: string
  pr_id :: string
  pr_display_name :: string

text \<open>operations.Operation: the error is a google.rpc.Status, the response an Any.\<close>

record operation =
  op_id :: string
  op_description :: string
  op_created_at :: gotime
  op_created_by :: string
  op_modified_at :: gotime
  op_done :: bool
  op_metadata :: op_meta
  op_principal :: principal
  op_error :: "(code \<times> string) option"
  op_response :: "any_msg option"

text \<open>operations.New and opsRepo.Create (kacho-corelib) are parameters.\<close>

record op_env =
  oe_new :: "string \<Rightarrow> op_meta \<Rightarrow> go_error + operation"
  oe_create :: "operation \<Rightarrow> go_error option"

type_synonym 's worker = "'s \<Rightarrow> (go_error + any_msg) \<times> 's"

definition runOp :: "op_env \<Rightarrow> string \<Rightarrow> op_meta \<Rightarrow> 's worker \<Rightarrow> go_error + (operation \<times> 's worker)" where
  "runOp O1 desc meta fn =
    bindE (oe_new O1 desc meta) (\<lambda>op1. guardE (oe_create O1 op1) (Inr (op1, fn)))"

definition checkProject :: "peers \<Rightarrow> string \<Rightarrow> go_error option" where
  "checkProject P projectID =
    (case pe_project_exists P projectID of
       Inl _ \<Rightarrow> Some (status Unavailable ''folder check: upstream project service unavailable'')
     | Inr ex \<Rightarrow> if \<not> ex then Some (status NotFound (''Folder with id '' @ projectID @ '' not found'')) else None)"

text \<open>A failing step of a worker leaves the state it had.\<close>

definition stay :: "go_error + 'a \<Rightarrow> ('a \<Rightarrow> 's \<Rightarrow> (go_error + 'b) \<times> 's) \<Rightarrow> 's \<Rightarrow> (go_error + 'b) \<times> 's" where
  "stay r k s = (case r of Inl e \<Rightarrow> (Inl e, s) | Inr x \<Rightarrow> k x s)"

definition halt :: "go_error option \<Rightarrow> ('s \<Rightarrow> (go_error + 'b) \<times> 's) \<Rightarrow> 's \<Rightarrow> (go_error + 'b) \<times> 's" where
  "halt c k s = (case c of Some e \<Rightarrow> (Inl e, s) | None \<Rightarrow> k s)"

text \<open>A write followed by the error mapping and the response.\<close>

definition finish :: "('a \<Rightarrow> any_msg) \<Rightarrow> (go_error + 'a) \<times> 's \<Rightarrow> (go_error + any_msg) \<times> 's" where
  "finish resp p = (map_res resp (map_err mapRepoErr (fst p)), snd p)"

lemma halt_simps [simp]: "halt (Some e) k s = (Inl e, s)" "halt None k s = k s"
  by (simp_all add: halt_def)

lemma stay_simps [simp]: "stay (Inl e) k s = (Inl e, s)" "stay (Inr x) k s = k x s"
  by (simp_all add: stay_def)

lemma halt_ok: "halt c k s = (Inr x, s') \<longleftrightarrow> c = None \<and> k s = (Inr x, s')"
  by (cases c) auto

lemma stay_ok: "stay r k s = (Inr x, s') \<longleftrightarrow> (\<exists>y. r = Inr y \<and> k y s = (Inr x, s'))"
  by (cases r) auto

lemma finish_ok: "finish resp p = (Inr m, s') \<longleftrightarrow> (\<exists>x. p = (Inr x, s') \<and> m = resp x)"
  by (cases p) (auto simp: finish_def map_res_Inr_iff)

lemma runOp_ok: "runOp O1 d m fn = Inr (o1, w) \<Longrightarrow> w = fn \<and> oe_new O1 d m = Inr o1"
  by (auto simp: runOp_def)

section \<open>Workers that change nothing when they fail\<close>

definition atomic_worker :: "('s \<Rightarrow> (go_error + 'a) \<times> 's) \<Rightarrow> bool" where
  "atomic_worker w \<longleftrightarrow> (\<forall>s e s'. w s = (Inl e, s') \<longrightarrow> s' = s)"

named_theorems atomic_intros \<open>introduction rules for atomic workers\<close>

lemma atomicD: "atomic_worker w \<Longrightarrow> w s = (Inl e, s') \<Longrightarrow> s' = s"
  by (auto simp: atomic_worker_def)

lemma atomicI: "(\<And>s e s'. w s = (Inl e, s') \<Longrightarrow> s' = s) \<Longrightarrow> atomic_worker w"
  by (auto simp: atomic_worker_def)

lemma atomic_halt [atomic_intros]: "atomic_worker k \<Longrightarrow> atomic_worker (halt c k)"
  by (cases c) (auto simp: atomic_worker_def halt_def)

lemma atomic_halt_dep [atomic_intros]: "(\<And>s0. atomic_worker (k s0)) \<Longrightarrow> atomic_worker (\<lambda>s. halt (c s) (k s) s)"
  by (auto simp: atomic_worker_def halt_def split: option.splits)

lemma atomic_stay [atomic_intros]: "(\<And>s0 x. atomic_worker (k s0 x)) \<Longrightarrow> atomic_worker (\<lambda>s. stay (r s) (k s) s)"
  by (auto simp: atomic_worker_def stay_def split: sum.splits)

lemma atomic_finish [atomic_intros]: "atomic_worker w \<Longrightarrow> atomic_worker (\<lambda>s. finish f (w s))"
  by (auto simp: atomic_worker_def finish_def map_err_def map_res_def split: sum.splits) (metis prod.collapse)

lemma atomic_pg [atomic_intros]:
  "atomic_worker (disk_insert E d)" "atomic_worker (disk_update E d l c)" "atomic_worker (disk_delete E i)"
  "atomic_worker (disk_set_zone E i z)" "atomic_worker (image_insert E im)" "atomic_worker (image_update E im l c)"
  "atomic_worker (image_delete E i)" "atomic_worker (snapshot_insert E sn)" "atomic_worker (snapshot_update E sn l c)"
  "atomic_worker (snapshot_delete E i)" "atomic_worker (instance_insert E x)" "atomic_worker (instance_update E x l c)"
  "atomic_worker (instance_delete E i)" "atomic_worker (setStatusCAS E i a b)" "atomic_worker (markDeleting E i)"
  "atomic_worker (mergeMetadata E i ks up)"
  by (rule atomicI; erule disk_insert_err disk_update_err disk_delete_error disk_set_zone_err image_insert_err
      image_update_err image_delete_error snapshot_insert_err snapshot_update_err snapshot_delete_error
      instance_insert_err instance_update_err instance_delete_error setStatusCAS_err markDeleting_err mergeMetadata_err)+

end
