(* ===== verification/DiskService.thy ===== *)
theory DiskService
  imports Ports
begin

text \<open>
  internal/service/disk.go: the disk use cases over their ports. Synchronous
  validation comes first; the worker re-reads what it depends on.
\<close>

definition diskSizeMin :: int where "diskSizeMin = 4194304"
definition diskSizeMaxCreate :: int where "diskSizeMaxCreate = 28587302322176"
definition diskSizeMaxUpdate :: int where "diskSizeMaxUpdate = 4398046511104"
definition defaultDiskType :: string where "defaultDiskType = ''network-ssd''"
definition defaultBlockSize :: int where "defaultBlockSize = 4096"

record create_disk_req =
  cd_project_id :: string
  cd_name :: string
  cd_description :: string
  cd_labels :: gomap
  cd_type_id :: string
  cd_zone_id :: string
  cd_size :: int
  cd_block_size :: int
  cd_image_id :: string
  cd_snapshot_id :: string
  cd_placement_policy :: "proto_msg option"
  cd_hardware_generation :: "proto_msg option"
  cd_kms_key_id :: string

record update_disk_req =
  ud_disk_id :: string
  ud_name :: string
  ud_description :: string
  ud_labels :: gomap
  ud_size :: int
  ud_placement_policy :: "proto_msg option"
  ud_mask :: "string list"

record 's disk_service =
  ds_repo :: "'s disk_port"
  ds_images :: "'s image_port"
  ds_snapshots :: "'s snapshot_port"
  ds_types :: "'s disk_type_port"
  ds_peers :: peers
  ds_core :: corelib

section \<open>Use cases\<close>

definition disk_service_get :: "'s disk_service \<Rightarrow> string \<Rightarrow> 's \<Rightarrow> go_error + disk" where
  "disk_service_get D i s = map_err mapRepoErr (diskGet (ds_repo D) i s)"

definition disk_service_list :: "'s disk_service \<Rightarrow> list_filter \<Rightarrow> pagination \<Rightarrow> 's \<Rightarrow> go_error + (disk list \<times> string)" where
  "disk_service_list D f p s =
    (if lf_project_id f = '''' then Inl (status InvalidArgument ''project_id required'')
     else diskList (ds_repo D) f p s)"

definition or_default :: "'a \<Rightarrow> 'a \<Rightarrow> 'a \<Rightarrow> 'a" where
  "or_default zero dflt x = (if x = zero then dflt else x)"

text \<open>The source checks of doCreate: image, else snapshot, else none.\<close>

definition disk_source_check :: "'s disk_service \<Rightarrow> create_disk_req \<Rightarrow> 's \<Rightarrow> go_error option" where
  "disk_source_check D req s =
    (if cd_image_id req \<noteq> '''' then
       (case imageGet (ds_images D) (cd_image_id req) s of
          Inl e \<Rightarrow> Some (mapRefErr ''Image'' (cd_image_id req) e)
        | Inr img \<Rightarrow>
            if im_project_id img \<noteq> cd_project_id req then Some (crossProjectNotFound ''Image'' (cd_image_id req))
            else if im_min_disk_size img > 0 \<and> cd_size req < im_min_disk_size img
              then Some (status InvalidArgument (''Disk size '' @ int_dec (cd_size req)
                          @ '' is less than image min_disk_size '' @ int_dec (im_min_disk_size img)))
            else None)
     else if cd_snapshot_id req \<noteq> '''' then
       (case snapshotGet (ds_snapshots D) (cd_snapshot_id req) s of
          Inl e \<Rightarrow> Some (mapRefErr ''Snapshot'' (cd_snapshot_id req) e)
        | Inr sn \<Rightarrow>
            if sn_project_id sn \<noteq> cd_project_id req then Some (crossProjectNotFound ''Snapshot'' (cd_snapshot_id req))
            else if sn_disk_size sn > 0 \<and> cd_size req < sn_disk_size sn
              then Some (status InvalidArgument (''Disk size '' @ int_dec (cd_size req)
                          @ '' is less than snapshot disk_size '' @ int_dec (sn_disk_size sn)))
            else None)
     else None)"

text \<open>The UTF-8 bytes of U+2014.\<close>

definition em_dash :: string where
  "em_dash = [CHR 0xE2, CHR 0x80, CHR 0x94]"

definition disk_of_req :: "string \<Rightarrow> int \<Rightarrow> create_disk_req \<Rightarrow> disk" where
  "disk_of_req diskID now req =
    \<lparr> d_id = diskID, d_project_id = cd_project_id req, d_created_at = now, d_name = cd_name req,
      d_description = cd_description req, d_labels = cd_labels req,
      d_type_id = or_default '''' defaultDiskType (cd_type_id req), d_zone_id = cd_zone_id req,
      d_size = cd_size req, d_block_size = or_default 0 defaultBlockSize (cd_block_size req),
      d_product_ids = [], d_status = DiskStatusReady, d_source_image_id = cd_image_id req,
      d_source_snapshot_id = cd_snapshot_id req, d_placement_policy = cd_placement_policy req,
      d_hardware_generation = cd_hardware_generation req, d_kms_key = None \<rparr>"

definition disk_do_create :: "'s disk_service \<Rightarrow> int \<Rightarrow> string \<Rightarrow> create_disk_req \<Rightarrow> 's worker" where
  "disk_do_create D now diskID req =
    halt (checkProject (ds_peers D) (cd_project_id req)) (
    halt (map_option (mapZoneRefErr (cd_zone_id req)) (pe_get_zone (ds_peers D) (cd_zone_id req))) (\<lambda>s.
    (let typeID = or_default '''' defaultDiskType (cd_type_id req) in
     stay (map_err (mapRefErr ''Disk type'' typeID) (diskTypeGet (ds_types D) typeID s)) (\<lambda>_.
     halt (disk_source_check D req s) (\<lambda>s.
       finish AnyDisk (diskInsert (ds_repo D) (disk_of_req diskID now req) s)))) s))"

definition disk_service_create ::
  "'s disk_service \<Rightarrow> op_env \<Rightarrow> int \<Rightarrow> string \<Rightarrow> create_disk_req \<Rightarrow> go_error + (operation \<times> 's worker)" where
  "disk_service_create D O1 now diskID req =
    (if cd_project_id req = '''' then Inl (status InvalidArgument ''project_id required'')
     else if cd_zone_id req = '''' then Inl (status InvalidArgument ''zone_id required'')
     else guardE (cl_name (ds_core D) ''name'' (cd_name req))
     (guardE (cl_description (ds_core D) ''description'' (cd_description req))
     (guardE (cl_labels (ds_core D) ''labels'' (cd_labels req))
     (if cd_size req < diskSizeMin \<or> diskSizeMaxCreate < cd_size req
      then Inl (invalidArg ''size'' (''size must be in range ['' @ int_dec diskSizeMin @ '', ''
                 @ int_dec diskSizeMaxCreate @ ''] bytes''))
      else if cd_image_id req \<noteq> '''' \<and> cd_snapshot_id req \<noteq> ''''
      then Inl (invalidArg ''source'' ''only one of image_id or snapshot_id may be set'')
      else if cd_kms_key_id req \<noteq> ''''
      then Inl (status Unimplemented (''disk encryption (kms_key_id) requires kacho-kms '' @ em_dash
                  @ '' not yet implemented (blocked:kacho-kms)''))
      else runOp O1 (''Create disk '' @ cd_name req)
             \<lparr> om_type = ''CreateDiskMetadata'', om_fields = [(''disk_id'', diskID)] \<rparr>
             (disk_do_create D now diskID req)))))"

text \<open>The loop over the mask: the snapshot of the disk, labelsInMask, changed.\<close>

fun disk_apply_mask ::
  "update_disk_req \<Rightarrow> string list \<Rightarrow> disk \<times> bool \<times> string list \<Rightarrow> go_error + (disk \<times> bool \<times> string list)" where
  "disk_apply_mask req [] acc = Inr acc"
| "disk_apply_mask req (f # fs) (d, lab, ch) =
    (if f = ''name'' then disk_apply_mask req fs (d\<lparr> d_name := ud_name req \<rparr>, lab, ch @ [''name''])
     else if f = ''description'' then
       disk_apply_mask req fs (d\<lparr> d_description := ud_description req \<rparr>, lab, ch @ [''description''])
     else if f = ''labels'' then disk_apply_mask req fs (d\<lparr> d_labels := ud_labels req \<rparr>, True, ch @ [''labels''])
     else if f = ''size'' then
       (if ud_mask req = [] \<and> ud_size req = 0 then disk_apply_mask req fs (d, lab, ch)
        else if ud_size req < d_size d then Inl (status InvalidArgument ''Disk size can only be increased'')
        else if diskSizeMaxUpdate < ud_size req
          then Inl (status InvalidArgument (''size must be at most '' @ int_dec diskSizeMaxUpdate @ '' bytes''))
        else disk_apply_mask req fs (d\<lparr> d_size := ud_size req \<rparr>, lab, ch @ [''size'']))
     else if f = ''disk_placement_policy'' then
       disk_apply_mask req fs (d\<lparr> d_placement_policy := ud_placement_policy req \<rparr>, lab, ch @ [''disk_placement_policy''])
     else disk_apply_mask req fs (d, lab, ch))"

definition disk_full_mask :: "string list" where
  "disk_full_mask = [''name'', ''description'', ''labels'', ''size'', ''disk_placement_policy'']"

definition disk_do_update :: "'s disk_service \<Rightarrow> update_disk_req \<Rightarrow> 's worker" where
  "disk_do_update D req s =
    stay (map_err mapRepoErr (diskGet (ds_repo D) (ud_disk_id req) s)) (\<lambda>d.
    stay (disk_apply_mask req (if ud_mask req = [] then disk_full_mask else ud_mask req) (d, False, [])) (\<lambda>(d', lab, ch) s.
      finish AnyDisk (diskUpdate (ds_repo D) d' lab ch s))) s"

text \<open>First immutable field named in the mask, then the mask itself, then the named fields.\<close>

fun first_err :: "('a \<Rightarrow> go_error option) \<Rightarrow> 'a list \<Rightarrow> go_error option" where
  "first_err f [] = None"
| "first_err f (x # xs) = (case f x of Some e \<Rightarrow> Some e | None \<Rightarrow> first_err f xs)"

definition immutable_err :: "string list \<Rightarrow> string \<Rightarrow> string \<Rightarrow> go_error option" where
  "immutable_err immut after f =
    (if f \<in> set immut then Some (invalidArg f (f @ '' is immutable after '' @ after)) else None)"

definition mask_field_err :: "corelib \<Rightarrow> string \<Rightarrow> string \<Rightarrow> gomap \<Rightarrow> string \<Rightarrow> go_error option" where
  "mask_field_err C name desc labels f =
    (if f = ''name'' then cl_name C ''name'' name
     else if f = ''description'' then cl_description C ''description'' desc
     else if f = ''labels'' then cl_labels C ''labels'' labels
     else None)"

definition or_else :: "go_error option \<Rightarrow> go_error option \<Rightarrow> go_error option" where
  "or_else a b = (case a of Some e \<Rightarrow> Some e | None \<Rightarrow> b)"

definition validateDiskUpdate :: "corelib \<Rightarrow> update_disk_req \<Rightarrow> go_error option" where
  "validateDiskUpdate C req =
    or_else (first_err (immutable_err [''type_id'', ''zone_id'', ''block_size'', ''source''] ''Disk.Create'') (ud_mask req))
    (or_else (cl_update_mask C ''update_mask'' (ud_mask req) disk_full_mask)
    (first_err (mask_field_err C (ud_name req) (ud_description req) (ud_labels req)) (ud_mask req)))"

definition disk_service_update :: "'s disk_service \<Rightarrow> op_env \<Rightarrow> update_disk_req \<Rightarrow> go_error + (operation \<times> 's worker)" where
  "disk_service_update D O1 req =
    (if ud_disk_id req = '''' then Inl (status InvalidArgument ''disk_id required'')
     else guardE (validateDiskUpdate (ds_core D) req)
      (runOp O1 (''Update disk '' @ ud_disk_id req)
         \<lparr> om_type = ''UpdateDiskMetadata'', om_fields = [(''disk_id'', ud_disk_id req)] \<rparr>
         (disk_do_update D req)))"

definition disk_service_delete :: "'s disk_service \<Rightarrow> op_env \<Rightarrow> string \<Rightarrow> go_error + (operation \<times> 's worker)" where
  "disk_service_delete D O1 i =
    (if i = '''' then Inl (status InvalidArgument ''disk_id required'')
     else runOp O1 (''Delete disk '' @ i)
         \<lparr> om_type = ''DeleteDiskMetadata'', om_fields = [(''disk_id'', i)] \<rparr>
         (\<lambda>s. finish (\<lambda>_. AnyEmpty) (diskDelete (ds_repo D) i s)))"

definition disk_do_relocate :: "'s disk_service \<Rightarrow> string \<Rightarrow> string \<Rightarrow> 's worker" where
  "disk_do_relocate D i destZoneID =
    halt (map_option (mapZoneRefErr destZoneID) (pe_get_zone (ds_peers D) destZoneID)) (\<lambda>s.
      finish AnyDisk (diskSetZone (ds_repo D) i destZoneID s))"

definition disk_service_relocate ::
  "'s disk_service \<Rightarrow> op_env \<Rightarrow> string \<Rightarrow> string \<Rightarrow> go_error + (operation \<times> 's worker)" where
  "disk_service_relocate D O1 i destZoneID =
    (if i = '''' then Inl (status InvalidArgument ''disk_id required'')
     else if destZoneID = '''' then Inl (invalidArg ''destination_zone_id'' ''destination_zone_id is required'')
     else runOp O1 (''Relocate disk '' @ i)
         \<lparr> om_type = ''RelocateDiskMetadata'', om_fields = [(''disk_id'', i), (''destination_zone_id'', destZoneID)] \<rparr>
         (disk_do_relocate D i destZoneID))"

text \<open>ListOperations: the resource must be readable; the listing itself is opsRepo.List.\<close>

definition disk_service_list_operations ::
  "'s disk_service \<Rightarrow> (string \<Rightarrow> pagination \<Rightarrow> go_error + (operation list \<times> string)) \<Rightarrow> string \<Rightarrow> pagination \<Rightarrow> 's
    \<Rightarrow> go_error + (operation list \<times> string)" where
  "disk_service_list_operations D opsList i p s =
    bindE (map_err mapRepoErr (diskGet (ds_repo D) i s)) (\<lambda>_. opsList i p)"

section \<open>Create\<close>

lemma disk_do_create_ok:
  assumes "disk_do_create D now i req s = (Inr m, s')"
  shows "pe_project_exists (ds_peers D) (cd_project_id req) = Inr True"
    "pe_get_zone (ds_peers D) (cd_zone_id req) = None"
    "disk_source_check D req s = None"
    "\<exists>t. diskTypeGet (ds_types D) (or_default '''' defaultDiskType (cd_type_id req)) s = Inr t"
    "\<exists>d. m = AnyDisk d \<and> diskInsert (ds_repo D) (disk_of_req i now req) s = (Inr d, s')"
  using assms
  by (auto simp: disk_do_create_def Let_def halt_ok stay_ok finish_ok checkProject_def split: sum.splits if_splits)

lemma atomic_disk_do_create:
  assumes "\<And>d. atomic_worker (diskInsert (ds_repo D) d)"
  shows "atomic_worker (disk_do_create D now i req)"
  unfolding disk_do_create_def Let_def by (intro atomic_intros assms)

text \<open>A source in another project is answered exactly as a missing one.\<close>

lemma disk_source_foreign_image:
  assumes "cd_image_id req \<noteq> ''''"
    "imageGet (ds_images D) (cd_image_id req) s = Inr img" "im_project_id img \<noteq> cd_project_id req"
    "imageGet (ds_images D) (cd_image_id req) s0 = Inl e" "is_sentinel e ErrNotFound"
  shows "disk_source_check D req s = disk_source_check D req s0"
  using assms by (simp add: disk_source_check_def crossProjectNotFound_def mapRefErr_def)

lemma disk_source_foreign_snapshot:
  assumes "cd_image_id req = ''''" "cd_snapshot_id req \<noteq> ''''"
    "snapshotGet (ds_snapshots D) (cd_snapshot_id req) s = Inr sn" "sn_project_id sn \<noteq> cd_project_id req"
    "snapshotGet (ds_snapshots D) (cd_snapshot_id req) s0 = Inl e" "is_sentinel e ErrNotFound"
  shows "disk_source_check D req s = disk_source_check D req s0"
  using assms by (simp add: disk_source_check_def crossProjectNotFound_def mapRefErr_def)

section \<open>Update\<close>

lemma disk_apply_mask_keys:
  assumes "disk_apply_mask req fs (d, lab, ch) = Inr (d', lab', ch')"
  shows "d_id d' = d_id d \<and> d_project_id d' = d_project_id d \<and> d_zone_id d' = d_zone_id d \<and> d_type_id d' = d_type_id d \<and> d_block_size d' = d_block_size d \<and> d_status d' = d_status d"
  using assms
proof (induction fs arbitrary: d lab ch)
  case (Cons f fs)
  show ?case using Cons.prems
    by (simp split: if_splits) (drule Cons.IH, force)+
qed simp

lemma disk_apply_mask_grows:
  assumes "disk_apply_mask req fs (d, lab, ch) = Inr (d', lab', ch')"
  shows "d_size d \<le> d_size d'"
  using assms
proof (induction fs arbitrary: d lab ch)
  case (Cons f fs)
  show ?case using Cons.prems
    by (simp split: if_splits) (drule Cons.IH, force)+
qed simp

lemma disk_apply_mask_labels:
  assumes "disk_apply_mask req fs (d, lab, ch) = Inr (d', lab', ch')"
  shows "(lab' \<longleftrightarrow> lab \<or> ''labels'' \<in> set fs) \<and> (''labels'' \<in> set ch' \<longleftrightarrow> ''labels'' \<in> set ch \<or> ''labels'' \<in> set fs)"
  using assms
proof (induction fs arbitrary: d lab ch)
  case (Cons f fs)
  show ?case using Cons.prems
    by (simp split: if_splits) (drule Cons.IH, force)+
qed simp

lemma disk_apply_mask_changed:
  assumes "disk_apply_mask req fs (d, lab, ch) = Inr (d', lab', ch')"
  shows "set ch' \<subseteq> set ch \<union> (set fs \<inter> set disk_full_mask)"
  using assms
proof (induction fs arbitrary: d lab ch)
  case (Cons f fs)
  show ?case using Cons.prems
    by (simp split: if_splits) (drule Cons.IH, force simp: disk_full_mask_def)+
qed simp

lemma disk_apply_mask_size:
  assumes "disk_apply_mask req fs (d, lab, ch) = Inr (d', lab', ch')"
  shows "(''size'' \<in> set ch \<longrightarrow> d_size d = ud_size req \<and> ud_size req \<le> diskSizeMaxUpdate) \<longrightarrow> (''size'' \<in> set ch' \<longrightarrow> d_size d' = ud_size req \<and> ud_size req \<le> diskSizeMaxUpdate)"
  using assms
proof (induction fs arbitrary: d lab ch)
  case (Cons f fs)
  show ?case using Cons.prems
    by (simp split: if_splits) (drule Cons.IH, force)+
qed simp

lemma disk_do_update_ok:
  assumes "disk_do_update D req s = (Inr m, s')"
  shows "\<exists>d d' lab ch x. diskGet (ds_repo D) (ud_disk_id req) s = Inr d
    \<and> disk_apply_mask req (if ud_mask req = [] then disk_full_mask else ud_mask req) (d, False, []) = Inr (d', lab, ch)
    \<and> diskUpdate (ds_repo D) d' lab ch s = (Inr x, s') \<and> m = AnyDisk x"
  using assms by (auto simp: disk_do_update_def stay_ok finish_ok)

lemma validateDiskUpdate_full: "cl_update_mask C ''update_mask'' [] disk_full_mask = None \<Longrightarrow>
    ud_mask req = [] \<Longrightarrow> validateDiskUpdate C req = None"
  by (simp add: validateDiskUpdate_def or_else_def)

end
