(* ===== verification/Peers.thy ===== *)
theory Peers
  imports Ports
begin

text \<open>
  The peers that own bindings and references: the ports NicClient and
  StorageClient over an abstract state, the contract a binding owner gives
  (locale \<^verbatim>\<open>attachment_owner\<close>), the in-memory owners of
  internal/ports/portmock, the adapters of internal/clients (error leak
  guard, mode translation, degraded Noop clients, geo zone lookup, the
  project-existence cache).
\<close>

section \<open>Ports\<close>

record 's nic_port =
  nicAttach :: "nic_attach_spec \<Rightarrow> 's \<Rightarrow> (go_error + nic_attachment) \<times> 's"
  nicDetach :: "string \<Rightarrow> string \<Rightarrow> 's \<Rightarrow> (go_error + unit) \<times> 's"
  nicList :: "string list \<Rightarrow> 's \<Rightarrow> go_error + nic_attachment list"

record 's storage_port =
  volAttach :: "volume_attach_spec \<Rightarrow> 's \<Rightarrow> (go_error + volume_attachment) \<times> 's"
  volDetach :: "string \<Rightarrow> string \<Rightarrow> 's \<Rightarrow> (go_error + unit) \<times> 's"
  volList :: "string list \<Rightarrow> 's \<Rightarrow> go_error + volume_attachment list"

text \<open>Detaching a list of resources one by one, stopping at the first error.\<close>

fun detach_all ::
  "(string \<Rightarrow> 's \<Rightarrow> (go_error + unit) \<times> 's) \<Rightarrow> (go_error \<Rightarrow> go_error) \<Rightarrow> string list \<Rightarrow> 's \<Rightarrow> (go_error + unit) \<times> 's" where
  "detach_all det f [] s = (Inr (), s)"
| "detach_all det f (r # rs) s =
    (case det r s of (Inl e, s') \<Rightarrow> (Inl (f e), s') | (Inr _, s') \<Rightarrow> detach_all det f rs s')"

section \<open>The contract of a binding owner\<close>

text \<open>
  \<^verbatim>\<open>bindings\<close> is the owner's set of (resource, instance) pairs. A listing
  reports exactly the bindings of the instances asked for; a successful
  detach removes its binding and nothing else; a failed one may have removed it
  all the same, because an answer can be lost on its way, and nothing else;
  every operation keeps the owner's invariant \<^verbatim>\<open>inv\<close>.
\<close>

locale attachment_owner =
  fixes inv :: "'s \<Rightarrow> bool"
    and bindings :: "'s \<Rightarrow> (string \<times> string) set"
    and lst :: "string list \<Rightarrow> 's \<Rightarrow> go_error + 'a list"
    and det :: "string \<Rightarrow> string \<Rightarrow> 's \<Rightarrow> (go_error + unit) \<times> 's"
    and rid :: "'a \<Rightarrow> string"
    and iid :: "'a \<Rightarrow> string"
  assumes list_exact: "inv s \<Longrightarrow> lst is s = Inr xs \<Longrightarrow>
      (\<lambda>a. (rid a, iid a)) ` set xs = {b \<in> bindings s. snd b \<in> set is}"
    and det_ok: "inv s \<Longrightarrow> det r i s = (Inr (), s') \<Longrightarrow> bindings s' = bindings s - {(r, i)}"
    and det_err: "inv s \<Longrightarrow> det r i s = (Inl e, s') \<Longrightarrow> bindings s' = bindings s \<or> bindings s' = bindings s - {(r, i)}"
    and det_inv: "inv s \<Longrightarrow> inv (snd (det r i s))"
begin

lemma detach_all_inv: "inv s \<Longrightarrow> inv (snd (detach_all (\<lambda>r. det r i) f rs s))"
proof (induction rs arbitrary: s)
  case (Cons r rs)
  have "inv (snd (det r i s))" using det_inv Cons.prems by blast
  then show ?case using Cons.IH by (cases "det r i s") (auto split: sum.splits)
qed simp

lemma detach_all_ok:
  "inv s \<Longrightarrow> detach_all (\<lambda>r. det r i) f rs s = (Inr (), s') \<Longrightarrow> bindings s' = bindings s - (\<lambda>r. (r, i)) ` set rs"
proof (induction rs arbitrary: s)
  case (Cons r rs)
  obtain s1 where d: "det r i s = (Inr (), s1)" and a: "detach_all (\<lambda>r. det r i) f rs s1 = (Inr (), s')"
    using Cons.prems by (auto split: prod.splits sum.splits)
  have "inv s1" using det_inv [OF Cons.prems(1), of r i] d by simp
  then have "bindings s' = bindings s1 - (\<lambda>r. (r, i)) ` set rs" using Cons.IH a by simp
  then show ?case using det_ok [OF Cons.prems(1) d] by auto
qed simp

lemma detach_all_err:
  "inv s \<Longrightarrow> detach_all (\<lambda>r. det r i) f rs s = (Inl e, s') \<Longrightarrow>
    \<exists>R \<subseteq> set rs. bindings s' = bindings s - (\<lambda>r. (r, i)) ` R"
proof (induction rs arbitrary: s)
  case (Cons r rs)
  obtain x s1 where d: "det r i s = (x, s1)" by (cases "det r i s")
  show ?case
  proof (cases x)
    case (Inl e1)
    then have s': "s' = s1" using Cons.prems(2) d by simp
    consider "bindings s1 = bindings s" | "bindings s1 = bindings s - {(r, i)}"
      using det_err [OF Cons.prems(1), of r i e1 s1] d Inl by blast
    then show ?thesis
    proof cases
      case 1
      then show ?thesis using s' by (intro exI [of _ "{}"]) simp
    next
      case 2
      then show ?thesis using s' by (intro exI [of _ "{r}"]) simp
    qed
  next
    case (Inr u)
    have b: "bindings s1 = bindings s - {(r, i)}" using Inr d det_ok [OF Cons.prems(1)] by simp
    have "inv s1" using det_inv [OF Cons.prems(1), of r i] d by simp
    moreover have "detach_all (\<lambda>r. det r i) f rs s1 = (Inl e, s')" using Cons.prems(2) d Inr by simp
    ultimately obtain R where R: "R \<subseteq> set rs" "bindings s' = bindings s1 - (\<lambda>r. (r, i)) ` R"
      using Cons.IH by metis
    have "bindings s' = bindings s - (\<lambda>r. (r, i)) ` insert r R"
      unfolding R(2) b by blast
    moreover have "insert r R \<subseteq> set (r # rs)" using R(1) by auto
    ultimately show ?thesis by metis
  qed
qed simp

lemma detach_listed:
  assumes "inv s" "lst [i] s = Inr xs" "detach_all (\<lambda>r. det r i) f (List.map rid xs) s = (Inr (), s')"
  shows "bindings s' = {b \<in> bindings s. snd b \<noteq> i}"
proof -
  have x: "(\<lambda>a. (rid a, iid a)) ` set xs = {b \<in> bindings s. snd b = i}"
    using list_exact [OF assms(1,2)] by simp
  have "a \<in> set xs \<Longrightarrow> iid a = i" for a using x by force
  then have "(\<lambda>r. (r, i)) ` rid ` set xs = (\<lambda>a. (rid a, iid a)) ` set xs" by force
  then show ?thesis using detach_all_ok [OF assms(1,3)] x by auto
qed

lemma detach_all_keeps_others:
  assumes "inv s" "detach_all (\<lambda>r. det r i) f rs s = (res, s')" "j \<noteq> i"
  shows "(r, j) \<in> bindings s' \<longleftrightarrow> (r, j) \<in> bindings s"
proof (cases res)
  case (Inl e)
  then show ?thesis using detach_all_err [of s i f rs e s'] assms by auto
next
  case (Inr u)
  then show ?thesis using detach_all_ok [of s i f rs s'] assms by auto
qed

lemma detach_all_shrinks:
  assumes "inv s" "detach_all (\<lambda>r. det r i) f rs s = (res, s')"
  shows "bindings s' \<subseteq> bindings s"
proof (cases res)
  case (Inl e)
  then show ?thesis using detach_all_err [of s i f rs e s'] assms by auto
next
  case (Inr u)
  then show ?thesis using detach_all_ok [of s i f rs s'] assms by auto
qed

text \<open>A second detach of everything an instance owns finds nothing to do.\<close>

lemma detach_listed_again:
  assumes "inv s" "lst [i] s = Inr xs" "detach_all (\<lambda>r. det r i) f (List.map rid xs) s = (Inr (), s')"
    and "lst [i] s' = Inr ys"
  shows "ys = []"
proof -
  have "inv s'" using detach_all_inv [OF assms(1), of i f "List.map rid xs"] assms(3) by simp
  then have "(\<lambda>a. (rid a, iid a)) ` set ys = {b \<in> bindings s'. snd b = i}"
    using list_exact [OF _ assms(4)] by simp
  then show ?thesis using detach_listed [OF assms(1-3)] by auto
qed

end

text \<open>An owner that is up answers every call, and stays up.\<close>

locale live_owner = attachment_owner +
  fixes up :: "'a \<Rightarrow> bool"
  assumes up_list: "up s \<Longrightarrow> \<exists>xs. lst is s = Inr xs"
    and up_det: "up s \<Longrightarrow> \<exists>s'. det r i s = (Inr (), s') \<and> up s'"
begin

lemma detach_all_up: "up s \<Longrightarrow> \<exists>s'. detach_all (\<lambda>r. det r i) f rs s = (Inr (), s') \<and> up s'"
proof (induction rs arbitrary: s)
  case (Cons r rs)
  obtain s1 where "det r i s = (Inr (), s1)" "up s1" using up_det [OF Cons.prems] by blast
  then show ?case using Cons.IH [of s1] by simp
qed simp

end

section \<open>In-memory owners (portmock)\<close>

record nic_owner =
  no_by_nic :: "(string \<times> nic_attachment) list"
  no_attach_errs :: "(string \<times> go_error) list"
  no_err :: "go_error option"
  no_list_err :: "go_error option"

text \<open>The first free slot at or above the requested one.\<close>

fun free_slot :: "nat \<Rightarrow> int \<Rightarrow> int list \<Rightarrow> int" where
  "free_slot 0 i used = i"
| "free_slot (Suc k) i used = (if i \<in> set used then free_slot k (i + 1) used else i)"

definition used_slots :: "string \<Rightarrow> (string \<times> nic_attachment) list \<Rightarrow> int list" where
  "used_slots i m = List.map (na_index \<circ> snd) (filter (\<lambda>(_, a). na_instance_id a = i) m)"

definition two_digits :: "int \<Rightarrow> string" where
  "two_digits n = (if 0 \<le> n \<and> n < 10 then CHR ''0'' # int_dec n else int_dec n)"

definition mock_nic_attach :: "nic_attach_spec \<Rightarrow> nic_owner \<Rightarrow> (go_error + nic_attachment) \<times> nic_owner" where
  "mock_nic_attach spec c =
    (case no_err c of Some e \<Rightarrow> (Inl e, c) | None \<Rightarrow>
     case map_of (no_attach_errs c) (ns_nic_id spec) of Some e \<Rightarrow> (Inl e, c) | None \<Rightarrow>
     case map_of (no_by_nic c) (ns_nic_id spec) of
       Some ex \<Rightarrow> if na_instance_id ex \<noteq> ns_instance_id spec
         then (Inl (status FailedPrecondition ''NetworkInterface is in use''), c) else (Inr ex, c)
     | None \<Rightarrow>
        (let used = used_slots (ns_instance_id spec) (no_by_nic c);
             idx = free_slot (size used) (ns_index spec) used;
             att = \<lparr> na_nic_id = ns_nic_id spec, na_instance_id = ns_instance_id spec, na_index = idx,
                     na_subnet_id = ''sub-fake'', na_v4 = ''10.0.0.'' @ int_dec (idx + 2), na_v6 = '''',
                     na_sgs = [], na_mac = ''00:11:22:33:44:'' @ two_digits idx \<rparr>
         in (Inr att, c\<lparr> no_by_nic := AList.update (ns_nic_id spec) att (no_by_nic c) \<rparr>)))"

definition mock_nic_detach :: "string \<Rightarrow> string \<Rightarrow> nic_owner \<Rightarrow> (go_error + unit) \<times> nic_owner" where
  "mock_nic_detach nicID instanceID c =
    (case no_err c of Some e \<Rightarrow> (Inl e, c) | None \<Rightarrow>
     case map_of (no_by_nic c) nicID of
       Some ex \<Rightarrow> if na_instance_id ex = instanceID
         then (Inr (), c\<lparr> no_by_nic := AList.delete nicID (no_by_nic c) \<rparr>) else (Inr (), c)
     | None \<Rightarrow> (Inr (), c))"

definition mock_nic_list :: "string list \<Rightarrow> nic_owner \<Rightarrow> go_error + nic_attachment list" where
  "mock_nic_list instanceIDs c =
    guardE (no_list_err c) (guardE (no_err c)
      (Inr (filter (\<lambda>a. na_instance_id a \<in> set instanceIDs) (List.map snd (no_by_nic c)))))"

record volume_owner =
  vo_by_vol :: "(string \<times> volume_attachment) list"
  vo_attach_errs :: "(string \<times> go_error) list"
  vo_err :: "go_error option"
  vo_list_err :: "go_error option"

definition attachment_of_spec :: "volume_attach_spec \<Rightarrow> volume_attachment" where
  "attachment_of_spec spec = \<lparr> va_volume_id = vs_volume_id spec, va_instance_id = vs_instance_id spec,
     va_instance_name = vs_instance_name spec, va_device_name = vs_device_name spec, va_is_boot = vs_is_boot spec,
     va_mode = vs_mode spec, va_auto_delete = vs_auto_delete spec \<rparr>"

definition mock_vol_attach :: "volume_attach_spec \<Rightarrow> volume_owner \<Rightarrow> (go_error + volume_attachment) \<times> volume_owner" where
  "mock_vol_attach spec c =
    (case vo_err c of Some e \<Rightarrow> (Inl e, c) | None \<Rightarrow>
     case map_of (vo_attach_errs c) (vs_volume_id spec) of Some e \<Rightarrow> (Inl e, c) | None \<Rightarrow>
     case map_of (vo_by_vol c) (vs_volume_id spec) of
       Some ex \<Rightarrow> if va_instance_id ex \<noteq> vs_instance_id spec
         then (Inl (status FailedPrecondition ''Volume is in use''), c) else (Inr ex, c)
     | None \<Rightarrow> (Inr (attachment_of_spec spec),
          c\<lparr> vo_by_vol := AList.update (vs_volume_id spec) (attachment_of_spec spec) (vo_by_vol c) \<rparr>))"

definition mock_vol_detach :: "string \<Rightarrow> string \<Rightarrow> volume_owner \<Rightarrow> (go_error + unit) \<times> volume_owner" where
  "mock_vol_detach volumeID instanceID c =
    (case vo_err c of Some e \<Rightarrow> (Inl e, c) | None \<Rightarrow>
     case map_of (vo_by_vol c) volumeID of
       Some ex \<Rightarrow> if va_instance_id ex = instanceID
         then (Inr (), c\<lparr> vo_by_vol := AList.delete volumeID (vo_by_vol c) \<rparr>) else (Inr (), c)
     | None \<Rightarrow> (Inr (), c))"

definition mock_vol_list :: "string list \<Rightarrow> volume_owner \<Rightarrow> go_error + volume_attachment list" where
  "mock_vol_list instanceIDs c =
    guardE (vo_list_err c) (guardE (vo_err c)
      (Inr (filter (\<lambda>a. va_instance_id a \<in> set instanceIDs) (List.map snd (vo_by_vol c)))))"

definition nic_bindings :: "nic_owner \<Rightarrow> (string \<times> string) set" where
  "nic_bindings c = {(n, na_instance_id a) |n a. map_of (no_by_nic c) n = Some a}"

definition vol_bindings :: "volume_owner \<Rightarrow> (string \<times> string) set" where
  "vol_bindings c = {(v, va_instance_id a) |v a. map_of (vo_by_vol c) v = Some a}"

text \<open>The keys are distinct and every attachment is stored under its own id.\<close>

definition nic_owner_ok :: "nic_owner \<Rightarrow> bool" where
  "nic_owner_ok c \<longleftrightarrow>
    distinct (List.map fst (no_by_nic c)) \<and> list_all (\<lambda>(n, a). na_nic_id a = n) (no_by_nic c)"

definition vol_owner_ok :: "volume_owner \<Rightarrow> bool" where
  "vol_owner_ok c \<longleftrightarrow>
    distinct (List.map fst (vo_by_vol c)) \<and> list_all (\<lambda>(v, a). va_volume_id a = v) (vo_by_vol c)"

lemma nic_bindings_set: "nic_owner_ok c \<Longrightarrow> nic_bindings c = (\<lambda>a. (na_nic_id a, na_instance_id a)) ` snd ` set (no_by_nic c)"
  by (force simp: nic_owner_ok_def nic_bindings_def list_all_iff)

lemma vol_bindings_set: "vol_owner_ok c \<Longrightarrow> vol_bindings c = (\<lambda>a. (va_volume_id a, va_instance_id a)) ` snd ` set (vo_by_vol c)"
  by (force simp: vol_owner_ok_def vol_bindings_def list_all_iff)

lemma nic_owner_delete_ok: "nic_owner_ok c \<Longrightarrow> nic_owner_ok (c\<lparr> no_by_nic := AList.delete n (no_by_nic c) \<rparr>)"
  by (simp add: nic_owner_ok_def list_all_iff distinct_delete) (auto simp: AList.delete_eq)

lemma vol_owner_delete_ok: "vol_owner_ok c \<Longrightarrow> vol_owner_ok (c\<lparr> vo_by_vol := AList.delete n (vo_by_vol c) \<rparr>)"
  by (simp add: vol_owner_ok_def list_all_iff distinct_delete) (auto simp: AList.delete_eq)

interpretation nic_mock: attachment_owner nic_owner_ok nic_bindings mock_nic_list mock_nic_detach na_nic_id na_instance_id
proof
  show "nic_owner_ok s \<Longrightarrow> mock_nic_list is s = Inr xs \<Longrightarrow>
      (\<lambda>a. (na_nic_id a, na_instance_id a)) ` set xs = {b \<in> nic_bindings s. snd b \<in> set is}" for s "is" xs
    by (simp add: mock_nic_list_def guardE_def nic_bindings_set split: option.splits) force
  show "nic_owner_ok s \<Longrightarrow> mock_nic_detach r i s = (Inr (), s') \<Longrightarrow> nic_bindings s' = nic_bindings s - {(r, i)}" for s r i s'
    by (auto simp: mock_nic_detach_def nic_bindings_def delete_conv split: option.splits if_splits)
  show "nic_owner_ok s \<Longrightarrow> mock_nic_detach r i s = (Inl e, s') \<Longrightarrow>
      nic_bindings s' = nic_bindings s \<or> nic_bindings s' = nic_bindings s - {(r, i)}" for r i s e s'
    by (auto simp: mock_nic_detach_def split: option.splits if_splits)
  show "nic_owner_ok s \<Longrightarrow> nic_owner_ok (snd (mock_nic_detach r i s))" for s r i
    by (simp add: mock_nic_detach_def nic_owner_delete_ok split: option.splits)
qed

interpretation vol_mock: attachment_owner vol_owner_ok vol_bindings mock_vol_list mock_vol_detach va_volume_id va_instance_id
proof
  show "vol_owner_ok s \<Longrightarrow> mock_vol_list is s = Inr xs \<Longrightarrow>
      (\<lambda>a. (va_volume_id a, va_instance_id a)) ` set xs = {b \<in> vol_bindings s. snd b \<in> set is}" for s "is" xs
    by (simp add: mock_vol_list_def guardE_def vol_bindings_set split: option.splits) force
  show "vol_owner_ok s \<Longrightarrow> mock_vol_detach r i s = (Inr (), s') \<Longrightarrow> vol_bindings s' = vol_bindings s - {(r, i)}" for s r i s'
    by (auto simp: mock_vol_detach_def vol_bindings_def delete_conv split: option.splits if_splits)
  show "vol_owner_ok s \<Longrightarrow> mock_vol_detach r i s = (Inl e, s') \<Longrightarrow>
      vol_bindings s' = vol_bindings s \<or> vol_bindings s' = vol_bindings s - {(r, i)}" for r i s e s'
    by (auto simp: mock_vol_detach_def split: option.splits if_splits)
  show "vol_owner_ok s \<Longrightarrow> vol_owner_ok (snd (mock_vol_detach r i s))" for s r i
    by (simp add: mock_vol_detach_def vol_owner_delete_ok split: option.splits)
qed

definition nic_up :: "nic_owner \<Rightarrow> bool" where
  "nic_up c \<longleftrightarrow> no_err c = None \<and> no_list_err c = None"

definition vol_up :: "volume_owner \<Rightarrow> bool" where
  "vol_up c \<longleftrightarrow> vo_err c = None \<and> vo_list_err c = None"

interpretation nic_live: live_owner nic_owner_ok nic_bindings mock_nic_list mock_nic_detach na_nic_id na_instance_id nic_up
proof
  show "nic_up s \<Longrightarrow> \<exists>xs. mock_nic_list is s = Inr xs" for s "is"
    by (simp add: nic_up_def mock_nic_list_def)
  show "nic_up s \<Longrightarrow> \<exists>s'. mock_nic_detach r i s = (Inr (), s') \<and> nic_up s'" for s r i
    by (auto simp: nic_up_def mock_nic_detach_def split: option.splits)
qed

interpretation vol_live: live_owner vol_owner_ok vol_bindings mock_vol_list mock_vol_detach va_volume_id va_instance_id vol_up
proof
  show "vol_up s \<Longrightarrow> \<exists>xs. mock_vol_list is s = Inr xs" for s "is"
    by (simp add: vol_up_def mock_vol_list_def)
  show "vol_up s \<Longrightarrow> \<exists>s'. mock_vol_detach r i s = (Inr (), s') \<and> vol_up s'" for s r i
    by (auto simp: vol_up_def mock_vol_detach_def split: option.splits)
qed

lemma set_update: "set (AList.update k v m) \<subseteq> insert (k, v) (set m)"
  by (induction m) auto

lemma mock_nic_attach_inv: "nic_owner_ok c \<Longrightarrow> nic_owner_ok (snd (mock_nic_attach spec c))"
  using set_update [of "ns_nic_id spec" _ "no_by_nic c"]
  by (fastforce simp: mock_nic_attach_def nic_owner_ok_def list_all_iff Let_def distinct_update
      split: option.splits)

lemma mock_vol_attach_inv: "vol_owner_ok c \<Longrightarrow> vol_owner_ok (snd (mock_vol_attach spec c))"
  using set_update [of "vs_volume_id spec" "attachment_of_spec spec" "vo_by_vol c"]
  by (fastforce simp: mock_vol_attach_def vol_owner_ok_def list_all_iff distinct_update attachment_of_spec_def
      split: option.splits)

definition mock_nic_port :: "nic_owner nic_port" where
  "mock_nic_port = \<lparr> nicAttach = mock_nic_attach, nicDetach = mock_nic_detach, nicList = mock_nic_list \<rparr>"

definition mock_storage_port :: "volume_owner storage_port" where
  "mock_storage_port = \<lparr> volAttach = mock_vol_attach, volDetach = mock_vol_detach, volList = mock_vol_list \<rparr>"

lemma mock_port_sel [simp]:
  "nicAttach mock_nic_port = mock_nic_attach" "nicDetach mock_nic_port = mock_nic_detach" "nicList mock_nic_port = mock_nic_list"
  "volAttach mock_storage_port = mock_vol_attach" "volDetach mock_storage_port = mock_vol_detach" "volList mock_storage_port = mock_vol_list"
  by (simp_all add: mock_nic_port_def mock_storage_port_def)

section \<open>Adapters\<close>

text \<open>The status message FromError gives: its own text, or the whole text below a wrapper.\<close>

definition mapPeerErr :: "string \<Rightarrow> go_error \<Rightarrow> go_error" where
  "mapPeerErr unavailable err =
    (case from_error err of
       None \<Rightarrow> status Unavailable unavailable
     | Some c \<Rightarrow>
        if c \<in> {InvalidArgument, FailedPrecondition, NotFound, AlreadyExists, PermissionDenied}
        then status c (wire_msg err)
        else if c \<in> {Unavailable, DeadlineExceeded} then status Unavailable unavailable
        else status Internal ''internal error'')"

definition mapNicErr :: "go_error \<Rightarrow> go_error" where
  "mapNicErr err = mapPeerErr ''network interface service unavailable'' err"

definition mapStorageErr :: "go_error \<Rightarrow> go_error" where
  "mapStorageErr err = mapPeerErr ''storage service unavailable'' err"

text \<open>storage.v1.VolumeAttachment.Mode of the wire, with values this program does not know.\<close>

datatype wire_mode = MODE_UNSPECIFIED | READ_WRITE | READ_ONLY | MODE_OTHER int

definition attachModeToWire :: "int \<Rightarrow> wire_mode" where
  "attachModeToWire m =
    (if m = VolumeAttachModeReadWrite then READ_WRITE
     else if m = VolumeAttachModeReadOnly then READ_ONLY
     else MODE_UNSPECIFIED)"

fun attachModeFromWire :: "wire_mode \<Rightarrow> int" where
  "attachModeFromWire READ_WRITE = VolumeAttachModeReadWrite"
| "attachModeFromWire READ_ONLY = VolumeAttachModeReadOnly"
| "attachModeFromWire _ = VolumeAttachModeUnspecified"

record wire_attachment =
  wa_instance_id :: string
  wa_instance_name :: string
  wa_device_name :: string
  wa_is_boot :: bool
  wa_mode :: wire_mode
  wa_auto_delete :: bool

text \<open>attachmentFromVolume: the attachment of this instance in the returned Volume.\<close>

definition attachmentFromVolume :: "string \<Rightarrow> (string \<times> wire_attachment list) option \<Rightarrow> volume_attachment" where
  "attachmentFromVolume instanceID vol =
    (let info = \<lparr> va_volume_id = '''', va_instance_id = instanceID, va_instance_name = '''', va_device_name = '''',
                 va_is_boot = False, va_mode = VolumeAttachModeUnspecified, va_auto_delete = False \<rparr>
     in case vol of None \<Rightarrow> info
        | Some (vid, atts) \<Rightarrow>
           (case List.find (\<lambda>a. wa_instance_id a = instanceID) atts of
              None \<Rightarrow> info\<lparr> va_volume_id := vid \<rparr>
            | Some a \<Rightarrow> info\<lparr> va_volume_id := vid, va_instance_name := wa_instance_name a,
                va_device_name := wa_device_name a, va_is_boot := wa_is_boot a,
                va_mode := attachModeFromWire (wa_mode a), va_auto_delete := wa_auto_delete a \<rparr>))"

text \<open>The Noop clients of a deployment without the peer.\<close>

definition noop_nic_port :: "'s nic_port" where
  "noop_nic_port = \<lparr>
     nicAttach = (\<lambda>_ s. (Inl (status Unavailable ''network interface service not configured''), s)),
     nicDetach = (\<lambda>_ _ s. (Inl (status Unavailable ''network interface service not configured''), s)),
     nicList = (\<lambda>_ _. Inr []) \<rparr>"

definition noop_storage_port :: "'s storage_port" where
  "noop_storage_port = \<lparr>
     volAttach = (\<lambda>_ s. (Inl (status Unavailable ''volume service not configured''), s)),
     volDetach = (\<lambda>_ _ s. (Inl (status Unavailable ''volume service not configured''), s)),
     volList = (\<lambda>_ _. Inr []) \<rparr>"

text \<open>GeoClient.GetZone: the answer of geo (after retry.OnUnavailable), NOT\_FOUND as the sentinel.\<close>

definition geo_get_zone :: "(string \<Rightarrow> go_error option) \<Rightarrow> string \<Rightarrow> go_error option" where
  "geo_get_zone rpc zoneID =
    (case rpc zoneID of None \<Rightarrow> None
     | Some e \<Rightarrow> if from_error e = Some NotFound then Some (Sentinel ErrNotFound) else Some e)"

text \<open>ProjectClient.Exists: the positive cache, a map from project to expiry.
  The victim of an eviction is whatever key the map iteration yields first.\<close>

definition projectExistsTTL :: int where "projectExistsTTL = 30000000000"
definition projectExistsCacheMaxEntries :: nat where "projectExistsCacheMaxEntries = 10000"

type_synonym exists_cache = "(string \<times> int) list"

definition putExists :: "nat \<Rightarrow> (exists_cache \<Rightarrow> string) \<Rightarrow> int \<Rightarrow> string \<Rightarrow> exists_cache \<Rightarrow> exists_cache" where
  "putExists maxEntries victim now projectID m =
    AList.update projectID (now + projectExistsTTL)
      (if map_of m projectID = None \<and> maxEntries \<le> size m then AList.delete (victim m) m else m)"

definition project_exists ::
  "nat \<Rightarrow> (exists_cache \<Rightarrow> string) \<Rightarrow> (string \<Rightarrow> go_error option) \<Rightarrow> int \<Rightarrow> string \<Rightarrow> exists_cache
    \<Rightarrow> (go_error + bool) \<times> exists_cache" where
  "project_exists maxEntries victim rpc now projectID m =
    (case map_of m projectID of
       Some ex \<Rightarrow> if now < ex then (Inr True, m)
                  else (case rpc projectID of
                          None \<Rightarrow> (Inr True, putExists maxEntries victim now projectID m)
                        | Some e \<Rightarrow> if from_error e = Some NotFound then (Inr False, m) else (Inl e, m))
     | None \<Rightarrow> (case rpc projectID of
                  None \<Rightarrow> (Inr True, putExists maxEntries victim now projectID m)
                | Some e \<Rightarrow> if from_error e = Some NotFound then (Inr False, m) else (Inl e, m)))"

section \<open>What the adapters guarantee\<close>

definition peer_contract_codes :: "code set" where
  "peer_contract_codes = {InvalidArgument, FailedPrecondition, NotFound, AlreadyExists, PermissionDenied}"

lemma mapPeerErr_cases:
  obtains (contract) c where "from_error err = Some c" "c \<in> peer_contract_codes"
      "mapPeerErr u err = status c (wire_msg err)"
  | (unavailable) "mapPeerErr u err = status Unavailable u"
  | (internal) "mapPeerErr u err = status Internal ''internal error''"
proof (cases "from_error err")
  case None
  then show thesis using unavailable by (simp add: mapPeerErr_def)
next
  case (Some c)
  consider "c \<in> peer_contract_codes" | "c \<notin> peer_contract_codes" "c \<in> {Unavailable, DeadlineExceeded}"
    | "c \<notin> peer_contract_codes" "c \<notin> {Unavailable, DeadlineExceeded}" by blast
  then show thesis
    using Some contract unavailable internal
    by cases (simp_all add: mapPeerErr_def peer_contract_codes_def)
qed

lemma attach_mode_roundtrip:
  "m \<in> {VolumeAttachModeUnspecified, VolumeAttachModeReadWrite, VolumeAttachModeReadOnly} \<Longrightarrow>
    attachModeFromWire (attachModeToWire m) = m"
  by (auto simp: attachModeToWire_def VolumeAttachModeUnspecified_def VolumeAttachModeReadWrite_def VolumeAttachModeReadOnly_def)

lemma length_update: "size (AList.update k v m) = (if map_of m k = None then Suc (size m) else size m)"
  by (induction m) auto

lemma length_delete: "map_of m k \<noteq> None \<Longrightarrow> size (AList.delete k m) < size m"
  by (induction m) (auto simp: AList.delete_eq less_Suc_eq_le split: if_splits)

lemma putExists_bounded:
  assumes "0 < n" "size m \<le> n" "map_of m (victim m) \<noteq> None \<or> m = []"
  shows "size (putExists n victim now p m) \<le> n"
  using assms length_delete [of m "victim m"] by (auto simp: putExists_def length_update)

end
