(* ===== verification/InstanceService.thy ===== *)
theory InstanceService
  imports DiskService Peers "HOL-Library.Multiset"
begin

text \<open>
  internal/service/instance.go and instance\_nic.go: the instance use cases.
  The state of the world is the repository's state together with the states
  of the two binding owners (kacho-vpc for network interfaces, kacho-storage
  for volumes); either client may be absent. Workers are sequences of steps
  on that world; a failing step keeps what the steps before it did.
\<close>

section \<open>The world and steps on it\<close>

record ('d, 'n, 'v) world =
  w_db :: 'd
  w_nics :: 'n
  w_vols :: 'v

type_synonym ('w, 'a) step = "'w \<Rightarrow> (go_error + 'a) \<times> 'w"

definition on_db :: "('d, 'a) step \<Rightarrow> (('d, 'n, 'v) world, 'a) step" where
  "on_db f w = (case f (w_db w) of (r, d) \<Rightarrow> (r, w\<lparr> w_db := d \<rparr>))"

definition on_nics :: "('n, 'a) step \<Rightarrow> (('d, 'n, 'v) world, 'a) step" where
  "on_nics f w = (case f (w_nics w) of (r, n) \<Rightarrow> (r, w\<lparr> w_nics := n \<rparr>))"

definition on_vols :: "('v, 'a) step \<Rightarrow> (('d, 'n, 'v) world, 'a) step" where
  "on_vols f w = (case f (w_vols w) of (r, v) \<Rightarrow> (r, w\<lparr> w_vols := v \<rparr>))"

definition step_then :: "(go_error \<Rightarrow> go_error) \<Rightarrow> ('w, 'a) step \<Rightarrow> ('a \<Rightarrow> ('w, 'b) step) \<Rightarrow> ('w, 'b) step" where
  "step_then f m k w = (case m w of (Inl e, w') \<Rightarrow> (Inl (f e), w') | (Inr x, w') \<Rightarrow> k x w')"

section \<open>Requests\<close>

record create_instance_req =
  cv_project_id :: string
  cv_name :: string
  cv_description :: string
  cv_labels :: gomap
  cv_zone_id :: string
  cv_platform_id :: string
  cv_cores :: int
  cv_memory :: int
  cv_core_fraction :: int
  cv_gpus :: int
  cv_cpu_guarantee :: int
  cv_image :: string
  cv_metadata :: gomap
  cv_metadata_options :: "proto_msg option"
  cv_hostname :: string
  cv_preemptible :: bool
  cv_service_account_id :: string
  cv_network_settings_type :: string
  cv_placement_policy :: "proto_msg option"
  cv_hardware_generation :: "proto_msg option"
  cv_application :: "proto_msg option"

record update_instance_req =
  uv_instance_id :: string
  uv_name :: string
  uv_description :: string
  uv_labels :: gomap
  uv_service_account_id :: string
  uv_cores :: int
  uv_memory :: int
  uv_core_fraction :: int
  uv_gpus :: int
  uv_cpu_guarantee :: int
  uv_image :: string
  uv_platform_id :: string
  uv_placement_policy :: "proto_msg option"
  uv_network_settings_type :: string
  uv_mask :: "string list"

record attach_disk_req =
  ar_volume_id :: string
  ar_device_name :: string
  ar_mode :: int
  ar_is_boot :: bool
  ar_auto_delete :: bool

record ('d, 'n, 'v) instance_service =
  iv_repo :: "'d instance_port"
  iv_peers :: peers
  iv_nics :: "'n nic_port option"
  iv_vols :: "'v storage_port option"
  iv_core :: corelib

section \<open>Mirrors\<close>

definition network_interface_of :: "nic_attachment \<Rightarrow> network_interface" where
  "network_interface_of a =
    \<lparr> ni_index = int_dec (na_index a), ni_nic_id = na_nic_id a, ni_mac_address = na_mac a,
      ni_subnet_id = na_subnet_id a, ni_primary_v4_address = na_v4 a, ni_primary_v4_address_id = '''',
      ni_primary_v4_nat = None, ni_primary_v6_address = na_v6 a, ni_primary_v6_nat = None,
      ni_security_group_ids = na_sgs a \<rparr>"

definition nicMirror :: "nic_attachment list \<Rightarrow> network_interface list" where
  "nicMirror atts = List.map network_interface_of (sort_key na_index atts)"

definition attached_disk_of :: "volume_attachment \<Rightarrow> attached_disk" where
  "attached_disk_of a =
    \<lparr> ad_disk_id = va_volume_id a, ad_is_boot = va_is_boot a, ad_mode = va_mode a,
      ad_device_name = va_device_name a, ad_auto_delete = va_auto_delete a, ad_attached_at = zero_time \<rparr>"

text \<open>Boot first, then by device name.\<close>

definition volume_key :: "volume_attachment \<Rightarrow> bool \<times> string" where
  "volume_key a = (\<not> va_is_boot a, va_device_name a)"

definition volumeMirror :: "volume_attachment list \<Rightarrow> attached_disk list" where
  "volumeMirror atts = List.map attached_disk_of (sort_key volume_key atts)"

definition applyNicMirror :: "('d, 'n, 'v) instance_service \<Rightarrow> 'n \<Rightarrow> instance_row \<Rightarrow> instance_row" where
  "applyNicMirror I n x =
    (case iv_nics I of None \<Rightarrow> x
     | Some c \<Rightarrow> (case nicList c [in_id x] n of Inl _ \<Rightarrow> x | Inr atts \<Rightarrow> x\<lparr> in_nics := nicMirror atts \<rparr>))"

definition applyVolumeMirror :: "('d, 'n, 'v) instance_service \<Rightarrow> 'v \<Rightarrow> instance_row \<Rightarrow> instance_row" where
  "applyVolumeMirror I v x =
    (case iv_vols I of None \<Rightarrow> x
     | Some c \<Rightarrow> (case volList c [in_id x] v of Inl _ \<Rightarrow> x | Inr atts \<Rightarrow> x\<lparr> in_disks := volumeMirror atts \<rparr>))"

definition applyNicMirrorBatch :: "('d, 'n, 'v) instance_service \<Rightarrow> 'n \<Rightarrow> instance_row list \<Rightarrow> instance_row list" where
  "applyNicMirrorBatch I n xs =
    (case iv_nics I of None \<Rightarrow> xs
     | Some c \<Rightarrow> if xs = [] then xs else
        (case nicList c (List.map in_id xs) n of Inl _ \<Rightarrow> xs
         | Inr atts \<Rightarrow> List.map (\<lambda>x. x\<lparr> in_nics := nicMirror (filter (\<lambda>a. na_instance_id a = in_id x) atts) \<rparr>) xs))"

definition applyVolumeMirrorBatch :: "('d, 'n, 'v) instance_service \<Rightarrow> 'v \<Rightarrow> instance_row list \<Rightarrow> instance_row list" where
  "applyVolumeMirrorBatch I v xs =
    (case iv_vols I of None \<Rightarrow> xs
     | Some c \<Rightarrow> if xs = [] then xs else
        (case volList c (List.map in_id xs) v of Inl _ \<Rightarrow> xs
         | Inr atts \<Rightarrow> List.map (\<lambda>x. x\<lparr> in_disks := volumeMirror (filter (\<lambda>a. va_instance_id a = in_id x) atts) \<rparr>) xs))"

definition with_mirrors :: "('d, 'n, 'v) instance_service \<Rightarrow> ('d, 'n, 'v) world \<Rightarrow> instance_row \<Rightarrow> instance_row" where
  "with_mirrors I w x = applyVolumeMirror I (w_vols w) (applyNicMirror I (w_nics w) x)"

text \<open>reloadWithMirror, the tail of the attach and detach sagas\<close>

definition reloadWithMirror :: "('d, 'n, 'v) instance_service \<Rightarrow> string \<Rightarrow> ('d, 'n, 'v) world worker" where
  "reloadWithMirror I i w =
    stay (map_err mapRepoErr (instanceGet (iv_repo I) i (w_db w)))
      (\<lambda>x w. (Inr (AnyInstance (with_mirrors I w x)), w)) w"

section \<open>Reads\<close>

definition instance_service_get :: "('d, 'n, 'v) instance_service \<Rightarrow> string \<Rightarrow> ('d, 'n, 'v) world \<Rightarrow> go_error + instance_row" where
  "instance_service_get I i w =
    map_res (with_mirrors I w) (map_err mapRepoErr (instanceGet (iv_repo I) i (w_db w)))"

definition instance_service_list ::
  "('d, 'n, 'v) instance_service \<Rightarrow> list_filter \<Rightarrow> pagination \<Rightarrow> ('d, 'n, 'v) world \<Rightarrow> go_error + (instance_row list \<times> string)" where
  "instance_service_list I f p w =
    (if lf_project_id f = '''' then Inl (status InvalidArgument ''project_id required'')
     else map_res (\<lambda>(xs, next).
            (applyVolumeMirrorBatch I (w_vols w) (applyNicMirrorBatch I (w_nics w) xs), next))
            (instanceList (iv_repo I) f p (w_db w)))"

definition serial_text :: "instance_row \<Rightarrow> string" where
  "serial_text x = ''[control-plane] serial port output for instance '' @ in_id x @ '' (status=''
     @ instanceStatusName (in_status x) @ '') is not available (control-plane only).'' @ [CHR 0x0A]"

definition getSerialPortOutput :: "('d, 'n, 'v) instance_service \<Rightarrow> string \<Rightarrow> ('d, 'n, 'v) world \<Rightarrow> go_error + string" where
  "getSerialPortOutput I i w = map_res serial_text (map_err mapRepoErr (instanceGet (iv_repo I) i (w_db w)))"

definition instance_service_list_operations ::
  "('d, 'n, 'v) instance_service \<Rightarrow> (string \<Rightarrow> pagination \<Rightarrow> go_error + (operation list \<times> string)) \<Rightarrow> string \<Rightarrow> pagination
    \<Rightarrow> ('d, 'n, 'v) world \<Rightarrow> go_error + (operation list \<times> string)" where
  "instance_service_list_operations I opsList i p w =
    bindE (map_err mapRepoErr (instanceGet (iv_repo I) i (w_db w))) (\<lambda>_. opsList i p)"

section \<open>Create\<close>

definition validCoreFractions :: "int list" where "validCoreFractions = [0, 5, 20, 50, 100]"

definition validateResources :: "int \<Rightarrow> int \<Rightarrow> int \<Rightarrow> int \<Rightarrow> go_error option" where
  "validateResources cores memory coreFraction cpuGuarantee =
    (if cores \<le> 0 then Some (invalidArg ''resources_spec.cores'' ''cores must be > 0'')
     else if memory \<le> 0 then Some (invalidArg ''resources_spec.memory'' ''memory must be > 0 bytes'')
     else if coreFraction \<noteq> 0 \<and> coreFraction \<notin> set validCoreFractions
       then Some (invalidArg ''resources_spec.core_fraction'' ''core_fraction must be one of 0, 5, 20, 50, 100'')
     else if \<not> ValidCPUGuaranteePercent cpuGuarantee
       then Some (invalidArg ''resources_spec.cpu_guarantee_percent'' ''Illegal argument cpu_guarantee_percent'')
     else None)"

definition defaultCoreFraction :: "int \<Rightarrow> int" where
  "defaultCoreFraction cf = (if cf = 0 then 100 else cf)"

definition fqdn :: "string \<Rightarrow> string \<Rightarrow> string" where
  "fqdn i hostname = (if hostname \<noteq> '''' then hostname @ ''.kacho.internal'' else i @ ''.auto.internal'')"

definition validateCreateInstanceReq :: "corelib \<Rightarrow> create_instance_req \<Rightarrow> go_error option" where
  "validateCreateInstanceReq C req =
    (if cv_project_id req = '''' then Some (status InvalidArgument ''project_id required'')
     else if cv_zone_id req = '''' then Some (status InvalidArgument ''zone_id required'')
     else if cv_platform_id req = '''' then Some (status InvalidArgument ''platform_id required'')
     else or_else (cl_name C ''name'' (cv_name req))
      (or_else (cl_description C ''description'' (cv_description req))
      (or_else (cl_labels C ''labels'' (cv_labels req))
      (validateResources (cv_cores req) (cv_memory req) (cv_core_fraction req) (cv_cpu_guarantee req)))))"

definition instance_of_req :: "string \<Rightarrow> int \<Rightarrow> create_instance_req \<Rightarrow> instance_row" where
  "instance_of_req instanceID now req =
    \<lparr> in_id = instanceID, in_project_id = cv_project_id req, in_created_at = now, in_name = cv_name req,
      in_description = cv_description req, in_labels = cv_labels req, in_zone_id = cv_zone_id req,
      in_platform_id = cv_platform_id req, in_cores = cv_cores req, in_memory = cv_memory req,
      in_core_fraction = defaultCoreFraction (cv_core_fraction req), in_gpus = cv_gpus req,
      in_cpu_guarantee = cv_cpu_guarantee req, in_image = cv_image req, in_image_digest = '''',
      in_status = InstanceStatusRunning, in_metadata = cv_metadata req,
      in_metadata_options = cv_metadata_options req, in_service_account_id = cv_service_account_id req,
      in_hostname = cv_hostname req, in_fqdn = fqdn instanceID (cv_hostname req),
      in_network_settings_type = or_default '''' ''STANDARD'' (cv_network_settings_type req),
      in_preemptible = cv_preemptible req, in_placement_policy = cv_placement_policy req,
      in_serial_ssh = '''', in_gpu_cluster_id = '''', in_hardware_generation = cv_hardware_generation req,
      in_maintenance_policy = '''', in_maintenance_grace = 0, in_reserved_pool_id = '''',
      in_host_group_id = '''', in_host_id = '''', in_application = cv_application req,
      in_nics = [], in_disks = [] \<rparr>"

definition instance_do_create :: "('d, 'n, 'v) instance_service \<Rightarrow> int \<Rightarrow> string \<Rightarrow> create_instance_req \<Rightarrow> ('d, 'n, 'v) world worker" where
  "instance_do_create I now instanceID req =
    halt (checkProject (iv_peers I) (cv_project_id req)) (
    halt (map_option (mapZoneRefErr (cv_zone_id req)) (pe_get_zone (iv_peers I) (cv_zone_id req))) (
    halt (map_option (\<lambda>_. invalidArg ''resources_spec.cpu_guarantee_percent'' ''Illegal argument cpu_guarantee_percent'')
            (instance_validate (instance_of_req instanceID now req)))
      (\<lambda>w. finish AnyInstance (on_db (instanceInsert (iv_repo I) (instance_of_req instanceID now req)) w))))"

definition instance_service_create ::
  "('d, 'n, 'v) instance_service \<Rightarrow> op_env \<Rightarrow> int \<Rightarrow> string \<Rightarrow> create_instance_req
    \<Rightarrow> go_error + (operation \<times> ('d, 'n, 'v) world worker)" where
  "instance_service_create I O1 now instanceID req =
    guardE (validateCreateInstanceReq (iv_core I) req)
      (runOp O1 (''Create instance '' @ cv_name req)
        \<lparr> om_type = ''CreateInstanceMetadata'', om_fields = [(''instance_id'', instanceID)] \<rparr>
        (instance_do_create I now instanceID req))"

section \<open>Update\<close>

definition instance_full_mask :: "string list" where
  "instance_full_mask = [''name'', ''description'', ''labels'', ''service_account_id'', ''placement_policy'',
     ''network_settings'', ''image'']"

text \<open>The loop state: the snapshot, touchesCompute, labelsInMask, changed.\<close>

fun instance_apply_mask ::
  "update_instance_req \<Rightarrow> string list \<Rightarrow> instance_row \<times> bool \<times> bool \<times> string list
    \<Rightarrow> go_error + (instance_row \<times> bool \<times> bool \<times> string list)" where
  "instance_apply_mask req [] acc = Inr acc"
| "instance_apply_mask req (f # fs) (x, tc, lab, ch) =
    (if f = ''name'' then instance_apply_mask req fs (x\<lparr> in_name := uv_name req \<rparr>, tc, lab, ch @ [''name''])
     else if f = ''description'' then
       instance_apply_mask req fs (x\<lparr> in_description := uv_description req \<rparr>, tc, lab, ch @ [''description''])
     else if f = ''labels'' then
       instance_apply_mask req fs (x\<lparr> in_labels := uv_labels req \<rparr>, tc, True, ch @ [''labels''])
     else if f = ''service_account_id'' then
       instance_apply_mask req fs (x\<lparr> in_service_account_id := uv_service_account_id req \<rparr>, tc, lab, ch @ [''service_account_id''])
     else if f = ''placement_policy'' then
       instance_apply_mask req fs (x\<lparr> in_placement_policy := uv_placement_policy req \<rparr>, tc, lab, ch @ [''placement_policy''])
     else if f = ''network_settings'' then
       (if uv_network_settings_type req \<noteq> ''''
        then instance_apply_mask req fs (x\<lparr> in_network_settings_type := uv_network_settings_type req \<rparr>, tc, lab, ch @ [''network_settings''])
        else instance_apply_mask req fs (x, tc, lab, ch))
     else if f = ''image'' then instance_apply_mask req fs (x\<lparr> in_image := uv_image req \<rparr>, tc, lab, ch @ [''image''])
     else if f = ''resources_spec'' \<and> uv_mask req \<noteq> [] then
       (case validateResources (uv_cores req) (uv_memory req) (uv_core_fraction req) (uv_cpu_guarantee req) of
          Some e \<Rightarrow> Inl e
        | None \<Rightarrow> instance_apply_mask req fs
            (x\<lparr> in_cores := uv_cores req, in_memory := uv_memory req,
                in_core_fraction := defaultCoreFraction (uv_core_fraction req), in_gpus := uv_gpus req,
                in_cpu_guarantee := uv_cpu_guarantee req \<rparr>, True, lab, ch @ [''resources_spec'']))
     else if f = ''platform_id'' \<and> uv_mask req \<noteq> [] \<and> uv_platform_id req \<noteq> '''' then
       instance_apply_mask req fs (x\<lparr> in_platform_id := uv_platform_id req \<rparr>, True, lab, ch @ [''platform_id''])
     else instance_apply_mask req fs (x, tc, lab, ch))"

definition instance_do_update :: "('d, 'n, 'v) instance_service \<Rightarrow> update_instance_req \<Rightarrow> ('d, 'n, 'v) world worker" where
  "instance_do_update I req w =
    stay (map_err mapRepoErr (instanceGet (iv_repo I) (uv_instance_id req) (w_db w))) (\<lambda>x.
    stay (instance_apply_mask req (if uv_mask req = [] then instance_full_mask else uv_mask req) (x, False, False, []))
     (\<lambda>(x', touchesCompute, labelsInMask, changed).
      halt (if touchesCompute \<and> in_status x' \<noteq> InstanceStatusStopped
            then Some (status FailedPrecondition ''Instance must be STOPPED to change sizing'') else None)
       (\<lambda>w. finish AnyInstance (on_db (instanceUpdate (iv_repo I) x' labelsInMask changed) w)))) w"

definition instance_known_mask :: "string list" where
  "instance_known_mask = instance_full_mask @ [''resources_spec'', ''platform_id'']"

definition instance_immutable_err :: "string \<Rightarrow> go_error option" where
  "instance_immutable_err f =
    (if f \<in> set [''zone_id'', ''boot_disk'', ''boot_volume'', ''secondary_volumes'', ''network_interfaces'', ''metadata'']
     then Some (invalidArg f (f @ '' is immutable after Instance.Create (use AttachDisk/UpdateMetadata/Relocate)''))
     else if f \<in> set [''scheduling_policy'', ''metadata_options'', ''image_digest'']
     then Some (invalidArg f (f @ '' is immutable after Instance.Create''))
     else None)"

definition validateInstanceUpdate :: "corelib \<Rightarrow> update_instance_req \<Rightarrow> go_error option" where
  "validateInstanceUpdate C req =
    or_else (first_err instance_immutable_err (uv_mask req))
    (or_else (cl_update_mask C ''update_mask'' (uv_mask req) instance_known_mask)
    (first_err (mask_field_err C (uv_name req) (uv_description req) (uv_labels req)) (uv_mask req)))"

definition instance_op ::
  "op_env \<Rightarrow> string \<Rightarrow> string \<Rightarrow> string \<Rightarrow> ('d, 'n, 'v) world worker \<Rightarrow> go_error + (operation \<times> ('d, 'n, 'v) world worker)" where
  "instance_op O1 i desc metaType fn =
    (if i = '''' then Inl (status InvalidArgument ''instance_id required'')
     else runOp O1 desc \<lparr> om_type = metaType, om_fields = [(''instance_id'', i)] \<rparr> fn)"

definition instance_service_update ::
  "('d, 'n, 'v) instance_service \<Rightarrow> op_env \<Rightarrow> update_instance_req \<Rightarrow> go_error + (operation \<times> ('d, 'n, 'v) world worker)" where
  "instance_service_update I O1 req =
    (if uv_instance_id req = '''' then Inl (status InvalidArgument ''instance_id required'')
     else guardE (validateInstanceUpdate (iv_core I) req)
      (instance_op O1 (uv_instance_id req) (''Update instance '' @ uv_instance_id req) ''UpdateInstanceMetadata''
         (instance_do_update I req)))"

definition instance_service_update_metadata ::
  "('d, 'n, 'v) instance_service \<Rightarrow> op_env \<Rightarrow> string \<Rightarrow> string list \<Rightarrow> gomap \<Rightarrow> go_error + (operation \<times> ('d, 'n, 'v) world worker)" where
  "instance_service_update_metadata I O1 i del upsert =
    instance_op O1 i (''Update instance '' @ i @ '' metadata'') ''UpdateInstanceMetadataMetadata''
      (\<lambda>w. finish AnyInstance (on_db (instanceMergeMetadata (iv_repo I) i del upsert) w))"

section \<open>Lifecycle\<close>

definition mapLifecycleErr :: "string \<Rightarrow> go_error \<Rightarrow> go_error" where
  "mapLifecycleErr precondMsg e =
    (if is_sentinel e ErrFailedPrecondition then status FailedPrecondition precondMsg else mapRepoErr e)"

definition lifecycle_worker ::
  "('d, 'n, 'v) instance_service \<Rightarrow> string \<Rightarrow> instance_status \<Rightarrow> instance_status \<Rightarrow> string \<Rightarrow> ('d, 'n, 'v) world worker" where
  "lifecycle_worker I i from to precondMsg =
    step_then (mapLifecycleErr precondMsg) (on_db (instanceSetStatusCAS (iv_repo I) i from to))
      (\<lambda>x w. (Inr (AnyInstance x), w))"

definition instance_service_lifecycle ::
  "('d, 'n, 'v) instance_service \<Rightarrow> op_env \<Rightarrow> string \<Rightarrow> string \<Rightarrow> instance_status \<Rightarrow> instance_status \<Rightarrow> string \<Rightarrow> string
    \<Rightarrow> go_error + (operation \<times> ('d, 'n, 'v) world worker)" where
  "instance_service_lifecycle I O1 i action from to precondMsg metaType =
    instance_op O1 i (action @ '' instance '' @ i) metaType (lifecycle_worker I i from to precondMsg)"

definition instance_service_start ::
  "('d, 'n, 'v) instance_service \<Rightarrow> op_env \<Rightarrow> string \<Rightarrow> go_error + (operation \<times> ('d, 'n, 'v) world worker)" where
  "instance_service_start I O1 i =
    instance_service_lifecycle I O1 i ''Start'' InstanceStatusStopped InstanceStatusRunning
      ''Instance is not stopped'' ''StartInstanceMetadata''"

definition instance_service_stop ::
  "('d, 'n, 'v) instance_service \<Rightarrow> op_env \<Rightarrow> string \<Rightarrow> go_error + (operation \<times> ('d, 'n, 'v) world worker)" where
  "instance_service_stop I O1 i =
    instance_service_lifecycle I O1 i ''Stop'' InstanceStatusRunning InstanceStatusStopped
      ''Instance is not running'' ''StopInstanceMetadata''"

definition instance_service_restart ::
  "('d, 'n, 'v) instance_service \<Rightarrow> op_env \<Rightarrow> string \<Rightarrow> go_error + (operation \<times> ('d, 'n, 'v) world worker)" where
  "instance_service_restart I O1 i =
    instance_service_lifecycle I O1 i ''Restart'' InstanceStatusRunning InstanceStatusRunning
      ''Instance is not running'' ''RestartInstanceMetadata''"

definition simulate_maintenance_worker :: "('d, 'n, 'v) instance_service \<Rightarrow> string \<Rightarrow> ('d, 'n, 'v) world worker" where
  "simulate_maintenance_worker I i w =
    stay (map_err mapRepoErr (instanceGet (iv_repo I) i (w_db w))) (\<lambda>x w. (Inr (AnyInstance x), w)) w"

definition instance_service_simulate_maintenance ::
  "('d, 'n, 'v) instance_service \<Rightarrow> op_env \<Rightarrow> string \<Rightarrow> go_error + (operation \<times> ('d, 'n, 'v) world worker)" where
  "instance_service_simulate_maintenance I O1 i =
    instance_op O1 i (''Simulate maintenance event for instance '' @ i) ''SimulateInstanceMaintenanceEventMetadata''
      (simulate_maintenance_worker I i)"

section \<open>Volume attach and detach sagas\<close>

definition insResource :: string where "insResource = ''instance''"
definition volResource :: string where "volResource = ''volume''"
definition niResource :: string where "niResource = ''network interface''"

text \<open>The id prefixes of kacho-corelib are a parameter.\<close>

record id_prefixes =
  px_instance :: string
  px_volume :: string
  px_nic :: string

definition volume_spec :: "string \<Rightarrow> attach_disk_req \<Rightarrow> string \<times> string \<times> string \<Rightarrow> volume_attach_spec" where
  "volume_spec i req g = (case g of (zoneID, projectID, name) \<Rightarrow>
    \<lparr> vs_volume_id = ar_volume_id req, vs_instance_id = i, vs_instance_name = name, vs_zone_id = zoneID,
      vs_project_id = projectID, vs_device_name = ar_device_name req, vs_is_boot = ar_is_boot req,
      vs_mode = ar_mode req, vs_auto_delete = ar_auto_delete req \<rparr>)"

definition no_volume_service :: go_error where
  "no_volume_service = status Unavailable ''volume service unavailable''"

definition no_nic_service :: go_error where
  "no_nic_service = status Unavailable ''network interface service unavailable''"

definition attach_disk_worker :: "('d, 'n, 'v) instance_service \<Rightarrow> string \<Rightarrow> attach_disk_req \<Rightarrow> ('d, 'n, 'v) world worker" where
  "attach_disk_worker I i req w =
    stay (map_err mapRepoErr (instanceGate (iv_repo I) i (w_db w))) (\<lambda>g.
      case iv_vols I of
        None \<Rightarrow> (\<lambda>w. (Inl no_volume_service, w))
      | Some c \<Rightarrow> step_then (\<lambda>e. e) (on_vols (volAttach c (volume_spec i req g))) (\<lambda>_. reloadWithMirror I i)) w"

definition instance_service_attach_disk ::
  "('d, 'n, 'v) instance_service \<Rightarrow> id_prefixes \<Rightarrow> op_env \<Rightarrow> string \<Rightarrow> attach_disk_req \<Rightarrow> go_error + (operation \<times> ('d, 'n, 'v) world worker)" where
  "instance_service_attach_disk I X O1 i req =
    (if i = '''' then Inl (status InvalidArgument ''instance_id required'')
     else guardE (cl_resource_id (iv_core I) insResource (px_instance X) i)
      (if ar_volume_id req = '''' then Inl (invalidArg ''volume_id'' ''volume_id is required'')
       else guardE (cl_resource_id (iv_core I) volResource (px_volume X) (ar_volume_id req))
        (runOp O1 (''Attach disk to instance '' @ i)
          \<lparr> om_type = ''AttachInstanceDiskMetadata'', om_fields = [(''instance_id'', i), (''volume_id'', ar_volume_id req)] \<rparr>
          (attach_disk_worker I i req))))"

definition detach_target :: "string \<Rightarrow> string \<Rightarrow> volume_attachment list \<Rightarrow> volume_attachment option" where
  "detach_target volumeID deviceName atts =
    List.find (\<lambda>a. volumeID \<noteq> '''' \<and> va_volume_id a = volumeID \<or> deviceName \<noteq> '''' \<and> va_device_name a = deviceName) atts"

definition detach_disk_worker :: "('d, 'n, 'v) instance_service \<Rightarrow> string \<Rightarrow> string \<Rightarrow> string \<Rightarrow> ('d, 'n, 'v) world worker" where
  "detach_disk_worker I i volumeID deviceName w =
    (case iv_vols I of
       None \<Rightarrow> (Inl no_volume_service, w)
     | Some c \<Rightarrow>
        stay (volList c [i] (w_vols w)) (\<lambda>atts.
          case detach_target volumeID deviceName atts of
            None \<Rightarrow> reloadWithMirror I i
          | Some a \<Rightarrow> halt (if va_is_boot a then Some (status FailedPrecondition ''boot volume cannot be detached'') else None)
              (step_then (\<lambda>e. e) (on_vols (volDetach c (va_volume_id a) i)) (\<lambda>_. reloadWithMirror I i))) w)"

definition instance_service_detach_disk ::
  "('d, 'n, 'v) instance_service \<Rightarrow> id_prefixes \<Rightarrow> op_env \<Rightarrow> string \<Rightarrow> string \<Rightarrow> string \<Rightarrow> go_error + (operation \<times> ('d, 'n, 'v) world worker)" where
  "instance_service_detach_disk I X O1 i volumeID deviceName =
    (if i = '''' then Inl (status InvalidArgument ''instance_id required'')
     else if (volumeID = '''') = (deviceName = '''')
       then Inl (invalidArg ''disk'' ''exactly one of volume_id or device_name is required'')
     else guardE (cl_resource_id (iv_core I) insResource (px_instance X) i)
      (guardE (cl_resource_id (iv_core I) volResource (px_volume X) volumeID)
        (runOp O1 (''Detach disk from instance '' @ i)
          \<lparr> om_type = ''DetachInstanceDiskMetadata'', om_fields = [(''instance_id'', i), (''volume_id'', volumeID)] \<rparr>
          (detach_disk_worker I i volumeID deviceName))))"

section \<open>Network interface attach and detach sagas\<close>

definition attach_nic_worker :: "('d, 'n, 'v) instance_service \<Rightarrow> string \<Rightarrow> string \<Rightarrow> int \<Rightarrow> ('d, 'n, 'v) world worker" where
  "attach_nic_worker I i nicID index w =
    stay (map_err mapRepoErr (instanceGet (iv_repo I) i (w_db w))) (\<lambda>x.
      halt (if in_status x \<noteq> InstanceStatusRunning \<and> in_status x \<noteq> InstanceStatusStopped
            then Some (status FailedPrecondition ''Instance is not running or stopped'') else None)
      (case iv_nics I of
         None \<Rightarrow> (\<lambda>w. (Inl no_nic_service, w))
       | Some c \<Rightarrow> step_then mapNicErr
           (on_nics (nicAttach c \<lparr> ns_nic_id = nicID, ns_instance_id = in_id x, ns_instance_name = in_name x,
                                   ns_zone_id = in_zone_id x, ns_project_id = in_project_id x, ns_index = index \<rparr>))
           (\<lambda>_ w. (Inr (AnyInstance (applyNicMirror I (w_nics w) x)), w)))) w"

definition instance_service_attach_nic ::
  "('d, 'n, 'v) instance_service \<Rightarrow> id_prefixes \<Rightarrow> op_env \<Rightarrow> string \<Rightarrow> string \<Rightarrow> int \<Rightarrow> go_error + (operation \<times> ('d, 'n, 'v) world worker)" where
  "instance_service_attach_nic I X O1 i nicID index =
    (if i = '''' then Inl (status InvalidArgument ''instance_id required'')
     else guardE (cl_resource_id (iv_core I) niResource (px_nic X) nicID)
      (runOp O1 (''Attach network interface to instance '' @ i)
        \<lparr> om_type = ''AttachInstanceNetworkInterfaceMetadata'', om_fields = [(''instance_id'', i), (''nic_id'', nicID)] \<rparr>
        (attach_nic_worker I i nicID index)))"

text \<open>The NIC of a slot, by the owner's listing.\<close>

definition nic_at_index :: "int \<Rightarrow> nic_attachment list \<Rightarrow> string" where
  "nic_at_index index atts =
    (case List.find (\<lambda>a. na_index a = index) atts of None \<Rightarrow> '''' | Some a \<Rightarrow> na_nic_id a)"

definition detach_nic_worker :: "('d, 'n, 'v) instance_service \<Rightarrow> string \<Rightarrow> string \<Rightarrow> int \<Rightarrow> bool \<Rightarrow> ('d, 'n, 'v) world worker" where
  "detach_nic_worker I i nicID index byIndex w =
    stay (map_err mapRepoErr (instanceGet (iv_repo I) i (w_db w))) (\<lambda>x.
      let reply = (\<lambda>w. (Inr (AnyInstance (applyNicMirror I (w_nics w) x)), w)) in
      case iv_nics I of
        None \<Rightarrow> (\<lambda>w. (Inl no_nic_service, w))
      | Some c \<Rightarrow>
         (let det = (\<lambda>t. step_then mapNicErr (on_nics (nicDetach c t i)) (\<lambda>_. reply)) in
          if byIndex
          then (\<lambda>w. stay (map_err mapNicErr (nicList c [i] (w_nics w)))
                  (\<lambda>atts. if nic_at_index index atts = '''' then reply else det (nic_at_index index atts)) w)
          else det nicID)) w"

definition instance_service_detach_nic ::
  "('d, 'n, 'v) instance_service \<Rightarrow> id_prefixes \<Rightarrow> op_env \<Rightarrow> string \<Rightarrow> string \<Rightarrow> int \<Rightarrow> bool \<Rightarrow> go_error + (operation \<times> ('d, 'n, 'v) world worker)" where
  "instance_service_detach_nic I X O1 i nicID index byIndex =
    (if i = '''' then Inl (status InvalidArgument ''instance_id required'')
     else guardE (if byIndex then None else cl_resource_id (iv_core I) niResource (px_nic X) nicID)
      (runOp O1 (''Detach network interface from instance '' @ i)
        \<lparr> om_type = ''DetachInstanceNetworkInterfaceMetadata'', om_fields = [(''instance_id'', i), (''nic_id'', nicID)] \<rparr>
        (detach_nic_worker I i nicID index byIndex)))"

section \<open>Delete saga\<close>

text \<open>Step 2: the NICs, step 3: the volumes, each from a fresh listing of the owner.\<close>

definition release_nics :: "('d, 'n, 'v) instance_service \<Rightarrow> string \<Rightarrow> ('n, unit) step" where
  "release_nics I i n =
    (case iv_nics I of
       None \<Rightarrow> (Inr (), n)
     | Some c \<Rightarrow> stay (map_err mapNicErr (nicList c [i] n))
         (\<lambda>nics. detach_all (\<lambda>r. nicDetach c r i) mapNicErr (List.map na_nic_id nics)) n)"

definition release_volumes :: "('d, 'n, 'v) instance_service \<Rightarrow> string \<Rightarrow> ('v, unit) step" where
  "release_volumes I i v =
    (case iv_vols I of
       None \<Rightarrow> (Inr (), v)
     | Some c \<Rightarrow> stay (volList c [i] v)
         (\<lambda>vols. detach_all (\<lambda>r. volDetach c r i) (\<lambda>e. e) (List.map va_volume_id vols)) v)"

text \<open>NotFound from the repository means that an earlier run finished: success.\<close>

definition absent_is_done :: "('w, any_msg) step \<Rightarrow> ('w, any_msg) step" where
  "absent_is_done m w =
    (case m w of
       (Inl e, w') \<Rightarrow> (if is_sentinel e ErrNotFound then Inr AnyEmpty else Inl (mapRepoErr e), w')
     | r \<Rightarrow> r)"

definition delete_row_last :: "('d, 'n, 'v) instance_service \<Rightarrow> string \<Rightarrow> ('d, 'n, 'v) world worker" where
  "delete_row_last I i =
    absent_is_done (step_then (\<lambda>e. e) (on_db (instanceDelete (iv_repo I) i)) (\<lambda>_ w. (Inr AnyEmpty, w)))"

definition delete_worker :: "('d, 'n, 'v) instance_service \<Rightarrow> string \<Rightarrow> ('d, 'n, 'v) world worker" where
  "delete_worker I i w =
    (case on_db (instanceMarkDeleting (iv_repo I) i) w of
       (Inl e, w1) \<Rightarrow> (if is_sentinel e ErrNotFound then Inr AnyEmpty else Inl (mapRepoErr e), w1)
     | (Inr _, w1) \<Rightarrow>
        step_then (\<lambda>e. e) (on_nics (release_nics I i)) (\<lambda>_.
        step_then (\<lambda>e. e) (on_vols (release_volumes I i)) (\<lambda>_.
        delete_row_last I i)) w1)"

definition instance_service_delete ::
  "('d, 'n, 'v) instance_service \<Rightarrow> op_env \<Rightarrow> string \<Rightarrow> go_error + (operation \<times> ('d, 'n, 'v) world worker)" where
  "instance_service_delete I O1 i =
    instance_op O1 i (''Delete instance '' @ i) ''DeleteInstanceMetadata'' (delete_worker I i)"

section \<open>Steps: lemmas\<close>

lemma on_db_ok: "on_db f w = (Inr x, w') \<longleftrightarrow> (\<exists>d. f (w_db w) = (Inr x, d) \<and> w' = w\<lparr> w_db := d \<rparr>)"
  by (auto simp: on_db_def split: prod.splits)

lemma on_db_err: "on_db f w = (Inl e, w') \<longleftrightarrow> (\<exists>d. f (w_db w) = (Inl e, d) \<and> w' = w\<lparr> w_db := d \<rparr>)"
  by (auto simp: on_db_def split: prod.splits)

lemma on_nics_ok: "on_nics f w = (Inr x, w') \<longleftrightarrow> (\<exists>n. f (w_nics w) = (Inr x, n) \<and> w' = w\<lparr> w_nics := n \<rparr>)"
  by (auto simp: on_nics_def split: prod.splits)

lemma on_nics_err: "on_nics f w = (Inl x, w') \<longleftrightarrow> (\<exists>n. f (w_nics w) = (Inl x, n) \<and> w' = w\<lparr> w_nics := n \<rparr>)"
  by (auto simp: on_nics_def split: prod.splits)

lemma on_vols_ok: "on_vols f w = (Inr x, w') \<longleftrightarrow> (\<exists>v. f (w_vols w) = (Inr x, v) \<and> w' = w\<lparr> w_vols := v \<rparr>)"
  by (auto simp: on_vols_def split: prod.splits)

lemma on_vols_err: "on_vols f w = (Inl x, w') \<longleftrightarrow> (\<exists>v. f (w_vols w) = (Inl x, v) \<and> w' = w\<lparr> w_vols := v \<rparr>)"
  by (auto simp: on_vols_def split: prod.splits)

lemma step_then_ok: "step_then f m k w = (Inr y, w') \<longleftrightarrow> (\<exists>x w1. m w = (Inr x, w1) \<and> k x w1 = (Inr y, w'))"
  by (auto simp: step_then_def split: prod.splits sum.splits)

lemma step_then_err: "step_then f m k w = (Inl e, w') \<longleftrightarrow>
    (\<exists>e0. m w = (Inl e0, w') \<and> e = f e0) \<or> (\<exists>x w1. m w = (Inr x, w1) \<and> k x w1 = (Inl e, w'))"
  by (auto simp: step_then_def split: prod.splits sum.splits)

lemmas step_ok = on_db_ok on_nics_ok on_vols_ok step_then_ok halt_ok stay_ok finish_ok

lemma atomic_on_db [atomic_intros]: "atomic_worker f \<Longrightarrow> atomic_worker (on_db f)"
  by (rule atomicI) (auto simp: on_db_err dest: atomicD)

lemma atomic_map_then [atomic_intros]:
  "atomic_worker m \<Longrightarrow> atomic_worker (step_then f m (\<lambda>x w. (Inr (g x w), w)))"
  by (rule atomicI) (auto simp: step_then_err dest: atomicD)

lemma pg_instance_sel [simp]:
  "instanceGet (pg_instance_port C E) = instance_get E" "instanceInsert (pg_instance_port C E) = instance_insert E"
  "instanceUpdate (pg_instance_port C E) = instance_update E" "instanceGate (pg_instance_port C E) = gateForAttach E"
  "instanceSetStatusCAS (pg_instance_port C E) = setStatusCAS E"
  "instanceMarkDeleting (pg_instance_port C E) = markDeleting E"
  "instanceMergeMetadata (pg_instance_port C E) = mergeMetadata E"
  "instanceDelete (pg_instance_port C E) = instance_delete E"
  "instanceList (pg_instance_port C E) = instance_list C E"
  by (simp_all add: pg_instance_port_def)

section \<open>Mirrors: lemmas\<close>

lemma nicMirror_Nil [simp]: "nicMirror [] = []" "volumeMirror [] = []"
  by (simp_all add: nicMirror_def volumeMirror_def)

lemma volumeMirror_boot_first:
  "i < j \<Longrightarrow> j < size (volumeMirror atts) \<Longrightarrow> ad_is_boot (volumeMirror atts ! j) \<Longrightarrow> ad_is_boot (volumeMirror atts ! i)"
proof -
  assume a: "i < j" "j < size (volumeMirror atts)" "ad_is_boot (volumeMirror atts ! j)"
  let ?s = "sort_key volume_key atts"
  have "sorted (List.map volume_key ?s)" by simp
  then have "volume_key (?s ! i) \<le> volume_key (?s ! j)"
    using a by (simp add: volumeMirror_def sorted_iff_nth_mono del: sorted_sort_key)
  then show ?thesis using a by (auto simp: volumeMirror_def volume_key_def attached_disk_of_def)
qed

lemma volumeMirror_mset: "mset (volumeMirror atts) = image_mset attached_disk_of (mset atts)"
  by (simp add: volumeMirror_def)

lemma nicMirror_mset: "mset (nicMirror atts) = image_mset network_interface_of (mset atts)"
  by (simp add: nicMirror_def)

text \<open>A listing by several instances restricted to one is the listing by that one.\<close>

lemma filter_of_members: "i \<in> S \<Longrightarrow> filter (\<lambda>a. f a \<in> S \<and> f a = i) xs = filter (\<lambda>a. f a = i) xs"
  by (induction xs) auto

lemma mock_nic_list_batch:
  "mock_nic_list is n = Inr atts \<Longrightarrow> i \<in> set is \<Longrightarrow> mock_nic_list [i] n = Inr (filter (\<lambda>a. na_instance_id a = i) atts)"
  by (auto simp: mock_nic_list_def guardE_def filter_of_members split: option.splits)

lemma mock_vol_list_batch:
  "mock_vol_list is n = Inr atts \<Longrightarrow> i \<in> set is \<Longrightarrow> mock_vol_list [i] n = Inr (filter (\<lambda>a. va_instance_id a = i) atts)"
  by (auto simp: mock_vol_list_def guardE_def filter_of_members split: option.splits)

end
