(* ===== verification/InstanceSaga.thy ===== *)
theory InstanceSaga
  imports InstanceService
begin

text \<open>
  What the instance use cases guarantee on the Postgres repository: the
  delete saga over two binding owners, the lifecycle, the sizing rule of
  Update, and the interleaving of attach and delete.
\<close>

section \<open>The delete saga\<close>

locale binding_owners =
  nics: attachment_owner invn bn "nicList nc" "nicDetach nc" na_nic_id na_instance_id +
  vols: attachment_owner invv bv "volList vc" "volDetach vc" va_volume_id va_instance_id
  for invn :: "'n \<Rightarrow> bool" and bn and nc :: "'n nic_port"
    and invv :: "'v \<Rightarrow> bool" and bv and vc :: "'v storage_port"
begin

lemma release_nics_ok:
  assumes "iv_nics I = Some nc" "invn n" "release_nics I i n = (Inr (), n')"
  shows "bn n' = {b \<in> bn n. snd b \<noteq> i}"
  using assms nics.detach_listed [of n i _ mapNicErr n'] by (auto simp: release_nics_def stay_ok)

lemma release_nics_inv: "iv_nics I = Some nc \<Longrightarrow> invn n \<Longrightarrow> invn (snd (release_nics I i n))"
  by (auto simp: release_nics_def stay_def nics.detach_all_inv split: sum.splits)

lemma release_nics_keeps:
  assumes "iv_nics I = Some nc" "invn n" "release_nics I i n = (r, n')" "j \<noteq> i"
  shows "(x, j) \<in> bn n' \<longleftrightarrow> (x, j) \<in> bn n"
  using assms nics.detach_all_keeps_others [of n i mapNicErr _ r n' j x]
  by (cases "nicList nc [i] n") (auto simp: release_nics_def)

lemma release_volumes_ok:
  assumes "iv_vols I = Some vc" "invv v" "release_volumes I i v = (Inr (), v')"
  shows "bv v' = {b \<in> bv v. snd b \<noteq> i}"
  using assms vols.detach_listed [of v i _ "\<lambda>e. e" v'] by (auto simp: release_volumes_def stay_ok)

lemma release_volumes_inv: "iv_vols I = Some vc \<Longrightarrow> invv v \<Longrightarrow> invv (snd (release_volumes I i v))"
  by (auto simp: release_volumes_def stay_def vols.detach_all_inv split: sum.splits)

lemma release_volumes_keeps:
  assumes "iv_vols I = Some vc" "invv v" "release_volumes I i v = (r, v')" "j \<noteq> i"
  shows "(x, j) \<in> bv v' \<longleftrightarrow> (x, j) \<in> bv v"
  using assms vols.detach_all_keeps_others [of v i "\<lambda>e. e" _ r v' j x]
  by (cases "volList vc [i] v") (auto simp: release_volumes_def)

end

interpretation mock_owners: binding_owners nic_owner_ok nic_bindings mock_nic_port vol_owner_ok vol_bindings mock_storage_port
  by (simp add: binding_owners_def nic_mock.attachment_owner_axioms vol_mock.attachment_owner_axioms)

text \<open>A run that succeeds after the gate went through every step in order.\<close>

lemma delete_worker_ok_cases:
  assumes "delete_worker I i w = (Inr m, w')"
  obtains (absent) e d where "instanceMarkDeleting (iv_repo I) i (w_db w) = (Inl e, d)" "is_sentinel e ErrNotFound"
      "m = AnyEmpty" "w' = w\<lparr> w_db := d \<rparr>"
  | (released) x d1 n v r d2 where "instanceMarkDeleting (iv_repo I) i (w_db w) = (Inr x, d1)"
      "release_nics I i (w_nics w) = (Inr (), n)" "release_volumes I i (w_vols w) = (Inr (), v)"
      "instanceDelete (iv_repo I) i d1 = (r, d2)" "r = Inr () \<or> (\<exists>e. r = Inl e \<and> is_sentinel e ErrNotFound)"
      "m = AnyEmpty" "w' = w\<lparr> w_db := d2, w_nics := n, w_vols := v \<rparr>"
proof (cases "instanceMarkDeleting (iv_repo I) i (w_db w)")
  case (Pair r0 d1)
  show thesis
  proof (cases r0)
    case (Inl e)
    then show thesis using assms Pair absent
      by (auto simp: delete_worker_def on_db_def split: if_splits)
  next
    case (Inr x)
    obtain n v w2 where n: "release_nics I i (w_nics w) = (Inr (), n)" and v: "release_volumes I i (w_vols w) = (Inr (), v)"
      and l: "delete_row_last I i (w\<lparr> w_db := d1, w_nics := n, w_vols := v \<rparr>) = (Inr m, w')"
      using assms Pair Inr by (auto simp: delete_worker_def on_db_def step_ok)
    obtain r d2 where d: "instanceDelete (iv_repo I) i d1 = (r, d2)" by (cases "instanceDelete (iv_repo I) i d1")
    have "(r = Inr () \<or> (\<exists>e. r = Inl e \<and> is_sentinel e ErrNotFound)) \<and> m = AnyEmpty
        \<and> w' = w\<lparr> w_db := d2, w_nics := n, w_vols := v \<rparr>"
      using l d by (cases r) (auto simp: delete_row_last_def absent_is_done_def step_then_def on_db_def split: if_splits)
    then show thesis using released Pair Inr n v d by blast
  qed
qed

section \<open>What NotFound from the repository means\<close>

text \<open>A driver failure is not an empty result.\<close>

definition driver_faults :: "faults \<Rightarrow> bool" where
  "driver_faults F \<longleftrightarrow> list_all (\<lambda>f. case f F of None \<Rightarrow> True | Some e \<Rightarrow> \<not> is_no_rows e)
     [f_begin, f_query, f_probe, f_reload, f_emit, f_intent, f_commit]"

lemma driver_faults_no_faults [simp]: "driver_faults no_faults"
  by (simp add: driver_faults_def no_faults_def)

lemma driver_faultsD:
  assumes "driver_faults F"
  shows "f_query F = Some e \<Longrightarrow> \<not> is_no_rows e" "f_commit F = Some e \<Longrightarrow> \<not> is_no_rows e"
    "f_reload F = Some e \<Longrightarrow> \<not> is_no_rows e"
  using assms by (auto simp: driver_faults_def)

lemma wrapPgErr_NotFound: "is_sentinel (wrapPgErr k i e) ErrNotFound \<longleftrightarrow> is_no_rows e"
  by (simp add: wrapPgErr_def)

lemma wrapPgErr_Wrapped: "wrapPgErr k i e = Wrapped ErrNotFound m \<Longrightarrow> is_no_rows e"
  by (simp add: wrapPgErr_def split: if_splits)

lemma in_tx_err_cases:
  assumes "in_tx F wrap body s = (Inl e, s')"
  obtains "e = Sentinel ErrInternal" | "body s = Inl e" | e0 where "f_commit F = Some e0" "e = wrap e0"
  using assms by (auto simp: in_tx_def split: option.splits sum.splits)

lemma bindE_Inl: "bindE r k = Inl e \<longleftrightarrow> r = Inl e \<or> (\<exists>x. r = Inr x \<and> k x = Inl e)"
  by (cases r) auto

lemma map_err_Inl: "map_err f r = Inl e \<longleftrightarrow> (\<exists>e0. r = Inl e0 \<and> e = f e0)"
  by (cases r) auto

lemma or_internal_Inl: "or_internal r = Inl e \<Longrightarrow> e = Sentinel ErrInternal"
  by (auto simp: or_internal_def map_err_Inl)

lemma instance_delete_NotFound:
  assumes "instance_delete E i s = (Inl e, s')" "is_sentinel e ErrNotFound" "driver_faults (e_faults E)"
  shows "inst_sel (instances s) i = None"
  using assms(1) [unfolded instance_delete_def]
proof (cases rule: in_tx_err_cases)
  case 2
  then obtain e0 where q: "run_query (e_faults E)
        (scan_returning (\<lambda>r. Inr (tr_project_id r)) (Inr (sql_delete tr_id i (instances s)))) = Inl e0"
    and e: "e = instance_delete_err i e0"
    using assms(2) by (auto simp: bindE_Inl map_err_Inl dest!: or_internal_Inl)
  have n: "is_no_rows e0" using e assms(2) wrapPgErr_NotFound by (auto simp: instance_delete_err_def split: if_splits)
  then have "sql_delete tr_id i (instances s) = None"
    using q driver_faultsD(1) [OF assms(3)]
    by (auto simp: run_query_def guardE_def scan_returning_def split: option.splits)
  then show ?thesis by (rule instance_store.del_none)
qed (use assms(2,3) driver_faultsD(2) wrapPgErr_NotFound in auto)

lemma scanInstance_not_no_rows: "scanInstance P r = Inl e \<Longrightarrow> \<not> is_no_rows e"
  by (auto simp: scanInstance_def bindE_Inl unmarshalProtoJSONB_def unmarshalJSONB_def corrupted_err_def split: option.splits)

lemma markDeleting_NotFound:
  assumes "markDeleting E i s = (Inl e, s')" "is_sentinel e ErrNotFound" "driver_faults (e_faults E)"
  shows "inst_sel (instances s) i = None"
  using assms(1) [unfolded markDeleting_def]
proof (cases rule: in_tx_err_cases)
  case 2
  let ?u = "sql_update tr_id instance_uq instance_chk i (\<lambda>r. tr_status r \<noteq> ''DELETING'')
                (instance_set ''status'' (VText ''DELETING'')) (instances s)"
  have nu: "?u = Inl x \<Longrightarrow> \<not> is_no_rows x" for x
    by (auto simp: sql_update_def pg_check_def pg_unique_def split: option.splits if_splits)
  have fq: "f_query (e_faults E) = Some x \<Longrightarrow> \<not> is_no_rows x" for x
    using driver_faultsD(1) [OF assms(3)] .
  have rel: "instance_reload E i t = Inl x \<Longrightarrow> is_no_rows x \<Longrightarrow> inst_sel t i = None" for t x
    using driver_faultsD(3) [OF assms(3)] scanInstance_not_no_rows
    by (auto simp: instance_reload_def guardE_def scan_row_def split: option.splits)
  show ?thesis
  proof (cases ?u)
    case (Inl x)
    then show ?thesis using 2 assms(2) nu fq
      by (auto simp: run_query_def guardE_def wrapPgErr_NotFound split: option.splits)
  next
    case (Inr tag)
    show ?thesis
    proof (cases tag)
      case None
      then show ?thesis using 2 assms(2) Inr fq rel
        by (auto simp: run_query_def guardE_def wrapPgErr_NotFound bindE_Inl map_err_Inl
            dest: wrapPgErr_Wrapped split: option.splits if_splits)
    next
      case (Some p)
      obtain r1 t1 where p: "p = (r1, t1)" by (cases p)
      then have "inst_sel t1 i = None" using 2 assms(2) Inr Some fq rel
        by (auto simp: run_query_def guardE_def wrapPgErr_NotFound bindE_Inl map_err_Inl
            dest!: or_internal_Inl dest: wrapPgErr_Wrapped split: option.splits if_splits)
      then show ?thesis using instance_store.upd_sel [OF Inr [unfolded Some p], of i] by simp
    qed
  qed
qed (use assms(2,3) driver_faultsD(2) wrapPgErr_NotFound in auto)

section \<open>The saga on Postgres and two binding owners\<close>

text \<open>The instances of a service whose repository is the Postgres one; each
  statement may meet its own driver failures.\<close>

definition pg_delete_repo :: "env \<Rightarrow> env \<Rightarrow> db instance_port \<Rightarrow> bool" where
  "pg_delete_repo E1 E2 R \<longleftrightarrow> instanceMarkDeleting R = markDeleting E1 \<and> instanceDelete R = instance_delete E2
     \<and> driver_faults (e_faults E1) \<and> driver_faults (e_faults E2)"

lemma instance_delete_gone:
  assumes "instance_delete E i s = (r, s')" "r = Inr () \<or> (\<exists>e. r = Inl e \<and> is_sentinel e ErrNotFound)"
    "driver_faults (e_faults E)"
  shows "inst_sel (instances s') i = None" "j \<noteq> i \<Longrightarrow> inst_sel (instances s') j = inst_sel (instances s) j"
proof -
  have "inst_sel (instances s') i = None \<and> (j \<noteq> i \<longrightarrow> inst_sel (instances s') j = inst_sel (instances s) j)"
  proof (cases r)
    case (Inl e)
    then have "s' = s" using assms(1) instance_delete_error by blast
    then show ?thesis using instance_delete_NotFound [of E i s e s'] assms Inl by auto
  next
    case (Inr u)
    then obtain r0 t where "sql_delete tr_id i (instances s) = Some (r0, t)" "instances s' = t"
      using instance_delete_ok [of E i s s'] assms(1) by auto
    then show ?thesis using instance_store.del_sel [of i "instances s" r0 t] by auto
  qed
  then show "inst_sel (instances s') i = None" "j \<noteq> i \<Longrightarrow> inst_sel (instances s') j = inst_sel (instances s) j"
    by blast+
qed

lemma markDeleting_frame:
  assumes "markDeleting E i s = (r, s')" "j \<noteq> i"
  shows "inst_sel (instances s') j = inst_sel (instances s) j"
proof (cases r)
  case (Inl e)
  then show ?thesis using assms markDeleting_err by blast
next
  case (Inr x)
  then show ?thesis using markDeleting_ok [of E i s x s'] assms by auto
qed

text \<open>A success of the worker means: no row, and, unless there was no row to
  begin with, no binding of the instance at either owner; nothing else moved.\<close>

context binding_owners begin

lemma delete_worker_releases:
  assumes I: "iv_nics I = Some nc" "iv_vols I = Some vc" "pg_delete_repo E1 E2 (iv_repo I)"
    and inv: "invn (w_nics w)" "invv (w_vols w)"
    and run: "delete_worker I i w = (Inr m, w')"
  shows "inst_sel (instances (w_db w')) i = None"
    "j \<noteq> i \<Longrightarrow> inst_sel (instances (w_db w')) j = inst_sel (instances (w_db w)) j"
    "inst_sel (instances (w_db w)) i \<noteq> None \<Longrightarrow>
      bn (w_nics w') = {b \<in> bn (w_nics w). snd b \<noteq> i} \<and> bv (w_vols w') = {b \<in> bv (w_vols w). snd b \<noteq> i}"
proof -
  have "inst_sel (instances (w_db w')) i = None
    \<and> (j \<noteq> i \<longrightarrow> inst_sel (instances (w_db w')) j = inst_sel (instances (w_db w)) j)
    \<and> (inst_sel (instances (w_db w)) i \<noteq> None \<longrightarrow>
      bn (w_nics w') = {b \<in> bn (w_nics w). snd b \<noteq> i} \<and> bv (w_vols w') = {b \<in> bv (w_vols w). snd b \<noteq> i})"
    using run
  proof (cases rule: delete_worker_ok_cases)
    case (absent e d)
    then have md: "markDeleting E1 i (w_db w) = (Inl e, d)" using I(3) by (simp add: pg_delete_repo_def)
    then have "d = w_db w" by (rule markDeleting_err)
    then show ?thesis using markDeleting_NotFound [OF md absent(2)] absent(4) I(3) by (simp add: pg_delete_repo_def)
  next
    case (released x d1 n v r d2)
    have md: "markDeleting E1 i (w_db w) = (Inr x, d1)" and de: "instance_delete E2 i d1 = (r, d2)"
      and df: "driver_faults (e_faults E2)"
      using released(1,4) I(3) by (auto simp: pg_delete_repo_def)
    show ?thesis
      using instance_delete_gone [OF de released(5) df] markDeleting_frame [OF md]
        release_nics_ok [OF I(1) inv(1) released(2)] release_volumes_ok [OF I(2) inv(2) released(3)] released(7)
      by simp
  qed
  then show "inst_sel (instances (w_db w')) i = None"
    "j \<noteq> i \<Longrightarrow> inst_sel (instances (w_db w')) j = inst_sel (instances (w_db w)) j"
    "inst_sel (instances (w_db w)) i \<noteq> None \<Longrightarrow>
      bn (w_nics w') = {b \<in> bn (w_nics w). snd b \<noteq> i} \<and> bv (w_vols w') = {b \<in> bv (w_vols w). snd b \<noteq> i}"
    by blast+
qed

text \<open>A run that fails keeps the row (at most moved to DELETING) and the
  bindings of every other instance.\<close>

lemma delete_worker_fails:
  assumes I: "iv_nics I = Some nc" "iv_vols I = Some vc" "pg_delete_repo E1 E2 (iv_repo I)"
    and inv: "invn (w_nics w)" "invv (w_vols w)"
    and run: "delete_worker I i w = (Inl e, w')"
  shows "invn (w_nics w')" "invv (w_vols w')"
    "inst_sel (instances (w_db w)) i = Some r \<Longrightarrow>
      inst_sel (instances (w_db w')) i \<in> {Some r, Some (r\<lparr> tr_status := ''DELETING'' \<rparr>)}"
    "j \<noteq> i \<Longrightarrow> inst_sel (instances (w_db w')) j = inst_sel (instances (w_db w)) j
      \<and> ((x, j) \<in> bn (w_nics w') \<longleftrightarrow> (x, j) \<in> bn (w_nics w)) \<and> ((x, j) \<in> bv (w_vols w') \<longleftrightarrow> (x, j) \<in> bv (w_vols w))"
proof -
  obtain r1 d1 where p: "markDeleting E1 i (w_db w) = (r1, d1)" by (cases "markDeleting E1 i (w_db w)")
  obtain rn n where n: "release_nics I i (w_nics w) = (rn, n)" by (cases "release_nics I i (w_nics w)")
  obtain rv v where v: "release_volumes I i (w_vols w) = (rv, v)" by (cases "release_volumes I i (w_vols w)")
  have md: "instanceMarkDeleting (iv_repo I) = markDeleting E1" "instanceDelete (iv_repo I) = instance_delete E2"
    using I(3) by (simp_all add: pg_delete_repo_def)
  have db: "w_db w' = w_db w \<or> (w_db w' = d1 \<and> (\<exists>y. r1 = Inr y))"
    and ns: "w_nics w' = w_nics w \<or> w_nics w' = n" and vs: "w_vols w' = w_vols w \<or> w_vols w' = v"
    using run p n v
    by (auto simp: delete_worker_def md on_db_def on_nics_def on_vols_def step_then_def delete_row_last_def
        absent_is_done_def dest: markDeleting_err instance_delete_error split: sum.splits prod.splits if_splits)
  show "invn (w_nics w')" using ns inv(1) release_nics_inv [OF I(1) inv(1), of i] n by auto
  show "invv (w_vols w')" using vs inv(2) release_volumes_inv [OF I(2) inv(2), of i] v by auto
  show "inst_sel (instances (w_db w)) i = Some r \<Longrightarrow>
      inst_sel (instances (w_db w')) i \<in> {Some r, Some (r\<lparr> tr_status := ''DELETING'' \<rparr>)}"
    using db p markDeleting_ok [of E1 i "w_db w" _ d1] by auto
  show "j \<noteq> i \<Longrightarrow> inst_sel (instances (w_db w')) j = inst_sel (instances (w_db w)) j
      \<and> ((x, j) \<in> bn (w_nics w') \<longleftrightarrow> (x, j) \<in> bn (w_nics w)) \<and> ((x, j) \<in> bv (w_vols w') \<longleftrightarrow> (x, j) \<in> bv (w_vols w))"
    using db ns vs markDeleting_frame [OF p] release_nics_keeps [OF I(1) inv(1) n]
      release_volumes_keeps [OF I(2) inv(2) v] by metis
qed

end

section \<open>Progress and replay\<close>

lemma uq_distinct_other:
  assumes "uq_distinct uq t" "distinct (List.map pk t)" "r \<in> set t" "x \<in> set t" "uq x = uq r" "uq r \<noteq> None"
  shows "x = r"
proof -
  have "inj_on uq (set (filter (\<lambda>r. uq r \<noteq> None) t))" using assms(1) by (simp add: uq_distinct_def distinct_map)
  then show ?thesis using assms(3-6) by (auto dest!: inj_onD)
qed

text \<open>An UPDATE that keeps the key, the name and the checks of a row never fails.\<close>

lemma sql_update_succeeds:
  assumes "table_ok pk uq chk t" "sql_select pk i t = Some r" "p r" "chk (f r)" "uq (f r) = uq r"
  shows "\<exists>t'. sql_update pk uq chk i p f t = Inr (Some (f r, t'))"
proof -
  have r: "r \<in> set t" "pk r = i" using sql_select_Some_D [OF assms(2)] by simp_all
  have "\<not> uq_clash uq (f r) (filter (\<lambda>x. pk x \<noteq> i) t)"
    using uq_distinct_other [of uq t pk r] assms(1,5) r by (auto simp: uq_clash_def table_ok_def)
  then show ?thesis using assms(2-4) by (simp add: sql_update_def)
qed

lemma instance_row_chk: "instances_ok t \<Longrightarrow> inst_sel t i = Some r \<Longrightarrow> instance_chk r"
  by (auto simp: table_ok_def list_all_iff dest!: sql_select_Some_D)

lemma status_update_succeeds:
  assumes "instances_ok t" "inst_sel t i = Some r" "p r"
  shows "\<exists>t'. sql_update tr_id instance_uq instance_chk i p (instance_set ''status'' (VText st)) t
    = Inr (Some (r\<lparr> tr_status := st \<rparr>, t')) \<and> inst_sel t' i = Some (r\<lparr> tr_status := st \<rparr>)"
proof -
  have "\<exists>t'. sql_update tr_id instance_uq instance_chk i p (instance_set ''status'' (VText st)) t
      = Inr (Some (instance_set ''status'' (VText st) r, t'))"
    by (rule sql_update_succeeds [where p = p])
      (use assms instance_row_chk [OF assms(1,2)] in \<open>simp_all add: instance_chk_def instance_uq_def\<close>)
  then obtain t' where t': "sql_update tr_id instance_uq instance_chk i p (instance_set ''status'' (VText st)) t
      = Inr (Some (r\<lparr> tr_status := st \<rparr>, t'))" by auto
  then show ?thesis using instance_store.upd_sel [OF t', of i] by simp
qed

lemma markDeleting_progress:
  assumes "e_faults E = no_faults" "instances_ok (instances s)" "inst_sel (instances s) i = Some r"
    "scanInstance (e_pj E) (r\<lparr> tr_status := ''DELETING'' \<rparr>) = Inr x"
  shows "\<exists>s'. markDeleting E i s = (Inr x, s')"
proof (cases "tr_status r = ''DELETING''")
  case True
  then have "r\<lparr> tr_status := ''DELETING'' \<rparr> = r" by simp
  moreover have "sql_update tr_id instance_uq instance_chk i (\<lambda>r. tr_status r \<noteq> ''DELETING'')
                (instance_set ''status'' (VText ''DELETING'')) (instances s) = Inr None"
    using assms(3) True by (simp add: sql_update_None)
  ultimately show ?thesis using assms
    by (simp add: markDeleting_def in_tx_def run_query_def no_faults_def instance_reload_def scan_row_def)
next
  case False
  obtain t where "sql_update tr_id instance_uq instance_chk i (\<lambda>r. tr_status r \<noteq> ''DELETING'')
                (instance_set ''status'' (VText ''DELETING'')) (instances s) = Inr (Some (r\<lparr> tr_status := ''DELETING'' \<rparr>, t))"
    "inst_sel t i = Some (r\<lparr> tr_status := ''DELETING'' \<rparr>)"
    using status_update_succeeds [OF assms(2,3), of "\<lambda>r. tr_status r \<noteq> ''DELETING''" "''DELETING''"] False by blast
  then show ?thesis using assms
    by (simp add: markDeleting_def in_tx_def run_query_def no_faults_def instance_reload_def scan_row_def
        emitCompute_def or_internal_def)
qed

lemma instance_delete_progress:
  assumes "e_faults E = no_faults" "inst_sel (instances s) i = Some r"
  shows "\<exists>s'. instance_delete E i s = (Inr (), s')"
  using assms
  by (simp add: instance_delete_def in_tx_def run_query_def no_faults_def scan_returning_def sql_delete_def
      emitCompute_def or_internal_def emitFGARegisterIntent_def split: option.splits)

lemma instance_absent_NotFound:
  assumes "e_faults E = no_faults" "inst_sel (instances s) i = None"
  shows "markDeleting E i s = (Inl (Wrapped ErrNotFound (''Instance '' @ i @ '' not found'')), s)"
proof -
  have "sql_update tr_id instance_uq instance_chk i (\<lambda>r. tr_status r \<noteq> ''DELETING'')
                (instance_set ''status'' (VText ''DELETING'')) (instances s) = Inr None"
    using assms(2) by (simp add: sql_update_None)
  then show ?thesis using assms
    by (simp add: markDeleting_def in_tx_def run_query_def no_faults_def instance_reload_def scan_row_def)
qed

text \<open>Replaying a finished delete succeeds and changes nothing.\<close>

lemma delete_worker_replay:
  assumes "instanceMarkDeleting (iv_repo I) = markDeleting E" "e_faults E = no_faults"
    "inst_sel (instances (w_db w)) i = None"
  shows "delete_worker I i w = (Inr AnyEmpty, w)"
  using assms by (simp add: delete_worker_def on_db_def instance_absent_NotFound)

locale live_binding_owners = binding_owners +
  lnics: live_owner invn bn "nicList nc" "nicDetach nc" na_nic_id na_instance_id upn +
  lvols: live_owner invv bv "volList vc" "volDetach vc" va_volume_id va_instance_id upv
  for upn upv
begin

lemma delete_worker_progress:
  assumes I: "iv_nics I = Some nc" "iv_vols I = Some vc" "pg_delete_repo E1 E2 (iv_repo I)"
    and E: "e_faults E1 = no_faults" "e_faults E2 = no_faults"
    and up: "upn (w_nics w)" "upv (w_vols w)"
    and r: "instances_ok (instances (w_db w))" "inst_sel (instances (w_db w)) i = Some r"
      "scanInstance (e_pj E1) (r\<lparr> tr_status := ''DELETING'' \<rparr>) = Inr x"
  shows "\<exists>w'. delete_worker I i w = (Inr AnyEmpty, w')"
proof -
  have md: "instanceMarkDeleting (iv_repo I) = markDeleting E1" "instanceDelete (iv_repo I) = instance_delete E2"
    using I(3) by (simp_all add: pg_delete_repo_def)
  obtain d1 where d1: "markDeleting E1 i (w_db w) = (Inr x, d1)" using markDeleting_progress [OF E(1) r] by blast
  then obtain r1 where "inst_sel (instances d1) i = Some r1" using markDeleting_ok [OF d1] by auto
  then obtain d2 where d2: "instance_delete E2 i d1 = (Inr (), d2)" using instance_delete_progress [OF E(2)] by blast
  obtain ns n where "nicList nc [i] (w_nics w) = Inr ns"
      "detach_all (\<lambda>r. nicDetach nc r i) mapNicErr (List.map na_nic_id ns) (w_nics w) = (Inr (), n)"
    using lnics.up_list [OF up(1)] lnics.detach_all_up [OF up(1)] by blast
  moreover obtain vs v where "volList vc [i] (w_vols w) = Inr vs"
      "detach_all (\<lambda>r. volDetach vc r i) (\<lambda>e. e) (List.map va_volume_id vs) (w_vols w) = (Inr (), v)"
    using lvols.up_list [OF up(2)] lvols.detach_all_up [OF up(2)] by blast
  ultimately show ?thesis using d1 d2 I(1,2)
    by (simp add: delete_worker_def md on_db_def on_nics_def on_vols_def step_then_def release_nics_def
        release_volumes_def delete_row_last_def absent_is_done_def)
qed

end

interpretation mock_live_owners: live_binding_owners nic_owner_ok nic_bindings mock_nic_port vol_owner_ok vol_bindings
  mock_storage_port nic_up vol_up
  by (simp add: live_binding_owners_def mock_owners.binding_owners_axioms nic_live.live_owner_axioms vol_live.live_owner_axioms)

end
