(* ===== verification/InstanceLifecycle.thy ===== *)
theory InstanceLifecycle
  imports InstanceSaga
begin

text \<open>
  The state machine of an instance row under every write of InstanceRepo, the
  sizing rule of Update, and the interleaving of the attach and delete sagas
  at the granularity of their single statements and calls.
\<close>

section \<open>Writes on instance rows\<close>

text \<open>Every call the use cases make that writes a stored instance, with its outcome ignored; that
  the workers of Start, Stop and Restart are among them is the lemma \<^verbatim>\<open>lifecycle_run_is_write\<close>.\<close>

inductive instance_write :: "db \<Rightarrow> db \<Rightarrow> bool" where
  write_update: "instance_update E x lab ch s = (r, s') \<Longrightarrow> instance_write s s'"
| write_start: "setStatusCAS E i InstanceStatusStopped InstanceStatusRunning s = (r, s') \<Longrightarrow> instance_write s s'"
| write_stop: "setStatusCAS E i InstanceStatusRunning InstanceStatusStopped s = (r, s') \<Longrightarrow> instance_write s s'"
| write_restart: "setStatusCAS E i InstanceStatusRunning InstanceStatusRunning s = (r, s') \<Longrightarrow> instance_write s s'"
| write_metadata: "mergeMetadata E i del up s = (r, s') \<Longrightarrow> instance_write s s'"

inductive instance_step :: "db \<Rightarrow> db \<Rightarrow> bool" where
  step_write: "instance_write s s' \<Longrightarrow> instance_step s s'"
| step_create: "instance_insert E (instance_of_req i now req) s = (r, s') \<Longrightarrow> instance_step s s'"
| step_mark: "markDeleting E i s = (r, s') \<Longrightarrow> instance_step s s'"
| step_delete: "instance_delete E i s = (r, s') \<Longrightarrow> instance_step s s'"

text \<open>What one write does to one row: nothing, or a row with one of the allowed statuses.\<close>

definition status_move :: "string \<Rightarrow> string \<Rightarrow> bool" where
  "status_move a b \<longleftrightarrow> a = b \<or> (a = ''STOPPED'' \<and> b = ''RUNNING'') \<or> (a = ''RUNNING'' \<and> b = ''STOPPED'')"

lemma no_move [simp]: "rel_option (\<lambda>x y. status_move (tr_status x) (tr_status y)) q q"
  by (cases q) (simp_all add: status_move_def)

lemma setStatusCAS_move:
  assumes "setStatusCAS E i a b s = (r, s')" "status_move (instanceStatusName a) (instanceStatusName b)"
  shows "rel_option (\<lambda>x y. status_move (tr_status x) (tr_status y)) (inst_sel (instances s) j) (inst_sel (instances s') j)"
proof (cases r)
  case (Inl e)
  then have "s' = s" using setStatusCAS_err assms(1) by blast
  then show ?thesis by simp
next
  case (Inr x)
  then show ?thesis using setStatusCAS_ok [of E i a b s x s'] assms
    by (cases "inst_sel (instances s) j") (auto simp: status_move_def)
qed

lemma instance_write_move:
  assumes "instance_write s s'"
  shows "rel_option (\<lambda>x y. status_move (tr_status x) (tr_status y)) (inst_sel (instances s) j) (inst_sel (instances s') j)"
  using assms
proof cases
  case (write_update E x lab ch r)
  show ?thesis
  proof (cases r)
    case (Inl e)
    then have "s' = s" using instance_update_err write_update by blast
    then show ?thesis by simp
  next
    case (Inr y)
    then show ?thesis using instance_update_ok [of E x lab ch s y s'] write_update
      by (cases "inst_sel (instances s) j") (auto simp: status_move_def)
  qed
next
  case (write_metadata E i del up r)
  show ?thesis
  proof (cases r)
    case (Inl e)
    then have "s' = s" using mergeMetadata_err write_metadata by blast
    then show ?thesis by simp
  next
    case (Inr y)
    then show ?thesis using mergeMetadata_ok [of E i del up s y s'] write_metadata
      by (cases "inst_sel (instances s) j") (auto simp: status_move_def)
  qed
qed (erule setStatusCAS_move, simp add: status_move_def)+

lemma instance_write_ok: "instance_write s s' \<Longrightarrow> instances_ok (instances s) \<Longrightarrow> instances_ok (instances s')"
proof (induction rule: instance_write.induct)
  case (write_update E x lab ch s r s')
  then show ?case using instance_update_ok [of E x lab ch s _ s'] instance_update_err [of E x lab ch s _ s'] by (cases r) auto
next
  case (write_metadata E i del up s r s')
  then show ?case using mergeMetadata_ok [of E i del up s _ s'] mergeMetadata_err [of E i del up s _ s'] by (cases r) auto
next
  case (write_start E i s r s')
  then show ?case using setStatusCAS_ok [of E i _ _ s _ s'] setStatusCAS_err [of E i _ _ s _ s'] by (cases r) fastforce+
next
  case (write_stop E i s r s')
  then show ?case using setStatusCAS_ok [of E i _ _ s _ s'] setStatusCAS_err [of E i _ _ s _ s'] by (cases r) fastforce+
next
  case (write_restart E i s r s')
  then show ?case using setStatusCAS_ok [of E i _ _ s _ s'] setStatusCAS_err [of E i _ _ s _ s'] by (cases r) fastforce+
qed

section \<open>The state machine\<close>

text \<open>The lifecycle promised by the API: one step of the abstract machine on
  the status of one instance (None: no such instance).\<close>

inductive vm_step :: "string option \<Rightarrow> string option \<Rightarrow> bool" where
  vm_same: "vm_step q q"
| vm_create: "vm_step None (Some ''RUNNING'')"
| vm_stop: "vm_step (Some ''RUNNING'') (Some ''STOPPED'')"
| vm_start: "vm_step (Some ''STOPPED'') (Some ''RUNNING'')"
| vm_mark: "vm_step (Some st) (Some ''DELETING'')"
| vm_remove: "vm_step (Some st) None"

inductive_simps vm_step_from_deleting: "vm_step (Some ''DELETING'') q"

definition vm_status :: "string \<Rightarrow> db \<Rightarrow> string option" where
  "vm_status i s = map_option tr_status (inst_sel (instances s) i)"

lemma vm_of_move:
  "rel_option (\<lambda>x y. status_move (tr_status x) (tr_status y)) a b \<Longrightarrow> vm_step (map_option tr_status a) (map_option tr_status b)"
  by (auto elim!: option.rel_cases simp: status_move_def intro: vm_step.intros)

lemma instance_insert_running:
  assumes "instance_insert E (instance_of_req i now req) s = (Inr x, s')"
  shows "inst_sel (instances s) i = None"
    "\<exists>row. tr_status row = ''RUNNING'' \<and> tr_id row = i
       \<and> (\<forall>j. inst_sel (instances s') j = (if j = i then Some row else inst_sel (instances s) j))"
    "instances_ok (instances s) \<Longrightarrow> instances_ok (instances s')"
proof -
  obtain row t where row: "instanceInsertArgs (e_pj E) (instance_of_req i now req) = Inr row"
    and ins: "sql_insert tr_id instance_uq instance_chk row (instances s) = Inr t" and s': "instances s' = t"
    using instance_insert_ok [OF assms] by auto
  have k: "tr_id row = i" "tr_status row = ''RUNNING''"
    using instanceInsertArgs_cols [OF row] by (simp_all add: instance_of_req_def)
  show "inst_sel (instances s) i = None" using instance_store.ins_fresh [OF ins] k by simp
  show "\<exists>row. tr_status row = ''RUNNING'' \<and> tr_id row = i
       \<and> (\<forall>j. inst_sel (instances s') j = (if j = i then Some row else inst_sel (instances s) j))"
    using instance_store.ins_sel [OF ins] k s' by auto
  show "instances_ok (instances s) \<Longrightarrow> instances_ok (instances s')"
    using instance_store.ins_ok [OF ins] s' by simp
qed

text \<open>Refinement: every step of the implementation is a step of the machine on every instance.\<close>

lemma instance_step_refines:
  assumes "instance_step s s'"
  shows "vm_step (vm_status j s) (vm_status j s')"
  using assms
proof cases
  case step_write
  then show ?thesis using vm_of_move [OF instance_write_move] by (simp add: vm_status_def)
next
  case (step_create E i now req r)
  show ?thesis
  proof (cases r)
    case (Inl e)
    then show ?thesis using step_create instance_insert_err vm_same by metis
  next
    case (Inr x)
    then show ?thesis using instance_insert_running [of E i now req s x s'] step_create
      by (auto simp: vm_status_def intro: vm_step.intros)
  qed
next
  case (step_mark E i r)
  show ?thesis
  proof (cases r)
    case (Inl e)
    then show ?thesis using step_mark markDeleting_err vm_same by metis
  next
    case (Inr x)
    then show ?thesis using markDeleting_ok [of E i s x s'] step_mark
      by (auto simp: vm_status_def intro: vm_step.intros)
  qed
next
  case (step_delete E i r)
  show ?thesis
  proof (cases r)
    case (Inl e)
    then show ?thesis using step_delete instance_delete_error vm_same by metis
  next
    case (Inr x)
    obtain r0 t where d: "sql_delete tr_id i (instances s) = Some (r0, t)" and s': "instances s' = t"
      using instance_delete_ok [of E i s s'] step_delete Inr by auto
    have "inst_sel (instances s) i = Some r0" using d by (simp add: sql_delete_Some)
    then show ?thesis using instance_store.del_sel [OF d, of j] s'
      by (cases "j = i") (auto simp: vm_status_def intro: vm_step.intros)
  qed
qed

lemma instance_step_ok: "instance_step s s' \<Longrightarrow> instances_ok (instances s) \<Longrightarrow> instances_ok (instances s')"
proof (induction rule: instance_step.induct)
  case (step_write s s')
  then show ?case by (simp add: instance_write_ok)
next
  case (step_create E i now req s r s')
  then show ?case using instance_insert_err [of E _ s _ s'] instance_insert_running(3) [of E i now req s _ s']
    by (cases r) auto
next
  case (step_mark E i s r s')
  then show ?case using markDeleting_ok [of E i s _ s'] markDeleting_err [of E i s _ s'] by (cases r) auto
next
  case (step_delete E i s r s')
  then show ?case using instance_delete_ok [of E i s s'] instance_delete_error [of E i s _ s'] instance_store.del_ok
    by (cases r) fastforce+
qed

definition vm_reachable :: "string option \<Rightarrow> bool" where
  "vm_reachable q \<longleftrightarrow> q \<in> {None, Some ''RUNNING'', Some ''STOPPED'', Some ''DELETING''}"

lemma vm_step_reachable: "vm_step q q' \<Longrightarrow> vm_reachable q \<Longrightarrow> vm_reachable q'"
  by (induction rule: vm_step.induct) (auto simp: vm_reachable_def)

lemma instance_steps_reachable:
  "instance_step\<^sup>*\<^sup>* s s' \<Longrightarrow> vm_reachable (vm_status i s) \<Longrightarrow> vm_reachable (vm_status i s')"
  by (induction rule: rtranclp_induct) (blast intro: vm_step_reachable instance_step_refines)+

lemma vm_step_deleting: "vm_step (Some ''DELETING'') q \<longleftrightarrow> q \<in> {None, Some ''DELETING''}"
  by (auto simp: vm_step_from_deleting)

section \<open>Sizing\<close>

definition sizing :: "instance_trow \<Rightarrow> int \<times> int \<times> int \<times> int \<times> int \<times> string" where
  "sizing r = (tr_cores r, tr_memory r, tr_core_fraction r, tr_gpus r, tr_cpu_guarantee r, tr_platform_id r)"

lemma sizing_exec: "\<not> (''resources_spec'' \<in> set ch \<or> ''platform_id'' \<in> set ch) \<Longrightarrow> sizing (instance_exec P x ch r) = sizing r"
  by (simp add: sizing_def instance_exec_def)

lemma sizing_upd [simp]: "sizing (r\<lparr> tr_status := st \<rparr>) = sizing r" "sizing (r\<lparr> tr_metadata := j \<rparr>) = sizing r"
  by (simp_all add: sizing_def)

text \<open>A row a statement leaves behind is the old row, or the statement saw it STOPPED.\<close>

lemma setStatusCAS_sizing:
  assumes "setStatusCAS E i a b s = (r, s')" "inst_sel (instances s) j = Some x" "inst_sel (instances s') j = Some y"
  shows "sizing y = sizing x"
proof (cases r)
  case (Inl e)
  then have "s' = s" using setStatusCAS_err assms(1) by blast
  then show ?thesis using assms by simp
next
  case (Inr z)
  then obtain r0 t where "inst_sel (instances s) i = Some r0" "instances s' = t"
    "\<forall>j. inst_sel t j = (if j = i then Some (r0\<lparr> tr_status := instanceStatusName b \<rparr>) else inst_sel (instances s) j)"
    using setStatusCAS_ok [of E i a b s z s'] assms(1) by auto
  then show ?thesis using assms(2,3) by (cases "j = i") auto
qed

lemma instance_update_sizing:
  assumes "instance_update E d lab ch s = (r, s')" "inst_sel (instances s) j = Some x" "inst_sel (instances s') j = Some y"
    "sizing y \<noteq> sizing x"
  shows "tr_status x = ''STOPPED''"
proof (cases r)
  case (Inl e)
  then have "s' = s" using instance_update_err assms(1) by blast
  then show ?thesis using assms by simp
next
  case (Inr z)
  then obtain r0 t where "inst_sel (instances s) (in_id d) = Some r0"
     "''resources_spec'' \<in> set ch \<or> ''platform_id'' \<in> set ch \<longrightarrow> tr_status r0 = ''STOPPED''"
     "\<forall>j. inst_sel t j = (if j = in_id d then Some (instance_exec (e_pj E) d ch r0) else inst_sel (instances s) j)"
     "instances s' = t"
    using instance_update_ok [of E d lab ch s z s'] assms(1) by auto
  then show ?thesis using assms(2-4) sizing_exec by (cases "j = in_id d") auto
qed

lemma instance_write_sizing:
  assumes "instance_write s s'" "inst_sel (instances s) j = Some x" "inst_sel (instances s') j = Some y" "sizing y \<noteq> sizing x"
  shows "tr_status x = ''STOPPED''"
  using assms(1)
proof cases
  case (write_update E d lab ch r)
  then show ?thesis using instance_update_sizing assms(2-4) by blast
next
  case (write_metadata E i del up r)
  show ?thesis
  proof (cases r)
    case (Inl e)
    then have "s' = s" using mergeMetadata_err write_metadata by blast
    then show ?thesis using assms by simp
  next
    case (Inr z)
    then obtain r0 t md where "inst_sel (instances s) i = Some r0" "instances s' = t"
      "\<forall>k. inst_sel t k = (if k = i then Some (r0\<lparr> tr_metadata := Some md \<rparr>) else inst_sel (instances s) k)"
      using mergeMetadata_ok [of E i del up s z s'] write_metadata by auto
    then show ?thesis using assms(2-4) by (cases "j = i") auto
  qed
qed (use setStatusCAS_sizing assms(2-4) in blast)+

lemma instance_step_sizing:
  assumes "instance_step s s'" "inst_sel (instances s) j = Some x" "inst_sel (instances s') j = Some y" "sizing y \<noteq> sizing x"
  shows "tr_status x = ''STOPPED''"
  using assms(1)
proof cases
  case step_write
  then show ?thesis using instance_write_sizing assms(2-4) by blast
next
  case (step_create E i now req r)
  show ?thesis
  proof (cases r)
    case (Inl e)
    then have "s' = s" using instance_insert_err step_create by blast
    then show ?thesis using assms by simp
  next
    case (Inr z)
    then obtain row where "inst_sel (instances s) i = None"
      "\<forall>j. inst_sel (instances s') j = (if j = i then Some row else inst_sel (instances s) j)"
      using instance_insert_running [of E i now req s z s'] step_create by blast
    then show ?thesis using assms(2-4) by (cases "j = i") auto
  qed
next
  case (step_mark E i r)
  show ?thesis
  proof (cases r)
    case (Inl e)
    then have "s' = s" using markDeleting_err step_mark by blast
    then show ?thesis using assms by simp
  next
    case (Inr z)
    then obtain r0 t where "inst_sel (instances s) i = Some r0" "instances s' = t"
      "\<forall>j. inst_sel t j = (if j = i then Some (r0\<lparr> tr_status := ''DELETING'' \<rparr>) else inst_sel (instances s) j)"
      using markDeleting_ok [of E i s z s'] step_mark by auto
    then show ?thesis using assms(2-4) by (cases "j = i") auto
  qed
next
  case (step_delete E i r)
  show ?thesis
  proof (cases r)
    case (Inl e)
    then have "s' = s" using instance_delete_error step_delete by blast
    then show ?thesis using assms by simp
  next
    case (Inr z)
    obtain r0 t where d: "sql_delete tr_id i (instances s) = Some (r0, t)" "instances s' = t"
      using instance_delete_ok [of E i s s'] step_delete Inr by auto
    then show ?thesis using instance_store.del_sel [OF d(1), of j] assms(2-4) by (auto split: if_splits)
  qed
qed

section \<open>Attach and delete, interleaved\<close>

text \<open>
  The workers of AttachDisk and Delete are sequences of separate statements
  and calls. \<^verbatim>\<open>sy_attaching\<close> holds the attach workers that have passed
  the gate and not yet called the owner; \<^verbatim>\<open>sy_releasing\<close> and
  \<^verbatim>\<open>sy_dropping\<close> the delete workers after the gate and after the release.
  \<^verbatim>\<open>sy_ids\<close> are the instance ids handed out so far (ids.NewID is fresh).
\<close>

record 'v sys =
  sy_db :: db
  sy_vols :: 'v
  sy_ids :: "string list"
  sy_attaching :: "(string \<times> attach_disk_req \<times> (string \<times> string \<times> string)) list"
  sy_releasing :: "string list"
  sy_dropping :: "string list"

inductive sys_step :: "(db, 'n, 'v) instance_service \<Rightarrow> 'v storage_port \<Rightarrow> 'v sys \<Rightarrow> 'v sys \<Rightarrow> bool"
  for I :: "(db, 'n, 'v) instance_service" and c :: "'v storage_port" where
  sys_write: "instance_write (sy_db S) d \<Longrightarrow> sys_step I c S (S\<lparr> sy_db := d \<rparr>)"
| sys_create: "i \<notin> set (sy_ids S) \<Longrightarrow> instance_insert E (instance_of_req i now req) (sy_db S) = (r, d) \<Longrightarrow>
    sys_step I c S (S\<lparr> sy_db := d, sy_ids := i # sy_ids S \<rparr>)"
| sys_gate: "gateForAttach E i (sy_db S) = Inr g \<Longrightarrow>
    sys_step I c S (S\<lparr> sy_attaching := (i, req, g) # sy_attaching S \<rparr>)"
| sys_attach: "(i, req, g) \<in> set (sy_attaching S) \<Longrightarrow> volAttach c (volume_spec i req g) (sy_vols S) = (r, v) \<Longrightarrow>
    sys_step I c S (S\<lparr> sy_vols := v, sy_attaching := remove1 (i, req, g) (sy_attaching S) \<rparr>)"
| sys_detach: "volDetach c x i (sy_vols S) = (r, v) \<Longrightarrow> sys_step I c S (S\<lparr> sy_vols := v \<rparr>)"
| sys_mark: "markDeleting E i (sy_db S) = (Inr x, d) \<Longrightarrow>
    sys_step I c S (S\<lparr> sy_db := d, sy_releasing := i # sy_releasing S \<rparr>)"
| sys_release: "i \<in> set (sy_releasing S) \<Longrightarrow> release_volumes I i (sy_vols S) = (Inr (), v) \<Longrightarrow>
    sys_step I c S (S\<lparr> sy_vols := v, sy_releasing := remove1 i (sy_releasing S), sy_dropping := i # sy_dropping S \<rparr>)"
| sys_drop: "i \<in> set (sy_dropping S) \<Longrightarrow> instance_delete E i (sy_db S) = (r, d) \<Longrightarrow>
    sys_step I c S (S\<lparr> sy_db := d, sy_dropping := remove1 i (sy_dropping S) \<rparr>)"

text \<open>Once an instance is marked (or gone), its id is used, and no attach worker
  of it is past the gate, none ever passes.\<close>

definition closed_for :: "string \<Rightarrow> 'v sys \<Rightarrow> bool" where
  "closed_for i S \<longleftrightarrow> i \<in> set (sy_ids S) \<and> vm_status i (sy_db S) \<in> {None, Some ''DELETING''}
     \<and> (\<forall>req g. (i, req, g) \<notin> set (sy_attaching S))"

lemma closed_gate: "vm_status i s \<in> {None, Some ''DELETING''} \<Longrightarrow> gateForAttach E i s \<noteq> Inr g"
  by (cases g) (auto simp: gate_ok_iff vm_status_def attachable_def)

lemma vm_step_closed: "vm_step q q' \<Longrightarrow> q \<in> {None, Some ''DELETING''} \<Longrightarrow> q' \<noteq> Some ''RUNNING'' \<Longrightarrow> q' \<in> {None, Some ''DELETING''}"
  by (induction rule: vm_step.induct) auto

lemma instance_insert_other:
  assumes "instance_insert E (instance_of_req j now req) s = (r, s')" "i \<noteq> j"
  shows "vm_status i s' = vm_status i s"
proof (cases r)
  case (Inl e)
  then show ?thesis using assms(1) instance_insert_err by blast
next
  case (Inr x)
  then show ?thesis using instance_insert_running(2) [of E j now req s x s'] assms by (auto simp: vm_status_def)
qed

lemma instance_write_closed:
  assumes "instance_write s s'" "vm_status i s \<in> {None, Some ''DELETING''}"
  shows "vm_status i s' \<in> {None, Some ''DELETING''}"
  using instance_write_move [OF assms(1), of i] assms(2)
  by (auto simp: vm_status_def status_move_def elim!: option.rel_cases)

locale storage_owner = attachment_owner inv bind "volList c" "volDetach c" va_volume_id va_instance_id
  for inv :: "'v \<Rightarrow> bool" and bind and c :: "'v storage_port" +
  assumes attach_adds: "inv v \<Longrightarrow> volAttach c spec v = (r, v') \<Longrightarrow>
      bind v' \<subseteq> insert (vs_volume_id spec, vs_instance_id spec) (bind v)"
    and attach_inv: "inv v \<Longrightarrow> inv (snd (volAttach c spec v))"
begin

lemma sys_step_inv: "sys_step I c S S' \<Longrightarrow> iv_vols I = Some c \<Longrightarrow> inv (sy_vols S) \<Longrightarrow> inv (sy_vols S')"
proof (induction rule: sys_step.induct)
  case (sys_attach i req g S r v)
  then show ?case using attach_inv [of "sy_vols S" "volume_spec i req g"] by simp
next
  case (sys_detach x i S r v)
  then show ?case using det_inv [of "sy_vols S" x i] by simp
next
  case (sys_release i S v)
  then show ?case using detach_all_inv by (auto simp: release_volumes_def stay_ok split: sum.splits) (metis snd_conv)
qed simp_all

lemma det_sub: "inv v \<Longrightarrow> volDetach c x i v = (r, v') \<Longrightarrow> bind v' \<subseteq> bind v"
  using det_ok [of v x i v'] det_err [of v x i _ v'] by (cases r) auto

text \<open>A closed instance stays closed and never gains a binding.\<close>

lemma sys_step_closed:
  assumes "sys_step I c S S'" "iv_vols I = Some c" "inv (sy_vols S)" "closed_for i S"
  shows "closed_for i S' \<and> {b \<in> bind (sy_vols S'). snd b = i} \<subseteq> {b \<in> bind (sy_vols S). snd b = i}"
  using assms(1)
proof cases
  case (sys_write d)
  then show ?thesis using instance_write_closed [of "sy_db S" d i] assms(4) by (simp add: closed_for_def)
next
  case (sys_create j E now req r d)
  have "i \<noteq> j" using sys_create(2) assms(4) by (auto simp: closed_for_def)
  then show ?thesis using instance_insert_other [OF sys_create(3), of i] sys_create(1) assms(4) by (simp add: closed_for_def)
next
  case (sys_gate E j g req)
  then show ?thesis using closed_gate [of i "sy_db S" E g] assms(4) by (auto simp: closed_for_def)
next
  case (sys_attach j req g r v)
  have "j \<noteq> i" using sys_attach(2) assms(4) unfolding closed_for_def by blast
  moreover have "snd (vs_volume_id (volume_spec j req g), vs_instance_id (volume_spec j req g)) = j"
    by (cases g) (simp add: volume_spec_def)
  ultimately have "{b \<in> bind v. snd b = i} \<subseteq> {b \<in> bind (sy_vols S). snd b = i}"
    using attach_adds [OF assms(3) sys_attach(3)] by (auto simp del: snd_conv)
  moreover have "closed_for i S'"
    using assms(4) set_remove1_subset [of "(j, req, g)" "sy_attaching S"] unfolding closed_for_def sys_attach(1)
    by (simp add: subset_iff)
  ultimately show ?thesis using sys_attach(1) by simp
next
  case (sys_detach x j r v)
  then show ?thesis using det_sub [OF assms(3) sys_detach(2)] assms(4) by (auto simp: closed_for_def)
next
  case (sys_mark E j x d)
  have "vm_step (vm_status i (sy_db S)) (vm_status i d)"
    by (rule instance_step_refines) (rule step_mark [OF sys_mark(2)])
  moreover have "vm_status i d = vm_status i (sy_db S) \<or> vm_status i d = Some ''DELETING''"
    using markDeleting_ok [OF sys_mark(2)] by (auto simp: vm_status_def)
  ultimately show ?thesis using sys_mark(1) assms(4) by (auto simp: closed_for_def)
next
  case (sys_release j v)
  then obtain y :: "volume_attachment list" where "detach_all (\<lambda>r. volDetach c r j) (\<lambda>e. e) (List.map va_volume_id y) (sy_vols S) = (Inr (), v)"
    using assms(2) by (auto simp: release_volumes_def stay_ok)
  then have "bind v \<subseteq> bind (sy_vols S)" by (rule detach_all_shrinks [OF assms(3)])
  then show ?thesis using sys_release assms(4) by (auto simp: closed_for_def)
next
  case (sys_drop j E r d)
  have "vm_step (vm_status i (sy_db S)) (vm_status i d)"
    by (rule instance_step_refines) (rule step_delete [OF sys_drop(3)])
  moreover have "vm_status i d \<in> {vm_status i (sy_db S), None}"
    using instance_delete_error [of E j "sy_db S" _ d] instance_delete_ok [of E j "sy_db S" d] sys_drop(3)
      instance_store.del_sel
    by (cases r) (fastforce simp: vm_status_def)+
  ultimately show ?thesis using sys_drop(1) assms(4) by (auto simp: closed_for_def)
qed

lemma sys_steps_closed:
  assumes "(sys_step I c)\<^sup>*\<^sup>* S S'" "iv_vols I = Some c" "inv (sy_vols S)" "closed_for i S"
  shows "closed_for i S' \<and> {b \<in> bind (sy_vols S'). snd b = i} \<subseteq> {b \<in> bind (sy_vols S). snd b = i}"
proof -
  have "inv (sy_vols S') \<and> closed_for i S' \<and> {b \<in> bind (sy_vols S'). snd b = i} \<subseteq> {b \<in> bind (sy_vols S). snd b = i}"
    using assms(1)
  proof (induction rule: rtranclp_induct)
    case base
    then show ?case using assms by simp
  next
    case (step T U)
    then show ?case using sys_step_closed [OF step(2) assms(2)] sys_step_inv [OF step(2) assms(2)] by blast
  qed
  then show ?thesis by blast
qed

end

lemma mock_vol_attach_adds:
  assumes "mock_vol_attach spec v = (r, v')"
  shows "vol_bindings v' \<subseteq> insert (vs_volume_id spec, vs_instance_id spec) (vol_bindings v)"
  using assms
  by (auto simp: mock_vol_attach_def vol_bindings_def attachment_of_spec_def AList.update_conv' split: option.splits if_splits)

interpretation mock_storage: storage_owner vol_owner_ok vol_bindings mock_storage_port
proof
  show "vol_owner_ok v \<Longrightarrow> volAttach mock_storage_port spec v = (r, v') \<Longrightarrow>
      vol_bindings v' \<subseteq> insert (vs_volume_id spec, vs_instance_id spec) (vol_bindings v)" for v spec r v'
    using mock_vol_attach_adds by simp
  show "vol_owner_ok v \<Longrightarrow> vol_owner_ok (snd (volAttach mock_storage_port spec v))" for v spec
    by (simp add: mock_vol_attach_inv)
qed

end
