(* ===== verification/ImageService.thy ===== *)
theory ImageService
  imports DiskService
begin

text \<open>
  internal/service/image.go: the family pattern (a regular expression run by
  derivatives), the image use cases and their source rules.
\<close>

section \<open>Regular expressions\<close>

datatype re = Void | Eps | Cls "char \<Rightarrow> bool" | Cat re re | Alt re re

fun nullable :: "re \<Rightarrow> bool" where
  "nullable Void = False"
| "nullable Eps = True"
| "nullable (Cls p) = False"
| "nullable (Cat r q) = (nullable r \<and> nullable q)"
| "nullable (Alt r q) = (nullable r \<or> nullable q)"

fun deriv :: "char \<Rightarrow> re \<Rightarrow> re" where
  "deriv c Void = Void"
| "deriv c Eps = Void"
| "deriv c (Cls p) = (if p c then Eps else Void)"
| "deriv c (Cat r q) = (if nullable r then Alt (Cat (deriv c r) q) (deriv c q) else Cat (deriv c r) q)"
| "deriv c (Alt r q) = Alt (deriv c r) (deriv c q)"

fun re_match :: "re \<Rightarrow> string \<Rightarrow> bool" where
  "re_match r [] = nullable r"
| "re_match r (c # s) = re_match (deriv c r) s"

fun opt_rep :: "nat \<Rightarrow> re \<Rightarrow> re" where
  "opt_rep 0 r = Eps"
| "opt_rep (Suc n) r = Alt Eps (Cat r (opt_rep n r))"

fun exact_rep :: "nat \<Rightarrow> re \<Rightarrow> re \<Rightarrow> re" where
  "exact_rep 0 r q = q"
| "exact_rep (Suc n) r q = Cat r (exact_rep n r q)"

text \<open>\<^verbatim>\<open>r{lo,hi}\<close>\<close>

definition rep_range :: "nat \<Rightarrow> nat \<Rightarrow> re \<Rightarrow> re" where
  "rep_range lo hi r = exact_rep lo r (opt_rep (hi - lo) r)"

definition char_range :: "char \<Rightarrow> char \<Rightarrow> char \<Rightarrow> bool" where
  "char_range a b c \<longleftrightarrow> (of_char a :: nat) \<le> of_char c \<and> (of_char c :: nat) \<le> of_char b"

definition is_lower :: "char \<Rightarrow> bool" where "is_lower = char_range CHR ''a'' CHR ''z''"
definition is_digit :: "char \<Rightarrow> bool" where "is_digit = char_range CHR ''0'' CHR ''9''"
definition is_alnum :: "char \<Rightarrow> bool" where "is_alnum c \<longleftrightarrow> is_lower c \<or> is_digit c"
definition is_alnum_dash :: "char \<Rightarrow> bool" where "is_alnum_dash c \<longleftrightarrow> c = CHR ''-'' \<or> is_alnum c"

text \<open>\<^verbatim>\<open>^([a-z][-a-z0-9]{1,61}[a-z0-9])?$\<close>\<close>

definition imageFamilyRe :: re where
  "imageFamilyRe = Alt Eps (Cat (Cls is_lower) (Cat (rep_range 1 61 (Cls is_alnum_dash)) (Cls is_alnum)))"

definition validateImageFamily :: "string \<Rightarrow> go_error option" where
  "validateImageFamily family =
    (if \<not> re_match imageFamilyRe family
     then Some (invalidArg ''family'' (''family must match ^([a-z][-a-z0-9]{1,61}[a-z0-9])?$ ''
            @ ''(lowercase letters, digits, hyphens; 3..63 chars; empty allowed)''))
     else None)"

fun lang :: "re \<Rightarrow> string set" where
  "lang Void = {}"
| "lang Eps = {[]}"
| "lang (Cls p) = {[c] |c. p c}"
| "lang (Cat r q) = {s @ t |s t. s \<in> lang r \<and> t \<in> lang q}"
| "lang (Alt r q) = lang r \<union> lang q"

lemma nullable_lang: "nullable r \<longleftrightarrow> [] \<in> lang r"
  by (induction r) auto

lemma deriv_lang: "s \<in> lang (deriv c r) \<longleftrightarrow> c # s \<in> lang r"
proof (induction r arbitrary: s)
  case (Cat r q)
  show ?case
    using Cat by (auto simp: nullable_lang Cons_eq_append_conv)
qed auto

lemma re_match_lang: "re_match r s \<longleftrightarrow> s \<in> lang r"
  by (induction s arbitrary: r) (auto simp: nullable_lang deriv_lang)

lemma lang_Cls_Cat: "x \<in> lang (Cat (Cls p) q) \<longleftrightarrow> (case x of [] \<Rightarrow> False | c # t \<Rightarrow> p c \<and> t \<in> lang q)"
proof (cases x)
  case (Cons c t)
  have "p c \<and> t \<in> lang q \<Longrightarrow> \<exists>s t'. c # t = s @ t' \<and> (\<exists>d. s = [d] \<and> p d) \<and> t' \<in> lang q"
    by (intro exI [of _ "[c]"] exI [of _ t]) simp
  then show ?thesis using Cons by auto
qed simp

lemma lang_Cat_Cls: "x \<in> lang (Cat r (Cls p)) \<longleftrightarrow> x \<noteq> [] \<and> butlast x \<in> lang r \<and> p (last x)"
  by (cases x rule: rev_cases) auto

lemma lang_opt_rep: "x \<in> lang (opt_rep n (Cls p)) \<longleftrightarrow> size x \<le> n \<and> list_all p x"
proof (induction n arbitrary: x)
  case (Suc n)
  have "x \<in> lang (opt_rep (Suc n) (Cls p)) \<longleftrightarrow> x = [] \<or> x \<in> lang (Cat (Cls p) (opt_rep n (Cls p)))"
    by simp
  then show ?case using Suc unfolding lang_Cls_Cat by (cases x) auto
qed auto

lemma lang_exact_rep:
  "x \<in> lang (exact_rep n (Cls p) q) \<longleftrightarrow> n \<le> size x \<and> list_all p (take n x) \<and> drop n x \<in> lang q"
proof (induction n arbitrary: x)
  case (Suc n)
  have "x \<in> lang (exact_rep (Suc n) (Cls p) q) \<longleftrightarrow> x \<in> lang (Cat (Cls p) (exact_rep n (Cls p) q))"
    by simp
  then show ?case using Suc unfolding lang_Cls_Cat by (cases x) auto
qed simp

lemma lang_rep_range:
  assumes "lo \<le> hi"
  shows "x \<in> lang (rep_range lo hi (Cls p)) \<longleftrightarrow> lo \<le> size x \<and> size x \<le> hi \<and> list_all p x"
proof -
  have "list_all p x \<longleftrightarrow> list_all p (take lo x) \<and> list_all p (drop lo x)"
    by (metis append_take_drop_id list_all_append)
  then show ?thesis using assms by (auto simp: rep_range_def lang_exact_rep lang_opt_rep)
qed

lemma family_iff:
  "re_match imageFamilyRe s \<longleftrightarrow>
     s = [] \<or> (3 \<le> size s \<and> size s \<le> 63 \<and> is_lower (hd s) \<and> is_alnum (last s) \<and> list_all is_alnum_dash (butlast (tl s)))"
proof -
  let ?mid = "rep_range 1 61 (Cls is_alnum_dash)"
  have "s \<in> lang imageFamilyRe \<longleftrightarrow> s = [] \<or> s \<in> lang (Cat (Cls is_lower) (Cat ?mid (Cls is_alnum)))"
    by (simp add: imageFamilyRe_def)
  also have "\<dots> \<longleftrightarrow> s = [] \<or> (s \<noteq> [] \<and> is_lower (hd s) \<and> tl s \<noteq> [] \<and> butlast (tl s) \<in> lang ?mid \<and> is_alnum (last (tl s)))"
    unfolding lang_Cls_Cat lang_Cat_Cls by (cases s) simp_all
  also have "\<dots> \<longleftrightarrow> s = [] \<or> (3 \<le> size s \<and> size s \<le> 63 \<and> is_lower (hd s) \<and> is_alnum (last s) \<and> list_all is_alnum_dash (butlast (tl s)))"
    by (cases s) (auto simp: lang_rep_range)
  finally show ?thesis by (simp add: re_match_lang)
qed

section \<open>Use cases\<close>

text \<open>The Os message of a request: its type and, when set, the NVIDIA driver.\<close>

record os_msg =
  os_type_of :: os_type
  os_nvidia :: "string option"

record create_image_req =
  ci_project_id :: string
  ci_name :: string
  ci_description :: string
  ci_labels :: gomap
  ci_family :: string
  ci_min_disk_size :: int
  ci_product_ids :: "string list"
  ci_image_id :: string
  ci_disk_id :: string
  ci_snapshot_id :: string
  ci_uri :: string
  ci_os :: "os_msg option"
  ci_pooled :: bool
  ci_hardware_generation :: "proto_msg option"

record update_image_req =
  ui_image_id :: string
  ui_name :: string
  ui_description :: string
  ui_labels :: gomap
  ui_min_disk_size :: int
  ui_mask :: "string list"

record 's image_service =
  is_repo :: "'s image_port"
  is_disks :: "'s disk_port"
  is_snapshots :: "'s snapshot_port"
  is_peers :: peers
  is_core :: corelib

definition image_service_get :: "'s image_service \<Rightarrow> string \<Rightarrow> 's \<Rightarrow> go_error + image" where
  "image_service_get M i s = map_err mapRepoErr (imageGet (is_repo M) i s)"

definition image_service_latest :: "'s image_service \<Rightarrow> string \<Rightarrow> string \<Rightarrow> 's \<Rightarrow> go_error + image" where
  "image_service_latest M folderID family s =
    (if folderID = '''' then Inl (status InvalidArgument ''project_id required'')
     else map_err mapRepoErr (imageLatest (is_repo M) folderID family s))"

definition image_service_list :: "'s image_service \<Rightarrow> list_filter \<Rightarrow> pagination \<Rightarrow> 's \<Rightarrow> go_error + (image list \<times> string)" where
  "image_service_list M f p s =
    (if lf_project_id f = '''' then Inl (status InvalidArgument ''project_id required'')
     else imageList (is_repo M) f p s)"

definition maxInt64 :: "int \<Rightarrow> int \<Rightarrow> int" where
  "maxInt64 a b = (if a > b then a else b)"

text \<open>The switch of doCreate: (min\_disk\_size, storage\_size) taken from the source.\<close>

definition image_source :: "'s image_service \<Rightarrow> create_image_req \<Rightarrow> 's \<Rightarrow> go_error + (int \<times> int)" where
  "image_source M req s =
    (if ci_image_id req \<noteq> '''' then
       bindE (map_err (mapRefErr ''Image'' (ci_image_id req)) (imageGet (is_repo M) (ci_image_id req) s)) (\<lambda>src.
       if im_project_id src \<noteq> ci_project_id req then Inl (crossProjectNotFound ''Image'' (ci_image_id req))
       else Inr (maxInt64 (ci_min_disk_size req) (im_min_disk_size src), im_storage_size src))
     else if ci_snapshot_id req \<noteq> '''' then
       bindE (map_err (mapRefErr ''Snapshot'' (ci_snapshot_id req)) (snapshotGet (is_snapshots M) (ci_snapshot_id req) s)) (\<lambda>src.
       if sn_project_id src \<noteq> ci_project_id req then Inl (crossProjectNotFound ''Snapshot'' (ci_snapshot_id req))
       else Inr (maxInt64 (ci_min_disk_size req) (sn_disk_size src), sn_disk_size src))
     else if ci_disk_id req \<noteq> '''' then
       bindE (map_err (mapRefErr ''Disk'' (ci_disk_id req)) (diskGet (is_disks M) (ci_disk_id req) s)) (\<lambda>d.
       if d_project_id d \<noteq> ci_project_id req then Inl (crossProjectNotFound ''Disk'' (ci_disk_id req))
       else if d_status d \<noteq> DiskStatusReady
         then Inl (status FailedPrecondition (''Disk '' @ ci_disk_id req @ '' is not READY''))
       else Inr (maxInt64 (ci_min_disk_size req) (d_size d), d_size d))
     else Inr (ci_min_disk_size req, 0))"

definition image_of_req :: "string \<Rightarrow> int \<Rightarrow> create_image_req \<Rightarrow> int \<times> int \<Rightarrow> image" where
  "image_of_req imageID now req sz =
    \<lparr> im_id = imageID, im_project_id = ci_project_id req, im_created_at = now, im_name = ci_name req,
      im_description = ci_description req, im_labels = ci_labels req, im_family = ci_family req,
      im_storage_size = snd sz, im_min_disk_size = fst sz, im_product_ids = ci_product_ids req,
      im_status = ImageStatusReady,
      im_os_type = (case ci_os req of None \<Rightarrow> OsTypeLinux
        | Some m \<Rightarrow> if os_type_of m \<noteq> OsTypeUnspecified then os_type_of m else OsTypeLinux),
      im_os_nvidia_driver = (case ci_os req of None \<Rightarrow> '''' | Some m \<Rightarrow>
        (case os_nvidia m of None \<Rightarrow> '''' | Some drv \<Rightarrow> drv)),
      im_pooled = ci_pooled req, im_hardware_generation = ci_hardware_generation req, im_kms_key = None,
      im_source_image_id = ci_image_id req, im_source_snapshot_id = ci_snapshot_id req,
      im_source_disk_id = ci_disk_id req, im_source_uri = ci_uri req \<rparr>"

definition image_do_create :: "'s image_service \<Rightarrow> int \<Rightarrow> string \<Rightarrow> create_image_req \<Rightarrow> 's worker" where
  "image_do_create M now imageID req =
    halt (checkProject (is_peers M) (ci_project_id req)) (\<lambda>s.
    stay (image_source M req s) (\<lambda>sz s.
      finish AnyImage (imageInsert (is_repo M) (image_of_req imageID now req sz) s)) s)"

definition image_sources_set :: "create_image_req \<Rightarrow> nat" where
  "image_sources_set req =
    size (filter (\<lambda>v. v \<noteq> '''') [ci_image_id req, ci_disk_id req, ci_snapshot_id req, ci_uri req])"

definition image_service_create ::
  "'s image_service \<Rightarrow> op_env \<Rightarrow> int \<Rightarrow> string \<Rightarrow> create_image_req \<Rightarrow> go_error + (operation \<times> 's worker)" where
  "image_service_create M O1 now imageID req =
    (if ci_project_id req = '''' then Inl (status InvalidArgument ''project_id required'')
     else guardE (cl_name (is_core M) ''name'' (ci_name req))
     (guardE (cl_description (is_core M) ''description'' (ci_description req))
     (guardE (cl_labels (is_core M) ''labels'' (ci_labels req))
     (guardE (validateImageFamily (ci_family req))
     (if image_sources_set req \<noteq> 1
      then Inl (invalidArg ''source'' ''exactly one of image_id, disk_id, snapshot_id or uri must be set'')
      else runOp O1 (''Create image '' @ ci_name req)
             \<lparr> om_type = ''CreateImageMetadata'', om_fields = [(''image_id'', imageID)] \<rparr>
             (image_do_create M now imageID req))))))"

fun image_apply_mask ::
  "update_image_req \<Rightarrow> string list \<Rightarrow> image \<times> bool \<times> string list \<Rightarrow> image \<times> bool \<times> string list" where
  "image_apply_mask req [] acc = acc"
| "image_apply_mask req (f # fs) (i, lab, ch) =
    (if f = ''name'' then image_apply_mask req fs (i\<lparr> im_name := ui_name req \<rparr>, lab, ch @ [''name''])
     else if f = ''description'' then
       image_apply_mask req fs (i\<lparr> im_description := ui_description req \<rparr>, lab, ch @ [''description''])
     else if f = ''labels'' then image_apply_mask req fs (i\<lparr> im_labels := ui_labels req \<rparr>, True, ch @ [''labels''])
     else if f = ''min_disk_size'' then
       (if ui_mask req = [] \<and> ui_min_disk_size req = 0 then image_apply_mask req fs (i, lab, ch)
        else image_apply_mask req fs (i\<lparr> im_min_disk_size := ui_min_disk_size req \<rparr>, lab, ch @ [''min_disk_size'']))
     else image_apply_mask req fs (i, lab, ch))"

definition image_full_mask :: "string list" where
  "image_full_mask = [''name'', ''description'', ''labels'', ''min_disk_size'']"

definition image_do_update :: "'s image_service \<Rightarrow> update_image_req \<Rightarrow> 's worker" where
  "image_do_update M req s =
    stay (map_err mapRepoErr (imageGet (is_repo M) (ui_image_id req) s)) (\<lambda>i s.
      (case image_apply_mask req (if ui_mask req = [] then image_full_mask else ui_mask req) (i, False, []) of
         (i', lab, ch) \<Rightarrow> finish AnyImage (imageUpdate (is_repo M) i' lab ch s))) s"

definition validateImageUpdate :: "corelib \<Rightarrow> update_image_req \<Rightarrow> go_error option" where
  "validateImageUpdate C req =
    or_else (first_err (immutable_err [''family'', ''os'', ''product_ids'', ''pooled''] ''Image.Create'') (ui_mask req))
    (or_else (cl_update_mask C ''update_mask'' (ui_mask req) image_full_mask)
    (first_err (mask_field_err C (ui_name req) (ui_description req) (ui_labels req)) (ui_mask req)))"

definition image_service_update :: "'s image_service \<Rightarrow> op_env \<Rightarrow> update_image_req \<Rightarrow> go_error + (operation \<times> 's worker)" where
  "image_service_update M O1 req =
    (if ui_image_id req = '''' then Inl (status InvalidArgument ''image_id required'')
     else guardE (validateImageUpdate (is_core M) req)
      (runOp O1 (''Update image '' @ ui_image_id req)
         \<lparr> om_type = ''UpdateImageMetadata'', om_fields = [(''image_id'', ui_image_id req)] \<rparr>
         (image_do_update M req)))"

definition image_service_delete :: "'s image_service \<Rightarrow> op_env \<Rightarrow> string \<Rightarrow> go_error + (operation \<times> 's worker)" where
  "image_service_delete M O1 i =
    (if i = '''' then Inl (status InvalidArgument ''image_id required'')
     else runOp O1 (''Delete image '' @ i)
         \<lparr> om_type = ''DeleteImageMetadata'', om_fields = [(''image_id'', i)] \<rparr>
         (\<lambda>s. finish (\<lambda>_. AnyEmpty) (imageDelete (is_repo M) i s)))"

definition image_service_list_operations ::
  "'s image_service \<Rightarrow> (string \<Rightarrow> pagination \<Rightarrow> go_error + (operation list \<times> string)) \<Rightarrow> string \<Rightarrow> pagination \<Rightarrow> 's
    \<Rightarrow> go_error + (operation list \<times> string)" where
  "image_service_list_operations M opsList i p s =
    bindE (map_err mapRepoErr (imageGet (is_repo M) i s)) (\<lambda>_. opsList i p)"

section \<open>Lemmas\<close>

lemma image_do_create_ok:
  assumes "image_do_create M now i req s = (Inr m, s')"
  shows "\<exists>sz d. image_source M req s = Inr sz \<and> imageInsert (is_repo M) (image_of_req i now req sz) s = (Inr d, s')
     \<and> m = AnyImage d \<and> pe_project_exists (is_peers M) (ci_project_id req) = Inr True"
  using assms by (auto simp: image_do_create_def halt_ok stay_ok finish_ok checkProject_def split: sum.splits if_splits)

lemma atomic_image_do_create:
  assumes "\<And>d. atomic_worker (imageInsert (is_repo M) d)"
  shows "atomic_worker (image_do_create M now i req)"
  unfolding image_do_create_def by (intro atomic_intros assms)

end
