(* ===== verification/SnapshotService.thy ===== *)
theory SnapshotService
  imports ImageService
begin

text \<open>internal/service/snapshot.go and internal/service/catalog.go: the
  snapshot use cases and the DiskType catalog.\<close>

record create_snapshot_req =
  cs_project_id :: string
  cs_disk_id :: string
  cs_name :: string
  cs_description :: string
  cs_labels :: gomap
  cs_hardware_generation :: "proto_msg option"

record update_snapshot_req =
  us_snapshot_id :: string
  us_name :: string
  us_description :: string
  us_labels :: gomap
  us_mask :: "string list"

record 's snapshot_service =
  ss_repo :: "'s snapshot_port"
  ss_disks :: "'s disk_port"
  ss_peers :: peers
  ss_core :: corelib

definition snapshot_service_get :: "'s snapshot_service \<Rightarrow> string \<Rightarrow> 's \<Rightarrow> go_error + snapshot" where
  "snapshot_service_get N i s = map_err mapRepoErr (snapshotGet (ss_repo N) i s)"

definition snapshot_service_list ::
  "'s snapshot_service \<Rightarrow> list_filter \<Rightarrow> pagination \<Rightarrow> 's \<Rightarrow> go_error + (snapshot list \<times> string)" where
  "snapshot_service_list N f p s =
    (if lf_project_id f = '''' then Inl (status InvalidArgument ''project_id required'')
     else snapshotList (ss_repo N) f p s)"

definition snapshot_source :: "'s snapshot_service \<Rightarrow> create_snapshot_req \<Rightarrow> 's \<Rightarrow> go_error + disk" where
  "snapshot_source N req s =
    bindE (map_err (mapRefErr ''Disk'' (cs_disk_id req)) (diskGet (ss_disks N) (cs_disk_id req) s)) (\<lambda>d.
    if d_project_id d \<noteq> cs_project_id req then Inl (crossProjectNotFound ''Disk'' (cs_disk_id req))
    else if d_status d \<noteq> DiskStatusReady
      then Inl (status FailedPrecondition (''Disk '' @ cs_disk_id req @ '' is not READY''))
    else Inr d)"

definition snapshot_of_req :: "string \<Rightarrow> int \<Rightarrow> create_snapshot_req \<Rightarrow> disk \<Rightarrow> snapshot" where
  "snapshot_of_req snapID now req d =
    \<lparr> sn_id = snapID, sn_project_id = cs_project_id req, sn_created_at = now, sn_name = cs_name req,
      sn_description = cs_description req, sn_labels = cs_labels req, sn_storage_size = d_size d,
      sn_disk_size = d_size d, sn_product_ids = [], sn_status = SnapshotStatusReady,
      sn_source_disk_id = cs_disk_id req, sn_hardware_generation = cs_hardware_generation req, sn_kms_key = None \<rparr>"

definition snapshot_do_create :: "'s snapshot_service \<Rightarrow> int \<Rightarrow> string \<Rightarrow> create_snapshot_req \<Rightarrow> 's worker" where
  "snapshot_do_create N now snapID req =
    halt (checkProject (ss_peers N) (cs_project_id req)) (\<lambda>s.
    stay (snapshot_source N req s) (\<lambda>d s.
      finish AnySnapshot (snapshotInsert (ss_repo N) (snapshot_of_req snapID now req d) s)) s)"

definition snapshot_service_create ::
  "'s snapshot_service \<Rightarrow> op_env \<Rightarrow> int \<Rightarrow> string \<Rightarrow> create_snapshot_req \<Rightarrow> go_error + (operation \<times> 's worker)" where
  "snapshot_service_create N O1 now snapID req =
    (if cs_project_id req = '''' then Inl (status InvalidArgument ''project_id required'')
     else if cs_disk_id req = '''' then Inl (status InvalidArgument ''disk_id required'')
     else guardE (cl_name (ss_core N) ''name'' (cs_name req))
     (guardE (cl_description (ss_core N) ''description'' (cs_description req))
     (guardE (cl_labels (ss_core N) ''labels'' (cs_labels req))
       (runOp O1 (''Create snapshot '' @ cs_name req)
          \<lparr> om_type = ''CreateSnapshotMetadata'', om_fields = [(''snapshot_id'', snapID), (''disk_id'', cs_disk_id req)] \<rparr>
          (snapshot_do_create N now snapID req)))))"

fun snapshot_apply_mask ::
  "update_snapshot_req \<Rightarrow> string list \<Rightarrow> snapshot \<times> bool \<times> string list \<Rightarrow> snapshot \<times> bool \<times> string list" where
  "snapshot_apply_mask req [] acc = acc"
| "snapshot_apply_mask req (f # fs) (i, lab, ch) =
    (if f = ''name'' then snapshot_apply_mask req fs (i\<lparr> sn_name := us_name req \<rparr>, lab, ch @ [''name''])
     else if f = ''description'' then
       snapshot_apply_mask req fs (i\<lparr> sn_description := us_description req \<rparr>, lab, ch @ [''description''])
     else if f = ''labels'' then
       snapshot_apply_mask req fs (i\<lparr> sn_labels := us_labels req \<rparr>, True, ch @ [''labels''])
     else snapshot_apply_mask req fs (i, lab, ch))"

definition snapshot_full_mask :: "string list" where
  "snapshot_full_mask = [''name'', ''description'', ''labels'']"

definition snapshot_do_update :: "'s snapshot_service \<Rightarrow> update_snapshot_req \<Rightarrow> 's worker" where
  "snapshot_do_update N req s =
    stay (map_err mapRepoErr (snapshotGet (ss_repo N) (us_snapshot_id req) s)) (\<lambda>i s.
      (case snapshot_apply_mask req (if us_mask req = [] then snapshot_full_mask else us_mask req) (i, False, []) of
         (i', lab, ch) \<Rightarrow> finish AnySnapshot (snapshotUpdate (ss_repo N) i' lab ch s))) s"

definition validateSnapshotUpdate :: "corelib \<Rightarrow> update_snapshot_req \<Rightarrow> go_error option" where
  "validateSnapshotUpdate C req =
    or_else (first_err (immutable_err [''source_disk_id'', ''disk_size'', ''storage_size''] ''Snapshot.Create'') (us_mask req))
    (or_else (cl_update_mask C ''update_mask'' (us_mask req) snapshot_full_mask)
    (first_err (mask_field_err C (us_name req) (us_description req) (us_labels req)) (us_mask req)))"

definition snapshot_service_update ::
  "'s snapshot_service \<Rightarrow> op_env \<Rightarrow> update_snapshot_req \<Rightarrow> go_error + (operation \<times> 's worker)" where
  "snapshot_service_update N O1 req =
    (if us_snapshot_id req = '''' then Inl (status InvalidArgument ''snapshot_id required'')
     else guardE (validateSnapshotUpdate (ss_core N) req)
      (runOp O1 (''Update snapshot '' @ us_snapshot_id req)
         \<lparr> om_type = ''UpdateSnapshotMetadata'', om_fields = [(''snapshot_id'', us_snapshot_id req)] \<rparr>
         (snapshot_do_update N req)))"

definition snapshot_service_delete :: "'s snapshot_service \<Rightarrow> op_env \<Rightarrow> string \<Rightarrow> go_error + (operation \<times> 's worker)" where
  "snapshot_service_delete N O1 i =
    (if i = '''' then Inl (status InvalidArgument ''snapshot_id required'')
     else runOp O1 (''Delete snapshot '' @ i)
         \<lparr> om_type = ''DeleteSnapshotMetadata'', om_fields = [(''snapshot_id'', i)] \<rparr>
         (\<lambda>s. finish (\<lambda>_. AnyEmpty) (snapshotDelete (ss_repo N) i s)))"

definition snapshot_service_list_operations ::
  "'s snapshot_service \<Rightarrow> (string \<Rightarrow> pagination \<Rightarrow> go_error + (operation list \<times> string)) \<Rightarrow> string \<Rightarrow> pagination \<Rightarrow> 's
    \<Rightarrow> go_error + (operation list \<times> string)" where
  "snapshot_service_list_operations N opsList i p s =
    bindE (map_err mapRepoErr (snapshotGet (ss_repo N) i s)) (\<lambda>_. opsList i p)"

section \<open>DiskType catalog\<close>

definition disk_type_service_get :: "'s disk_type_port \<Rightarrow> string \<Rightarrow> 's \<Rightarrow> go_error + disk_type" where
  "disk_type_service_get R i s =
    (if i = '''' then Inl (status InvalidArgument ''disk_type_id required'')
     else map_err mapRepoErr (diskTypeGet R i s))"

definition disk_type_service_list :: "'s disk_type_port \<Rightarrow> pagination \<Rightarrow> 's \<Rightarrow> go_error + (disk_type list \<times> string)" where
  "disk_type_service_list R p s = diskTypeList R p s"

definition map_fst_err :: "(go_error + 'a) \<times> 's \<Rightarrow> (go_error + 'a) \<times> 's" where
  "map_fst_err p = (map_err mapRepoErr (fst p), snd p)"

definition disk_type_service_create ::
  "'s disk_type_port \<Rightarrow> string \<Rightarrow> string \<Rightarrow> string list \<Rightarrow> 's \<Rightarrow> (go_error + disk_type) \<times> 's" where
  "disk_type_service_create R i desc zoneIDs s =
    (if i = '''' then (Inl (status InvalidArgument ''id required''), s)
     else map_fst_err (diskTypeInsert R \<lparr> dt_id = i, dt_description = desc, dt_zone_ids = zoneIDs, dt_created_at = zero_time \<rparr> s))"

definition disk_type_service_update ::
  "'s disk_type_port \<Rightarrow> string \<Rightarrow> string \<Rightarrow> string list \<Rightarrow> 's \<Rightarrow> (go_error + disk_type) \<times> 's" where
  "disk_type_service_update R i desc zoneIDs s =
    (if i = '''' then (Inl (status InvalidArgument ''disk_type_id required''), s)
     else stay (map_err mapRepoErr (diskTypeGet R i s)) (\<lambda>t s.
       map_fst_err (diskTypeUpdate R (t\<lparr> dt_description := desc, dt_zone_ids := zoneIDs \<rparr>) s)) s)"

definition disk_type_service_delete :: "'s disk_type_port \<Rightarrow> string \<Rightarrow> 's \<Rightarrow> (go_error + unit) \<times> 's" where
  "disk_type_service_delete R i s =
    (if i = '''' then (Inl (status InvalidArgument ''disk_type_id required''), s)
     else map_fst_err (diskTypeDelete R i s))"

section \<open>Lemmas\<close>

lemma snapshot_do_create_ok:
  assumes "snapshot_do_create N now i req s = (Inr m, s')"
  shows "\<exists>d x. diskGet (ss_disks N) (cs_disk_id req) s = Inr d \<and> d_project_id d = cs_project_id req
     \<and> d_status d = DiskStatusReady \<and> snapshotInsert (ss_repo N) (snapshot_of_req i now req d) s = (Inr x, s')
     \<and> m = AnySnapshot x"
  using assms
  by (auto simp: snapshot_do_create_def snapshot_source_def halt_ok stay_ok finish_ok split: if_splits)

lemma atomic_snapshot_do_create:
  assumes "\<And>d. atomic_worker (snapshotInsert (ss_repo N) d)"
  shows "atomic_worker (snapshot_do_create N now i req)"
  unfolding snapshot_do_create_def by (intro atomic_intros assms)

end
