(* ===== verification/Fixtures.thy ===== *)
theory Fixtures
  imports InstanceLifecycle DiskService ImageService SnapshotService
begin

text \<open>
  Concrete inputs for the witnesses: a protojson that stores the bytes of a
  message as a JSON string, corelib validators that accept non-empty names,
  a repository without driver failures, and a small populated database.
\<close>

text \<open>The use cases over the Postgres repositories (cmd/compute/main.go).\<close>

definition pg_disk_service :: "corelib \<Rightarrow> env \<Rightarrow> peers \<Rightarrow> db disk_service" where
  "pg_disk_service C E P = \<lparr> ds_repo = pg_disk_port C E, ds_images = pg_image_port C E,
     ds_snapshots = pg_snapshot_port C E, ds_types = pg_disk_type_port C E, ds_peers = P, ds_core = C \<rparr>"

definition pg_image_service :: "corelib \<Rightarrow> env \<Rightarrow> peers \<Rightarrow> db image_service" where
  "pg_image_service C E P = \<lparr> is_repo = pg_image_port C E, is_disks = pg_disk_port C E,
     is_snapshots = pg_snapshot_port C E, is_peers = P, is_core = C \<rparr>"

definition pg_snapshot_service :: "corelib \<Rightarrow> env \<Rightarrow> peers \<Rightarrow> db snapshot_service" where
  "pg_snapshot_service C E P = \<lparr> ss_repo = pg_snapshot_port C E, ss_disks = pg_disk_port C E, ss_peers = P, ss_core = C \<rparr>"

lemma pg_service_simps [simp]:
  "ds_repo (pg_disk_service C E P) = pg_disk_port C E" "ds_images (pg_disk_service C E P) = pg_image_port C E"
  "ds_snapshots (pg_disk_service C E P) = pg_snapshot_port C E" "ds_types (pg_disk_service C E P) = pg_disk_type_port C E"
  "ds_peers (pg_disk_service C E P) = P" "ds_core (pg_disk_service C E P) = C"
  "is_repo (pg_image_service C E P) = pg_image_port C E" "is_disks (pg_image_service C E P) = pg_disk_port C E"
  "is_snapshots (pg_image_service C E P) = pg_snapshot_port C E" "is_peers (pg_image_service C E P) = P"
  "is_core (pg_image_service C E P) = C"
  "ss_repo (pg_snapshot_service C E P) = pg_snapshot_port C E" "ss_disks (pg_snapshot_service C E P) = pg_disk_port C E"
  "ss_peers (pg_snapshot_service C E P) = P" "ss_core (pg_snapshot_service C E P) = C"
  by (simp_all add: pg_disk_service_def pg_image_service_def pg_snapshot_service_def)

lemma pg_port_simps [simp]:
  "diskGet (pg_disk_port C E) = disk_get E" "diskInsert (pg_disk_port C E) = disk_insert E"
  "diskUpdate (pg_disk_port C E) = disk_update E" "diskDelete (pg_disk_port C E) = disk_delete E"
  "diskSetZone (pg_disk_port C E) = disk_set_zone E" "imageGet (pg_image_port C E) = image_get E"
  "imageInsert (pg_image_port C E) = image_insert E" "snapshotGet (pg_snapshot_port C E) = snapshot_get E"
  "snapshotInsert (pg_snapshot_port C E) = snapshot_insert E" "diskTypeGet (pg_disk_type_port C E) = disk_type_get E"
  "imageLatest (pg_image_port C E) = image_latest_by_family E" "imageUpdate (pg_image_port C E) = image_update E"
  "imageDelete (pg_image_port C E) = image_delete E" "snapshotUpdate (pg_snapshot_port C E) = snapshot_update E"
  "snapshotDelete (pg_snapshot_port C E) = snapshot_delete E"
  by (simp_all add: pg_disk_port_def pg_image_port_def pg_snapshot_port_def pg_disk_type_port_def)

definition fx_pj :: protojson where
  "fx_pj = \<lparr> pj_marshal = (\<lambda>m. Some (JStr m)), pj_unmarshal = (\<lambda>j. case j of JStr m \<Rightarrow> Some m | _ \<Rightarrow> None) \<rparr>"

definition fx_core :: corelib where
  "fx_core = \<lparr> cl_page_size = (\<lambda>n. if n < 0 then Inl (status InvalidArgument ''page_size'') else Inr (if n = 0 then 50 else n)),
     cl_parse_filter = (\<lambda>f. if f = '''' then Inr None else Inr (Some (\<lambda>n. n = f))),
     cl_name = (\<lambda>f n. if n = '''' then Some (invalidArg f ''name is required'') else None),
     cl_description = (\<lambda>_ _. None), cl_labels = (\<lambda>_ _. None),
     cl_update_mask = (\<lambda>f ms known. if \<forall>m\<in>set ms. m \<in> set known then None else Some (invalidArg f ''unknown field'')),
     cl_resource_id = (\<lambda>_ p i. if i = '''' \<or> has_prefix i p then None else Some (invalidArg ''id'' ''invalid id'')) \<rparr>"

definition fx_env :: env where
  "fx_env = \<lparr> e_faults = no_faults, e_now = 5000, e_seq = 1, e_pj = fx_pj \<rparr>"

definition fx_peers :: peers where
  "fx_peers = \<lparr> pe_project_exists = (\<lambda>p. Inr (p = ''prj1'' \<or> p = ''prj2'')), pe_get_zone = (\<lambda>z. if z = ''zone-a'' then None else Some (Sentinel ErrNotFound)) \<rparr>"

definition fx_op :: op_env where
  "fx_op = \<lparr> oe_new = (\<lambda>desc meta. Inr \<lparr> op_id = ''cop1'', op_description = desc, op_created_at = 5000, op_created_by = ''usr1'',
       op_modified_at = 5000, op_done = False, op_metadata = meta,
       op_principal = \<lparr> pr_type = ''user'', pr_id = ''usr1'', pr_display_name = '''' \<rparr>, op_error = None, op_response = None \<rparr>),
     oe_create = (\<lambda>_. None) \<rparr>"

definition fx_instance_req :: create_instance_req where
  "fx_instance_req = \<lparr> cv_project_id = ''prj1'', cv_name = ''vm-1'', cv_description = '''', cv_labels = None,
     cv_zone_id = ''zone-a'', cv_platform_id = ''std'', cv_cores = 2, cv_memory = 4096, cv_core_fraction = 0, cv_gpus = 0,
     cv_cpu_guarantee = 50, cv_image = '''', cv_metadata = Some [(''k'', ''v'')], cv_metadata_options = None,
     cv_hostname = '''', cv_preemptible = False, cv_service_account_id = '''', cv_network_settings_type = '''',
     cv_placement_policy = None, cv_hardware_generation = None, cv_application = None \<rparr>"

definition fx_db :: db where
  "fx_db = snd (instance_insert fx_env (instance_of_req ''epd1'' 1000 fx_instance_req) empty_db)"

lemmas fx_defs = fx_pj_def fx_core_def fx_env_def fx_peers_def fx_op_def fx_instance_req_def

text \<open>A populated database: one disk type, an image of another project, a disk.\<close>

definition fx_image_req :: create_image_req where
  "fx_image_req = \<lparr> ci_project_id = ''prj2'', ci_name = ''ubuntu'', ci_description = '''', ci_labels = None,
     ci_family = ''ubuntu'', ci_min_disk_size = 8388608, ci_product_ids = [], ci_image_id = '''', ci_disk_id = '''',
     ci_snapshot_id = '''', ci_uri = ''https://x'', ci_os = None, ci_pooled = False, ci_hardware_generation = None \<rparr>"

definition fx_disk_req :: create_disk_req where
  "fx_disk_req = \<lparr> cd_project_id = ''prj1'', cd_name = ''data'', cd_description = '''', cd_labels = Some [(''env'', ''dev'')],
     cd_type_id = '''', cd_zone_id = ''zone-a'', cd_size = 8388608, cd_block_size = 0, cd_image_id = '''',
     cd_snapshot_id = '''', cd_placement_policy = None, cd_hardware_generation = None, cd_kms_key_id = '''' \<rparr>"

definition fx_disk :: disk where "fx_disk = disk_of_req ''dsk1'' 1500 fx_disk_req"

definition fx_db0 :: db where
  "fx_db0 = snd (image_insert fx_env (image_of_req ''img1'' 1000 fx_image_req (8388608, 0))
     (snd (disk_type_insert fx_env \<lparr> dt_id = ''network-ssd'', dt_description = '''', dt_zone_ids = [''zone-a''], dt_created_at = 0 \<rparr>
        empty_db)))"

definition fx_db1 :: db where "fx_db1 = snd (disk_insert fx_env fx_disk fx_db0)"

definition fx_disks :: "db disk_service" where "fx_disks = pg_disk_service fx_core fx_env fx_peers"

definition fx_images :: "db image_service" where "fx_images = pg_image_service fx_core fx_env fx_peers"

text \<open>Two owners with bindings of two instances, and the instance use cases over them.\<close>

definition fx_vol_spec :: "string \<Rightarrow> string \<Rightarrow> bool \<Rightarrow> volume_attach_spec" where
  "fx_vol_spec v i b = \<lparr> vs_volume_id = v, vs_instance_id = i, vs_instance_name = '''', vs_zone_id = ''zone-a'',
     vs_project_id = ''prj1'', vs_device_name = v, vs_is_boot = b, vs_mode = 1, vs_auto_delete = False \<rparr>"

definition fx_vols :: volume_owner where
  "fx_vols = snd (mock_vol_attach (fx_vol_spec ''vol2'' ''epd2'' True)
     (snd (mock_vol_attach (fx_vol_spec ''vol1'' ''epd1'' True) \<lparr> vo_by_vol = [], vo_attach_errs = [], vo_err = None, vo_list_err = None \<rparr>)))"

definition fx_nic_spec :: "string \<Rightarrow> string \<Rightarrow> nic_attach_spec" where
  "fx_nic_spec n i = \<lparr> ns_nic_id = n, ns_instance_id = i, ns_instance_name = '''', ns_zone_id = ''zone-a'',
     ns_project_id = ''prj1'', ns_index = 0 \<rparr>"

definition fx_nics :: nic_owner where
  "fx_nics = snd (mock_nic_attach (fx_nic_spec ''nic2'' ''epd2'')
     (snd (mock_nic_attach (fx_nic_spec ''nic1'' ''epd1'') \<lparr> no_by_nic = [], no_attach_errs = [], no_err = None, no_list_err = None \<rparr>)))"

definition fx_instances :: "(db, nic_owner, volume_owner) instance_service" where
  "fx_instances = \<lparr> iv_repo = pg_instance_port fx_core fx_env, iv_peers = fx_peers, iv_nics = Some mock_nic_port,
     iv_vols = Some mock_storage_port, iv_core = fx_core \<rparr>"

definition fx_world :: "(db, nic_owner, volume_owner) world" where
  "fx_world = \<lparr> w_db = fx_db, w_nics = fx_nics, w_vols = fx_vols \<rparr>"

lemma fx_nic_owner_ok: "nic_owner_ok fx_nics" by code_simp
lemma fx_vol_owner_ok: "vol_owner_ok fx_vols" by code_simp

lemma fx_pj_ok: "protojson_ok fx_pj"
  by (simp add: protojson_ok_def fx_pj_def)

lemma fx_env_simps [simp]: "e_faults fx_env = no_faults" "e_pj fx_env = fx_pj"
  by (simp_all add: fx_env_def)

lemma fx_instances_simps [simp]:
  "iv_nics fx_instances = Some mock_nic_port" "iv_vols fx_instances = Some mock_storage_port"
  "iv_repo fx_instances = pg_instance_port fx_core fx_env" "iv_peers fx_instances = fx_peers" "iv_core fx_instances = fx_core"
  by (simp_all add: fx_instances_def)

lemma fx_world_simps [simp]: "w_db fx_world = fx_db" "w_nics fx_world = fx_nics" "w_vols fx_world = fx_vols"
  by (simp_all add: fx_world_def)

lemma fx_pg_delete: "pg_delete_repo fx_env fx_env (iv_repo fx_instances)"
  by (simp add: pg_delete_repo_def)

lemma ok_run: "is_ok (fst p) \<Longrightarrow> \<exists>x. p = (Inr x, snd p)"
  by (cases p) (auto simp: is_ok_iff)

lemma fx_disk_inserted: "\<exists>d. disk_insert fx_env fx_disk fx_db0 = (Inr d, fx_db1)"
proof -
  have "is_ok (fst (disk_insert fx_env fx_disk fx_db0))" by code_simp
  from ok_run [OF this] show ?thesis by (simp add: fx_db1_def)
qed

lemma fx_instance_inserted: "\<exists>d. instance_insert fx_env (instance_of_req ''epd1'' 1000 fx_instance_req) empty_db = (Inr d, fx_db)"
proof -
  have "is_ok (fst (instance_insert fx_env (instance_of_req ''epd1'' 1000 fx_instance_req) empty_db))" by code_simp
  from ok_run [OF this] show ?thesis by (simp add: fx_db_def)
qed

end
