(* ===== verification/InstanceProperties.thy ===== *)
theory InstanceProperties
  imports Fixtures
begin

text \<open>
  What the instance use cases guarantee: the delete saga and its retries, the
  state machine, the sizing rule, the attach gate and its race with delete,
  the mirrors, and the defaults of Create.
\<close>

section \<open>Concrete runs\<close>

text \<open>A driver whose commit of the row deletion is lost.\<close>

definition fx_env_down :: env where
  "fx_env_down = fx_env\<lparr> e_faults := no_faults\<lparr> f_commit := Some (Plain ''conn closed'') \<rparr> \<rparr>"

definition fx_instances_down :: "(db, nic_owner, volume_owner) instance_service" where
  "fx_instances_down = fx_instances\<lparr> iv_repo := (pg_instance_port fx_core fx_env)\<lparr> instanceDelete := instance_delete fx_env_down \<rparr> \<rparr>"

text \<open>A stopped instance and a resize of it.\<close>

definition fx_db_stopped :: db where
  "fx_db_stopped = snd (setStatusCAS fx_env ''epd1'' InstanceStatusRunning InstanceStatusStopped fx_db)"

definition fx_resized :: db where
  "fx_resized = snd (instance_update fx_env ((instance_of_req ''epd1'' 1000 fx_instance_req)\<lparr> in_cores := 8 \<rparr>) False
     [''resources_spec''] fx_db_stopped)"

definition fx_marked :: "volume_owner sys" where
  "fx_marked = \<lparr> sy_db = snd (markDeleting fx_env ''epd1'' fx_db), sy_vols = fx_vols, sy_ids = [''epd1''],
     sy_attaching = [], sy_releasing = [''epd1''], sy_dropping = [] \<rparr>"

definition fx_attach_req :: attach_disk_req where
  "fx_attach_req = \<lparr> ar_volume_id = ''vol9'', ar_device_name = '''', ar_mode = 1, ar_is_boot = False, ar_auto_delete = False \<rparr>"

text \<open>What the witnesses below need of the runs they show, evaluated once.\<close>

definition fx_list_all :: "list_filter \<times> pagination" where
  "fx_list_all = (\<lparr> lf_project_id = ''prj1'', lf_filter = '''', lf_allowed_ids = None \<rparr>, \<lparr> pg_token = '''', pg_size = 10 \<rparr>)"

lemma fx_instance_runs:
  "(is_ok (fst (delete_worker fx_instances ''epd1'' fx_world)))
   \<and> (inst_sel (instances fx_db) ''epd1'' \<noteq> None)
   \<and> (\<not> is_ok (fst (delete_worker fx_instances_down ''epd1'' fx_world)))
   \<and> (is_ok (fst (delete_worker fx_instances ''epd1'' (snd (delete_worker fx_instances_down ''epd1'' fx_world)))))
   \<and> (case inst_sel (instances fx_db) ''epd1'' of None \<Rightarrow> False | Some r \<Rightarrow> is_ok (scanInstance fx_pj (r\<lparr> tr_status := ''DELETING'' \<rparr>)))
   \<and> (instances_ok (instances fx_db))
   \<and> (nic_up fx_nics)
   \<and> (vol_up fx_vols)
   \<and> (List.map tr_status (instances fx_db) = [''RUNNING''])
   \<and> (case inst_sel (instances fx_db) ''epd1'' of None \<Rightarrow> False | Some r \<Rightarrow> is_ok (scanInstance fx_pj (r\<lparr> tr_status := instanceStatusName InstanceStatusRunning \<rparr>)) \<and> tr_status r = ''RUNNING'')
   \<and> (map_option tr_cores (inst_sel (instances fx_resized) ''epd1'') = Some 8)
   \<and> (map_option tr_cores (inst_sel (instances fx_db_stopped) ''epd1'') = Some 2)
   \<and> (is_ok (fst (release_volumes fx_instances ''epd1'' fx_vols)))
   \<and> (vm_status ''epd1'' (sy_db fx_marked) = Some ''DELETING'')
   \<and> (case inst_sel (instances (sy_db fx_marked)) ''epd1'' of None \<Rightarrow> False | Some r \<Rightarrow> \<not> attachable r)
   \<and> (gateForAttach fx_env ''epd1'' fx_db = Inr (''zone-a'', ''prj1'', ''vm-1''))
   \<and> (is_ok (fst (markDeleting fx_env ''epd1'' fx_db)))
   \<and> (map_of (vo_by_vol fx_vols) ''vol9'' = None)
   \<and> (is_ok (instance_service_create fx_instances fx_op 2000 ''epd7'' (fx_instance_req\<lparr> cv_name := ''vm-7'' \<rparr>)))
   \<and> (is_ok (fst (instance_do_create fx_instances 2000 ''epd7'' (fx_instance_req\<lparr> cv_name := ''vm-7'' \<rparr>) fx_world)))
   \<and> (is_ok (fst (mergeMetadata fx_env ''epd1'' [''k''] (Some [(''n'', ''1'')]) fx_db)))
   \<and> (map_option tr_metadata (inst_sel (instances fx_db) ''epd1'') = Some (Some (json_of_map (Some [(''k'', ''v'')]))))
   \<and> (vm_status ''epd1'' fx_db = Some ''RUNNING'')
   \<and> (vm_status ''epd1'' (snd (instance_delete fx_env ''epd1'' (snd (markDeleting fx_env ''epd1'' fx_db)))) = None)
   \<and> (map_option va_instance_id (map_of (vo_by_vol (snd (mock_vol_attach (volume_spec ''epd1'' fx_attach_req (''zone-a'', ''prj1'', ''vm-1''))
          (snd (release_volumes fx_instances ''epd1'' fx_vols))))) ''vol9'') = Some ''epd1'')"
  by code_simp

lemma fx_list_runs:
  "case instance_service_list fx_instances (fst fx_list_all) (snd fx_list_all) fx_world of
     Inr ([x], _) \<Rightarrow> in_id x = ''epd1'' \<and> size (in_nics x) = 1 \<and> size (in_disks x) = 1 | _ \<Rightarrow> False"
  by code_simp

section \<open>Delete\<close>

text \<open>C1: when the delete worker succeeds, the row is gone, every NIC and volume binding
  the instance had at its owners is released, and no other row and no binding
  of another instance has moved, for any owners that keep the binding contract
  and whatever driver failures the run met.\<close>

theorem delete_releases_everything:
  assumes "binding_owners invn bn nc invv bv vc" "iv_nics I = Some nc" "iv_vols I = Some vc" "pg_delete_repo E1 E2 (iv_repo I)"
    "invn (w_nics w)" "invv (w_vols w)" "inst_sel (instances (w_db w)) i \<noteq> None" "delete_worker I i w = (Inr m, w')"
  shows "inst_sel (instances (w_db w')) i = None
    \<and> bn (w_nics w') = {b \<in> bn (w_nics w). snd b \<noteq> i} \<and> bv (w_vols w') = {b \<in> bv (w_vols w). snd b \<noteq> i}
    \<and> (\<forall>j. j \<noteq> i \<longrightarrow> inst_sel (instances (w_db w')) j = inst_sel (instances (w_db w)) j)"
  using binding_owners.delete_worker_releases [OF assms(1-6,8)] assms(7) by blast

theorem delete_releases_everything_witness:
  "nic_bindings (w_nics (snd (delete_worker fx_instances ''epd1'' fx_world))) = {b \<in> nic_bindings fx_nics. snd b \<noteq> ''epd1''}"
proof -
  have "is_ok (fst (delete_worker fx_instances ''epd1'' fx_world))" using fx_instance_runs by (elim conjE)
  from ok_run [OF this] obtain m w' where run: "delete_worker fx_instances ''epd1'' fx_world = (Inr m, w')" by blast
  have "inst_sel (instances fx_db) ''epd1'' \<noteq> None" using fx_instance_runs by (elim conjE)
  then show ?thesis
    using delete_releases_everything [OF mock_owners.binding_owners_axioms _ _ fx_pg_delete _ _ _ run]
      fx_nic_owner_ok fx_vol_owner_ok run by simp
qed

text \<open>A delete run that fails part-way keeps the row (at most moved to DELETING), so
  its bindings stay resolvable; and a retry that succeeds leaves exactly the
  bindings and rows the first run would have left.\<close>

theorem delete_retry_converges:
  assumes "binding_owners invn bn nc invv bv vc" "iv_nics I = Some nc" "iv_vols I = Some vc" "pg_delete_repo E1 E2 (iv_repo I)"
    "iv_nics I' = Some nc" "iv_vols I' = Some vc" "pg_delete_repo E3 E4 (iv_repo I')"
    "invn (w_nics w)" "invv (w_vols w)" "inst_sel (instances (w_db w)) i = Some r"
    "delete_worker I i w = (Inl e, w1)" "delete_worker I' i w1 = (Inr m, w2)"
  shows "inst_sel (instances (w_db w1)) i \<in> {Some r, Some (r\<lparr> tr_status := ''DELETING'' \<rparr>)}
    \<and> inst_sel (instances (w_db w2)) i = None
    \<and> bn (w_nics w2) = {b \<in> bn (w_nics w). snd b \<noteq> i} \<and> bv (w_vols w2) = {b \<in> bv (w_vols w). snd b \<noteq> i}
    \<and> (\<forall>j. j \<noteq> i \<longrightarrow> inst_sel (instances (w_db w2)) j = inst_sel (instances (w_db w)) j)"
proof -
  note f = binding_owners.delete_worker_fails [OF assms(1-4,8,9,11)]
  have k: "inst_sel (instances (w_db w1)) i \<in> {Some r, Some (r\<lparr> tr_status := ''DELETING'' \<rparr>)}" using f(3) assms(10) by blast
  then have "inst_sel (instances (w_db w1)) i \<noteq> None" by auto
  then have "inst_sel (instances (w_db w2)) i = None
    \<and> bn (w_nics w2) = {b \<in> bn (w_nics w1). snd b \<noteq> i} \<and> bv (w_vols w2) = {b \<in> bv (w_vols w1). snd b \<noteq> i}
    \<and> (\<forall>j. j \<noteq> i \<longrightarrow> inst_sel (instances (w_db w2)) j = inst_sel (instances (w_db w1)) j)"
    using binding_owners.delete_worker_releases [OF assms(1,5-7) f(1,2) assms(12)] by blast
  moreover have "{b \<in> bn (w_nics w1). snd b \<noteq> i} = {b \<in> bn (w_nics w). snd b \<noteq> i}"
    "{b \<in> bv (w_vols w1). snd b \<noteq> i} = {b \<in> bv (w_vols w). snd b \<noteq> i}" using f(4) by auto
  ultimately show ?thesis using k f(4) by simp
qed

theorem delete_retry_converges_witness:
  "\<exists>e w1. delete_worker fx_instances_down ''epd1'' fx_world = (Inl e, w1)
     \<and> vol_bindings (w_vols (snd (delete_worker fx_instances ''epd1'' w1))) = {b \<in> vol_bindings fx_vols. snd b \<noteq> ''epd1''}"
proof -
  let ?w1 = "snd (delete_worker fx_instances_down ''epd1'' fx_world)"
  have "\<not> is_ok (fst (delete_worker fx_instances_down ''epd1'' fx_world))" using fx_instance_runs by (elim conjE)
  then obtain e where r1: "delete_worker fx_instances_down ''epd1'' fx_world = (Inl e, ?w1)"
    by (cases "delete_worker fx_instances_down ''epd1'' fx_world"; cases "fst (delete_worker fx_instances_down ''epd1'' fx_world)") auto
  have "is_ok (fst (delete_worker fx_instances ''epd1'' ?w1))" using fx_instance_runs by (elim conjE)
  from ok_run [OF this] obtain m w2 where r2: "delete_worker fx_instances ''epd1'' ?w1 = (Inr m, w2)" by blast
  have "inst_sel (instances fx_db) ''epd1'' \<noteq> None" using fx_instance_runs by (elim conjE)
  then obtain r where r: "inst_sel (instances (w_db fx_world)) ''epd1'' = Some r" by auto
  have d: "pg_delete_repo fx_env fx_env_down (iv_repo fx_instances_down)"
    by (simp add: pg_delete_repo_def fx_instances_down_def fx_env_down_def driver_faults_def no_faults_def pg_instance_port_def)
  have p: "iv_nics fx_instances_down = Some mock_nic_port" "iv_vols fx_instances_down = Some mock_storage_port"
    by (simp_all add: fx_instances_down_def)
  have "vol_bindings (w_vols w2) = {b \<in> vol_bindings fx_vols. snd b \<noteq> ''epd1''}"
    using delete_retry_converges [OF mock_owners.binding_owners_axioms p d _ _ fx_pg_delete _ _ r r1 r2]
      fx_nic_owner_ok fx_vol_owner_ok by simp
  then show ?thesis using r1 r2 by (intro exI [of _ e] exI [of _ ?w1]) simp
qed

text \<open>C16: the saga makes progress and replays are harmless. With owners that answer and no
  driver failure, deleting an existing readable instance succeeds; running
  the worker again succeeds and changes nothing at all.\<close>

theorem delete_progress_and_replay:
  assumes "live_binding_owners invn bn nc invv bv vc upn upv" "iv_nics I = Some nc" "iv_vols I = Some vc"
    "pg_delete_repo E1 E2 (iv_repo I)" "e_faults E1 = no_faults" "e_faults E2 = no_faults"
    "invn (w_nics w)" "invv (w_vols w)" "upn (w_nics w)" "upv (w_vols w)"
    "instances_ok (instances (w_db w))" "inst_sel (instances (w_db w)) i = Some r"
    "scanInstance (e_pj E1) (r\<lparr> tr_status := ''DELETING'' \<rparr>) = Inr x"
  shows "\<exists>w'. delete_worker I i w = (Inr AnyEmpty, w') \<and> delete_worker I i w' = (Inr AnyEmpty, w')"
proof -
  obtain w' where w': "delete_worker I i w = (Inr AnyEmpty, w')"
    using live_binding_owners.delete_worker_progress [OF assms(1-6,9-13)] by blast
  have b: "binding_owners invn bn nc invv bv vc" using assms(1) by (simp add: live_binding_owners_def)
  have "inst_sel (instances (w_db w')) i = None"
    using binding_owners.delete_worker_releases(1) [OF b assms(2-4,7,8) w'] .
  then have "delete_worker I i w' = (Inr AnyEmpty, w')"
    using delete_worker_replay [where I = I and E = E1 and w = w' and i = i] assms(4,5) by (simp add: pg_delete_repo_def)
  then show ?thesis using w' by blast
qed

theorem delete_progress_and_replay_witness:
  "\<exists>w'. delete_worker fx_instances ''epd1'' fx_world = (Inr AnyEmpty, w') \<and> delete_worker fx_instances ''epd1'' w' = (Inr AnyEmpty, w')"
proof -
  have "inst_sel (instances fx_db) ''epd1'' \<noteq> None" using fx_instance_runs by (elim conjE)
  then obtain r where r: "inst_sel (instances fx_db) ''epd1'' = Some r" by auto
  have "case inst_sel (instances fx_db) ''epd1'' of None \<Rightarrow> False | Some r \<Rightarrow> is_ok (scanInstance fx_pj (r\<lparr> tr_status := ''DELETING'' \<rparr>))" using fx_instance_runs by (elim conjE)
  then obtain x where "scanInstance fx_pj (r\<lparr> tr_status := ''DELETING'' \<rparr>) = Inr x" using r by (auto simp: is_ok_iff)
  moreover have "instances_ok (instances fx_db)" "nic_up fx_nics" "vol_up fx_vols" by (simp_all only: fx_instance_runs simp_thms)
  ultimately show ?thesis
    using delete_progress_and_replay [OF mock_live_owners.live_binding_owners_axioms, of fx_instances fx_env fx_env fx_world "''epd1''" r x]
      r fx_pg_delete fx_nic_owner_ok fx_vol_owner_ok by simp
qed

section \<open>State machine\<close>

text \<open>C3: refinement. Every write of the instance repository, successful or not and under
  any driver failures, is on each instance a step of the API's lifecycle:
  created RUNNING, RUNNING to STOPPED and back, anything to DELETING, and removal.\<close>

theorem instance_writes_refine_lifecycle:
  assumes "instance_step s s'"
  shows "vm_step (vm_status i s) (vm_status i s')"
  using instance_step_refines [OF assms] .

theorem instance_writes_refine_lifecycle_witness:
  "vm_step (vm_status ''epd1'' fx_db) (vm_status ''epd1'' (snd (markDeleting fx_env ''epd1'' fx_db)))"
  by (rule instance_writes_refine_lifecycle, rule step_mark [where r = "fst (markDeleting fx_env ''epd1'' fx_db)"]) simp

text \<open>C20: DELETING is absorbing and no other status ever appears. From a database whose
  statuses are RUNNING, STOPPED or DELETING, every sequence of writes keeps it
  so; an instance that is DELETING stays DELETING until it is removed.\<close>

theorem instance_lifecycle_invariant:
  assumes "instance_step\<^sup>*\<^sup>* s s'" "instances_ok (instances s)" "\<forall>i. vm_reachable (vm_status i s)"
  shows "instances_ok (instances s') \<and> (\<forall>i. vm_reachable (vm_status i s'))
    \<and> (\<forall>i u. vm_status i s' = Some ''DELETING'' \<longrightarrow> instance_step s' u \<longrightarrow> vm_status i u \<in> {None, Some ''DELETING''})"
proof -
  have "instances_ok (instances s')"
    using assms(1,2) by (induction rule: rtranclp_induct) (auto intro: instance_step_ok)
  moreover have "vm_status i u \<in> {None, Some ''DELETING''}"
    if "vm_status i s' = Some ''DELETING''" "instance_step s' u" for i u
    using instance_step_refines [OF that(2), of i] that(1) by (simp add: vm_step_deleting)
  ultimately show ?thesis using instance_steps_reachable [OF assms(1)] assms(3) by blast
qed

theorem instance_lifecycle_invariant_witness:
  "vm_reachable (vm_status ''epd1'' (snd (setStatusCAS fx_env ''epd1'' InstanceStatusRunning InstanceStatusStopped fx_db)))"
proof -
  let ?s = "snd (setStatusCAS fx_env ''epd1'' InstanceStatusRunning InstanceStatusStopped fx_db)"
  have "instance_step fx_db ?s"
    by (rule step_write, rule write_stop [where r = "fst (setStatusCAS fx_env ''epd1'' InstanceStatusRunning InstanceStatusStopped fx_db)"]) simp
  then have "instance_step\<^sup>*\<^sup>* fx_db ?s" by blast
  moreover have "instances_ok (instances fx_db)" using fx_instance_runs by (elim conjE)
  moreover have "\<forall>i. vm_reachable (vm_status i fx_db)"
  proof -
    have "List.map tr_status (instances fx_db) = [''RUNNING'']" using fx_instance_runs by (elim conjE)
    then show ?thesis by (auto simp: vm_reachable_def vm_status_def sql_select_def find_Some_iff split: option.splits)
  qed
  ultimately show ?thesis using instance_lifecycle_invariant by blast
qed



text \<open>What each of the three use cases demands, writes and says.\<close>

definition lifecycle_table ::
  "((('d, 'n, 'v) instance_service \<Rightarrow> op_env \<Rightarrow> string \<Rightarrow> go_error + (operation \<times> ('d, 'n, 'v) world worker))
     \<times> string \<times> instance_status \<times> instance_status \<times> string) set" where
  "lifecycle_table =
    {(instance_service_start, ''Start'', InstanceStatusStopped, InstanceStatusRunning, ''Instance is not stopped''),
     (instance_service_stop, ''Stop'', InstanceStatusRunning, InstanceStatusStopped, ''Instance is not running''),
     (instance_service_restart, ''Restart'', InstanceStatusRunning, InstanceStatusRunning, ''Instance is not running'')}"

lemma lifecycle_use_case:
  assumes "(use_case, action, from1, to, msg) \<in> lifecycle_table" "use_case I O1 i = Inr (op1, f)"
  shows "f = lifecycle_worker I i from1 to msg"
    "oe_new O1 (action @ '' instance '' @ i) \<lparr> om_type = action @ ''InstanceMetadata'', om_fields = [(''instance_id'', i)] \<rparr> = Inr op1"
  using assms
  by (auto simp: lifecycle_table_def instance_service_start_def instance_service_stop_def instance_service_restart_def
      instance_service_lifecycle_def instance_op_def split: if_splits dest!: runOp_ok)

text \<open>Whatever the driver does, a run of one of the three is a write of the state machine.\<close>

lemma lifecycle_run_is_write:
  assumes "(use_case, action, from1, to, msg) \<in> lifecycle_table" "use_case I O1 i = Inr (op1, f)" "iv_repo I = pg_instance_port C E"
  shows "instance_write (w_db w) (w_db (snd (f w)))"
proof -
  have "snd (f w) = w\<lparr> w_db := snd (setStatusCAS E i from1 to (w_db w)) \<rparr>"
    unfolding lifecycle_use_case(1) [OF assms(1,2)] using assms(3)
    by (simp add: lifecycle_worker_def step_then_def on_db_def split: prod.splits sum.splits)
  moreover have "instance_write (w_db w) (snd (setStatusCAS E i from1 to (w_db w)))"
    using assms(1) by (auto simp: lifecycle_table_def intro: instance_write.intros [OF prod.collapse [symmetric]])
  ultimately show ?thesis by simp
qed



text \<open>C19: the sizing of an instance (cores, memory, core fraction, GPUs, CPU guarantee,
  platform) changes only while it is STOPPED, whatever the order of writes
  and whatever snapshot an update was computed from.\<close>

theorem sizing_changes_only_when_stopped:
  assumes "instance_step s s'" "inst_sel (instances s) i = Some x" "inst_sel (instances s') i = Some y" "sizing y \<noteq> sizing x"
  shows "tr_status x = ''STOPPED''"
  using instance_step_sizing [OF assms] .

theorem sizing_changes_only_when_stopped_witness:
  "map_option tr_cores (inst_sel (instances fx_resized) ''epd1'') = Some 8
   \<and> map_option tr_status (inst_sel (instances fx_db_stopped) ''epd1'') = Some ''STOPPED''"
proof -
  have a: "map_option tr_cores (inst_sel (instances fx_resized) ''epd1'') = Some 8"
    "map_option tr_cores (inst_sel (instances fx_db_stopped) ''epd1'') = Some 2" by (simp_all only: fx_instance_runs simp_thms)
  then obtain x y where xy: "inst_sel (instances fx_db_stopped) ''epd1'' = Some x" "inst_sel (instances fx_resized) ''epd1'' = Some y"
    "tr_cores x = 2" "tr_cores y = 8" by auto
  have "instance_step fx_db_stopped fx_resized"
    unfolding fx_resized_def by (rule step_write, rule write_update [OF prod.collapse [symmetric]])
  then have "tr_status x = ''STOPPED''"
    using sizing_changes_only_when_stopped xy by (fastforce simp: sizing_def)
  then show ?thesis using a(1) xy(1) by simp
qed

section \<open>Attach and delete\<close>

text \<open>C10: once an instance is DELETING or gone and no attach of it is past the gate, no
  interleaving of the sagas ever binds a volume to it again: it stays closed
  and its bindings only shrink, for any volume owner that keeps its contract.\<close>

theorem closed_instance_gains_no_volume:
  assumes "storage_owner okv bnd c" "(sys_step I c)\<^sup>*\<^sup>* S S'" "iv_vols I = Some c" "okv (sy_vols S)" "closed_for i S"
  shows "closed_for i S' \<and> {b \<in> bnd (sy_vols S'). snd b = i} \<subseteq> {b \<in> bnd (sy_vols S). snd b = i}"
  using storage_owner.sys_steps_closed [OF assms] .

theorem closed_instance_gains_no_volume_witness:
  "\<exists>S'. (sys_step fx_instances mock_storage_port)\<^sup>*\<^sup>* fx_marked S' \<and> sy_dropping S' = [''epd1'']
     \<and> {b \<in> vol_bindings (sy_vols S'). snd b = ''epd1''} \<subseteq> {b \<in> vol_bindings fx_vols. snd b = ''epd1''}"
proof -
  have "is_ok (fst (release_volumes fx_instances ''epd1'' fx_vols))" using fx_instance_runs by (elim conjE)
  from ok_run [OF this] obtain v where "release_volumes fx_instances ''epd1'' (sy_vols fx_marked) = (Inr (), v)"
    by (auto simp: fx_marked_def)
  then have "sys_step fx_instances mock_storage_port fx_marked (fx_marked\<lparr> sy_vols := v,
      sy_releasing := remove1 ''epd1'' (sy_releasing fx_marked), sy_dropping := ''epd1'' # sy_dropping fx_marked \<rparr>)"
    by (intro sys_release) (simp_all add: fx_marked_def)
  from r_into_rtranclp [of "sys_step fx_instances mock_storage_port", OF this]
  obtain S' where S': "(sys_step fx_instances mock_storage_port)\<^sup>*\<^sup>* fx_marked S'" "sy_dropping S' = [''epd1'']"
    by (auto simp: fx_marked_def)
  moreover have "closed_for ''epd1'' fx_marked"
  proof -
    have "vm_status ''epd1'' (sy_db fx_marked) = Some ''DELETING''" using fx_instance_runs by (elim conjE)
    then show ?thesis by (simp add: closed_for_def fx_marked_def)
  qed
  moreover have "sy_vols fx_marked = fx_vols" by (simp add: fx_marked_def)
  ultimately show ?thesis
    using closed_instance_gains_no_volume [OF mock_storage.storage_owner_axioms S'(1), of "''epd1''"] fx_vol_owner_ok by fastforce
qed

text \<open>An attach worker refuses an instance that is not RUNNING or STOPPED: without
  driver failures it answers FAILED_PRECONDITION, never calls the volume owner
  and changes nothing.\<close>

theorem attach_refused_when_not_attachable:
  assumes "iv_repo I = pg_instance_port C E" "e_faults E = no_faults" "inst_sel (instances (w_db w)) i = Some r" "\<not> attachable r"
  shows "attach_disk_worker I i req w = (Inl (status FailedPrecondition ''Instance must be RUNNING or STOPPED''), w)"
proof -
  have "gateForAttach E i (w_db w) = Inl (Wrapped ErrFailedPrecondition ''Instance must be RUNNING or STOPPED'')"
    using assms(2-4) by (simp add: gateForAttach_def exists_probe_def no_faults_def)
  then show ?thesis using assms(1) by (simp add: attach_disk_worker_def)
qed

theorem attach_refused_when_not_attachable_witness:
  "fst (attach_disk_worker fx_instances ''epd1'' fx_attach_req (fx_world\<lparr> w_db := sy_db fx_marked \<rparr>))
   = Inl (status FailedPrecondition ''Instance must be RUNNING or STOPPED'')"
proof -
  have "case inst_sel (instances (sy_db fx_marked)) ''epd1'' of None \<Rightarrow> False | Some r \<Rightarrow> \<not> attachable r" using fx_instance_runs by (elim conjE)
  then obtain r where "inst_sel (instances (w_db (fx_world\<lparr> w_db := sy_db fx_marked \<rparr>))) ''epd1'' = Some r" "\<not> attachable r"
    by (auto split: option.splits)
  then show ?thesis
    using attach_refused_when_not_attachable [where I = fx_instances and C = fx_core and E = fx_env and
      w = "fx_world\<lparr> w_db := sy_db fx_marked \<rparr>" and i = "''epd1''" and r = r] by simp
qed

text \<open>C18: the gate does not exclude the race it is documented to exclude. There is an
  execution in which an attach passes the gate, a whole delete of the instance
  runs, and the attach then binds the volume: the owner is left with a volume
  bound to an instance that no longer exists.\<close>

theorem attach_delete_race_leaves_orphan:
  "\<exists>S S'. (sys_step fx_instances mock_storage_port)\<^sup>*\<^sup>* S S' \<and> vm_status ''epd1'' (sy_db S) = Some ''RUNNING''
     \<and> sy_attaching S = [] \<and> {b \<in> vol_bindings (sy_vols S). fst b = ''vol9''} = {}
     \<and> vm_status ''epd1'' (sy_db S') = None \<and> sy_attaching S' = [] \<and> sy_releasing S' = [] \<and> sy_dropping S' = []
     \<and> (''vol9'', ''epd1'') \<in> vol_bindings (sy_vols S')"
proof -
  let ?st = "sys_step fx_instances mock_storage_port"
  let ?g = "(''zone-a'', ''prj1'', ''vm-1'')" and ?i = "''epd1''"
  define v1 where "v1 = snd (release_volumes fx_instances ?i fx_vols)"
  define v2 where "v2 = snd (mock_vol_attach (volume_spec ?i fx_attach_req ?g) v1)"
  define d1 where "d1 = snd (markDeleting fx_env ?i fx_db)"
  define d2 where "d2 = snd (instance_delete fx_env ?i d1)"
  let ?S = "\<lambda>d v a r q. \<lparr> sy_db = d, sy_vols = v, sy_ids = [?i], sy_attaching = a, sy_releasing = r, sy_dropping = q \<rparr>"
  have "gateForAttach fx_env ?i fx_db = Inr ?g" using fx_instance_runs by (elim conjE)
  then have s1: "?st (?S fx_db fx_vols [] [] []) (?S fx_db fx_vols [(?i, fx_attach_req, ?g)] [] [])"
    using sys_gate [of fx_env ?i "?S fx_db fx_vols [] [] []" ?g fx_instances mock_storage_port fx_attach_req] by simp
  have "is_ok (fst (markDeleting fx_env ?i fx_db))" using fx_instance_runs by (elim conjE)
  from ok_run [OF this] obtain x where "markDeleting fx_env ?i fx_db = (Inr x, d1)" by (auto simp: d1_def)
  then have s2: "?st (?S fx_db fx_vols [(?i, fx_attach_req, ?g)] [] []) (?S d1 fx_vols [(?i, fx_attach_req, ?g)] [?i] [])"
    using sys_mark [of fx_env ?i "?S fx_db fx_vols [(?i, fx_attach_req, ?g)] [] []" x d1] by simp
  have "is_ok (fst (release_volumes fx_instances ?i fx_vols))" using fx_instance_runs by (elim conjE)
  from ok_run [OF this] have "release_volumes fx_instances ?i fx_vols = (Inr (), v1)" by (auto simp: v1_def)
  then have s3: "?st (?S d1 fx_vols [(?i, fx_attach_req, ?g)] [?i] []) (?S d1 v1 [(?i, fx_attach_req, ?g)] [] [?i])"
    using sys_release [of ?i "?S d1 fx_vols [(?i, fx_attach_req, ?g)] [?i] []" fx_instances v1] by simp
  have s4: "?st (?S d1 v1 [(?i, fx_attach_req, ?g)] [] [?i]) (?S d2 v1 [(?i, fx_attach_req, ?g)] [] [])"
    using sys_drop [of ?i "?S d1 v1 [(?i, fx_attach_req, ?g)] [] [?i]" fx_env "fst (instance_delete fx_env ?i d1)" d2]
    by (simp add: d2_def)
  have s5: "?st (?S d2 v1 [(?i, fx_attach_req, ?g)] [] []) (?S d2 v2 [] [] [])"
    using sys_attach [of ?i fx_attach_req ?g "?S d2 v1 [(?i, fx_attach_req, ?g)] [] []" mock_storage_port
        "fst (mock_vol_attach (volume_spec ?i fx_attach_req ?g) v1)" v2]
    by (simp add: v2_def)
  have run: "?st\<^sup>*\<^sup>* (?S fx_db fx_vols [] [] []) (?S d2 v2 [] [] [])"
    using s1 s2 s3 s4 s5 by (meson converse_rtranclp_into_rtranclp rtranclp.rtrancl_refl)
  have "vm_status ?i fx_db = Some ''RUNNING''" "vm_status ?i d2 = None" unfolding d2_def d1_def by (simp_all only: fx_instance_runs simp_thms)
  moreover have "map_of (vo_by_vol fx_vols) ''vol9'' = None" using fx_instance_runs by (elim conjE)
  moreover have "map_option va_instance_id (map_of (vo_by_vol v2) ''vol9'') = Some ?i" unfolding v2_def v1_def using fx_instance_runs by (elim conjE)
  ultimately show ?thesis using run
    by (intro exI [of _ "?S fx_db fx_vols [] [] []"] exI [of _ "?S d2 v2 [] [] []"]) (auto simp: vol_bindings_def)
qed

section \<open>Create\<close>




section \<open>Mirrors\<close>

text \<open>What the listing of an owner is: down, or the rows of the instances asked for.\<close>

definition lists_by_instance :: "('b \<Rightarrow> string) \<Rightarrow> (string list \<Rightarrow> 's \<Rightarrow> go_error + 'b list) \<Rightarrow> 's \<Rightarrow> bool" where
  "lists_by_instance inst lst s \<longleftrightarrow> (\<exists>e. \<forall>is. lst is s = Inl e) \<or> (\<exists>tab. \<forall>is. lst is s = Inr (filter (\<lambda>a. inst a \<in> set is) tab))"

lemma mock_lists_by_instance:
  "lists_by_instance na_instance_id mock_nic_list n" "lists_by_instance va_instance_id mock_vol_list v"
  unfolding lists_by_instance_def mock_nic_list_def mock_vol_list_def
  by (cases "no_list_err n"; cases "no_err n"; force) (cases "vo_list_err v"; cases "vo_err v"; force)

lemma nic_batch_pointwise:
  assumes "\<And>c. iv_nics I = Some c \<Longrightarrow> lists_by_instance na_instance_id (nicList c) n"
  shows "applyNicMirrorBatch I n xs = List.map (applyNicMirror I n) xs"
proof (cases "iv_nics I")
  case (Some c)
  from assms [OF this] show ?thesis unfolding lists_by_instance_def
  proof (elim disjE exE)
    fix tab assume "\<forall>is. nicList c is n = Inr (filter (\<lambda>a. na_instance_id a \<in> set is) tab)"
    then show ?thesis by (simp add: applyNicMirrorBatch_def applyNicMirror_def Some filter_of_members)
  qed (auto simp: applyNicMirrorBatch_def applyNicMirror_def Some intro!: map_idI [symmetric])
qed (auto simp: applyNicMirrorBatch_def applyNicMirror_def intro!: map_idI [symmetric])

lemma volume_batch_pointwise:
  assumes "\<And>c. iv_vols I = Some c \<Longrightarrow> lists_by_instance va_instance_id (volList c) v"
  shows "applyVolumeMirrorBatch I v xs = List.map (applyVolumeMirror I v) xs"
proof (cases "iv_vols I")
  case (Some c)
  from assms [OF this] show ?thesis unfolding lists_by_instance_def
  proof (elim disjE exE)
    fix tab assume "\<forall>is. volList c is v = Inr (filter (\<lambda>a. va_instance_id a \<in> set is) tab)"
    then show ?thesis by (simp add: applyVolumeMirrorBatch_def applyVolumeMirror_def Some filter_of_members)
  qed (auto simp: applyVolumeMirrorBatch_def applyVolumeMirror_def Some intro!: map_idI [symmetric])
qed (auto simp: applyVolumeMirrorBatch_def applyVolumeMirror_def intro!: map_idI [symmetric])

lemma mirror_id: "in_id (applyVolumeMirror I v x) = in_id x" "in_id (applyNicMirror I n x) = in_id x" "in_id (with_mirrors I w x) = in_id x"
  by (auto simp: applyVolumeMirror_def applyNicMirror_def with_mirrors_def split: option.splits sum.splits)

lemma sql_select_member: "distinct (List.map pk t) \<Longrightarrow> r \<in> set t \<Longrightarrow> sql_select pk (pk r) t = Some r"
  by (induction t) (auto simp: sql_select_def)

lemma instance_list_get:
  assumes "instances_ok (instances s)" "instance_list C E f p s = Inr (xs, nt)" "x \<in> set xs"
  shows "instance_get E (in_id x) s = Inr x"
proof -
  have q: "f_query (e_faults E) = None" using assms(2,3) by (auto simp: instance_list_def repo_list_def split: if_splits)
  obtain r where r: "r \<in> set (instances s)" "scanInstance (e_pj E) r = Inr x"
    using repo_list_sound [OF assms(2) [unfolded instance_list_def] assms(3)] by (auto simp: instance_view_def)
  have "in_id x = tr_id r" using scanInstance_cols [OF r(2)] by simp
  moreover have "sql_select tr_id (tr_id r) (instances s) = Some r"
    using assms(1) r(1) by (simp add: sql_select_member table_ok_def)
  ultimately show ?thesis using r(2) q by (simp add: instance_get_def run_query_def)
qed

text \<open>C31: List and Get agree. When the listings of the owners are what they document, or an owner is
  down, every instance of a page of List is exactly what Get answers for its id, with its
  network interfaces and its volumes, although List asks each owner once for the whole page.\<close>

theorem list_agrees_with_get:
  assumes "iv_repo I = pg_instance_port C E" "instances_ok (instances (w_db w))"
    "\<And>c. iv_nics I = Some c \<Longrightarrow> lists_by_instance na_instance_id (nicList c) (w_nics w)"
    "\<And>c. iv_vols I = Some c \<Longrightarrow> lists_by_instance va_instance_id (volList c) (w_vols w)"
    "instance_service_list I f p w = Inr (xs, nt)" "x \<in> set xs"
  shows "instance_service_get I (in_id x) w = Inr x"
proof -
  obtain rows where l: "instance_list C E f p (w_db w) = Inr (rows, nt)"
      "xs = applyVolumeMirrorBatch I (w_vols w) (applyNicMirrorBatch I (w_nics w) rows)"
    using assms(1,5) by (auto simp: instance_service_list_def map_res_Inr_iff split: if_splits)
  then obtain y where y: "y \<in> set rows" "x = with_mirrors I w y"
    using assms(6) by (auto simp: with_mirrors_def nic_batch_pointwise [OF assms(3)] volume_batch_pointwise [OF assms(4)])
  then show ?thesis
    using instance_list_get [OF assms(2) l(1)] assms(1) by (simp add: instance_service_get_def mirror_id)
qed

theorem list_agrees_with_get_witness:
  "\<exists>x nt. instance_service_list fx_instances (fst fx_list_all) (snd fx_list_all) fx_world = Inr ([x], nt)
     \<and> instance_service_get fx_instances ''epd1'' fx_world = Inr x \<and> size (in_nics x) = 1 \<and> size (in_disks x) = 1"
proof -
  obtain x nt where l: "instance_service_list fx_instances (fst fx_list_all) (snd fx_list_all) fx_world = Inr ([x], nt)"
      "in_id x = ''epd1''" "size (in_nics x) = 1" "size (in_disks x) = 1"
    using fx_list_runs by (auto split: sum.splits prod.splits list.splits)
  have "instances_ok (instances (w_db fx_world))" using fx_instance_runs by (elim conjE) simp
  then have "instance_service_get fx_instances (in_id x) fx_world = Inr x"
    by (rule list_agrees_with_get [OF fx_instances_simps(3) _ _ _ l(1)]) (auto simp: mock_lists_by_instance)
  then show ?thesis using l by auto
qed

text \<open>The volume mirror is a permutation of the attachments the owner reports, with every
  boot volume before every other one; the network interfaces likewise, in the
  order of their slots.\<close>

theorem mirrors_sorted_permutations:
  "mset (volumeMirror va) = image_mset attached_disk_of (mset va)
    \<and> sorted (List.map (\<lambda>d. (\<not> ad_is_boot d, ad_device_name d)) (volumeMirror va))
    \<and> mset (nicMirror na) = image_mset network_interface_of (mset na)
    \<and> sorted (List.map na_index (sort_key na_index na))"
proof -
  have "List.map (\<lambda>d. (\<not> ad_is_boot d, ad_device_name d)) (volumeMirror va) = List.map volume_key (sort_key volume_key va)"
    by (simp add: volumeMirror_def volume_key_def attached_disk_of_def)
  then show ?thesis by (simp add: volumeMirror_mset nicMirror_mset)
qed

text \<open>The mode of a mirrored volume is not the mode that was asked for. The program casts
  between two enumerations that order their values differently: a request
  for READ_ONLY reaches the owner as READ_WRITE and is then shown to the
  client as READ_ONLY (and the other way round).\<close>

theorem attach_mode_swapped:
  "attachModeToWire (vs_mode (volume_spec i (r\<lparr> ar_mode := AttachedDiskModeReadOnly \<rparr>) g)) = READ_WRITE
   \<and> attachModeToWire (vs_mode (volume_spec i (r\<lparr> ar_mode := AttachedDiskModeReadWrite \<rparr>) g)) = READ_ONLY
   \<and> ad_mode (attached_disk_of (a\<lparr> va_mode := attachModeFromWire READ_WRITE \<rparr>)) = AttachedDiskModeReadOnly
   \<and> ad_mode (attached_disk_of (a\<lparr> va_mode := attachModeFromWire READ_ONLY \<rparr>)) = AttachedDiskModeReadWrite"
  by (cases g) (simp add: volume_spec_def attachModeToWire_def attached_disk_of_def AttachedDiskModeReadOnly_def
    AttachedDiskModeReadWrite_def VolumeAttachModeReadWrite_def VolumeAttachModeReadOnly_def)

section \<open>Metadata\<close>

lemma map_of_filter_keys: "map_of (filter (\<lambda>(k, _). P k) xs) k = (if P k then map_of xs k else None)"
  by (induction xs) auto

lemma metadata_merge_maps:
  "metadata_merge del (json_of_map (Some up)) (Some (json_of_map (Some md)))
   = Inr (json_of_map (Some (filter (\<lambda>(k, _). k \<notin> set del \<and> k \<notin> fst ` set up) md @ up)))"
proof -
  have f: "filter (\<lambda>(k, _). P k) (List.map (\<lambda>(k, v). (k, JStr v)) xs) = List.map (\<lambda>(k, v). (k, JStr v)) (filter (\<lambda>(k, _). P k) xs)"
    for P and xs :: "(string \<times> string) list" by (induction xs) auto
  have "fst ` set (List.map (\<lambda>(k, v). (k, JStr v)) up) = fst ` set up" by force
  then show ?thesis using f [of "\<lambda>k. k \<notin> set del \<and> k \<notin> fst ` set up"]
    by (simp add: metadata_merge_def json_of_map_def)
qed

text \<open>C30: UpdateMetadata merges in the database. Over a stored map the result holds, key by
  key, the upserted value if there is one, nothing if the key was deleted, and
  the stored value otherwise; nothing else of the row changes, and one
  UPDATED event is written with it.\<close>

theorem metadata_merge_semantics:
  assumes "mergeMetadata E i del (Some up) s = (Inr x, s')" "inst_sel (instances s) i = Some r"
    "tr_metadata r = Some (json_of_map (Some md))"
  shows "\<exists>m j. in_metadata x = Some m
    \<and> (\<forall>k. map_of m k = (case map_of up k of Some v \<Rightarrow> Some v | None \<Rightarrow> if k \<in> set del then None else map_of md k))
    \<and> inst_sel (instances s') i = Some (r\<lparr> tr_metadata := Some j \<rparr>)
    \<and> outbox s' = outbox s @ [event_of E ''Instance'' (in_id x) ''UPDATED'' (PInstance x)]"
proof -
  let ?m = "filter (\<lambda>(k, _). k \<notin> set del \<and> k \<notin> fst ` set up) md @ up"
  let ?j = "json_of_map (Some ?m)"
  obtain t j where j: "metadata_merge del (json_of_map (Some up)) (tr_metadata r) = Inr j"
    and t: "\<forall>k. inst_sel t k = (if k = i then Some (r\<lparr> tr_metadata := Some j \<rparr>) else inst_sel (instances s) k)"
    and sc: "scanInstance (e_pj E) (r\<lparr> tr_metadata := Some j \<rparr>) = Inr x"
    and s': "s' = s\<lparr> instances := t, outbox := outbox s @ [event_of E ''Instance'' (in_id x) ''UPDATED'' (PInstance x)] \<rparr>"
    using mergeMetadata_ok [OF assms(1)] assms(2) by (auto simp: orEmptyMap_def)
  have "j = ?j" using j assms(3) metadata_merge_maps [of del up md] by simp
  then have x: "in_metadata x = Some ?m" using sc by (auto simp: scanInstance_def)
  have "map_of ?m k = (case map_of up k of Some v \<Rightarrow> Some v | None \<Rightarrow> if k \<in> set del then None else map_of md k)" for k
    using map_of_eq_None_iff [of up k]
    by (cases "map_of up k"; simp add: map_add_def map_of_filter_keys split: option.splits)
  then show ?thesis using x t s' by (intro exI [of _ ?m] exI [of _ j]) simp
qed

theorem metadata_merge_semantics_witness:
  "\<exists>m. map_of m ''k'' = None \<and> map_of m ''n'' = Some ''1''
     \<and> map_res in_metadata (fst (mergeMetadata fx_env ''epd1'' [''k''] (Some [(''n'', ''1'')]) fx_db)) = Inr (Some m)"
proof -
  have "is_ok (fst (mergeMetadata fx_env ''epd1'' [''k''] (Some [(''n'', ''1'')]) fx_db))" using fx_instance_runs by (elim conjE)
  from ok_run [OF this] obtain x s' where run: "mergeMetadata fx_env ''epd1'' [''k''] (Some [(''n'', ''1'')]) fx_db = (Inr x, s')" by blast
  have "map_option tr_metadata (inst_sel (instances fx_db) ''epd1'') = Some (Some (json_of_map (Some [(''k'', ''v'')])))" using fx_instance_runs by (elim conjE)
  then obtain r where "inst_sel (instances fx_db) ''epd1'' = Some r" "tr_metadata r = Some (json_of_map (Some [(''k'', ''v'')]))"
    by auto
  from metadata_merge_semantics [OF run this] run show ?thesis by auto
qed

end
