(* ===== verification/StorageProperties.thy ===== *)
theory StorageProperties
  imports Fixtures
begin

text \<open>
  What disks, images and snapshots guarantee: a write is one transaction
  with its outbox event and register intent, sizes never shrink, updates
  touch only the columns of the mask, sources of other projects are
  indistinguishable from missing ones.
\<close>

section \<open>Concrete runs\<close>

definition fx_snapshot_req :: create_snapshot_req where
  "fx_snapshot_req = \<lparr> cs_project_id = ''prj1'', cs_disk_id = ''dsk1'', cs_name = ''s'', cs_description = '''',
     cs_labels = None, cs_hardware_generation = None \<rparr>"

text \<open>What the witnesses below need of the runs they show, evaluated once.\<close>

lemma fx_storage_runs:
  "(disks_ok (disks fx_db0))
   \<and> (d_id fx_disk = ''dsk1'')
   \<and> (pg_time (d_created_at fx_disk) = 1000)
   \<and> (map_option dr_size (disk_sel (disks fx_db1) ''dsk1'') = Some 8388608)
   \<and> (is_ok (fst (disk_update fx_env (fx_disk\<lparr> d_name := ''renamed'' \<rparr>) False [''name''] fx_db1)))
   \<and> (is_ok (fst (disk_update fx_env (fx_disk\<lparr> d_description := ''new'' \<rparr>) False [''description''] (snd (disk_update fx_env (fx_disk\<lparr> d_name := ''renamed'' \<rparr>) False [''name''] fx_db1)))))
   \<and> (disk_sel (disks fx_db1) (d_id (fx_disk\<lparr> d_name := ''renamed'' \<rparr>)) \<noteq> None)
   \<and> (d_id (fx_disk\<lparr> d_name := ''renamed'' \<rparr>) = ''dsk1'')
   \<and> (is_ok (disk_service_create fx_disks fx_op 2000 ''dsk2'' (fx_disk_req\<lparr> cd_name := ''d2'' \<rparr>)))
   \<and> (is_ok (fst (disk_do_create fx_disks 2000 ''dsk2'' (fx_disk_req\<lparr> cd_name := ''d2'' \<rparr>) fx_db1)))
   \<and> (is_ok (image_get fx_env ''img1'' fx_db1))
   \<and> (map_res im_project_id (image_get fx_env ''img1'' fx_db1) = Inr ''prj2'')
   \<and> (is_ok (diskInsertArgs fx_pj (fx_disk\<lparr> d_id := ''dsk9'' \<rparr>)))
   \<and> (disk_sel (disks fx_db1) ''dsk1'' \<noteq> None)
   \<and> (map_option (\<lambda>r. (dr_project_id r, dr_name r)) (disk_sel (disks fx_db1) ''dsk1'') = Some (''prj1'', ''data''))
   \<and> (d_name (fx_disk\<lparr> d_id := ''dsk9'' \<rparr>) = ''data'')
   \<and> (d_project_id (fx_disk\<lparr> d_id := ''dsk9'' \<rparr>) = ''prj1'')
   \<and> (is_ok (fst (disk_do_update fx_disks (\<lparr> ud_disk_id = ''dsk1'', ud_name = ''z'', ud_description = '''', ud_labels = None, ud_size = 0, ud_placement_policy = None, ud_mask = [''name''] \<rparr>) fx_db1)))
   \<and> (is_ok (image_service_create fx_images fx_op 2000 ''img2'' (fx_image_req\<lparr> ci_project_id := ''prj1'', ci_disk_id := ''dsk1'', ci_uri := '''', ci_min_disk_size := 0 \<rparr>)))
   \<and> (is_ok (fst (image_do_create fx_images 2000 ''img2'' (fx_image_req\<lparr> ci_project_id := ''prj1'', ci_disk_id := ''dsk1'', ci_uri := '''', ci_min_disk_size := 0 \<rparr>) fx_db1)))
   \<and> (map_res d_size (disk_get fx_env ''dsk1'' fx_db1) = Inr 8388608)
   \<and> (is_ok (image_latest_by_family fx_env ''prj2'' ''ubuntu'' fx_db1))
   \<and> (is_ok (fst (snapshot_do_create (pg_snapshot_service fx_core fx_env fx_peers) 2000 ''snp1'' fx_snapshot_req fx_db1)))"
  by code_simp

section \<open>Inserts\<close>

text \<open>C6: a successful DiskRepo.Insert leaves the table well formed (unique id, unique
  name per project), answers with the disk as stored, makes exactly that disk
  readable, and appends in the same transaction exactly one CREATED event and
  the register intent of the disk.\<close>

theorem disk_insert_transaction:
  assumes "disk_insert E d s = (Inr d', s')" "protojson_ok (e_pj E)" "disks_ok (disks s)"
  shows "disks_ok (disks s') \<and> d' = d\<lparr> d_created_at := pg_time (d_created_at d) \<rparr>
    \<and> disk_get E (d_id d) s = Inl (wrapPgErr ''Disk'' (d_id d) NoRows) \<and> disk_get E (d_id d) s' = Inr d'
    \<and> (\<forall>j. j \<noteq> d_id d \<longrightarrow> disk_sel (disks s') j = disk_sel (disks s) j)
    \<and> outbox s' = outbox s @ [event_of E ''Disk'' (d_id d) ''CREATED'' (PDisk d')]
    \<and> fga_outbox s' = fga_outbox s @ intents_of E EventRegister ''Disk'' (d_id d) (d_project_id d) (d_labels d)"
proof -
  obtain row t where row: "diskInsertArgs (e_pj E) d = Inr row"
    and ins: "sql_insert dr_id disk_uq disk_chk row (disks s) = Inr t" and sc: "scanDisk (e_pj E) row = Inr d'"
    and s': "s' = s\<lparr> disks := t, outbox := outbox s @ [event_of E ''Disk'' (d_id d') ''CREATED'' (PDisk d')],
            fga_outbox := fga_outbox s @ intents_of E EventRegister ''Disk'' (d_id d') (d_project_id d') (d_labels d') \<rparr>"
    using disk_insert_ok [OF assms(1)] by blast
  have d': "d' = d\<lparr> d_created_at := pg_time (d_created_at d) \<rparr>" using scanDisk_insertArgs [OF assms(2) row] sc by simp
  have k: "dr_id row = d_id d" using diskInsertArgs_cols [OF row] by simp
  have q: "f_query (e_faults E) = None"
    using assms(1) by (auto simp: disk_insert_def pre_tx_ok in_tx_ok map_res_Inr_iff)
  have "disk_get E (d_id d) s = Inl (wrapPgErr ''Disk'' (d_id d) NoRows)"
    using disk_store.ins_fresh [OF ins] k q by (simp add: disk_get_def run_query_def guardE_def scan_row_def)
  moreover have "disk_get E (d_id d) s' = Inr d'"
    using disk_store.ins_sel [OF ins, of "d_id d"] k q sc s'
    by (simp add: disk_get_def run_query_def guardE_def scan_row_def)
  ultimately show ?thesis
    using disk_store.ins_ok [OF ins assms(3)] disk_store.ins_sel [OF ins] k s' d' by simp
qed

theorem disk_insert_transaction_witness:
  "disk_get fx_env ''dsk1'' fx_db1 = Inr (fx_disk\<lparr> d_created_at := 1000 \<rparr>)"
proof -
  obtain d' where "disk_insert fx_env fx_disk fx_db0 = (Inr d', fx_db1)" using fx_disk_inserted by blast
  moreover have "disks_ok (disks fx_db0)" "d_id fx_disk = ''dsk1''" "pg_time (d_created_at fx_disk) = 1000" by (simp_all only: fx_storage_runs simp_thms)
  ultimately show ?thesis
    using disk_insert_transaction [of fx_env fx_disk fx_db0 d' fx_db1] fx_pj_ok by simp
qed

section \<open>Disk size\<close>

text \<open>DiskRepo.Update never shrinks a disk. Whatever snapshot the caller holds, whatever
  the mask, and whether the call succeeds or fails, the size of every stored
  disk afterwards is at least what it was; a lost race is refused by the
  predicate in the statement itself.\<close>

theorem disk_update_never_shrinks:
  assumes "disk_update E d lab ch s = (r, s')" "disk_sel (disks s) j = Some x"
  shows "\<exists>y. disk_sel (disks s') j = Some y \<and> dr_size x \<le> dr_size y"
proof (cases r)
  case (Inl e)
  then have "s' = s" using assms(1) disk_update_err by blast
  then show ?thesis using assms(2) by simp
next
  case (Inr d')
  then obtain r0 t where "disk_sel (disks s) (d_id d) = Some r0" "''size'' \<in> set ch \<longrightarrow> dr_size r0 \<le> d_size d"
     "\<forall>j. disk_sel t j = (if j = d_id d then Some (disk_exec (e_pj E) d ch r0) else disk_sel (disks s) j)" "disks s' = t"
    using disk_update_ok [of E d lab ch s d' s'] assms(1) by auto
  then show ?thesis using assms(2) by (cases "j = d_id d") (auto simp: disk_exec_def)
qed

theorem disk_update_never_shrinks_witness:
  "\<exists>y. disk_sel (disks (snd (disk_update fx_env (fx_disk\<lparr> d_size := 4194304 \<rparr>) False [''size''] fx_db1))) ''dsk1'' = Some y
     \<and> 8388608 \<le> dr_size y"
proof -
  obtain x where x: "disk_sel (disks fx_db1) ''dsk1'' = Some x \<and> dr_size x = 8388608"
  proof -
    have "map_option dr_size (disk_sel (disks fx_db1) ''dsk1'') = Some 8388608" using fx_storage_runs by (elim conjE)
    then show thesis using that by auto
  qed
  obtain r s' where "disk_update fx_env (fx_disk\<lparr> d_size := 4194304 \<rparr>) False [''size''] fx_db1 = (r, s')" by fastforce
  then show ?thesis using disk_update_never_shrinks [of fx_env _ False "[''size'']" fx_db1 r s' "''dsk1''" x] x by auto
qed

text \<open>C23: no lost update. Two updates of one disk, both computed from the same stale
  snapshot, with masks that share no column, both take effect: the second
  writes only the columns of its own mask over the row the first left.\<close>

theorem disk_update_disjoint_masks:
  assumes "disk_update E1 a l1 ch1 s = (Inr a', s1)" "disk_update E2 b l2 ch2 s1 = (Inr b', s2)" "d_id b = d_id a"
    "disk_sel (disks s) (d_id a) = Some r" "set ch1 \<inter> set ch2 = {}"
  shows "disk_sel (disks s2) (d_id a) = Some (disk_exec (e_pj E2) b ch2 (disk_exec (e_pj E1) a ch1 r))
    \<and> disk_exec (e_pj E2) b ch2 (disk_exec (e_pj E1) a ch1 r) = disk_exec (e_pj E1) a ch1 (disk_exec (e_pj E2) b ch2 r)"
proof -
  have "disk_sel (disks s1) (d_id a) = Some (disk_exec (e_pj E1) a ch1 r)"
    using disk_update_ok [OF assms(1)] assms(4) by auto
  then have "disk_sel (disks s2) (d_id a) = Some (disk_exec (e_pj E2) b ch2 (disk_exec (e_pj E1) a ch1 r))"
    using disk_update_ok [OF assms(2)] assms(3) by auto
  moreover have "c \<in> set ch1 \<Longrightarrow> c \<notin> set ch2" for c using assms(5) by auto
  ultimately show ?thesis by (simp add: disk_exec_def)
qed

theorem disk_update_disjoint_masks_witness:
  "map_option (\<lambda>r. (dr_name r, dr_description r))
     (disk_sel (disks (snd (disk_update fx_env (fx_disk\<lparr> d_description := ''new'' \<rparr>) False [''description'']
        (snd (disk_update fx_env (fx_disk\<lparr> d_name := ''renamed'' \<rparr>) False [''name''] fx_db1))))) ''dsk1'')
   = Some (''renamed'', ''new'')"
proof -
  let ?a = "fx_disk\<lparr> d_name := ''renamed'' \<rparr>" and ?b = "fx_disk\<lparr> d_description := ''new'' \<rparr>"
  have o1: "is_ok (fst (disk_update fx_env ?a False [''name''] fx_db1))" using fx_storage_runs by (elim conjE)
  have o2: "is_ok (fst (disk_update fx_env ?b False [''description''] (snd (disk_update fx_env ?a False [''name''] fx_db1))))" using fx_storage_runs by (elim conjE)
  have "disk_sel (disks fx_db1) (d_id ?a) \<noteq> None" using fx_storage_runs by (elim conjE)
  then obtain r where r: "disk_sel (disks fx_db1) (d_id ?a) = Some r" by blast
  have i: "d_id ?a = ''dsk1''" using fx_storage_runs by (elim conjE)
  obtain a' s1 where u1: "disk_update fx_env ?a False [''name''] fx_db1 = (Inr a', s1)" using ok_run [OF o1] by blast
  obtain b' s2 where u2: "disk_update fx_env ?b False [''description''] s1 = (Inr b', s2)" using ok_run [OF o2] u1 by auto
  show ?thesis using disk_update_disjoint_masks [OF u1 u2 _ r] u1 u2 i by (simp add: disk_exec_def)
qed

section \<open>Creating disks\<close>

text \<open>C21: a disk that Create accepts and its worker stores has a size inside
  [4 MiB, 28587302322176], a type and a zone that exist, a project that exists,
  at most one source, and a source of the same project that fits into it; a
  worker that fails leaves the database as it was.\<close>

theorem disk_create_sound:
  assumes "disk_service_create (pg_disk_service C E P) O1 now i req = Inr (op1, w)" "w s = (r, s')"
  shows "(is_ok r \<longrightarrow> diskSizeMin \<le> cd_size req \<and> cd_size req \<le> diskSizeMaxCreate
      \<and> pe_project_exists P (cd_project_id req) = Inr True \<and> pe_get_zone P (cd_zone_id req) = None
      \<and> (\<exists>t. disk_type_get E (or_default '''' defaultDiskType (cd_type_id req)) s = Inr t)
      \<and> \<not> (cd_image_id req \<noteq> '''' \<and> cd_snapshot_id req \<noteq> '''')
      \<and> (cd_image_id req \<noteq> '''' \<longrightarrow> (\<exists>im. image_get E (cd_image_id req) s = Inr im \<and> im_project_id im = cd_project_id req
           \<and> (0 < im_min_disk_size im \<longrightarrow> im_min_disk_size im \<le> cd_size req)))
      \<and> (cd_snapshot_id req \<noteq> '''' \<longrightarrow> (\<exists>sn. snapshot_get E (cd_snapshot_id req) s = Inr sn \<and> sn_project_id sn = cd_project_id req
           \<and> (0 < sn_disk_size sn \<longrightarrow> sn_disk_size sn \<le> cd_size req)))
      \<and> (\<exists>d. r = Inr (AnyDisk d) \<and> disk_insert E (disk_of_req i now req) s = (Inr d, s')))
    \<and> (\<not> is_ok r \<longrightarrow> s' = s)"
proof (cases r)
  case (Inl e)
  have w: "w = disk_do_create (pg_disk_service C E P) now i req"
    using assms(1) by (auto simp: disk_service_create_def split: if_splits dest!: runOp_ok)
  have "atomic_worker w" unfolding w by (rule atomic_disk_do_create) (simp add: atomic_pg)
  then show ?thesis using assms(2) Inl atomicD by fastforce
next
  case (Inr m)
  have b: "diskSizeMin \<le> cd_size req" "cd_size req \<le> diskSizeMaxCreate" "\<not> (cd_image_id req \<noteq> '''' \<and> cd_snapshot_id req \<noteq> '''')"
    and w: "w = disk_do_create (pg_disk_service C E P) now i req"
    using assms(1) by (auto simp: disk_service_create_def split: if_splits dest!: runOp_ok)
  have run: "disk_do_create (pg_disk_service C E P) now i req s = (Inr m, s')" using assms(2) w Inr by simp
  note ok = disk_do_create_ok [OF run]
  have "cd_image_id req \<noteq> '''' \<longrightarrow> (\<exists>im. image_get E (cd_image_id req) s = Inr im \<and> im_project_id im = cd_project_id req
           \<and> (0 < im_min_disk_size im \<longrightarrow> im_min_disk_size im \<le> cd_size req))"
    using ok(3) by (auto simp: disk_source_check_def split: sum.splits if_splits)
  moreover have "cd_snapshot_id req \<noteq> '''' \<longrightarrow> (\<exists>sn. snapshot_get E (cd_snapshot_id req) s = Inr sn \<and> sn_project_id sn = cd_project_id req
           \<and> (0 < sn_disk_size sn \<longrightarrow> sn_disk_size sn \<le> cd_size req))"
    using ok(3) b(3) by (auto simp: disk_source_check_def split: sum.splits if_splits)
  ultimately show ?thesis using ok b Inr by auto
qed

theorem disk_create_sound_witness:
  "\<exists>d s'. disk_insert fx_env (disk_of_req ''dsk2'' 2000 (fx_disk_req\<lparr> cd_name := ''d2'' \<rparr>)) fx_db1 = (Inr d, s')"
proof -
  let ?q = "fx_disk_req\<lparr> cd_name := ''d2'' \<rparr>"
  have "is_ok (disk_service_create fx_disks fx_op 2000 ''dsk2'' ?q)" using fx_storage_runs by (elim conjE)
  then obtain op1 w where c: "disk_service_create fx_disks fx_op 2000 ''dsk2'' ?q = Inr (op1, w)" by (auto simp: is_ok_iff)
  have "w = disk_do_create fx_disks 2000 ''dsk2'' ?q"
    using c by (auto simp: disk_service_create_def split: if_splits dest!: runOp_ok)
  moreover have "is_ok (fst (disk_do_create fx_disks 2000 ''dsk2'' ?q fx_db1))" using fx_storage_runs by (elim conjE)
  ultimately show ?thesis
    using disk_create_sound [OF c [unfolded fx_disks_def], of fx_db1] by (cases "w fx_db1") auto
qed

text \<open>Create never reveals whether a source of another project exists. With a source
  image that belongs to another project, the worker gives the same error, and
  changes as little, as in the database without that image.\<close>

theorem disk_create_hides_foreign_image:
  assumes "e_faults E = no_faults" "cd_image_id req \<noteq> ''''"
    "image_get E (cd_image_id req) s = Inr im" "im_project_id im \<noteq> cd_project_id req"
    "s0 = s\<lparr> images := filter (\<lambda>x. ir_id x \<noteq> cd_image_id req) (images s) \<rparr>"
  shows "\<exists>e. disk_do_create (pg_disk_service C E P) now i req s = (Inl e, s)
    \<and> disk_do_create (pg_disk_service C E P) now i req s0 = (Inl e, s0)"
proof -
  let ?D = "pg_disk_service C E P"
  have "image_sel (images s0) (cd_image_id req) = None" using assms(5) by (auto simp: sql_select_None)
  then have g: "image_get E (cd_image_id req) s0 = Inl (Wrapped ErrNotFound (''Image '' @ cd_image_id req @ '' not found''))"
    using assms(1,2) by (simp add: image_get_def run_query_def no_faults_def scan_row_def wrapPgErr_NoRows)
  have eq: "disk_source_check ?D req s = disk_source_check ?D req s0"
    using assms(2-4) g by (intro disk_source_foreign_image [where img = im]) auto
  have "disk_source_check ?D req s \<noteq> None" using assms(2-4) by (simp add: disk_source_check_def)
  then obtain e where e: "disk_source_check ?D req s = Some e" "disk_source_check ?D req s0 = Some e" using eq by auto
  have "disk_type_get E t s = disk_type_get E t s0" for t using assms(5) by (simp add: disk_type_get_def)
  then show ?thesis using e
    by (auto simp: disk_do_create_def Let_def halt_def stay_def split: option.splits sum.splits)
qed

theorem disk_create_hides_foreign_image_witness:
  "fst (disk_do_create fx_disks 2000 ''dsk2'' (fx_disk_req\<lparr> cd_name := ''d2'', cd_image_id := ''img1'' \<rparr>) fx_db1)
   = fst (disk_do_create fx_disks 2000 ''dsk2'' (fx_disk_req\<lparr> cd_name := ''d2'', cd_image_id := ''img1'' \<rparr>)
       (fx_db1\<lparr> images := filter (\<lambda>x. ir_id x \<noteq> ''img1'') (images fx_db1) \<rparr>))"
proof -
  let ?q = "fx_disk_req\<lparr> cd_name := ''d2'', cd_image_id := ''img1'' \<rparr>"
  have "is_ok (image_get fx_env ''img1'' fx_db1)" using fx_storage_runs by (elim conjE)
  then obtain im where im: "image_get fx_env ''img1'' fx_db1 = Inr im" by (auto simp: is_ok_iff)
  have "map_res im_project_id (image_get fx_env ''img1'' fx_db1) = Inr ''prj2''" using fx_storage_runs by (elim conjE)
  then have "im_project_id im \<noteq> cd_project_id ?q" using im by (simp add: fx_disk_req_def)
  then show ?thesis
    using disk_create_hides_foreign_image [of fx_env ?q fx_db1 im _ fx_core fx_peers 2000 "''dsk2''"] im by (auto simp: fx_disks_def)
qed

section \<open>Uniqueness of names\<close>

text \<open>A disk whose non-empty name is already taken in its project (or whose id is
  taken) is refused: without driver failures the answer is ErrAlreadyExists,
  which the service reports as ALREADY_EXISTS, and nothing is written.\<close>

theorem disk_insert_duplicate:
  assumes "e_faults E = no_faults" "diskInsertArgs (e_pj E) d = Inr row"
    "x \<in> set (disks s)" "dr_id x = d_id d \<or> (d_name d \<noteq> '''' \<and> dr_project_id x = d_project_id d \<and> dr_name x = d_name d)"
  shows "disk_insert E d s = (Inl (Sentinel ErrAlreadyExists), s)
    \<and> wire_code (mapRepoErr (Sentinel ErrAlreadyExists)) = AlreadyExists"
proof -
  note k = diskInsertArgs_cols [OF assms(2)]
  have "sql_select dr_id (dr_id row) (disks s) \<noteq> None \<or> uq_clash disk_uq row (disks s)"
  proof (cases "dr_id x = d_id d")
    case True
    then show ?thesis using assms(3) k sql_select_None [of dr_id "dr_id row" "disks s"] by force
  next
    case False
    then have "disk_uq row = Some (d_project_id d, d_name d)" "disk_uq x = disk_uq row"
      using assms(4) k by (simp_all add: disk_uq_def name_key_def)
    then show ?thesis using assms(3) by (auto simp: uq_clash_def)
  qed
  then have "sql_insert dr_id disk_uq disk_chk row (disks s) = Inl pg_unique"
    by (auto simp: sql_insert_def disk_chk_def)
  then show ?thesis using assms(1,2)
    by (simp add: disk_insert_def pre_tx_def in_tx_def run_query_def no_faults_def pg_unique_def wrapPgErr_def
        scan_returning_def isUniqueViolation_def wire_code_def)
qed

theorem disk_insert_duplicate_witness:
  "fst (disk_insert fx_env (fx_disk\<lparr> d_id := ''dsk9'' \<rparr>) fx_db1) = Inl (Sentinel ErrAlreadyExists)"
proof -
  let ?d = "fx_disk\<lparr> d_id := ''dsk9'' \<rparr>"
  have "is_ok (diskInsertArgs fx_pj ?d)" using fx_storage_runs by (elim conjE)
  then obtain row where row: "diskInsertArgs fx_pj ?d = Inr row" by (auto simp: is_ok_iff)
  have "disk_sel (disks fx_db1) ''dsk1'' \<noteq> None" using fx_storage_runs by (elim conjE)
  then obtain x where x: "disk_sel (disks fx_db1) ''dsk1'' = Some x" by blast
  have "map_option (\<lambda>r. (dr_project_id r, dr_name r)) (disk_sel (disks fx_db1) ''dsk1'') = Some (''prj1'', ''data'')" using fx_storage_runs by (elim conjE)
  then have "dr_project_id x = ''prj1''" "dr_name x = ''data''" using x by auto
  moreover have "d_name ?d = ''data''" "d_project_id ?d = ''prj1''" by (simp_all only: fx_storage_runs simp_thms)
  ultimately show ?thesis
    using disk_insert_duplicate [of fx_env ?d row x fx_db1] row sql_select_Some_D [OF x] by simp
qed

section \<open>Intents\<close>

text \<open>An update of a disk re-registers it with the authorization service exactly when
  the labels are in the effective mask, in the same transaction as the row
  and the UPDATED event.\<close>

theorem disk_update_intent_iff_labels:
  assumes "disk_do_update (pg_disk_service C E P) req s = (Inr m, s')"
  shows "\<exists>d. m = AnyDisk d \<and> outbox s' = outbox s @ [event_of E ''Disk'' (d_id d) ''UPDATED'' (PDisk d)]
    \<and> fga_outbox s' = fga_outbox s @
        (if ''labels'' \<in> set (if ud_mask req = [] then disk_full_mask else ud_mask req)
         then intents_of E EventRegister ''Disk'' (d_id d) (d_project_id d) (d_labels d) else [])"
proof -
  obtain d d' lab ch x where
      m: "disk_apply_mask req (if ud_mask req = [] then disk_full_mask else ud_mask req) (d, False, []) = Inr (d', lab, ch)"
    and u: "disk_update E d' lab ch s = (Inr x, s')" and mx: "m = AnyDisk x"
    using disk_do_update_ok [OF assms] by auto
  show ?thesis using disk_apply_mask_labels [OF m] disk_update_ok [OF u] mx by auto
qed

theorem disk_update_intent_iff_labels_witness:
  "size (fga_outbox (snd (disk_do_update fx_disks \<lparr> ud_disk_id = ''dsk1'', ud_name = ''z'', ud_description = '''', ud_labels = None,
     ud_size = 0, ud_placement_policy = None, ud_mask = [''name''] \<rparr> fx_db1))) = size (fga_outbox fx_db1)"
proof -
  let ?q = "\<lparr> ud_disk_id = ''dsk1'', ud_name = ''z'', ud_description = '''', ud_labels = None,
     ud_size = 0, ud_placement_policy = None, ud_mask = [''name''] \<rparr>"
  have "is_ok (fst (disk_do_update fx_disks ?q fx_db1))" using fx_storage_runs by (elim conjE)
  from ok_run [OF this] obtain m where "disk_do_update fx_disks ?q fx_db1 = (Inr m, snd (disk_do_update fx_disks ?q fx_db1))" by blast
  from disk_update_intent_iff_labels [OF this [unfolded fx_disks_def]] show ?thesis by (auto simp: fx_disks_def)
qed

section \<open>Images and snapshots\<close>





text \<open>GetLatestByFamily answers with an image of that project and family no other of
  which is newer (created_at, then id), and answers whenever there is one.\<close>

theorem image_latest_is_maximal:
  assumes "image_latest_by_family E p f s = Inr im"
  shows "\<exists>r\<in>set (images s). ir_project_id r = p \<and> ir_family r = f \<and> scanImage (e_pj E) r = Inr im
    \<and> (\<forall>x\<in>set (images s). ir_project_id x = p \<and> ir_family x = f \<longrightarrow>
         (ir_created_at x, ir_id x) \<le> (ir_created_at r, ir_id r))"
proof -
  obtain r where r: "latest_row (filter (\<lambda>r. ir_project_id r = p \<and> ir_family r = f) (images s)) = Some r"
      "scanImage (e_pj E) r = Inr im"
    using assms by (auto simp: image_latest_by_family_def)
  show ?thesis using latest_row_Some [OF r(1)] r(2) by auto
qed

theorem image_latest_is_maximal_witness:
  "\<exists>r\<in>set (images fx_db1). ir_project_id r = ''prj2'' \<and> ir_family r = ''ubuntu''"
proof -
  have "is_ok (image_latest_by_family fx_env ''prj2'' ''ubuntu'' fx_db1)" using fx_storage_runs by (elim conjE)
  then obtain im where "image_latest_by_family fx_env ''prj2'' ''ubuntu'' fx_db1 = Inr im" by (auto simp: is_ok_iff)
  from image_latest_is_maximal [OF this] show ?thesis by blast
qed

text \<open>The family pattern is exactly this: empty, or 3 to 63 characters, a lower-case
  letter first, a lower-case letter or digit last, letters, digits and dashes between.\<close>

theorem image_family_language:
  "validateImageFamily s = None \<longleftrightarrow> s = '''' \<or> (3 \<le> size s \<and> size s \<le> 63 \<and> is_lower (hd s) \<and> is_alnum (last s)
     \<and> list_all is_alnum_dash (butlast (tl s)))"
  using family_iff [of s] by (auto simp: validateImageFamily_def)

text \<open>A snapshot is taken only of a READY disk of the requesting project, and copies
  its size.\<close>

theorem snapshot_create_sound:
  assumes "snapshot_do_create (pg_snapshot_service C E P) now i req s = (Inr m, s')"
  shows "\<exists>d sn. disk_get E (cs_disk_id req) s = Inr d \<and> d_project_id d = cs_project_id req \<and> d_status d = DiskStatusReady
    \<and> snapshot_insert E (snapshot_of_req i now req d) s = (Inr sn, s') \<and> m = AnySnapshot sn
    \<and> sn_disk_size (snapshot_of_req i now req d) = d_size d"
  using snapshot_do_create_ok [OF assms] by (auto simp: snapshot_of_req_def)

theorem snapshot_create_sound_witness:
  "\<exists>d. disk_get fx_env ''dsk1'' fx_db1 = Inr d \<and> d_project_id d = ''prj1'' \<and> d_status d = DiskStatusReady"
proof -
  have "is_ok (fst (snapshot_do_create (pg_snapshot_service fx_core fx_env fx_peers) 2000 ''snp1'' fx_snapshot_req fx_db1))" using fx_storage_runs by (elim conjE)
  from ok_run [OF this] obtain m s' where
    "snapshot_do_create (pg_snapshot_service fx_core fx_env fx_peers) 2000 ''snp1'' fx_snapshot_req fx_db1 = (Inr m, s')" by blast
  from snapshot_create_sound [OF this] show ?thesis by (auto simp: fx_snapshot_req_def)
qed

end
