(* ===== verification/PlatformProperties.thy ===== *)
theory PlatformProperties
  imports Fixtures
begin

text \<open>
  What the shared mechanisms guarantee: page tokens and page walks, the
  visibility of lists, the register-intent payload, the update accumulator,
  the error mappers as leak guards, and the project-existence cache.
\<close>

section \<open>Lists\<close>

text \<open>A page token decodes to the position it was made from, for every instant in the
  int64 range and every id, also one that contains colons.\<close>

theorem page_token_roundtrip:
  assumes "in_int64 t"
  shows "decodePageToken (encodePageToken t i) = Inr (t, i) \<and> encodePageToken t i \<noteq> ''''"
  using decode_encode_token [OF assms] encodePageToken_nonempty by blast

theorem page_token_roundtrip_witness:
  "decodePageToken (encodePageToken (- 62135596800) ''a:b'') = Inr (- 62135596800, ''a:b'')"
  using page_token_roundtrip [of "- 62135596800" "''a:b''"] by (simp add: in_int64_def int64_min_def int64_max_def)

text \<open>C8: following next_page_token from the first page to the last visits every visible
  row exactly once, in the order of creation (then id), and nothing else,
  whatever the page size; the walk ends within as many pages as there are rows.\<close>

theorem list_walk_is_complete:
  assumes "cl_page_size C (pg_size p) = Inr (int n)" "0 < n" "lf_allowed_ids f \<noteq> Some []"
    "parse_list_filter C f = Inr ast" "f_query (e_faults E) = None"
    "\<forall>r\<in>set t. row_readable V r" "distinct (List.map (lv_cursor V) t)"
  shows "\<exists>rs. list_walk (Suc (size t)) (\<lambda>tok. repo_list C E V f (p\<lparr> pg_token := tok \<rparr>) t) ''''
       = Inr (List.map (\<lambda>r. projr (lv_scan V r)) rs)
     \<and> distinct rs \<and> set rs = {r \<in> set t. list_conds V f ast None r} \<and> sorted (List.map (lv_cursor V) rs)"
proof -
  have "distinct t" using assms(7) by (simp add: distinct_map)
  then have "distinct (visible V f ast t)" by (simp add: visible_def)
  moreover have "set (visible V f ast t) = {r \<in> set t. list_conds V f ast None r}" by (auto simp: visible_def)
  ultimately show ?thesis using list_walk_complete [OF assms] visible_sorted [of V f ast t]
    by (intro exI [of _ "visible V f ast t"]) simp
qed

definition fx_filter :: list_filter where
  "fx_filter = \<lparr> lf_project_id = ''prj1'', lf_filter = '''', lf_allowed_ids = None \<rparr>"

definition fx_page :: pagination where "fx_page = \<lparr> pg_token = '''', pg_size = 1 \<rparr>"

theorem list_walk_is_complete_witness:
  "\<exists>rs. list_walk (Suc (size (disks fx_db1))) (\<lambda>tok. disk_list fx_core fx_env fx_filter (fx_page\<lparr> pg_token := tok \<rparr>) fx_db1) ''''
       = Inr (List.map (\<lambda>r. projr (scanDisk fx_pj r)) rs)
     \<and> set rs = {r \<in> set (disks fx_db1). list_conds (disk_view fx_env) fx_filter None None r}"
proof -
  have "cl_page_size fx_core (pg_size fx_page) = Inr (int 1)" "parse_list_filter fx_core fx_filter = Inr None"
    by (simp_all add: fx_core_def fx_page_def fx_filter_def parse_list_filter_def)
  moreover have "list_all (row_readable (disk_view fx_env)) (disks fx_db1)" "distinct (List.map (lv_cursor (disk_view fx_env)) (disks fx_db1))"
    by code_simp+
  moreover have "f_query (e_faults fx_env) = None" by (simp add: no_faults_def)
  ultimately show ?thesis
    using list_walk_is_complete [of fx_core fx_page 1 fx_filter None fx_env "disks fx_db1" "disk_view fx_env"]
    by (auto simp: disk_list_def list_all_iff fx_filter_def disk_view_def)
qed

text \<open>A list never returns an object outside the requested project or outside the
  caller's allow-list; with an empty allow-list it returns nothing.\<close>

theorem list_stays_inside:
  assumes "disk_list C E f p s = Inr (ds, nt)" "d \<in> set ds"
  shows "(lf_project_id f = '''' \<or> d_project_id d = lf_project_id f)
    \<and> (case lf_allowed_ids f of None \<Rightarrow> True | Some ids \<Rightarrow> d_id d \<in> set ids)"
proof -
  obtain r where r: "scanDisk (e_pj E) r = Inr d" "lf_project_id f = '''' \<or> dr_project_id r = lf_project_id f"
      "case lf_allowed_ids f of None \<Rightarrow> True | Some ids \<Rightarrow> dr_id r \<in> set ids"
    using repo_list_sound [OF assms(1) [unfolded disk_list_def] assms(2)] that by (fastforce simp: disk_view_def split: option.splits)
  then show ?thesis using scanDisk_cols [OF r(1)] by (simp split: option.splits)
qed

theorem list_stays_inside_witness:
  "\<exists>d. map_res fst (disk_list fx_core fx_env (fx_filter\<lparr> lf_allowed_ids := Some [''dsk1''] \<rparr>) fx_page fx_db1) = Inr [d]
     \<and> d_project_id d = ''prj1''"
proof -
  let ?l = "disk_list fx_core fx_env (fx_filter\<lparr> lf_allowed_ids := Some [''dsk1''] \<rparr>) fx_page fx_db1"
  have "map_res (\<lambda>p. size (fst p)) ?l = Inr 1" by code_simp
  then obtain ds nt where l: "?l = Inr (ds, nt)" "size ds = 1" by (auto simp: map_res_Inr_iff)
  then obtain d where "ds = [d]" by (cases ds) auto
  then show ?thesis using list_stays_inside [OF l(1), of d] l(1) by (simp add: fx_filter_def)
qed

section \<open>Register intents\<close>

text \<open>The payload of an intent survives its way through the outbox: the reconciler decodes
  exactly the tuples, parents and labels that were written (no labels and
  empty labels coincide), with the version the database stamped; and an
  intent exists exactly for the known kinds with an id and a project.\<close>

theorem intent_roundtrip:
  "fga_decode (jsonb_set ''source_version'' (JTime (Some t)) (fga_encode p))
     = Inr (p\<lparr> pl_labels := norm_labels (pl_labels p), pl_source_version := Some t \<rparr>)
   \<and> (intents_of E ev k i proj l \<noteq> [] \<longleftrightarrow> k \<in> {''Instance'', ''Disk'', ''Image'', ''Snapshot''} \<and> i \<noteq> '''' \<and> proj \<noteq> '''')"
proof -
  have "intents_of E ev k i proj l \<noteq> [] \<longleftrightarrow> ProjectHierarchyTuple k i proj \<noteq> None"
    by (simp add: intents_of_def split: option.splits)
  also have "\<dots> \<longleftrightarrow> k \<in> {''Instance'', ''Disk'', ''Image'', ''Snapshot''} \<and> i \<noteq> '''' \<and> proj \<noteq> ''''"
    using ProjectHierarchyTuple_Some_iff [of k i proj] by blast
  finally show ?thesis using fga_decode_encode by blast
qed

section \<open>Update accumulator\<close>

text \<open>Every placeholder of the generated SET clause is bound to the value added with its
  column. The accumulator numbers its arguments from 2 (1 is the row id), and
  executing the clause against the arguments is assigning the recorded values
  in order; adding keeps this.\<close>

theorem update_set_binding:
  assumes "us_ok u"
  shows "us_ok (us_add c v u) \<and> us_pairs (us_add c v u) = us_pairs u @ [(c, v)]
    \<and> us_args (us_add c v u) ! (snd (last (us_cols (us_add c v u))) - 1) = v
    \<and> us_exec f (us_add c v u) r = f c v (us_exec f u r)"
  using assms by (simp add: us_exec_pairs) (simp add: us_add_def Let_def)

theorem update_set_binding_witness:
  "us_clause (us_add ''size'' (VInt 7) (us_add ''name'' (VText ''n'') (newUpdateSet ''d1''))) = ''SET name = $2, size = $3''
   \<and> us_exec (\<lambda>c v xs. xs @ [(c, v)]) (us_add ''size'' (VInt 7) (us_add ''name'' (VText ''n'') (newUpdateSet ''d1''))) []
     = [(''name'', VText ''n''), (''size'', VInt 7)]"
proof -
  have "us_clause (us_add ''size'' (VInt 7) (us_add ''name'' (VText ''n'') (newUpdateSet ''d1''))) = ''SET name = $2, size = $3''"
    by code_simp
  then show ?thesis
    using update_set_binding [of "us_add ''name'' (VText ''n'') (newUpdateSet ''d1'')" "''size''" "VInt 7"
        "\<lambda>c v xs. xs @ [(c, v)]" "[]"]
    by (simp add: us_exec_pairs)
qed

section \<open>Error mappers\<close>

text \<open>The text of a database error never reaches a client. Whatever the driver
  reported, the answer after the repository's and the service's mapping is one
  of seven fixed statuses, built only from the resource kind and the id; a
  missing row is NOT_FOUND and nothing else is.\<close>

theorem repo_errors_do_not_leak:
  "mapRepoErr (wrapPgErr kind i e) \<in>
     {status NotFound (if i \<noteq> '''' then kind @ '' '' @ i @ '' not found'' else ''not found''),
      status AlreadyExists ''already exists'', status FailedPrecondition (''The '' @ to_lower kind @ '' '' @ i @ '' is being used''),
      status InvalidArgument ''invalid argument'', status FailedPrecondition ''failed precondition'',
      status Internal ''internal database error''}
   \<and> (wire_code (mapRepoErr (wrapPgErr kind i e)) = NotFound \<longleftrightarrow> is_no_rows e)"
  by (simp add: wrapPgErr_def wire_code_def)

text \<open>An error of the network or storage service is passed on only with a contract code
  (and then with its message); anything else becomes one of two fixed answers,
  so no transport or driver text of the peer leaks.\<close>

theorem peer_errors_do_not_leak:
  "(\<exists>c\<in>peer_contract_codes. from_error e = Some c \<and> mapNicErr e = status c (wire_msg e))
    \<or> mapNicErr e \<in> {status Unavailable ''network interface service unavailable'', status Internal ''internal error''}"
proof -
  show ?thesis
    unfolding mapNicErr_def
    by (rule mapPeerErr_cases [of e "''network interface service unavailable''"]) auto
qed

section \<open>Project cache\<close>

text \<open>C40: the positive cache of ProjectClient.Exists stays within its limit for any choice
  of eviction victim among its keys, answers from the cache only before the
  entry's expiry, and caches only what the peer confirmed.\<close>

theorem project_cache_bounded_and_fresh:
  assumes "0 < n" "size m \<le> n" "\<And>m'. m' \<noteq> [] \<Longrightarrow> map_of m' (victim m') \<noteq> None"
    "project_exists n victim rpc now p m = (r, m')"
  shows "size m' \<le> n
    \<and> (r = Inr True \<longrightarrow> rpc p = None \<or> (\<exists>ex. map_of m p = Some ex \<and> now < ex \<and> m' = m))
    \<and> (r \<noteq> Inr True \<longrightarrow> m' = m)
    \<and> (m' \<noteq> m \<longrightarrow> rpc p = None \<and> map_of m' p = Some (now + projectExistsTTL))"
proof -
  have b: "size (putExists n victim now p m) \<le> n"
    by (rule putExists_bounded) (use assms(1-3) in auto)
  have "map_of (putExists n victim now p m) p = Some (now + projectExistsTTL)"
    by (simp add: putExists_def AList.update_conv')
  then show ?thesis using b assms(2,4)
    by (auto simp: project_exists_def split: option.splits if_splits)
qed

theorem project_cache_bounded_and_fresh_witness:
  "size (snd (project_exists 1 (\<lambda>m. fst (hd m)) (\<lambda>_. None) 100 ''p2'' [(''p1'', 5)])) \<le> 1"
proof -
  obtain r m' where run: "project_exists 1 (\<lambda>m. fst (hd m)) (\<lambda>_. None) 100 ''p2'' [(''p1'', 5)] = (r, m')" by fastforce
  have "m \<noteq> [] \<Longrightarrow> map_of m (fst (hd m)) \<noteq> None" for m :: exists_cache by (cases m) auto
  then show ?thesis using project_cache_bounded_and_fresh [of 1 "[(''p1'', 5)]" "\<lambda>m. fst (hd m)" "\<lambda>_. None" 100 "''p2''" r m'] run by simp
qed

end
