(* ===== verification/Access.thy ===== *)
theory Access
  imports Peers Paging
begin

text \<open>
  Who may see what: the tenant interceptor (internal/handler/tenant_interceptor.go),
  the per-object list filter (internal/authzfilter) with its decision cache, and
  its use by the handlers (internal/handler/list_filter.go). The principal and
  the trust decision are put into the context by kacho-corelib and are inputs.
\<close>

section \<open>Tenant context\<close>

text \<open>The gRPC context of a call: None is a call without incoming metadata;
  metadata keys are lower case.\<close>

record tenant_ctx =
  tn_projects :: "string list"
  tn_actor :: string
  tn_admin :: bool

record rpc_ctx =
  rx_principal :: principal
  rx_trusted :: bool
  rx_metadata :: "(string \<times> string list) list option"
  rx_tenant :: "tenant_ctx option"

definition no_tenant :: tenant_ctx where
  "no_tenant = \<lparr> tn_projects = [], tn_actor = '''', tn_admin = False \<rparr>"

definition principalForwarded :: "rpc_ctx \<Rightarrow> bool" where
  "principalForwarded ctx =
    (let p = rx_principal ctx in
     if pr_id p = '''' \<or> pr_type p = '''' then False
     else if pr_type p = ''anonymous'' \<or> pr_id p = ''anonymous'' then False
     else if pr_type p = ''system'' \<and> pr_id p = ''bootstrap'' then False
     else True)"

definition HasProjectAccess :: "tenant_ctx \<Rightarrow> string \<Rightarrow> bool" where
  "HasProjectAccess t projectID \<longleftrightarrow> tn_admin t \<or> tn_projects t = [] \<or> projectID \<in> set (tn_projects t)"

definition IsAnonymous :: "tenant_ctx \<Rightarrow> bool" where
  "IsAnonymous t \<longleftrightarrow> \<not> tn_admin t \<and> tn_projects t = []"

definition TenantFromCtx :: "rpc_ctx \<Rightarrow> tenant_ctx" where
  "TenantFromCtx ctx = (case rx_tenant ctx of Some t \<Rightarrow> t | None \<Rightarrow> no_tenant)"

definition permissionDenied :: go_error where
  "permissionDenied = status PermissionDenied ''Permission denied''"

definition AssertProjectOwnership :: "rpc_ctx \<Rightarrow> string \<Rightarrow> go_error option" where
  "AssertProjectOwnership ctx projectID =
    (if HasProjectAccess (TenantFromCtx ctx) projectID then None else Some permissionDenied)"

definition md_get :: "(string \<times> string list) list \<Rightarrow> string \<Rightarrow> string list" where
  "md_get md k = (case map_of md k of None \<Rightarrow> [] | Some vs \<Rightarrow> vs)"

text \<open>The headers that affect authorization are read from trusted peers only.
  The project set is the list of non-empty header values.\<close>

definition tenantFromMetadata :: "rpc_ctx \<Rightarrow> bool \<Rightarrow> tenant_ctx" where
  "tenantFromMetadata ctx trusted =
    (case rx_metadata ctx of None \<Rightarrow> no_tenant
     | Some md \<Rightarrow>
        (let actor = (case md_get md ''x-kacho-actor'' of v # _ \<Rightarrow> v | [] \<Rightarrow> '''') in
         if \<not> trusted then no_tenant\<lparr> tn_actor := actor \<rparr>
         else \<lparr> tn_projects = filter (\<lambda>p. p \<noteq> '''') (md_get md ''x-kacho-project-id''),
                tn_actor = actor,
                tn_admin = (case md_get md ''x-kacho-admin'' of v # _ \<Rightarrow> v = ''true'' | [] \<Rightarrow> False) \<rparr>))"

definition assertAdminAccess :: "tenant_ctx \<Rightarrow> string \<Rightarrow> go_error option" where
  "assertAdminAccess t fullMethod =
    (if IsAnonymous t then None
     else if \<not> tn_admin t then
       (if \<not> has_prefix fullMethod ''/kacho.cloud.compute.v1.Internal'' then Some (status NotFound ''not found'')
        else Some permissionDenied)
     else None)"

text \<open>Unary and stream interceptors decide alike; the handler runs on the context
  that carries the tenant.\<close>

definition tenant_gate :: "bool \<Rightarrow> bool \<Rightarrow> string \<Rightarrow> rpc_ctx \<Rightarrow> go_error + rpc_ctx" where
  "tenant_gate requireAdmin productionMode fullMethod ctx =
    (let t = tenantFromMetadata ctx (rx_trusted ctx) in
     if productionMode \<and> IsAnonymous t \<and> \<not> principalForwarded ctx
     then Inl (status PermissionDenied ''AuthN required (production mode): set x-kacho-* identity headers via gateway'')
     else guardE (if requireAdmin then assertAdminAccess t fullMethod else None)
       (Inr (ctx\<lparr> rx_tenant := Some t \<rparr>)))"

definition TenantUnaryInterceptor ::
  "bool \<Rightarrow> bool \<Rightarrow> string \<Rightarrow> (rpc_ctx \<Rightarrow> go_error + 'a) \<Rightarrow> rpc_ctx \<Rightarrow> go_error + 'a" where
  "TenantUnaryInterceptor requireAdmin productionMode fullMethod handler ctx =
    bindE (tenant_gate requireAdmin productionMode fullMethod ctx) handler"

definition TenantStreamInterceptor ::
  "bool \<Rightarrow> bool \<Rightarrow> string \<Rightarrow> (rpc_ctx \<Rightarrow> go_error option) \<Rightarrow> rpc_ctx \<Rightarrow> go_error option" where
  "TenantStreamInterceptor requireAdmin productionMode fullMethod handler ctx =
    (case tenant_gate requireAdmin productionMode fullMethod ctx of Inl e \<Rightarrow> Some e | Inr c \<Rightarrow> handler c)"

lemma AssertProjectOwnership_None [simp]:
  "AssertProjectOwnership ctx p = None \<longleftrightarrow> HasProjectAccess (TenantFromCtx ctx) p"
  "AssertProjectOwnership ctx p = Some e \<longleftrightarrow> \<not> HasProjectAccess (TenantFromCtx ctx) p \<and> e = permissionDenied"
  by (auto simp: AssertProjectOwnership_def)

lemma untrusted_tenant: "IsAnonymous (tenantFromMetadata ctx False)"
  by (simp add: tenantFromMetadata_def IsAnonymous_def no_tenant_def Let_def split: option.splits)

lemma tenant_gate_ok:
  "tenant_gate ra pm m ctx = Inr c \<longleftrightarrow>
    (pm \<longrightarrow> \<not> IsAnonymous (tenantFromMetadata ctx (rx_trusted ctx)) \<or> principalForwarded ctx)
    \<and> (ra \<longrightarrow> assertAdminAccess (tenantFromMetadata ctx (rx_trusted ctx)) m = None)
    \<and> c = ctx\<lparr> rx_tenant := Some (tenantFromMetadata ctx (rx_trusted ctx)) \<rparr>"
  by (auto simp: tenant_gate_def Let_def)

section \<open>Decisions of the list filter\<close>

record decision =
  dc_bypass :: bool
  dc_empty :: bool
  dc_ids :: "string list"
  dc_from_cache :: bool
  dc_fail_open :: bool

definition no_decision :: decision where
  "no_decision = \<lparr> dc_bypass = False, dc_empty = False, dc_ids = [], dc_from_cache = False, dc_fail_open = False \<rparr>"

record filter_config =
  fc_enabled :: bool
  fc_timeout :: int
  fc_cache_ttl :: int
  fc_max_entries :: int
  fc_max_results :: int
  fc_fail_open :: bool

definition defaultListMaxResults :: int where "defaultListMaxResults = 10000"

definition DefaultConfig :: filter_config where
  "DefaultConfig = \<lparr> fc_enabled = True, fc_timeout = 500000000, fc_cache_ttl = 5000000000,
     fc_max_entries = 10000, fc_max_results = defaultListMaxResults, fc_fail_open = False \<rparr>"

record list_objects_req =
  lo_subject :: string
  lo_resource_type :: string
  lo_action :: string
  lo_max_results :: int

text \<open>AuthorizeClient.ListObjects (kacho-iam): the answer a call gets at a point of time.
  A missing client is None.\<close>

type_synonym authorize_client = "int \<Rightarrow> list_objects_req \<Rightarrow> go_error + string list"

record fga_filter =
  ff_cli :: "authorize_client option"
  ff_cfg :: filter_config

definition NewFGAFilter :: "authorize_client option \<Rightarrow> filter_config \<Rightarrow> fga_filter" where
  "NewFGAFilter cli cfg =
    \<lparr> ff_cli = cli,
      ff_cfg = cfg\<lparr> fc_timeout := (if fc_timeout cfg \<le> 0 then 500000000 else fc_timeout cfg),
                    fc_cache_ttl := (if fc_cache_ttl cfg \<le> 0 then 5000000000 else fc_cache_ttl cfg),
                    fc_max_entries := (if fc_max_entries cfg \<le> 0 then 10000 else fc_max_entries cfg),
                    fc_max_results := (if fc_max_results cfg \<le> 0 then defaultListMaxResults else fc_max_results cfg) \<rparr> \<rparr>"

text \<open>SubjectFromPrincipal; the resource types and actions of actions.go\<close>

definition SubjectFromPrincipal :: "rpc_ctx \<Rightarrow> string" where
  "SubjectFromPrincipal ctx =
    (let p = rx_principal ctx in
     if pr_type p = '''' \<or> pr_id p = '''' \<or> pr_type p = ''system'' then '''' else pr_type p @ '':'' @ pr_id p)"

definition ResourceTypeInstance :: string where "ResourceTypeInstance = ''compute_instance''"
definition ResourceTypeDisk :: string where "ResourceTypeDisk = ''compute_disk''"
definition ResourceTypeImage :: string where "ResourceTypeImage = ''compute_image''"
definition ResourceTypeSnapshot :: string where "ResourceTypeSnapshot = ''compute_snapshot''"
definition ActionInstanceRead :: string where "ActionInstanceRead = ''compute.instances.list''"
definition ActionDiskRead :: string where "ActionDiskRead = ''compute.disks.list''"
definition ActionImageRead :: string where "ActionImageRead = ''compute.images.list''"
definition ActionSnapshotRead :: string where "ActionSnapshotRead = ''compute.snapshots.list''"

text \<open>time.Duration.String of a non-negative duration\<close>

fun strip_zeros :: "string \<Rightarrow> string" where
  "strip_zeros [] = []"
| "strip_zeros (c # cs) = (if c = CHR ''0'' then strip_zeros cs else c # cs)"

definition frac_str :: "nat \<Rightarrow> nat \<Rightarrow> string" where
  "frac_str v prec =
    (let f = v mod 10 ^ prec; ds = nat_dec f in
     if f = 0 then '''' else CHR ''.'' # rev (strip_zeros (rev (replicate (prec - size ds) (CHR ''0'') @ ds))))"

definition duration_string :: "int \<Rightarrow> string" where
  "duration_string d =
    (let u = nat d; secs = u div 10 ^ 9; mins = secs div 60; s = nat_dec (secs mod 60) @ frac_str u 9 @ ''s'' in
     if u = 0 then ''0s''
     else if u < 10 ^ 3 then nat_dec u @ ''ns''
     else if u < 10 ^ 6 then nat_dec (u div 10 ^ 3) @ frac_str u 3 @ [CHR 0xC2, CHR 0xB5] @ ''s''
     else if u < 10 ^ 9 then nat_dec (u div 10 ^ 6) @ frac_str u 6 @ ''ms''
     else if mins = 0 then s
     else if mins < 60 then nat_dec mins @ ''m'' @ s
     else nat_dec (mins div 60) @ ''h'' @ nat_dec (mins mod 60) @ ''m'' @ s)"

text \<open>errors.Is(err, context.DeadlineExceeded)\<close>

definition contextDeadlineExceeded :: go_error where
  "contextDeadlineExceeded = Plain ''context deadline exceeded''"

fun is_deadline :: "go_error \<Rightarrow> bool" where
  "is_deadline (Prefixed _ e) = is_deadline e"
| "is_deadline e = (e = contextDeadlineExceeded)"

definition handleErr :: "fga_filter \<Rightarrow> go_error \<Rightarrow> go_error + decision" where
  "handleErr F err =
    (if fc_fail_open (ff_cfg F) then Inr (no_decision\<lparr> dc_bypass := True, dc_fail_open := True \<rparr>)
     else if is_deadline err
     then Inl (status Unavailable (''list filter: iam.ListObjects deadline exceeded after '' @ duration_string (fc_timeout (ff_cfg F))))
     else case from_error err of
       Some c \<Rightarrow> if c \<noteq> OK \<and> c \<noteq> Unknown
                 then Inl (status Unavailable (''list filter: iam.ListObjects '' @ code_string c @ '': '' @ wire_msg err))
                 else Inl (status Unavailable (''list filter: iam.ListObjects: '' @ err_text err))
     | None \<Rightarrow> Inl (status Unavailable (''list filter: iam.ListObjects: '' @ err_text err)))"

section \<open>The decision cache\<close>

type_synonym filter_cache = "(string \<times> (decision \<times> int)) list"

definition cacheKey :: "string \<Rightarrow> string \<Rightarrow> string \<Rightarrow> string" where
  "cacheKey subject resourceType action = subject @ ''|'' @ resourceType @ ''|'' @ action"

definition getCache :: "int \<Rightarrow> string \<Rightarrow> filter_cache \<Rightarrow> decision option \<times> filter_cache" where
  "getCache now key m =
    (case map_of m key of None \<Rightarrow> (None, m)
     | Some (d, expires) \<Rightarrow> if expires < now then (None, AList.delete key m) else (Some d, m))"

text \<open>The victim of an eviction is whatever key the map iteration yields first.\<close>

definition putCache :: "fga_filter \<Rightarrow> (filter_cache \<Rightarrow> string) \<Rightarrow> int \<Rightarrow> string \<Rightarrow> decision \<Rightarrow> filter_cache \<Rightarrow> filter_cache" where
  "putCache F victim now key d m =
    AList.update key (d, now + fc_cache_ttl (ff_cfg F))
      (if map_of m key = None \<and> fc_max_entries (ff_cfg F) \<le> int (size m) then AList.delete (victim m) m else m)"

definition list_objects_request :: "fga_filter \<Rightarrow> string \<Rightarrow> string \<Rightarrow> string \<Rightarrow> list_objects_req" where
  "list_objects_request F subject resourceType action =
    \<lparr> lo_subject = subject, lo_resource_type = resourceType, lo_action = action,
      lo_max_results = fc_max_results (ff_cfg F) \<rparr>"

definition decision_of_ids :: "string list \<Rightarrow> decision" where
  "decision_of_ids ids = no_decision\<lparr> dc_ids := sort ids, dc_empty := ids = [] \<rparr>"

text \<open>ListAllowedIDs: the cache is read at t0; the answer arrives and is stored at t1.\<close>

definition ListAllowedIDs ::
  "fga_filter \<Rightarrow> (filter_cache \<Rightarrow> string) \<Rightarrow> int \<times> int \<Rightarrow> string \<Rightarrow> string \<Rightarrow> string \<Rightarrow> filter_cache
    \<Rightarrow> (go_error + decision) \<times> filter_cache" where
  "ListAllowedIDs F victim ts subject resourceType action m =
    (case (if fc_enabled (ff_cfg F) then ff_cli F else None) of
       None \<Rightarrow> (Inr (no_decision\<lparr> dc_bypass := True \<rparr>), m)
     | Some cli \<Rightarrow>
        (if subject = '''' then (Inl (status Unauthenticated ''list filter: subject required''), m)
         else if resourceType = '''' \<or> action = ''''
         then (Inl (Plain ''authzfilter: resourceType and action required''), m)
         else let key = cacheKey subject resourceType action in
           (case getCache (fst ts) key m of
              (Some d, m1) \<Rightarrow> (Inr (d\<lparr> dc_from_cache := True \<rparr>), m1)
            | (None, m1) \<Rightarrow>
               (case cli (snd ts) (list_objects_request F subject resourceType action) of
                  Inl e \<Rightarrow> (handleErr F e, m1)
                | Inr ids \<Rightarrow> (Inr (decision_of_ids ids), putCache F victim (snd ts) key (decision_of_ids ids) m1)))))"

text \<open>resolveListFilter; a handler without a filter bypasses it.\<close>

definition resolveListFilter ::
  "fga_filter option \<Rightarrow> (filter_cache \<Rightarrow> string) \<Rightarrow> int \<times> int \<Rightarrow> rpc_ctx \<Rightarrow> string \<Rightarrow> string \<Rightarrow> filter_cache
    \<Rightarrow> (go_error + decision) \<times> filter_cache" where
  "resolveListFilter f victim ts ctx resourceType action m =
    (case f of None \<Rightarrow> (Inr (no_decision\<lparr> dc_bypass := True \<rparr>), m)
     | Some F \<Rightarrow>
        (let subject = SubjectFromPrincipal ctx in
         if subject = '''' then (Inr (no_decision\<lparr> dc_empty := True \<rparr>), m)
         else ListAllowedIDs F victim ts subject resourceType action m))"

section \<open>What a decision stands for\<close>

text \<open>The answer of IAM a decision was made from, at most the cache's TTL before t.\<close>

definition answered :: "fga_filter \<Rightarrow> int \<Rightarrow> string \<Rightarrow> string \<Rightarrow> string \<Rightarrow> string list \<Rightarrow> bool" where
  "answered F t subject rt act ids \<longleftrightarrow>
    (\<exists>cli t0. ff_cli F = Some cli \<and> t \<le> t0 + fc_cache_ttl (ff_cfg F)
       \<and> cli t0 (list_objects_request F subject rt act) = Inr ids)"

definition entry_sound :: "fga_filter \<Rightarrow> string \<Rightarrow> decision \<times> int \<Rightarrow> bool" where
  "entry_sound F key e \<longleftrightarrow>
    (\<exists>subject rt act ids. key = cacheKey subject rt act \<and> CHR ''|'' \<notin> set rt \<and> CHR ''|'' \<notin> set act
       \<and> fst e = decision_of_ids ids \<and> answered F (snd e) subject rt act ids)"

definition cache_sound :: "fga_filter \<Rightarrow> filter_cache \<Rightarrow> bool" where
  "cache_sound F m \<longleftrightarrow> (\<forall>key e. map_of m key = Some e \<longrightarrow> entry_sound F key e) \<and> distinct (List.map fst m)
     \<and> int (size m) \<le> fc_max_entries (ff_cfg F)"

definition valid_victim :: "(filter_cache \<Rightarrow> string) \<Rightarrow> bool" where
  "valid_victim victim \<longleftrightarrow> (\<forall>m. m \<noteq> [] \<longrightarrow> map_of m (victim m) \<noteq> None)"

inductive filter_run :: "fga_filter \<Rightarrow> (filter_cache \<Rightarrow> string) \<Rightarrow> filter_cache \<Rightarrow> bool" for F victim where
  run_init: "filter_run F victim []"
| run_call: "filter_run F victim m \<Longrightarrow> fst ts \<le> snd ts \<Longrightarrow> CHR ''|'' \<notin> set rt \<Longrightarrow> CHR ''|'' \<notin> set act \<Longrightarrow>
    filter_run F victim (snd (ListAllowedIDs F victim ts subject rt act m))"

lemma sep_split: "c \<notin> set b \<Longrightarrow> c \<notin> set b' \<Longrightarrow> a @ c # b = a' @ c # b' \<Longrightarrow> a = a' \<and> b = b'"
proof (induction a arbitrary: a')
  case Nil
  then show ?case by (cases a') auto
next
  case (Cons x a)
  then show ?case by (cases a') auto
qed

lemma cacheKey_inj:
  assumes "cacheKey s rt act = cacheKey s' rt' act'" "CHR ''|'' \<notin> set rt" "CHR ''|'' \<notin> set act"
    "CHR ''|'' \<notin> set rt'" "CHR ''|'' \<notin> set act'"
  shows "s = s' \<and> rt = rt' \<and> act = act'"
proof -
  have "(s @ CHR ''|'' # rt) @ CHR ''|'' # act = (s' @ CHR ''|'' # rt') @ CHR ''|'' # act'"
    using assms(1) unfolding cacheKey_def append_Cons append_Nil append_assoc .
  from sep_split [OF assms(3,5) this] have e: "s @ CHR ''|'' # rt = s' @ CHR ''|'' # rt'" "act = act'" by blast+
  show ?thesis using sep_split [OF assms(2,4) e(1)] e(2) by blast
qed

lemma answered_mono: "answered F ex subject rt act ids \<Longrightarrow> t \<le> ex \<Longrightarrow> answered F t subject rt act ids"
  unfolding answered_def by (meson order_trans)

lemma entry_sound_mono: "entry_sound F key (d, ex) \<Longrightarrow> t \<le> ex \<Longrightarrow> entry_sound F key (d, t)"
  unfolding entry_sound_def fst_conv snd_conv using answered_mono by blast

lemma cache_sound_delete: "cache_sound F m \<Longrightarrow> cache_sound F (AList.delete k m)"
  using length_delete_le [of k m]
  by (auto simp: cache_sound_def distinct_delete AList.delete_conv' split: if_splits)

lemma getCache_sound:
  assumes "cache_sound F m" "getCache now key m = (r, m1)"
  shows "cache_sound F m1" "r = Some d \<Longrightarrow> entry_sound F key (d, now)"
proof -
  show "cache_sound F m1" using assms cache_sound_delete
    by (auto simp: getCache_def split: option.splits if_splits)
  assume "r = Some d"
  then obtain ex where "map_of m key = Some (d, ex)" "now \<le> ex"
    using assms(2) by (auto simp: getCache_def split: option.splits if_splits)
  moreover from this have "entry_sound F key (d, ex)" using assms(1) by (simp add: cache_sound_def)
  ultimately show "entry_sound F key (d, now)" using entry_sound_mono by blast
qed

lemma putCache_sound:
  assumes "cache_sound F m" "entry_sound F key (d, now + fc_cache_ttl (ff_cfg F))" "valid_victim victim"
    "0 < fc_max_entries (ff_cfg F)"
  shows "cache_sound F (putCache F victim now key d m)"
proof -
  let ?m = "if map_of m key = None \<and> fc_max_entries (ff_cfg F) \<le> int (size m) then AList.delete (victim m) m else m"
  have s: "cache_sound F ?m" using assms(1) cache_sound_delete by simp
  have "int (size (AList.update key (d, now + fc_cache_ttl (ff_cfg F)) ?m)) \<le> fc_max_entries (ff_cfg F)"
  proof (cases "map_of m key = None \<and> fc_max_entries (ff_cfg F) \<le> int (size m)")
    case True
    then have "m \<noteq> []" using assms(4) by auto
    then have "map_of m (victim m) \<noteq> None" using assms(3) by (simp add: valid_victim_def)
    then have "size (AList.delete (victim m) m) < size m" by (rule length_delete)
    then have "int (size (AList.delete (victim m) m)) + 1 \<le> fc_max_entries (ff_cfg F)"
      using assms(1) by (simp add: cache_sound_def)
    then show ?thesis using True by (simp add: length_update)
  next
    case False
    then show ?thesis using assms(1) by (auto simp: length_update cache_sound_def)
  qed
  then show ?thesis using s assms(2)
    by (auto simp: cache_sound_def putCache_def AList.update_conv' distinct_update split: if_splits)
qed

lemma entry_sound_key:
  assumes "entry_sound F (cacheKey s rt act) (d, t)" "CHR ''|'' \<notin> set rt" "CHR ''|'' \<notin> set act"
  obtains ids where "d = decision_of_ids ids" "answered F t s rt act ids"
  using assms cacheKey_inj [OF _ assms(2,3)] by (fastforce simp: entry_sound_def)

lemma handleErr_bypass: "handleErr F e = Inr d \<Longrightarrow> fc_fail_open (ff_cfg F) \<and> dc_bypass d \<and> dc_fail_open d"
  by (auto simp: handleErr_def no_decision_def split: if_splits option.splits)

lemma ListAllowedIDs_sound:
  assumes "cache_sound F m" "valid_victim victim" "0 < fc_max_entries (ff_cfg F)" "0 \<le> fc_cache_ttl (ff_cfg F)" "fst ts \<le> snd ts"
    "CHR ''|'' \<notin> set rt" "CHR ''|'' \<notin> set act" "ListAllowedIDs F victim ts s rt act m = (r, m1)"
  shows "cache_sound F m1"
    "r = Inr d \<Longrightarrow> dc_bypass d \<Longrightarrow> \<not> fc_enabled (ff_cfg F) \<or> ff_cli F = None \<or> (fc_fail_open (ff_cfg F) \<and> dc_fail_open d)"
    "r = Inr d \<Longrightarrow> \<not> dc_bypass d \<Longrightarrow> \<exists>ids. dc_ids d = sort ids \<and> answered F (fst ts) s rt act ids"
proof -
  have c: "cache_sound F m1 \<and> (\<forall>d. r = Inr d \<longrightarrow>
     (if dc_bypass d then \<not> fc_enabled (ff_cfg F) \<or> ff_cli F = None \<or> (fc_fail_open (ff_cfg F) \<and> dc_fail_open d)
      else \<exists>ids. dc_ids d = sort ids \<and> answered F (fst ts) s rt act ids))"
  proof (cases "if fc_enabled (ff_cfg F) then ff_cli F else None")
    case None
    then show ?thesis using assms(1,8) by (auto simp: ListAllowedIDs_def no_decision_def split: if_splits)
  next
    case (Some cli)
    then have cli: "ff_cli F = Some cli" by (simp split: if_splits)
    show ?thesis
    proof (cases "s = '''' \<or> rt = '''' \<or> act = ''''")
      case True
      then show ?thesis using Some assms(1,8) by (auto simp: ListAllowedIDs_def split: if_splits)
    next
      case False
      obtain c m0 where g: "getCache (fst ts) (cacheKey s rt act) m = (c, m0)" by fastforce
      note gs = getCache_sound [OF assms(1) g]
      show ?thesis
      proof (cases c)
        case (Some d0)
        then obtain ids where "d0 = decision_of_ids ids" "answered F (fst ts) s rt act ids"
          using gs(2) entry_sound_key assms(6,7) by blast
        then show ?thesis using False Some gs(1) assms(8) g \<open>(if fc_enabled (ff_cfg F) then ff_cli F else None) = Some cli\<close>
          by (auto simp: ListAllowedIDs_def Let_def decision_of_ids_def no_decision_def)
      next
        case None
        note run = assms(8) [unfolded ListAllowedIDs_def Let_def \<open>(if fc_enabled (ff_cfg F) then ff_cli F else None) = Some cli\<close> g None]
        show ?thesis
        proof (cases "cli (snd ts) (list_objects_request F s rt act)")
          case (Inl e)
          then show ?thesis using run False gs(1) handleErr_bypass [of F e] by auto
        next
          case (Inr ids)
          have a: "answered F (snd ts + fc_cache_ttl (ff_cfg F)) s rt act ids" "answered F (fst ts) s rt act ids"
            using cli Inr assms(4,5) by (auto simp: answered_def intro: exI [of _ "snd ts"])
          then have "entry_sound F (cacheKey s rt act) (decision_of_ids ids, snd ts + fc_cache_ttl (ff_cfg F))"
            using assms(6,7) by (auto simp: entry_sound_def)
          then have "cache_sound F (putCache F victim (snd ts) (cacheKey s rt act) (decision_of_ids ids) m0)"
            using putCache_sound gs(1) assms(2,3) by blast
          then show ?thesis using run False Inr a(2) by (auto simp: decision_of_ids_def no_decision_def)
        qed
      qed
    qed
  qed
  then show "cache_sound F m1" by blast
  show "r = Inr d \<Longrightarrow> dc_bypass d \<Longrightarrow> \<not> fc_enabled (ff_cfg F) \<or> ff_cli F = None \<or> (fc_fail_open (ff_cfg F) \<and> dc_fail_open d)"
    using c by presburger
  show "r = Inr d \<Longrightarrow> \<not> dc_bypass d \<Longrightarrow> \<exists>ids. dc_ids d = sort ids \<and> answered F (fst ts) s rt act ids"
    using c by presburger
qed

definition filter_ok :: "fga_filter \<Rightarrow> bool" where
  "filter_ok F \<longleftrightarrow> 0 < fc_max_entries (ff_cfg F) \<and> 0 \<le> fc_cache_ttl (ff_cfg F)"

lemma NewFGAFilter_ok: "filter_ok (NewFGAFilter cli cfg)"
  by (simp add: filter_ok_def NewFGAFilter_def)

lemma filter_run_sound: "filter_run F victim m \<Longrightarrow> filter_ok F \<Longrightarrow> valid_victim victim \<Longrightarrow> cache_sound F m"
proof (induction rule: filter_run.induct)
  case run_init
  then show ?case by (simp add: cache_sound_def filter_ok_def)
next
  case (run_call m ts rt act subject)
  then show ?case
    by (metis ListAllowedIDs_sound(1) filter_ok_def prod.collapse)
qed

lemmas list_filter_consts = ResourceTypeInstance_def ResourceTypeDisk_def ResourceTypeImage_def ResourceTypeSnapshot_def
  ActionInstanceRead_def ActionDiskRead_def ActionImageRead_def ActionSnapshotRead_def

definition list_kinds :: "(string \<times> string) list" where
  "list_kinds = [(ResourceTypeInstance, ActionInstanceRead), (ResourceTypeDisk, ActionDiskRead),
     (ResourceTypeImage, ActionImageRead), (ResourceTypeSnapshot, ActionSnapshotRead)]"

lemma list_kinds_plain: "(rt, act) \<in> set list_kinds \<Longrightarrow> CHR ''|'' \<notin> set rt \<and> CHR ''|'' \<notin> set act"
  by (auto simp: list_kinds_def list_filter_consts)

lemma list_kinds_mem [simp]:
  "(ResourceTypeInstance, ActionInstanceRead) \<in> set list_kinds" "(ResourceTypeDisk, ActionDiskRead) \<in> set list_kinds"
  "(ResourceTypeImage, ActionImageRead) \<in> set list_kinds" "(ResourceTypeSnapshot, ActionSnapshotRead) \<in> set list_kinds"
  by (simp_all add: list_kinds_def)

text \<open>What a handler may show when it resolved the filter for a caller.\<close>

definition may_show :: "fga_filter option \<Rightarrow> int \<Rightarrow> rpc_ctx \<Rightarrow> string \<Rightarrow> string \<Rightarrow> string \<Rightarrow> bool" where
  "may_show f t ctx rt act i \<longleftrightarrow>
    (case f of None \<Rightarrow> True
     | Some F \<Rightarrow> SubjectFromPrincipal ctx \<noteq> ''''
         \<and> (\<not> fc_enabled (ff_cfg F) \<or> ff_cli F = None \<or> fc_fail_open (ff_cfg F)
            \<or> (\<exists>ids. i \<in> set ids \<and> answered F t (SubjectFromPrincipal ctx) rt act ids)))"

lemma resolveListFilter_shows:
  assumes "\<And>F. f = Some F \<Longrightarrow> filter_ok F \<and> cache_sound F m" "valid_victim victim" "fst ts \<le> snd ts" "(rt, act) \<in> set list_kinds"
    "resolveListFilter f victim ts ctx rt act m = (Inr d, m')" "dc_bypass d \<or> i \<in> set (dc_ids d)"
  shows "may_show f (fst ts) ctx rt act i"
proof (cases f)
  case None
  then show ?thesis by (simp add: may_show_def)
next
  case (Some F)
  have s: "SubjectFromPrincipal ctx \<noteq> ''''" using Some assms(5,6)
    by (auto simp: resolveListFilter_def Let_def no_decision_def)
  then have run: "ListAllowedIDs F victim ts (SubjectFromPrincipal ctx) rt act m = (Inr d, m')"
    using Some assms(5) by (simp add: resolveListFilter_def Let_def)
  have F: "0 < fc_max_entries (ff_cfg F)" "0 \<le> fc_cache_ttl (ff_cfg F)" "cache_sound F m"
    using assms(1) Some by (auto simp: filter_ok_def)
  note snd = ListAllowedIDs_sound [OF F(3) assms(2) F(1,2) assms(3) _ _ run]
  show ?thesis
  proof (cases "dc_bypass d")
    case True
    then show ?thesis using snd(2) list_kinds_plain [OF assms(4)] Some s by (auto simp: may_show_def)
  next
    case False
    then obtain ids where "dc_ids d = sort ids" "answered F (fst ts) (SubjectFromPrincipal ctx) rt act ids"
      using snd(3) list_kinds_plain [OF assms(4)] by blast
    then show ?thesis using False assms(6) Some s by (auto simp: may_show_def)
  qed
qed

end
