(* ===== verification/Wire.thy ===== *)
theory Wire
  imports SnapshotService InstanceService
begin

text \<open>
  The protobuf messages of the API and their conversions: resources
  (internal/protoconv/protoconv.go) and operations (internal/handler/mapping.go).
  Enumerations are open on the wire and stand as integers; a missing message is
  None. The generated table of NetworkSettings types is a parameter.
\<close>

section \<open>Enumerations\<close>

fun disk_status_number :: "disk_status \<Rightarrow> int" where
  "disk_status_number DiskStatusUnspecified = 0"
| "disk_status_number DiskStatusCreating = 1"
| "disk_status_number DiskStatusReady = 2"
| "disk_status_number DiskStatusError = 3"
| "disk_status_number DiskStatusDeleting = 4"

fun image_status_number :: "image_status \<Rightarrow> int" where
  "image_status_number ImageStatusUnspecified = 0"
| "image_status_number ImageStatusCreating = 1"
| "image_status_number ImageStatusReady = 2"
| "image_status_number ImageStatusError = 3"
| "image_status_number ImageStatusDeleting = 4"

fun os_type_number :: "os_type \<Rightarrow> int" where
  "os_type_number OsTypeUnspecified = 0"
| "os_type_number OsTypeLinux = 1"
| "os_type_number OsTypeWindows = 2"

fun snapshot_status_number :: "snapshot_status \<Rightarrow> int" where
  "snapshot_status_number SnapshotStatusUnspecified = 0"
| "snapshot_status_number SnapshotStatusCreating = 1"
| "snapshot_status_number SnapshotStatusReady = 2"
| "snapshot_status_number SnapshotStatusError = 3"
| "snapshot_status_number SnapshotStatusDeleting = 4"

fun instance_status_number :: "instance_status \<Rightarrow> int" where
  "instance_status_number InstanceStatusUnspecified = 0"
| "instance_status_number InstanceStatusProvisioning = 1"
| "instance_status_number InstanceStatusRunning = 2"
| "instance_status_number InstanceStatusStopping = 3"
| "instance_status_number InstanceStatusStopped = 4"
| "instance_status_number InstanceStatusStarting = 5"
| "instance_status_number InstanceStatusRestarting = 6"
| "instance_status_number InstanceStatusUpdating = 7"
| "instance_status_number InstanceStatusError = 8"
| "instance_status_number InstanceStatusCrashed = 9"
| "instance_status_number InstanceStatusDeleting = 10"

text \<open>NetworkSettings\_Type\_value, NetworkSettings\_Type\_name and the number of STANDARD\<close>

record nst_table =
  nst_value :: "string \<Rightarrow> int option"
  nst_name :: "int \<Rightarrow> string"
  nst_standard :: int

section \<open>Messages\<close>

text \<open>Truncate to the second, rounding down.\<close>

definition ts :: "gotime \<Rightarrow> gotime" where
  "ts t = t - t mod 1000000000"

datatype disk_source = NoSource | SourceImageId string | SourceSnapshotId string

record pb_disk =
  pd_id :: string
  pd_project_id :: string
  pd_created_at :: gotime
  pd_name :: string
  pd_description :: string
  pd_labels :: gomap
  pd_type_id :: string
  pd_zone_id :: string
  pd_size :: int
  pd_block_size :: int
  pd_product_ids :: "string list"
  pd_status :: int
  pd_source :: disk_source
  pd_instance_ids :: "string list"
  pd_placement_policy :: "proto_msg option"
  pd_hardware_generation :: "proto_msg option"
  pd_kms_key :: "proto_msg option"

record pb_os =
  po_type :: int
  po_nvidia :: "string option"

record pb_image =
  pi_id :: string
  pi_project_id :: string
  pi_created_at :: gotime
  pi_name :: string
  pi_description :: string
  pi_labels :: gomap
  pi_family :: string
  pi_storage_size :: int
  pi_min_disk_size :: int
  pi_product_ids :: "string list"
  pi_status :: int
  pi_os :: "pb_os option"
  pi_pooled :: bool
  pi_hardware_generation :: "proto_msg option"
  pi_kms_key :: "proto_msg option"

record pb_snapshot =
  ps_id :: string
  ps_project_id :: string
  ps_created_at :: gotime
  ps_name :: string
  ps_description :: string
  ps_labels :: gomap
  ps_storage_size :: int
  ps_disk_size :: int
  ps_product_ids :: "string list"
  ps_status :: int
  ps_source_disk_id :: string
  ps_hardware_generation :: "proto_msg option"
  ps_kms_key :: "proto_msg option"

record pb_disk_type =
  pt_id :: string
  pt_description :: string
  pt_zone_ids :: "string list"

record pb_attached_disk =
  pa_mode :: int
  pa_device_name :: string
  pa_auto_delete :: bool
  pa_volume_id :: string

record pb_nat =
  pn_address :: string
  pn_ip_version :: int

record pb_primary_address =
  pp_address :: string
  pp_nat :: "pb_nat option"

record pb_network_interface =
  pf_index :: string
  pf_nic_id :: string
  pf_mac_address :: string
  pf_subnet_id :: string
  pf_security_group_ids :: "string list"
  pf_primary_v4 :: "pb_primary_address option"
  pf_primary_v6 :: "pb_primary_address option"

record pb_resources =
  pr_memory :: int
  pr_cores :: int
  pr_core_fraction :: int
  pr_gpus :: int

record pb_instance =
  pv_id :: string
  pv_project_id :: string
  pv_created_at :: gotime
  pv_name :: string
  pv_description :: string
  pv_labels :: gomap
  pv_zone_id :: string
  pv_platform_id :: string
  pv_resources :: pb_resources
  pv_cpu_guarantee :: int
  pv_image :: string
  pv_image_digest :: string
  pv_status :: int
  pv_metadata :: gomap
  pv_metadata_options :: "proto_msg option"
  pv_boot_disk :: "pb_attached_disk option"
  pv_secondary_disks :: "pb_attached_disk list"
  pv_nics :: "pb_network_interface list"
  pv_network_settings :: "int option"
  pv_preemptible :: "bool option"
  pv_service_account_id :: string
  pv_fqdn :: string
  pv_placement_policy :: "proto_msg option"
  pv_hardware_generation :: "proto_msg option"
  pv_reserved_pool_id :: string
  pv_application :: "proto_msg option"

section \<open>Resources to messages\<close>

text \<open>InstanceIDs of a disk is a field nothing in the program sets: always empty.\<close>

definition pb_of_disk :: "disk \<Rightarrow> pb_disk" where
  "pb_of_disk d =
    \<lparr> pd_id = d_id d, pd_project_id = d_project_id d, pd_created_at = ts (d_created_at d), pd_name = d_name d,
      pd_description = d_description d, pd_labels = d_labels d, pd_type_id = d_type_id d, pd_zone_id = d_zone_id d,
      pd_size = d_size d, pd_block_size = d_block_size d, pd_product_ids = d_product_ids d,
      pd_status = disk_status_number (d_status d),
      pd_source = (if d_source_image_id d \<noteq> '''' then SourceImageId (d_source_image_id d)
                   else if d_source_snapshot_id d \<noteq> '''' then SourceSnapshotId (d_source_snapshot_id d) else NoSource),
      pd_instance_ids = [], pd_placement_policy = d_placement_policy d,
      pd_hardware_generation = d_hardware_generation d, pd_kms_key = d_kms_key d \<rparr>"

definition pb_of_image :: "image \<Rightarrow> pb_image" where
  "pb_of_image i =
    \<lparr> pi_id = im_id i, pi_project_id = im_project_id i, pi_created_at = ts (im_created_at i), pi_name = im_name i,
      pi_description = im_description i, pi_labels = im_labels i, pi_family = im_family i,
      pi_storage_size = im_storage_size i, pi_min_disk_size = im_min_disk_size i, pi_product_ids = im_product_ids i,
      pi_status = image_status_number (im_status i),
      pi_os = (if im_os_type i \<noteq> OsTypeUnspecified \<or> im_os_nvidia_driver i \<noteq> ''''
               then Some \<lparr> po_type = os_type_number (im_os_type i),
                           po_nvidia = (if im_os_nvidia_driver i \<noteq> '''' then Some (im_os_nvidia_driver i) else None) \<rparr>
               else None),
      pi_pooled = im_pooled i, pi_hardware_generation = im_hardware_generation i, pi_kms_key = im_kms_key i \<rparr>"

definition pb_of_snapshot :: "snapshot \<Rightarrow> pb_snapshot" where
  "pb_of_snapshot s =
    \<lparr> ps_id = sn_id s, ps_project_id = sn_project_id s, ps_created_at = ts (sn_created_at s), ps_name = sn_name s,
      ps_description = sn_description s, ps_labels = sn_labels s, ps_storage_size = sn_storage_size s,
      ps_disk_size = sn_disk_size s, ps_product_ids = sn_product_ids s, ps_status = snapshot_status_number (sn_status s),
      ps_source_disk_id = sn_source_disk_id s, ps_hardware_generation = sn_hardware_generation s, ps_kms_key = sn_kms_key s \<rparr>"

definition pb_of_disk_type :: "disk_type \<Rightarrow> pb_disk_type" where
  "pb_of_disk_type t = \<lparr> pt_id = dt_id t, pt_description = dt_description t, pt_zone_ids = dt_zone_ids t \<rparr>"

definition networkSettingsTypeFromString :: "nst_table \<Rightarrow> string \<Rightarrow> int" where
  "networkSettingsTypeFromString T s = (case nst_value T s of Some v \<Rightarrow> v | None \<Rightarrow> nst_standard T)"

definition pb_of_attached_disk :: "attached_disk \<Rightarrow> pb_attached_disk" where
  "pb_of_attached_disk ad =
    \<lparr> pa_mode = ad_mode ad, pa_device_name = ad_device_name ad, pa_auto_delete = ad_auto_delete ad,
      pa_volume_id = ad_disk_id ad \<rparr>"

definition oneToOneNat :: "one_to_one_nat option \<Rightarrow> pb_nat option" where
  "oneToOneNat n =
    (case n of None \<Rightarrow> None | Some x \<Rightarrow> Some \<lparr> pn_address = nat_address x, pn_ip_version = nat_ip_version x \<rparr>)"

definition pb_primary :: "string \<Rightarrow> one_to_one_nat option \<Rightarrow> pb_primary_address option" where
  "pb_primary address n =
    (if address \<noteq> '''' \<or> n \<noteq> None then Some \<lparr> pp_address = address, pp_nat = oneToOneNat n \<rparr> else None)"

definition pb_of_nic :: "network_interface \<Rightarrow> pb_network_interface" where
  "pb_of_nic nic =
    \<lparr> pf_index = ni_index nic, pf_nic_id = ni_nic_id nic, pf_mac_address = ni_mac_address nic,
      pf_subnet_id = ni_subnet_id nic, pf_security_group_ids = ni_security_group_ids nic,
      pf_primary_v4 = pb_primary (ni_primary_v4_address nic) (ni_primary_v4_nat nic),
      pf_primary_v6 = pb_primary (ni_primary_v6_address nic) (ni_primary_v6_nat nic) \<rparr>"

definition pb_of_instance :: "nst_table \<Rightarrow> instance_row \<Rightarrow> pb_instance" where
  "pb_of_instance T x =
    \<lparr> pv_id = in_id x, pv_project_id = in_project_id x, pv_created_at = ts (in_created_at x), pv_name = in_name x,
      pv_description = in_description x, pv_labels = in_labels x, pv_zone_id = in_zone_id x,
      pv_platform_id = in_platform_id x,
      pv_resources = \<lparr> pr_memory = in_memory x, pr_cores = in_cores x, pr_core_fraction = in_core_fraction x, pr_gpus = in_gpus x \<rparr>,
      pv_cpu_guarantee = in_cpu_guarantee x, pv_image = in_image x, pv_image_digest = in_image_digest x,
      pv_status = instance_status_number (in_status x), pv_metadata = in_metadata x,
      pv_metadata_options = in_metadata_options x,
      pv_boot_disk = map_option pb_of_attached_disk (boot_disk x),
      pv_secondary_disks = List.map pb_of_attached_disk (filter (\<lambda>ad. \<not> ad_is_boot ad) (in_disks x)),
      pv_nics = List.map pb_of_nic (in_nics x),
      pv_network_settings = (if in_network_settings_type x \<noteq> ''''
                             then Some (networkSettingsTypeFromString T (in_network_settings_type x)) else None),
      pv_preemptible = (if in_preemptible x then Some True else None),
      pv_service_account_id = in_service_account_id x, pv_fqdn = in_fqdn x, pv_placement_policy = in_placement_policy x,
      pv_hardware_generation = in_hardware_generation x, pv_reserved_pool_id = in_reserved_pool_id x,
      pv_application = in_application x \<rparr>"

section \<open>Operations to messages\<close>

text \<open>The result oneof of a google.longrunning-style operation.\<close>

datatype pb_result = NoResult | ResultError "code \<times> string" | ResultResponse any_msg

record pb_operation =
  pq_id :: string
  pq_description :: string
  pq_created_at :: gotime
  pq_created_by :: string
  pq_modified_at :: gotime
  pq_done :: bool
  pq_metadata :: op_meta
  pq_principal :: principal
  pq_result :: pb_result

definition operationToProto :: "operation \<Rightarrow> pb_operation" where
  "operationToProto op1 =
    \<lparr> pq_id = op_id op1, pq_description = op_description op1, pq_created_at = ts (op_created_at op1),
      pq_created_by = op_created_by op1, pq_modified_at = ts (op_modified_at op1), pq_done = op_done op1,
      pq_metadata = op_metadata op1, pq_principal = op_principal op1,
      pq_result = (case op_error op1 of Some e \<Rightarrow> ResultError e
                   | None \<Rightarrow> (case op_response op1 of Some r \<Rightarrow> ResultResponse r | None \<Rightarrow> NoResult)) \<rparr>"

section \<open>What a message keeps\<close>

lemma ts_bounds: "ts t \<le> t" "t - 1000000000 < ts t" "1000000000 dvd ts t"
proof -
  show "ts t \<le> t" "t - 1000000000 < ts t"
    using pos_mod_sign [of 1000000000 t] pos_mod_bound [of 1000000000 t] by (simp_all add: ts_def)
  show "1000000000 dvd ts t" by (simp add: ts_def mod_eq_dvd_iff [symmetric])
qed

lemma status_numbers_inj:
  "disk_status_number a = disk_status_number b \<longleftrightarrow> a = b" "image_status_number c = image_status_number d \<longleftrightarrow> c = d"
  "snapshot_status_number e = snapshot_status_number f \<longleftrightarrow> e = f" "instance_status_number g = instance_status_number h \<longleftrightarrow> g = h"
  by (cases a; cases b; simp) (cases c; cases d; simp | cases e; cases f; simp | cases g; cases h; simp)+

text \<open>The volumes on the wire: with one boot volume at most, exactly the attached ones.\<close>

lemma find_filter_hd: "List.find P xs = (case filter P xs of [] \<Rightarrow> None | y # _ \<Rightarrow> Some y)"
  by (induction xs) auto

definition pb_disks :: "pb_instance \<Rightarrow> pb_attached_disk list" where
  "pb_disks p = (case pv_boot_disk p of None \<Rightarrow> [] | Some d \<Rightarrow> [d]) @ pv_secondary_disks p"

lemma pb_disks_mset:
  "mset (pb_disks (pb_of_instance T x)) =
     image_mset pb_of_attached_disk (mset (take 1 (filter ad_is_boot (in_disks x))) + filter_mset (\<lambda>d. \<not> ad_is_boot d) (mset (in_disks x)))"
  by (simp add: pb_disks_def pb_of_instance_def boot_disk_def find_filter_hd split: list.splits)

lemma pb_disks_complete:
  assumes "size (filter ad_is_boot (in_disks x)) \<le> 1"
  shows "mset (pb_disks (pb_of_instance T x)) = image_mset pb_of_attached_disk (mset (in_disks x))"
proof -
  have "mset (take 1 (filter ad_is_boot (in_disks x))) = filter_mset ad_is_boot (mset (in_disks x))"
    using assms by simp
  then show ?thesis unfolding pb_disks_mset using multiset_partition [of "mset (in_disks x)" ad_is_boot] by metis
qed

end
