(* ===== verification/Handlers.thy ===== *)
theory Handlers
  imports Access Wire
begin

text \<open>
  The gRPC handlers of internal/handler: disk\_handler.go, image\_handler.go,
  snapshot\_handler.go, instance\_handler.go, catalog\_handler.go and
  internal\_catalog\_handler.go. A handler checks the request, reads the resource
  where it needs its project, asserts the project ownership and calls the use
  case; a mutating handler answers the operation and leaves its worker to run.
  The List handlers also consult the list filter, whose cache they thread.
\<close>

section \<open>Shared shapes\<close>

text \<open>Checks of a call on one resource: the id, the resource, its project.\<close>

definition owned :: "string \<Rightarrow> string \<Rightarrow> ('x \<Rightarrow> string) \<Rightarrow> rpc_ctx \<Rightarrow> go_error + 'x \<Rightarrow> ('x \<Rightarrow> go_error + 'r) \<Rightarrow> go_error + 'r" where
  "owned idField i project ctx get k =
    (if i = '''' then Inl (status InvalidArgument (idField @ '' required''))
     else bindE get (\<lambda>x. guardE (AssertProjectOwnership ctx (project x)) (k x)))"

type_synonym 's op_reply = "go_error + (pb_operation \<times> 's worker)"

definition op_reply :: "go_error + (operation \<times> 's worker) \<Rightarrow> 's op_reply" where
  "op_reply r = map_res (\<lambda>(op1, w). (operationToProto op1, w)) r"

definition mask_paths :: "string list option \<Rightarrow> string list" where
  "mask_paths m = (case m of None \<Rightarrow> [] | Some ps \<Rightarrow> ps)"

record list_req =
  lq_project_id :: string
  lq_filter :: string
  lq_page_token :: string
  lq_page_size :: int

record list_operations_req =
  lp_resource_id :: string
  lp_page_token :: string
  lp_page_size :: int

text \<open>The list filter of a handler: the filter, its eviction choice and the clock.\<close>

record list_env =
  le_filter :: "fga_filter option"
  le_victim :: "filter_cache \<Rightarrow> string"
  le_times :: "int \<times> int"

definition resolve_filter :: "list_env \<Rightarrow> rpc_ctx \<Rightarrow> string \<Rightarrow> string \<Rightarrow> filter_cache \<Rightarrow> (go_error + decision) \<times> filter_cache" where
  "resolve_filter L ctx rt act m = resolveListFilter (le_filter L) (le_victim L) (le_times L) ctx rt act m"

definition list_handler ::
  "string \<Rightarrow> string \<Rightarrow> list_env \<Rightarrow> rpc_ctx \<Rightarrow> (list_filter \<Rightarrow> pagination \<Rightarrow> go_error + ('x list \<times> string)) \<Rightarrow> ('x \<Rightarrow> 'p)
    \<Rightarrow> list_req \<Rightarrow> filter_cache \<Rightarrow> (go_error + ('p list \<times> string)) \<times> filter_cache" where
  "list_handler rt act L ctx svcList conv req m =
    (case AssertProjectOwnership ctx (lq_project_id req) of
       Some e \<Rightarrow> (Inl e, m)
     | None \<Rightarrow>
        (case resolve_filter L ctx rt act m of
           (Inl e, m') \<Rightarrow> (Inl e, m')
         | (Inr dec, m') \<Rightarrow>
            (if \<not> dc_bypass dec \<and> dc_ids dec = [] then (Inr ([], ''''), m')
             else (map_res (\<lambda>(xs, next). (List.map conv xs, next))
                     (svcList \<lparr> lf_project_id = lq_project_id req, lf_filter = lq_filter req,
                                lf_allowed_ids = (if dc_bypass dec then None else Some (dc_ids dec)) \<rparr>
                              \<lparr> pg_token = lq_page_token req, pg_size = lq_page_size req \<rparr>), m'))))"

definition operations_reply :: "go_error + (operation list \<times> string) \<Rightarrow> go_error + (pb_operation list \<times> string)" where
  "operations_reply r = map_res (\<lambda>(ops, next). (List.map operationToProto ops, next)) r"

definition op_page :: "list_operations_req \<Rightarrow> pagination" where
  "op_page req = \<lparr> pg_token = lp_page_token req, pg_size = lp_page_size req \<rparr>"

type_synonym ops_lister = "string \<Rightarrow> pagination \<Rightarrow> go_error + (operation list \<times> string)"

section \<open>DiskHandler\<close>

record pb_create_disk =
  qd_project_id :: string
  qd_name :: string
  qd_description :: string
  qd_labels :: gomap
  qd_type_id :: string
  qd_zone_id :: string
  qd_size :: int
  qd_block_size :: int
  qd_source :: disk_source
  qd_placement_policy :: "proto_msg option"
  qd_hardware_generation :: "proto_msg option"
  qd_kms_key_id :: string

record pb_update_disk =
  qu_disk_id :: string
  qu_name :: string
  qu_description :: string
  qu_labels :: gomap
  qu_size :: int
  qu_placement_policy :: "proto_msg option"
  qu_mask :: "string list option"

text \<open>The generated getters of the source oneof.\<close>

fun get_image_id :: "disk_source \<Rightarrow> string" where
  "get_image_id (SourceImageId i) = i"
| "get_image_id _ = ''''"

fun get_snapshot_id :: "disk_source \<Rightarrow> string" where
  "get_snapshot_id (SourceSnapshotId i) = i"
| "get_snapshot_id _ = ''''"

definition disk_handler_get :: "'s disk_service \<Rightarrow> rpc_ctx \<Rightarrow> string \<Rightarrow> 's \<Rightarrow> go_error + pb_disk" where
  "disk_handler_get D ctx i s =
    owned ''disk_id'' i d_project_id ctx (disk_service_get D i s) (\<lambda>d. Inr (pb_of_disk d))"

definition disk_handler_list ::
  "'s disk_service \<Rightarrow> list_env \<Rightarrow> rpc_ctx \<Rightarrow> list_req \<Rightarrow> 's \<Rightarrow> filter_cache \<Rightarrow> (go_error + (pb_disk list \<times> string)) \<times> filter_cache" where
  "disk_handler_list D L ctx req s m =
    list_handler ResourceTypeDisk ActionDiskRead L ctx (\<lambda>f p. disk_service_list D f p s) pb_of_disk req m"

definition disk_handler_create ::
  "'s disk_service \<Rightarrow> op_env \<Rightarrow> int \<Rightarrow> string \<Rightarrow> rpc_ctx \<Rightarrow> pb_create_disk \<Rightarrow> 's op_reply" where
  "disk_handler_create D O1 now i ctx req =
    guardE (AssertProjectOwnership ctx (qd_project_id req))
      (op_reply (disk_service_create D O1 now i
        \<lparr> cd_project_id = qd_project_id req, cd_name = qd_name req, cd_description = qd_description req,
          cd_labels = qd_labels req, cd_type_id = qd_type_id req, cd_zone_id = qd_zone_id req, cd_size = qd_size req,
          cd_block_size = qd_block_size req, cd_image_id = get_image_id (qd_source req),
          cd_snapshot_id = get_snapshot_id (qd_source req), cd_placement_policy = qd_placement_policy req,
          cd_hardware_generation = qd_hardware_generation req, cd_kms_key_id = qd_kms_key_id req \<rparr>))"

definition disk_handler_update :: "'s disk_service \<Rightarrow> op_env \<Rightarrow> rpc_ctx \<Rightarrow> pb_update_disk \<Rightarrow> 's \<Rightarrow> 's op_reply" where
  "disk_handler_update D O1 ctx req s =
    owned ''disk_id'' (qu_disk_id req) d_project_id ctx (disk_service_get D (qu_disk_id req) s) (\<lambda>_.
      op_reply (disk_service_update D O1
        \<lparr> ud_disk_id = qu_disk_id req, ud_name = qu_name req, ud_description = qu_description req,
          ud_labels = qu_labels req, ud_size = qu_size req, ud_placement_policy = qu_placement_policy req,
          ud_mask = mask_paths (qu_mask req) \<rparr>))"

definition disk_handler_delete :: "'s disk_service \<Rightarrow> op_env \<Rightarrow> rpc_ctx \<Rightarrow> string \<Rightarrow> 's \<Rightarrow> 's op_reply" where
  "disk_handler_delete D O1 ctx i s =
    owned ''disk_id'' i d_project_id ctx (disk_service_get D i s) (\<lambda>_. op_reply (disk_service_delete D O1 i))"

definition disk_handler_relocate :: "'s disk_service \<Rightarrow> op_env \<Rightarrow> rpc_ctx \<Rightarrow> string \<Rightarrow> string \<Rightarrow> 's \<Rightarrow> 's op_reply" where
  "disk_handler_relocate D O1 ctx i destZoneID s =
    owned ''disk_id'' i d_project_id ctx (disk_service_get D i s) (\<lambda>_. op_reply (disk_service_relocate D O1 i destZoneID))"

definition disk_handler_list_operations ::
  "'s disk_service \<Rightarrow> ops_lister \<Rightarrow> rpc_ctx \<Rightarrow> list_operations_req \<Rightarrow> 's \<Rightarrow> go_error + (pb_operation list \<times> string)" where
  "disk_handler_list_operations D ol ctx req s =
    owned ''disk_id'' (lp_resource_id req) d_project_id ctx (disk_service_get D (lp_resource_id req) s) (\<lambda>_.
      operations_reply (disk_service_list_operations D ol (lp_resource_id req) (op_page req) s))"

section \<open>ImageHandler\<close>

datatype image_source_arm = NoImageSource | ImageArm string | DiskArm string | SnapshotArm string | UriArm string

record pb_create_image =
  qi_project_id :: string
  qi_name :: string
  qi_description :: string
  qi_labels :: gomap
  qi_family :: string
  qi_min_disk_size :: int
  qi_product_ids :: "string list"
  qi_source :: image_source_arm
  qi_os :: "os_msg option"
  qi_pooled :: bool
  qi_hardware_generation :: "proto_msg option"

record pb_update_image =
  qj_image_id :: string
  qj_name :: string
  qj_description :: string
  qj_labels :: gomap
  qj_min_disk_size :: int
  qj_mask :: "string list option"

fun arm_image_id :: "image_source_arm \<Rightarrow> string" where
  "arm_image_id (ImageArm i) = i" | "arm_image_id _ = ''''"
fun arm_disk_id :: "image_source_arm \<Rightarrow> string" where
  "arm_disk_id (DiskArm i) = i" | "arm_disk_id _ = ''''"
fun arm_snapshot_id :: "image_source_arm \<Rightarrow> string" where
  "arm_snapshot_id (SnapshotArm i) = i" | "arm_snapshot_id _ = ''''"
fun arm_uri :: "image_source_arm \<Rightarrow> string" where
  "arm_uri (UriArm u) = u" | "arm_uri _ = ''''"

definition image_handler_get :: "'s image_service \<Rightarrow> rpc_ctx \<Rightarrow> string \<Rightarrow> 's \<Rightarrow> go_error + pb_image" where
  "image_handler_get M ctx i s =
    owned ''image_id'' i im_project_id ctx (image_service_get M i s) (\<lambda>x. Inr (pb_of_image x))"

text \<open>The image is found first; the filter then decides whether the caller may see it.\<close>

definition image_handler_latest ::
  "'s image_service \<Rightarrow> list_env \<Rightarrow> rpc_ctx \<Rightarrow> string \<Rightarrow> string \<Rightarrow> 's \<Rightarrow> filter_cache \<Rightarrow> (go_error + pb_image) \<times> filter_cache" where
  "image_handler_latest M L ctx projectID family s m =
    (case guardE (AssertProjectOwnership ctx projectID) (image_service_latest M projectID family s) of
       Inl e \<Rightarrow> (Inl e, m)
     | Inr x \<Rightarrow>
        (case resolve_filter L ctx ResourceTypeImage ActionImageRead m of
           (Inl e, m') \<Rightarrow> (Inl e, m')
         | (Inr dec, m') \<Rightarrow>
            (if \<not> dc_bypass dec \<and> im_id x \<notin> set (dc_ids dec)
             then Inl (status NotFound (''Image '' @ family @ '' not found'')) else Inr (pb_of_image x), m')))"

definition image_handler_list ::
  "'s image_service \<Rightarrow> list_env \<Rightarrow> rpc_ctx \<Rightarrow> list_req \<Rightarrow> 's \<Rightarrow> filter_cache \<Rightarrow> (go_error + (pb_image list \<times> string)) \<times> filter_cache" where
  "image_handler_list M L ctx req s m =
    list_handler ResourceTypeImage ActionImageRead L ctx (\<lambda>f p. image_service_list M f p s) pb_of_image req m"

definition image_handler_create ::
  "'s image_service \<Rightarrow> op_env \<Rightarrow> int \<Rightarrow> string \<Rightarrow> rpc_ctx \<Rightarrow> pb_create_image \<Rightarrow> 's op_reply" where
  "image_handler_create M O1 now i ctx req =
    guardE (AssertProjectOwnership ctx (qi_project_id req))
      (op_reply (image_service_create M O1 now i
        \<lparr> ci_project_id = qi_project_id req, ci_name = qi_name req, ci_description = qi_description req,
          ci_labels = qi_labels req, ci_family = qi_family req, ci_min_disk_size = qi_min_disk_size req,
          ci_product_ids = qi_product_ids req, ci_image_id = arm_image_id (qi_source req),
          ci_disk_id = arm_disk_id (qi_source req), ci_snapshot_id = arm_snapshot_id (qi_source req),
          ci_uri = arm_uri (qi_source req), ci_os = qi_os req, ci_pooled = qi_pooled req,
          ci_hardware_generation = qi_hardware_generation req \<rparr>))"

definition image_handler_update :: "'s image_service \<Rightarrow> op_env \<Rightarrow> rpc_ctx \<Rightarrow> pb_update_image \<Rightarrow> 's \<Rightarrow> 's op_reply" where
  "image_handler_update M O1 ctx req s =
    owned ''image_id'' (qj_image_id req) im_project_id ctx (image_service_get M (qj_image_id req) s) (\<lambda>_.
      op_reply (image_service_update M O1
        \<lparr> ui_image_id = qj_image_id req, ui_name = qj_name req, ui_description = qj_description req,
          ui_labels = qj_labels req, ui_min_disk_size = qj_min_disk_size req, ui_mask = mask_paths (qj_mask req) \<rparr>))"

definition image_handler_delete :: "'s image_service \<Rightarrow> op_env \<Rightarrow> rpc_ctx \<Rightarrow> string \<Rightarrow> 's \<Rightarrow> 's op_reply" where
  "image_handler_delete M O1 ctx i s =
    owned ''image_id'' i im_project_id ctx (image_service_get M i s) (\<lambda>_. op_reply (image_service_delete M O1 i))"

definition image_handler_list_operations ::
  "'s image_service \<Rightarrow> ops_lister \<Rightarrow> rpc_ctx \<Rightarrow> list_operations_req \<Rightarrow> 's \<Rightarrow> go_error + (pb_operation list \<times> string)" where
  "image_handler_list_operations M ol ctx req s =
    owned ''image_id'' (lp_resource_id req) im_project_id ctx (image_service_get M (lp_resource_id req) s) (\<lambda>_.
      operations_reply (image_service_list_operations M ol (lp_resource_id req) (op_page req) s))"

section \<open>SnapshotHandler\<close>

record pb_create_snapshot =
  qs_project_id :: string
  qs_disk_id :: string
  qs_name :: string
  qs_description :: string
  qs_labels :: gomap
  qs_hardware_generation :: "proto_msg option"

record pb_update_snapshot =
  qt_snapshot_id :: string
  qt_name :: string
  qt_description :: string
  qt_labels :: gomap
  qt_mask :: "string list option"

definition snapshot_handler_get :: "'s snapshot_service \<Rightarrow> rpc_ctx \<Rightarrow> string \<Rightarrow> 's \<Rightarrow> go_error + pb_snapshot" where
  "snapshot_handler_get N ctx i s =
    owned ''snapshot_id'' i sn_project_id ctx (snapshot_service_get N i s) (\<lambda>x. Inr (pb_of_snapshot x))"

definition snapshot_handler_list ::
  "'s snapshot_service \<Rightarrow> list_env \<Rightarrow> rpc_ctx \<Rightarrow> list_req \<Rightarrow> 's \<Rightarrow> filter_cache \<Rightarrow> (go_error + (pb_snapshot list \<times> string)) \<times> filter_cache" where
  "snapshot_handler_list N L ctx req s m =
    list_handler ResourceTypeSnapshot ActionSnapshotRead L ctx (\<lambda>f p. snapshot_service_list N f p s) pb_of_snapshot req m"

definition snapshot_handler_create ::
  "'s snapshot_service \<Rightarrow> op_env \<Rightarrow> int \<Rightarrow> string \<Rightarrow> rpc_ctx \<Rightarrow> pb_create_snapshot \<Rightarrow> 's op_reply" where
  "snapshot_handler_create N O1 now i ctx req =
    guardE (AssertProjectOwnership ctx (qs_project_id req))
      (op_reply (snapshot_service_create N O1 now i
        \<lparr> cs_project_id = qs_project_id req, cs_disk_id = qs_disk_id req, cs_name = qs_name req,
          cs_description = qs_description req, cs_labels = qs_labels req,
          cs_hardware_generation = qs_hardware_generation req \<rparr>))"

definition snapshot_handler_update :: "'s snapshot_service \<Rightarrow> op_env \<Rightarrow> rpc_ctx \<Rightarrow> pb_update_snapshot \<Rightarrow> 's \<Rightarrow> 's op_reply" where
  "snapshot_handler_update N O1 ctx req s =
    owned ''snapshot_id'' (qt_snapshot_id req) sn_project_id ctx (snapshot_service_get N (qt_snapshot_id req) s) (\<lambda>_.
      op_reply (snapshot_service_update N O1
        \<lparr> us_snapshot_id = qt_snapshot_id req, us_name = qt_name req, us_description = qt_description req,
          us_labels = qt_labels req, us_mask = mask_paths (qt_mask req) \<rparr>))"

definition snapshot_handler_delete :: "'s snapshot_service \<Rightarrow> op_env \<Rightarrow> rpc_ctx \<Rightarrow> string \<Rightarrow> 's \<Rightarrow> 's op_reply" where
  "snapshot_handler_delete N O1 ctx i s =
    owned ''snapshot_id'' i sn_project_id ctx (snapshot_service_get N i s) (\<lambda>_. op_reply (snapshot_service_delete N O1 i))"

definition snapshot_handler_list_operations ::
  "'s snapshot_service \<Rightarrow> ops_lister \<Rightarrow> rpc_ctx \<Rightarrow> list_operations_req \<Rightarrow> 's \<Rightarrow> go_error + (pb_operation list \<times> string)" where
  "snapshot_handler_list_operations N ol ctx req s =
    owned ''snapshot_id'' (lp_resource_id req) sn_project_id ctx (snapshot_service_get N (lp_resource_id req) s) (\<lambda>_.
      operations_reply (snapshot_service_list_operations N ol (lp_resource_id req) (op_page req) s))"

section \<open>DiskTypeHandler and InternalDiskTypeHandler\<close>

definition disk_type_handler_get :: "'s disk_type_port \<Rightarrow> string \<Rightarrow> 's \<Rightarrow> go_error + pb_disk_type" where
  "disk_type_handler_get R i s = map_res pb_of_disk_type (disk_type_service_get R i s)"

definition disk_type_handler_list :: "'s disk_type_port \<Rightarrow> string \<Rightarrow> int \<Rightarrow> 's \<Rightarrow> go_error + (pb_disk_type list \<times> string)" where
  "disk_type_handler_list R token size1 s =
    map_res (\<lambda>(xs, next). (List.map pb_of_disk_type xs, next)) (disk_type_service_list R \<lparr> pg_token = token, pg_size = size1 \<rparr> s)"

definition internal_reply :: "string \<Rightarrow> ('a \<Rightarrow> 'b) \<Rightarrow> (go_error + 'a) \<times> 's \<Rightarrow> (go_error + 'b) \<times> 's" where
  "internal_reply tag conv p = (map_res conv (map_err (internalMapErr tag) (fst p)), snd p)"

definition internal_disk_type_create ::
  "'s disk_type_port \<Rightarrow> string \<Rightarrow> string \<Rightarrow> string list \<Rightarrow> 's \<Rightarrow> (go_error + pb_disk_type) \<times> 's" where
  "internal_disk_type_create R i desc zoneIDs s =
    internal_reply ''create disk type'' pb_of_disk_type (disk_type_service_create R i desc zoneIDs s)"

definition internal_disk_type_update ::
  "'s disk_type_port \<Rightarrow> string \<Rightarrow> string \<Rightarrow> string list \<Rightarrow> 's \<Rightarrow> (go_error + pb_disk_type) \<times> 's" where
  "internal_disk_type_update R i desc zoneIDs s =
    internal_reply ''update disk type'' pb_of_disk_type (disk_type_service_update R i desc zoneIDs s)"

definition internal_disk_type_delete :: "'s disk_type_port \<Rightarrow> string \<Rightarrow> 's \<Rightarrow> (go_error + unit) \<times> 's" where
  "internal_disk_type_delete R i s = internal_reply ''delete disk type'' (\<lambda>u. u) (disk_type_service_delete R i s)"

section \<open>InstanceHandler\<close>

record pb_resources_spec =
  rs_cores :: int
  rs_memory :: int
  rs_core_fraction :: int
  rs_gpus :: int
  rs_cpu_guarantee :: int

record pb_create_instance =
  qv_project_id :: string
  qv_name :: string
  qv_description :: string
  qv_labels :: gomap
  qv_zone_id :: string
  qv_platform_id :: string
  qv_metadata :: gomap
  qv_metadata_options :: "proto_msg option"
  qv_hostname :: string
  qv_service_account_id :: string
  qv_placement_policy :: "proto_msg option"
  qv_application :: "proto_msg option"
  qv_image :: string
  qv_resources :: "pb_resources_spec option"
  qv_scheduling :: "bool option"
  qv_network_settings :: "int option"

record pb_update_instance =
  qw_instance_id :: string
  qw_name :: string
  qw_description :: string
  qw_labels :: gomap
  qw_service_account_id :: string
  qw_platform_id :: string
  qw_placement_policy :: "proto_msg option"
  qw_image :: string
  qw_resources :: "pb_resources_spec option"
  qw_network_settings :: "int option"
  qw_mask :: "string list option"

text \<open>AttachedDiskSpec: the volume\_id arm is empty when the spec carries an inline disk.\<close>

record pb_attached_disk_spec =
  as_volume_id :: string
  as_device_name :: string
  as_auto_delete :: bool
  as_mode :: int
  as_is_boot :: bool

datatype detach_disk_arm = NoDiskArm | VolumeIdArm string | DeviceNameArm string
datatype detach_nic_arm = NoNicArm | NicIdArm string | NicIndexArm int

fun arm_volume_id :: "detach_disk_arm \<Rightarrow> string" where
  "arm_volume_id (VolumeIdArm v) = v" | "arm_volume_id _ = ''''"
fun arm_device_name :: "detach_disk_arm \<Rightarrow> string" where
  "arm_device_name (DeviceNameArm n) = n" | "arm_device_name _ = ''''"

definition no_resources_spec :: pb_resources_spec where
  "no_resources_spec = \<lparr> rs_cores = 0, rs_memory = 0, rs_core_fraction = 0, rs_gpus = 0, rs_cpu_guarantee = 0 \<rparr>"

definition network_settings_name :: "nst_table \<Rightarrow> int option \<Rightarrow> string" where
  "network_settings_name T n = (case n of None \<Rightarrow> '''' | Some v \<Rightarrow> nst_name T v)"

definition CreateReqFromProto :: "nst_table \<Rightarrow> pb_create_instance \<Rightarrow> create_instance_req" where
  "CreateReqFromProto T req =
    (let rs = (case qv_resources req of None \<Rightarrow> no_resources_spec | Some r \<Rightarrow> r) in
    \<lparr> cv_project_id = qv_project_id req, cv_name = qv_name req, cv_description = qv_description req,
      cv_labels = qv_labels req, cv_zone_id = qv_zone_id req, cv_platform_id = qv_platform_id req,
      cv_cores = rs_cores rs, cv_memory = rs_memory rs, cv_core_fraction = rs_core_fraction rs, cv_gpus = rs_gpus rs,
      cv_cpu_guarantee = rs_cpu_guarantee rs, cv_image = qv_image req, cv_metadata = qv_metadata req,
      cv_metadata_options = qv_metadata_options req, cv_hostname = qv_hostname req,
      cv_preemptible = (case qv_scheduling req of None \<Rightarrow> False | Some b \<Rightarrow> b),
      cv_service_account_id = qv_service_account_id req,
      cv_network_settings_type = network_settings_name T (qv_network_settings req),
      cv_placement_policy = qv_placement_policy req, cv_hardware_generation = None, cv_application = qv_application req \<rparr>)"

definition UpdateReqFromProto :: "nst_table \<Rightarrow> pb_update_instance \<Rightarrow> update_instance_req" where
  "UpdateReqFromProto T req =
    (let rs = (case qw_resources req of None \<Rightarrow> no_resources_spec | Some r \<Rightarrow> r) in
    \<lparr> uv_instance_id = qw_instance_id req, uv_name = qw_name req, uv_description = qw_description req,
      uv_labels = qw_labels req, uv_service_account_id = qw_service_account_id req,
      uv_cores = rs_cores rs, uv_memory = rs_memory rs, uv_core_fraction = rs_core_fraction rs, uv_gpus = rs_gpus rs,
      uv_cpu_guarantee = rs_cpu_guarantee rs, uv_image = qw_image req, uv_platform_id = qw_platform_id req,
      uv_placement_policy = qw_placement_policy req,
      uv_network_settings_type = network_settings_name T (qw_network_settings req),
      uv_mask = mask_paths (qw_mask req) \<rparr>)"

text \<open>The boot flag of the spec is not copied.\<close>

definition attachDiskReqFromSpec :: "pb_attached_disk_spec option \<Rightarrow> attach_disk_req" where
  "attachDiskReqFromSpec s =
    (case s of
       None \<Rightarrow> \<lparr> ar_volume_id = '''', ar_device_name = '''', ar_mode = 0, ar_is_boot = False, ar_auto_delete = False \<rparr>
     | Some a \<Rightarrow> \<lparr> ar_volume_id = as_volume_id a, ar_device_name = as_device_name a, ar_mode = as_mode a,
                   ar_is_boot = False, ar_auto_delete = as_auto_delete a \<rparr>)"

type_synonym ('d, 'n, 'v) instance_reply = "('d, 'n, 'v) world op_reply"

text \<open>Checks of a call on one instance.\<close>

definition on_instance ::
  "('d, 'n, 'v) instance_service \<Rightarrow> rpc_ctx \<Rightarrow> string \<Rightarrow> ('d, 'n, 'v) world \<Rightarrow> (instance_row \<Rightarrow> go_error + 'r) \<Rightarrow> go_error + 'r" where
  "on_instance I ctx i w k = owned ''instance_id'' i in_project_id ctx (instance_service_get I i w) k"

definition instance_handler_get ::
  "nst_table \<Rightarrow> ('d, 'n, 'v) instance_service \<Rightarrow> rpc_ctx \<Rightarrow> string \<Rightarrow> bool \<Rightarrow> ('d, 'n, 'v) world \<Rightarrow> go_error + pb_instance" where
  "instance_handler_get T I ctx i fullView w =
    on_instance I ctx i w (\<lambda>x.
      let p = pb_of_instance T x in Inr (if fullView then p else p\<lparr> pv_metadata := None \<rparr>))"

definition instance_handler_list ::
  "nst_table \<Rightarrow> ('d, 'n, 'v) instance_service \<Rightarrow> list_env \<Rightarrow> rpc_ctx \<Rightarrow> list_req \<Rightarrow> ('d, 'n, 'v) world \<Rightarrow> filter_cache
    \<Rightarrow> (go_error + (pb_instance list \<times> string)) \<times> filter_cache" where
  "instance_handler_list T I L ctx req w m =
    list_handler ResourceTypeInstance ActionInstanceRead L ctx (\<lambda>f p. instance_service_list I f p w)
      (\<lambda>x. (pb_of_instance T x)\<lparr> pv_metadata := None \<rparr>) req m"

definition instance_handler_create ::
  "nst_table \<Rightarrow> ('d, 'n, 'v) instance_service \<Rightarrow> op_env \<Rightarrow> int \<Rightarrow> string \<Rightarrow> rpc_ctx \<Rightarrow> pb_create_instance \<Rightarrow> ('d, 'n, 'v) instance_reply" where
  "instance_handler_create T I O1 now i ctx req =
    guardE (AssertProjectOwnership ctx (qv_project_id req))
      (op_reply (instance_service_create I O1 now i (CreateReqFromProto T req)))"

definition instance_handler_update ::
  "nst_table \<Rightarrow> ('d, 'n, 'v) instance_service \<Rightarrow> op_env \<Rightarrow> rpc_ctx \<Rightarrow> pb_update_instance \<Rightarrow> ('d, 'n, 'v) world \<Rightarrow> ('d, 'n, 'v) instance_reply" where
  "instance_handler_update T I O1 ctx req w =
    on_instance I ctx (qw_instance_id req) w (\<lambda>_. op_reply (instance_service_update I O1 (UpdateReqFromProto T req)))"

definition instance_handler_update_metadata ::
  "('d, 'n, 'v) instance_service \<Rightarrow> op_env \<Rightarrow> rpc_ctx \<Rightarrow> string \<Rightarrow> string list \<Rightarrow> gomap \<Rightarrow> ('d, 'n, 'v) world \<Rightarrow> ('d, 'n, 'v) instance_reply" where
  "instance_handler_update_metadata I O1 ctx i del upsert w =
    on_instance I ctx i w (\<lambda>_. op_reply (instance_service_update_metadata I O1 i del upsert))"

text \<open>lifecycle, the common body of Start, Stop and Restart\<close>

definition instance_handler_lifecycle ::
  "('d, 'n, 'v) instance_service \<Rightarrow> rpc_ctx \<Rightarrow> string \<Rightarrow> (string \<Rightarrow> go_error + (operation \<times> ('d, 'n, 'v) world worker))
    \<Rightarrow> ('d, 'n, 'v) world \<Rightarrow> ('d, 'n, 'v) instance_reply" where
  "instance_handler_lifecycle I ctx i fn w = on_instance I ctx i w (\<lambda>_. op_reply (fn i))"

definition instance_handler_start ::
  "('d, 'n, 'v) instance_service \<Rightarrow> op_env \<Rightarrow> rpc_ctx \<Rightarrow> string \<Rightarrow> ('d, 'n, 'v) world \<Rightarrow> ('d, 'n, 'v) instance_reply" where
  "instance_handler_start I O1 ctx i w = instance_handler_lifecycle I ctx i (instance_service_start I O1) w"

definition instance_handler_stop ::
  "('d, 'n, 'v) instance_service \<Rightarrow> op_env \<Rightarrow> rpc_ctx \<Rightarrow> string \<Rightarrow> ('d, 'n, 'v) world \<Rightarrow> ('d, 'n, 'v) instance_reply" where
  "instance_handler_stop I O1 ctx i w = instance_handler_lifecycle I ctx i (instance_service_stop I O1) w"

definition instance_handler_restart ::
  "('d, 'n, 'v) instance_service \<Rightarrow> op_env \<Rightarrow> rpc_ctx \<Rightarrow> string \<Rightarrow> ('d, 'n, 'v) world \<Rightarrow> ('d, 'n, 'v) instance_reply" where
  "instance_handler_restart I O1 ctx i w = instance_handler_lifecycle I ctx i (instance_service_restart I O1) w"

definition instance_handler_attach_disk ::
  "('d, 'n, 'v) instance_service \<Rightarrow> id_prefixes \<Rightarrow> op_env \<Rightarrow> rpc_ctx \<Rightarrow> string \<Rightarrow> pb_attached_disk_spec option \<Rightarrow> ('d, 'n, 'v) world
    \<Rightarrow> ('d, 'n, 'v) instance_reply" where
  "instance_handler_attach_disk I X O1 ctx i spec w =
    on_instance I ctx i w (\<lambda>_. op_reply (instance_service_attach_disk I X O1 i (attachDiskReqFromSpec spec)))"

definition instance_handler_detach_disk ::
  "('d, 'n, 'v) instance_service \<Rightarrow> id_prefixes \<Rightarrow> op_env \<Rightarrow> rpc_ctx \<Rightarrow> string \<Rightarrow> detach_disk_arm \<Rightarrow> ('d, 'n, 'v) world
    \<Rightarrow> ('d, 'n, 'v) instance_reply" where
  "instance_handler_detach_disk I X O1 ctx i arm w =
    on_instance I ctx i w (\<lambda>_.
      op_reply (instance_service_detach_disk I X O1 i (arm_volume_id arm) (arm_device_name arm)))"

text \<open>The spec is checked between the id and the read: None is a missing attached\_nic\_spec.\<close>

definition instance_handler_attach_nic ::
  "('d, 'n, 'v) instance_service \<Rightarrow> id_prefixes \<Rightarrow> op_env \<Rightarrow> rpc_ctx \<Rightarrow> string \<Rightarrow> (string \<times> int) option \<Rightarrow> ('d, 'n, 'v) world
    \<Rightarrow> ('d, 'n, 'v) instance_reply" where
  "instance_handler_attach_nic I X O1 ctx i spec w =
    (if i = '''' then Inl (status InvalidArgument ''instance_id required'')
     else case spec of
       None \<Rightarrow> Inl (status InvalidArgument ''attached_nic_spec is required'')
     | Some (nicID, index) \<Rightarrow>
        on_instance I ctx i w (\<lambda>_. op_reply (instance_service_attach_nic I X O1 i nicID index)))"

definition instance_handler_detach_nic ::
  "('d, 'n, 'v) instance_service \<Rightarrow> id_prefixes \<Rightarrow> op_env \<Rightarrow> rpc_ctx \<Rightarrow> string \<Rightarrow> detach_nic_arm \<Rightarrow> ('d, 'n, 'v) world
    \<Rightarrow> ('d, 'n, 'v) instance_reply" where
  "instance_handler_detach_nic I X O1 ctx i arm w =
    on_instance I ctx i w (\<lambda>_.
      case arm of
        NicIdArm nicID \<Rightarrow> op_reply (instance_service_detach_nic I X O1 i nicID 0 False)
      | NicIndexArm index \<Rightarrow> op_reply (instance_service_detach_nic I X O1 i '''' index True)
      | NoNicArm \<Rightarrow> Inl (status InvalidArgument ''exactly one of nic_id or index is required''))"

definition instance_handler_simulate_maintenance ::
  "('d, 'n, 'v) instance_service \<Rightarrow> op_env \<Rightarrow> rpc_ctx \<Rightarrow> string \<Rightarrow> ('d, 'n, 'v) world \<Rightarrow> ('d, 'n, 'v) instance_reply" where
  "instance_handler_simulate_maintenance I O1 ctx i w =
    on_instance I ctx i w (\<lambda>_. op_reply (instance_service_simulate_maintenance I O1 i))"

definition instance_handler_delete ::
  "('d, 'n, 'v) instance_service \<Rightarrow> op_env \<Rightarrow> rpc_ctx \<Rightarrow> string \<Rightarrow> ('d, 'n, 'v) world \<Rightarrow> ('d, 'n, 'v) instance_reply" where
  "instance_handler_delete I O1 ctx i w = on_instance I ctx i w (\<lambda>_. op_reply (instance_service_delete I O1 i))"

definition instance_handler_serial_port ::
  "('d, 'n, 'v) instance_service \<Rightarrow> rpc_ctx \<Rightarrow> string \<Rightarrow> ('d, 'n, 'v) world \<Rightarrow> go_error + string" where
  "instance_handler_serial_port I ctx i w = on_instance I ctx i w (\<lambda>_. getSerialPortOutput I i w)"

definition instance_handler_list_operations ::
  "('d, 'n, 'v) instance_service \<Rightarrow> ops_lister \<Rightarrow> rpc_ctx \<Rightarrow> list_operations_req \<Rightarrow> ('d, 'n, 'v) world
    \<Rightarrow> go_error + (pb_operation list \<times> string)" where
  "instance_handler_list_operations I ol ctx req w =
    on_instance I ctx (lp_resource_id req) w (\<lambda>_.
      operations_reply (instance_service_list_operations I ol (lp_resource_id req) (op_page req) w))"

end
