(* ===== verification/Authz.thy ===== *)
theory Authz
  imports Handlers
begin

text \<open>
  The calls of the resource services as one datatype and how the server answers
  each of them (registerPublicServices of cmd/compute/main.go; the calls of
  OperationService and the inherited access bindings join in PublicApi), the permission map of
  internal/check/permission\_map.go that says which object an authorization
  check is made on, the interceptor factory (internal/check/factory.go), the
  wiring decision (cmd/compute/authz\_wiring.go) and the create gate
  (internal/fgaboot/gate.go). The check itself is kacho-corelib's and IAM's.
\<close>

section \<open>Calls\<close>

datatype (plugins only: code) api_call =
    DiskGet string
  | DiskList list_req
  | DiskCreate pb_create_disk
  | DiskUpdate pb_update_disk
  | DiskDelete string
  | DiskRelocate string string
  | DiskListOperations list_operations_req
  | DiskListSnapshotSchedules string
  | ImageGet string
  | ImageGetLatestByFamily string string
  | ImageList list_req
  | ImageCreate pb_create_image
  | ImageUpdate pb_update_image
  | ImageDelete string
  | ImageListOperations list_operations_req
  | SnapshotGet string
  | SnapshotList list_req
  | SnapshotCreate pb_create_snapshot
  | SnapshotUpdate pb_update_snapshot
  | SnapshotDelete string
  | SnapshotListOperations list_operations_req
  | InstanceGet string bool
  | InstanceList list_req
  | InstanceCreate pb_create_instance
  | InstanceUpdate pb_update_instance
  | InstanceUpdateMetadata string "string list" gomap
  | InstanceDelete string
  | InstanceGetSerialPortOutput string
  | InstanceStart string
  | InstanceStop string
  | InstanceRestart string
  | InstanceAttachDisk string "pb_attached_disk_spec option"
  | InstanceDetachDisk string detach_disk_arm
  | InstanceAttachNetworkInterface string "(string \<times> int) option"
  | InstanceDetachNetworkInterface string detach_nic_arm
  | InstanceAttachFilesystem string
  | InstanceDetachFilesystem string
  | InstanceAddOneToOneNat string
  | InstanceRemoveOneToOneNat string
  | InstanceUpdateNetworkInterface string
  | InstanceListOperations list_operations_req
  | InstanceRelocate string
  | InstanceSimulateMaintenanceEvent string
  | DiskTypeGet string
  | DiskTypeList string int

definition disk_method :: "string \<Rightarrow> string" where "disk_method m = ''/kacho.cloud.compute.v1.DiskService/'' @ m"
definition image_method :: "string \<Rightarrow> string" where "image_method m = ''/kacho.cloud.compute.v1.ImageService/'' @ m"
definition snapshot_method :: "string \<Rightarrow> string" where "snapshot_method m = ''/kacho.cloud.compute.v1.SnapshotService/'' @ m"
definition instance_method :: "string \<Rightarrow> string" where "instance_method m = ''/kacho.cloud.compute.v1.InstanceService/'' @ m"
definition disk_type_method :: "string \<Rightarrow> string" where "disk_type_method m = ''/kacho.cloud.compute.v1.DiskTypeService/'' @ m"
definition internal_disk_type_method :: "string \<Rightarrow> string" where
  "internal_disk_type_method m = ''/kacho.cloud.compute.v1.InternalDiskTypeService/'' @ m"
definition operation_method :: "string \<Rightarrow> string" where "operation_method m = ''/kacho.cloud.operation.OperationService/'' @ m"

primrec full_method :: "api_call \<Rightarrow> string" where
  "full_method (DiskGet _) = disk_method ''Get''"
| "full_method (DiskList _) = disk_method ''List''"
| "full_method (DiskCreate _) = disk_method ''Create''"
| "full_method (DiskUpdate _) = disk_method ''Update''"
| "full_method (DiskDelete _) = disk_method ''Delete''"
| "full_method (DiskRelocate _ _) = disk_method ''Relocate''"
| "full_method (DiskListOperations _) = disk_method ''ListOperations''"
| "full_method (DiskListSnapshotSchedules _) = disk_method ''ListSnapshotSchedules''"
| "full_method (ImageGet _) = image_method ''Get''"
| "full_method (ImageGetLatestByFamily _ _) = image_method ''GetLatestByFamily''"
| "full_method (ImageList _) = image_method ''List''"
| "full_method (ImageCreate _) = image_method ''Create''"
| "full_method (ImageUpdate _) = image_method ''Update''"
| "full_method (ImageDelete _) = image_method ''Delete''"
| "full_method (ImageListOperations _) = image_method ''ListOperations''"
| "full_method (SnapshotGet _) = snapshot_method ''Get''"
| "full_method (SnapshotList _) = snapshot_method ''List''"
| "full_method (SnapshotCreate _) = snapshot_method ''Create''"
| "full_method (SnapshotUpdate _) = snapshot_method ''Update''"
| "full_method (SnapshotDelete _) = snapshot_method ''Delete''"
| "full_method (SnapshotListOperations _) = snapshot_method ''ListOperations''"
| "full_method (InstanceGet _ _) = instance_method ''Get''"
| "full_method (InstanceList _) = instance_method ''List''"
| "full_method (InstanceCreate _) = instance_method ''Create''"
| "full_method (InstanceUpdate _) = instance_method ''Update''"
| "full_method (InstanceUpdateMetadata _ _ _) = instance_method ''UpdateMetadata''"
| "full_method (InstanceDelete _) = instance_method ''Delete''"
| "full_method (InstanceGetSerialPortOutput _) = instance_method ''GetSerialPortOutput''"
| "full_method (InstanceStart _) = instance_method ''Start''"
| "full_method (InstanceStop _) = instance_method ''Stop''"
| "full_method (InstanceRestart _) = instance_method ''Restart''"
| "full_method (InstanceAttachDisk _ _) = instance_method ''AttachDisk''"
| "full_method (InstanceDetachDisk _ _) = instance_method ''DetachDisk''"
| "full_method (InstanceAttachNetworkInterface _ _) = instance_method ''AttachNetworkInterface''"
| "full_method (InstanceDetachNetworkInterface _ _) = instance_method ''DetachNetworkInterface''"
| "full_method (InstanceAttachFilesystem _) = instance_method ''AttachFilesystem''"
| "full_method (InstanceDetachFilesystem _) = instance_method ''DetachFilesystem''"
| "full_method (InstanceAddOneToOneNat _) = instance_method ''AddOneToOneNat''"
| "full_method (InstanceRemoveOneToOneNat _) = instance_method ''RemoveOneToOneNat''"
| "full_method (InstanceUpdateNetworkInterface _) = instance_method ''UpdateNetworkInterface''"
| "full_method (InstanceListOperations _) = instance_method ''ListOperations''"
| "full_method (InstanceRelocate _) = instance_method ''Relocate''"
| "full_method (InstanceSimulateMaintenanceEvent _) = instance_method ''SimulateMaintenanceEvent''"
| "full_method (DiskTypeGet _) = disk_type_method ''Get''"
| "full_method (DiskTypeList _ _) = disk_type_method ''List''"

section \<open>The server\<close>

text \<open>The services registered on the public listener, over one world.\<close>

record ('d, 'n, 'v) app =
  ap_disks :: "'d disk_service"
  ap_images :: "'d image_service"
  ap_snapshots :: "'d snapshot_service"
  ap_types :: "'d disk_type_port"
  ap_instances :: "('d, 'n, 'v) instance_service"
  ap_filter :: list_env
  ap_nst :: nst_table
  ap_prefixes :: id_prefixes
  ap_ops :: ops_lister

text \<open>What a call ends in: an error, a read, or a worker left to run. The handlers inherited
  from the generated Unimplemented servers refuse.\<close>

type_synonym ('d, 'n, 'v) outcome = "go_error + ('d, 'n, 'v) world worker option"

definition unimplemented :: "string \<Rightarrow> go_error" where
  "unimplemented m = status Unimplemented (''method '' @ m @ '' not implemented'')"

definition read_only :: "go_error + 'a \<Rightarrow> ('d, 'n, 'v) outcome" where
  "read_only r = map_res (\<lambda>_. None) r"

definition starts_db :: "'d op_reply \<Rightarrow> ('d, 'n, 'v) outcome" where
  "starts_db r = map_res (\<lambda>(_, wk). Some (on_db wk)) r"

definition starts :: "('d, 'n, 'v) world op_reply \<Rightarrow> ('d, 'n, 'v) outcome" where
  "starts r = map_res (\<lambda>(_, wk). Some wk) r"

primrec serve ::
  "('d, 'n, 'v) app \<Rightarrow> op_env \<Rightarrow> int \<Rightarrow> string \<Rightarrow> rpc_ctx \<Rightarrow> ('d, 'n, 'v) world \<Rightarrow> filter_cache \<Rightarrow> api_call \<Rightarrow> ('d, 'n, 'v) outcome" where
  "serve A O1 now i ctx w m (DiskGet d) = read_only (disk_handler_get (ap_disks A) ctx d (w_db w))"
| "serve A O1 now i ctx w m (DiskList q) = read_only (fst (disk_handler_list (ap_disks A) (ap_filter A) ctx q (w_db w) m))"
| "serve A O1 now i ctx w m (DiskCreate q) = starts_db (disk_handler_create (ap_disks A) O1 now i ctx q)"
| "serve A O1 now i ctx w m (DiskUpdate q) = starts_db (disk_handler_update (ap_disks A) O1 ctx q (w_db w))"
| "serve A O1 now i ctx w m (DiskDelete d) = starts_db (disk_handler_delete (ap_disks A) O1 ctx d (w_db w))"
| "serve A O1 now i ctx w m (DiskRelocate d z) = starts_db (disk_handler_relocate (ap_disks A) O1 ctx d z (w_db w))"
| "serve A O1 now i ctx w m (DiskListOperations q) = read_only (disk_handler_list_operations (ap_disks A) (ap_ops A) ctx q (w_db w))"
| "serve A O1 now i ctx w m (ImageGet d) = read_only (image_handler_get (ap_images A) ctx d (w_db w))"
| "serve A O1 now i ctx w m (ImageGetLatestByFamily p f) =
     read_only (fst (image_handler_latest (ap_images A) (ap_filter A) ctx p f (w_db w) m))"
| "serve A O1 now i ctx w m (ImageList q) = read_only (fst (image_handler_list (ap_images A) (ap_filter A) ctx q (w_db w) m))"
| "serve A O1 now i ctx w m (ImageCreate q) = starts_db (image_handler_create (ap_images A) O1 now i ctx q)"
| "serve A O1 now i ctx w m (ImageUpdate q) = starts_db (image_handler_update (ap_images A) O1 ctx q (w_db w))"
| "serve A O1 now i ctx w m (ImageDelete d) = starts_db (image_handler_delete (ap_images A) O1 ctx d (w_db w))"
| "serve A O1 now i ctx w m (ImageListOperations q) = read_only (image_handler_list_operations (ap_images A) (ap_ops A) ctx q (w_db w))"
| "serve A O1 now i ctx w m (SnapshotGet d) = read_only (snapshot_handler_get (ap_snapshots A) ctx d (w_db w))"
| "serve A O1 now i ctx w m (SnapshotList q) =
     read_only (fst (snapshot_handler_list (ap_snapshots A) (ap_filter A) ctx q (w_db w) m))"
| "serve A O1 now i ctx w m (SnapshotCreate q) = starts_db (snapshot_handler_create (ap_snapshots A) O1 now i ctx q)"
| "serve A O1 now i ctx w m (SnapshotUpdate q) = starts_db (snapshot_handler_update (ap_snapshots A) O1 ctx q (w_db w))"
| "serve A O1 now i ctx w m (SnapshotDelete d) = starts_db (snapshot_handler_delete (ap_snapshots A) O1 ctx d (w_db w))"
| "serve A O1 now i ctx w m (SnapshotListOperations q) =
     read_only (snapshot_handler_list_operations (ap_snapshots A) (ap_ops A) ctx q (w_db w))"
| "serve A O1 now i ctx w m (InstanceGet d v) = read_only (instance_handler_get (ap_nst A) (ap_instances A) ctx d v w)"
| "serve A O1 now i ctx w m (InstanceList q) =
     read_only (fst (instance_handler_list (ap_nst A) (ap_instances A) (ap_filter A) ctx q w m))"
| "serve A O1 now i ctx w m (InstanceCreate q) = starts (instance_handler_create (ap_nst A) (ap_instances A) O1 now i ctx q)"
| "serve A O1 now i ctx w m (InstanceUpdate q) = starts (instance_handler_update (ap_nst A) (ap_instances A) O1 ctx q w)"
| "serve A O1 now i ctx w m (InstanceUpdateMetadata d ks up) =
     starts (instance_handler_update_metadata (ap_instances A) O1 ctx d ks up w)"
| "serve A O1 now i ctx w m (InstanceDelete d) = starts (instance_handler_delete (ap_instances A) O1 ctx d w)"
| "serve A O1 now i ctx w m (InstanceGetSerialPortOutput d) = read_only (instance_handler_serial_port (ap_instances A) ctx d w)"
| "serve A O1 now i ctx w m (InstanceStart d) = starts (instance_handler_start (ap_instances A) O1 ctx d w)"
| "serve A O1 now i ctx w m (InstanceStop d) = starts (instance_handler_stop (ap_instances A) O1 ctx d w)"
| "serve A O1 now i ctx w m (InstanceRestart d) = starts (instance_handler_restart (ap_instances A) O1 ctx d w)"
| "serve A O1 now i ctx w m (InstanceAttachDisk d sp) =
     starts (instance_handler_attach_disk (ap_instances A) (ap_prefixes A) O1 ctx d sp w)"
| "serve A O1 now i ctx w m (InstanceDetachDisk d arm) =
     starts (instance_handler_detach_disk (ap_instances A) (ap_prefixes A) O1 ctx d arm w)"
| "serve A O1 now i ctx w m (InstanceAttachNetworkInterface d sp) =
     starts (instance_handler_attach_nic (ap_instances A) (ap_prefixes A) O1 ctx d sp w)"
| "serve A O1 now i ctx w m (InstanceDetachNetworkInterface d arm) =
     starts (instance_handler_detach_nic (ap_instances A) (ap_prefixes A) O1 ctx d arm w)"
| "serve A O1 now i ctx w m (InstanceListOperations q) =
     read_only (instance_handler_list_operations (ap_instances A) (ap_ops A) ctx q w)"
| "serve A O1 now i ctx w m (InstanceSimulateMaintenanceEvent d) =
     starts (instance_handler_simulate_maintenance (ap_instances A) O1 ctx d w)"
| "serve A O1 now i ctx w m (DiskTypeGet t) = read_only (disk_type_handler_get (ap_types A) t (w_db w))"
| "serve A O1 now i ctx w m (DiskTypeList tok n) = read_only (disk_type_handler_list (ap_types A) tok n (w_db w))"
| "serve A O1 now i ctx w m (DiskListSnapshotSchedules d) = Inl (unimplemented ''ListSnapshotSchedules'')"
| "serve A O1 now i ctx w m (InstanceAttachFilesystem d) = Inl (unimplemented ''AttachFilesystem'')"
| "serve A O1 now i ctx w m (InstanceDetachFilesystem d) = Inl (unimplemented ''DetachFilesystem'')"
| "serve A O1 now i ctx w m (InstanceAddOneToOneNat d) = Inl (unimplemented ''AddOneToOneNat'')"
| "serve A O1 now i ctx w m (InstanceRemoveOneToOneNat d) = Inl (unimplemented ''RemoveOneToOneNat'')"
| "serve A O1 now i ctx w m (InstanceUpdateNetworkInterface d) = Inl (unimplemented ''UpdateNetworkInterface'')"
| "serve A O1 now i ctx w m (InstanceRelocate d) = Inl (unimplemented ''Relocate'')"

section \<open>The permission map\<close>

text \<open>authz.RPCMap: an entry is public, or names the relation to check and the object
  type with the request field its id is read from (authz.StaticExtractor), or
  the cluster singleton.\<close>

datatype perm_entry =
    Public
  | Gate string string "api_call \<Rightarrow> string"

definition objectTypeProject :: string where "objectTypeProject = ''project''"
definition objectTypeDisk :: string where "objectTypeDisk = ''compute_disk''"
definition objectTypeImage :: string where "objectTypeImage = ''compute_image''"
definition objectTypeSnapshot :: string where "objectTypeSnapshot = ''compute_snapshot''"
definition objectTypeInstance :: string where "objectTypeInstance = ''compute_instance''"
definition objectTypeCluster :: string where "objectTypeCluster = ''cluster''"
definition clusterSingletonObject :: string where "clusterSingletonObject = ''cluster_kacho_root''"
definition relationViewer :: string where "relationViewer = ''viewer''"
definition relationEditor :: string where "relationEditor = ''editor''"
definition relationVGet :: string where "relationVGet = ''v_get''"
definition relationVList :: string where "relationVList = ''v_list''"
definition relationVUpdate :: string where "relationVUpdate = ''v_update''"
definition relationVDelete :: string where "relationVDelete = ''v_delete''"
definition relationSystemAdmin :: string where "relationSystemAdmin = ''system_admin''"

text \<open>The generated getters the extractors call. On a request of another type the
  extractor's type assertion panics; the getter is left unspecified there.\<close>

primrec get_disk_id :: "api_call \<Rightarrow> string" where
  "get_disk_id (DiskGet d) = d"
| "get_disk_id (DiskUpdate q) = qu_disk_id q"
| "get_disk_id (DiskDelete d) = d"
| "get_disk_id (DiskRelocate d z) = d"
| "get_disk_id (DiskListOperations q) = lp_resource_id q"
| "get_disk_id (DiskListSnapshotSchedules d) = d"

primrec get_image_id_of :: "api_call \<Rightarrow> string" where
  "get_image_id_of (ImageGet d) = d"
| "get_image_id_of (ImageUpdate q) = qj_image_id q"
| "get_image_id_of (ImageDelete d) = d"
| "get_image_id_of (ImageListOperations q) = lp_resource_id q"

primrec get_snapshot_id_of :: "api_call \<Rightarrow> string" where
  "get_snapshot_id_of (SnapshotGet d) = d"
| "get_snapshot_id_of (SnapshotUpdate q) = qt_snapshot_id q"
| "get_snapshot_id_of (SnapshotDelete d) = d"
| "get_snapshot_id_of (SnapshotListOperations q) = lp_resource_id q"

primrec get_instance_id :: "api_call \<Rightarrow> string" where
  "get_instance_id (InstanceGet d v) = d"
| "get_instance_id (InstanceUpdate q) = qw_instance_id q"
| "get_instance_id (InstanceUpdateMetadata d ks up) = d"
| "get_instance_id (InstanceDelete d) = d"
| "get_instance_id (InstanceGetSerialPortOutput d) = d"
| "get_instance_id (InstanceStart d) = d"
| "get_instance_id (InstanceStop d) = d"
| "get_instance_id (InstanceRestart d) = d"
| "get_instance_id (InstanceAttachDisk d sp) = d"
| "get_instance_id (InstanceDetachDisk d arm) = d"
| "get_instance_id (InstanceAttachNetworkInterface d sp) = d"
| "get_instance_id (InstanceDetachNetworkInterface d arm) = d"
| "get_instance_id (InstanceAttachFilesystem d) = d"
| "get_instance_id (InstanceDetachFilesystem d) = d"
| "get_instance_id (InstanceAddOneToOneNat d) = d"
| "get_instance_id (InstanceRemoveOneToOneNat d) = d"
| "get_instance_id (InstanceUpdateNetworkInterface d) = d"
| "get_instance_id (InstanceListOperations q) = lp_resource_id q"
| "get_instance_id (InstanceRelocate d) = d"
| "get_instance_id (InstanceSimulateMaintenanceEvent d) = d"

primrec get_project_id :: "api_call \<Rightarrow> string" where
  "get_project_id (DiskList q) = lq_project_id q"
| "get_project_id (DiskCreate q) = qd_project_id q"
| "get_project_id (ImageGetLatestByFamily p f) = p"
| "get_project_id (ImageList q) = lq_project_id q"
| "get_project_id (ImageCreate q) = qi_project_id q"
| "get_project_id (SnapshotList q) = lq_project_id q"
| "get_project_id (SnapshotCreate q) = qs_project_id q"
| "get_project_id (InstanceList q) = lq_project_id q"
| "get_project_id (InstanceCreate q) = qv_project_id q"

definition staticClusterCatalog :: "string \<Rightarrow> perm_entry" where
  "staticClusterCatalog relation = Gate relation objectTypeCluster (\<lambda>_. clusterSingletonObject)"

text \<open>The sections of the map, in the order of the literal in permission\_map.go.\<close>

definition disk_permissions :: "(string \<times> perm_entry) list" where
  "disk_permissions =
    [(disk_method ''Get'', Gate relationVGet objectTypeDisk get_disk_id),
     (disk_method ''List'', Gate relationViewer objectTypeProject get_project_id),
     (disk_method ''Create'', Gate relationEditor objectTypeProject get_project_id),
     (disk_method ''Update'', Gate relationVUpdate objectTypeDisk get_disk_id),
     (disk_method ''Delete'', Gate relationVDelete objectTypeDisk get_disk_id),
     (disk_method ''Relocate'', Gate relationVUpdate objectTypeDisk get_disk_id),
     (disk_method ''ListOperations'', Gate relationVList objectTypeDisk get_disk_id),
     (disk_method ''ListSnapshotSchedules'', Gate relationVList objectTypeDisk get_disk_id)]"

definition image_permissions :: "(string \<times> perm_entry) list" where
  "image_permissions =
    [(image_method ''Get'', Gate relationVGet objectTypeImage get_image_id_of),
     (image_method ''GetLatestByFamily'', Gate relationViewer objectTypeProject get_project_id),
     (image_method ''List'', Gate relationViewer objectTypeProject get_project_id),
     (image_method ''Create'', Gate relationEditor objectTypeProject get_project_id),
     (image_method ''Update'', Gate relationVUpdate objectTypeImage get_image_id_of),
     (image_method ''Delete'', Gate relationVDelete objectTypeImage get_image_id_of),
     (image_method ''ListOperations'', Gate relationVList objectTypeImage get_image_id_of)]"

definition snapshot_permissions :: "(string \<times> perm_entry) list" where
  "snapshot_permissions =
    [(snapshot_method ''Get'', Gate relationVGet objectTypeSnapshot get_snapshot_id_of),
     (snapshot_method ''List'', Gate relationViewer objectTypeProject get_project_id),
     (snapshot_method ''Create'', Gate relationEditor objectTypeProject get_project_id),
     (snapshot_method ''Update'', Gate relationVUpdate objectTypeSnapshot get_snapshot_id_of),
     (snapshot_method ''Delete'', Gate relationVDelete objectTypeSnapshot get_snapshot_id_of),
     (snapshot_method ''ListOperations'', Gate relationVList objectTypeSnapshot get_snapshot_id_of)]"

definition instance_permissions :: "(string \<times> perm_entry) list" where
  "instance_permissions =
    [(instance_method ''Get'', Gate relationVGet objectTypeInstance get_instance_id),
     (instance_method ''List'', Gate relationViewer objectTypeProject get_project_id),
     (instance_method ''Create'', Gate relationEditor objectTypeProject get_project_id),
     (instance_method ''Update'', Gate relationVUpdate objectTypeInstance get_instance_id),
     (instance_method ''UpdateMetadata'', Gate relationVUpdate objectTypeInstance get_instance_id),
     (instance_method ''Delete'', Gate relationVDelete objectTypeInstance get_instance_id),
     (instance_method ''GetSerialPortOutput'', Gate relationVGet objectTypeInstance get_instance_id),
     (instance_method ''Start'', Gate relationVUpdate objectTypeInstance get_instance_id),
     (instance_method ''Stop'', Gate relationVUpdate objectTypeInstance get_instance_id),
     (instance_method ''Restart'', Gate relationVUpdate objectTypeInstance get_instance_id),
     (instance_method ''AttachDisk'', Gate relationVUpdate objectTypeInstance get_instance_id),
     (instance_method ''DetachDisk'', Gate relationVUpdate objectTypeInstance get_instance_id),
     (instance_method ''AttachFilesystem'', Gate relationVUpdate objectTypeInstance get_instance_id),
     (instance_method ''DetachFilesystem'', Gate relationVUpdate objectTypeInstance get_instance_id),
     (instance_method ''AddOneToOneNat'', Gate relationVUpdate objectTypeInstance get_instance_id),
     (instance_method ''RemoveOneToOneNat'', Gate relationVUpdate objectTypeInstance get_instance_id),
     (instance_method ''UpdateNetworkInterface'', Gate relationVUpdate objectTypeInstance get_instance_id),
     (instance_method ''ListOperations'', Gate relationVList objectTypeInstance get_instance_id),
     (instance_method ''Relocate'', Gate relationVUpdate objectTypeInstance get_instance_id),
     (instance_method ''SimulateMaintenanceEvent'', Gate relationVUpdate objectTypeInstance get_instance_id)]"

definition catalog_permissions :: "(string \<times> perm_entry) list" where
  "catalog_permissions =
    [(disk_type_method ''Get'', staticClusterCatalog relationViewer),
     (disk_type_method ''List'', staticClusterCatalog relationViewer),
     (internal_disk_type_method ''Create'', staticClusterCatalog relationSystemAdmin),
     (internal_disk_type_method ''Update'', staticClusterCatalog relationSystemAdmin),
     (internal_disk_type_method ''Delete'', staticClusterCatalog relationSystemAdmin)]"

definition exempt_permissions :: "(string \<times> perm_entry) list" where
  "exempt_permissions =
    [(''/kacho.cloud.compute.v1.InternalWatchService/Watch'', Public),
     (operation_method ''Get'', Public),
     (operation_method ''Cancel'', Public)]"

definition PermissionMap :: "(string \<times> perm_entry) list" where
  "PermissionMap = disk_permissions @ image_permissions @ snapshot_permissions @
     instance_permissions @ catalog_permissions @ exempt_permissions"

lemmas permission_map_simps = PermissionMap_def disk_permissions_def image_permissions_def snapshot_permissions_def
  instance_permissions_def catalog_permissions_def exempt_permissions_def staticClusterCatalog_def

text \<open>What is checked for a call: the relation and the object; None is an unmapped call.\<close>

definition required_check :: "api_call \<Rightarrow> (string \<times> string \<times> string) option" where
  "required_check c =
    (case map_of PermissionMap (full_method c) of
       Some (Gate relation objectType getter) \<Rightarrow> Some (relation, objectType, getter c)
     | _ \<Rightarrow> None)"

section \<open>Wiring\<close>

text \<open>An interface value: nil, or a typed value whose pointer may be nil. Main passes the
  (possibly nil) pointer of its own variable, so the interface is never nil.\<close>

datatype 'c iface = NilIface | Iface "'c option"

definition ErrIAMConnNotConfigured :: go_error where
  "ErrIAMConnNotConfigured = Plain ''check: IAM connection not configured and Breakglass=false''"

text \<open>NewInterceptor: the client of the interceptor it builds (None under break-glass).\<close>

datatype 'c interceptor = BreakglassInterceptor | CheckInterceptor "'c option"

definition NewInterceptor :: "bool \<Rightarrow> 'c iface \<Rightarrow> go_error + 'c interceptor" where
  "NewInterceptor breakglass iamConn =
    (if breakglass then Inr BreakglassInterceptor
     else case iamConn of NilIface \<Rightarrow> Inl ErrIAMConnNotConfigured | Iface c \<Rightarrow> Inr (CheckInterceptor c))"

definition fatalAuthzInterceptorAbsent :: string where
  "fatalAuthzInterceptorAbsent = ''production mode requires authz interceptor but kacho-iam connection is not configured (KACHO_COMPUTE_AUTHZ_IAM_GRPC_ADDR unset and breakglass=false)''"

definition authzWiringDecision :: "bool \<Rightarrow> go_error + 'c interceptor \<Rightarrow> go_error + 'c interceptor option" where
  "authzWiringDecision productionMode r =
    (case r of
       Inr x \<Rightarrow> Inr (Some x)
     | Inl e \<Rightarrow> if e = ErrIAMConnNotConfigured
               then (if productionMode then Inl (Plain fatalAuthzInterceptorAbsent) else Inr None)
               else Inl e)"

text \<open>The boot gate of creates\<close>

definition has_suffix :: "string \<Rightarrow> string \<Rightarrow> bool" where
  "has_suffix s p = has_prefix (rev s) (rev p)"

definition IsGatedCreate :: "string \<Rightarrow> bool" where
  "IsGatedCreate fullMethod = (has_suffix fullMethod ''/Create'' \<and> \<not> contains_str fullMethod ''.Internal'')"

text \<open>GuardCreateUnary: the verdict of the gate (kacho-corelib) is an input.\<close>

definition GuardCreateUnary :: "go_error option \<Rightarrow> string \<Rightarrow> go_error + 'a \<Rightarrow> go_error + 'a" where
  "GuardCreateUnary guardMutation fullMethod handler =
    guardE (if IsGatedCreate fullMethod then guardMutation else None) handler"

end
