(* ===== verification/AccessControl.thy ===== *)
theory AccessControl
  imports Authz Fixtures
begin

text \<open>
  Why the public API keeps tenants apart. A locale states what a List handler
  needs of the listing it filters and is interpreted on the four repositories;
  the rest shows that the handlers refuse what lies in another project and
  that they decide on the very object the authorization check is made on.
\<close>

section \<open>Listings\<close>

locale listed =
  fixes svcList :: "list_filter \<Rightarrow> pagination \<Rightarrow> go_error + ('x list \<times> string)"
    and project :: "'x \<Rightarrow> string" and rid :: "'x \<Rightarrow> string"
  assumes list_in_project: "svcList f p = Inr (xs, next) \<Longrightarrow> x \<in> set xs \<Longrightarrow> project x = lf_project_id f"
    and list_allowed: "svcList f p = Inr (xs, next) \<Longrightarrow> x \<in> set xs \<Longrightarrow> lf_allowed_ids f = Some ids \<Longrightarrow> rid x \<in> set ids"
begin

lemma list_handler_shows:
  assumes "\<And>F. le_filter L = Some F \<Longrightarrow> filter_ok F \<and> cache_sound F m" "valid_victim (le_victim L)"
    "fst (le_times L) \<le> snd (le_times L)" "(rt, act) \<in> set list_kinds"
    "list_handler rt act L ctx svcList conv req m = (Inr (ys, next), m')" "y \<in> set ys"
  shows "\<exists>x. y = conv x \<and> project x = lq_project_id req \<and> HasProjectAccess (TenantFromCtx ctx) (lq_project_id req)
    \<and> may_show (le_filter L) (fst (le_times L)) ctx rt act (rid x)"
proof -
  have acc: "HasProjectAccess (TenantFromCtx ctx) (lq_project_id req)"
    using assms(5) by (auto simp: list_handler_def split: option.splits)
  obtain dec where r: "resolveListFilter (le_filter L) (le_victim L) (le_times L) ctx rt act m = (Inr dec, m')"
    "\<not> dc_bypass dec \<and> dc_ids dec = [] \<Longrightarrow> ys = []"
    "\<not> (\<not> dc_bypass dec \<and> dc_ids dec = []) \<Longrightarrow> map_res (\<lambda>(xs, next). (List.map conv xs, next))
       (svcList \<lparr> lf_project_id = lq_project_id req, lf_filter = lq_filter req,
          lf_allowed_ids = (if dc_bypass dec then None else Some (dc_ids dec)) \<rparr>
        \<lparr> pg_token = lq_page_token req, pg_size = lq_page_size req \<rparr>) = Inr (ys, next)"
    using assms(5) by (auto simp: list_handler_def resolve_filter_def split: option.splits prod.splits sum.splits if_splits)
  have ne: "\<not> (\<not> dc_bypass dec \<and> dc_ids dec = [])" using r(2) assms(6) by fastforce
  obtain xs where xs: "svcList \<lparr> lf_project_id = lq_project_id req, lf_filter = lq_filter req,
          lf_allowed_ids = (if dc_bypass dec then None else Some (dc_ids dec)) \<rparr>
        \<lparr> pg_token = lq_page_token req, pg_size = lq_page_size req \<rparr> = Inr (xs, next)" "ys = List.map conv xs"
    using r(3) [OF ne] by (auto simp: map_res_Inr_iff)
  then obtain x where x: "x \<in> set xs" "y = conv x" using assms(6) by auto
  have "project x = lq_project_id req" using list_in_project [OF xs(1) x(1)] by simp
  moreover have "dc_bypass dec \<or> rid x \<in> set (dc_ids dec)"
    using list_allowed [OF xs(1) x(1)] by (cases "dc_bypass dec") auto
  ultimately show ?thesis
    using resolveListFilter_shows [OF assms(1-4) r(1)] acc x(2) by blast
qed

end

lemma view_list_sound:
  assumes "\<And>r d. lv_scan V r = Inr d \<Longrightarrow> pid d = lv_project V r \<and> did d = snd (lv_cursor V r)"
    "lf_project_id f \<noteq> ''''" "repo_list C E V f p t = Inr (ds, nt)" "d \<in> set ds"
  shows "pid d = lf_project_id f \<and> (\<forall>ids. lf_allowed_ids f = Some ids \<longrightarrow> did d \<in> set ids)"
  using repo_list_sound [OF assms(3,4)] assms(1,2) by (fastforce split: option.splits)

interpretation disk_lister: listed "\<lambda>f p. disk_service_list (pg_disk_service C E P) f p s" d_project_id d_id for C E P s
proof
  fix f p xs nt x
  assume l: "disk_service_list (pg_disk_service C E P) f p s = Inr (xs, nt)" "x \<in> set xs"
  have "d_project_id x = lf_project_id f \<and> (\<forall>ids. lf_allowed_ids f = Some ids \<longrightarrow> d_id x \<in> set ids)"
    by (rule view_list_sound [of "disk_view E"])
      (use l in \<open>auto simp: disk_view_def disk_service_list_def disk_list_def pg_disk_port_def dest: scanDisk_cols split: if_splits\<close>)
  then show "d_project_id x = lf_project_id f" "\<And>ids. lf_allowed_ids f = Some ids \<Longrightarrow> d_id x \<in> set ids" by blast+
qed

interpretation image_lister: listed "\<lambda>f p. image_service_list (pg_image_service C E P) f p s" im_project_id im_id for C E P s
proof
  fix f p xs nt x
  assume l: "image_service_list (pg_image_service C E P) f p s = Inr (xs, nt)" "x \<in> set xs"
  have "im_project_id x = lf_project_id f \<and> (\<forall>ids. lf_allowed_ids f = Some ids \<longrightarrow> im_id x \<in> set ids)"
    by (rule view_list_sound [of "image_view E"])
      (use l in \<open>auto simp: image_view_def image_service_list_def image_list_def pg_image_port_def dest: scanImage_cols split: if_splits\<close>)
  then show "im_project_id x = lf_project_id f" "\<And>ids. lf_allowed_ids f = Some ids \<Longrightarrow> im_id x \<in> set ids" by blast+
qed

interpretation snapshot_lister: listed "\<lambda>f p. snapshot_service_list (pg_snapshot_service C E P) f p s" sn_project_id sn_id for C E P s
proof
  fix f p xs nt x
  assume l: "snapshot_service_list (pg_snapshot_service C E P) f p s = Inr (xs, nt)" "x \<in> set xs"
  have "sn_project_id x = lf_project_id f \<and> (\<forall>ids. lf_allowed_ids f = Some ids \<longrightarrow> sn_id x \<in> set ids)"
    by (rule view_list_sound [of "snapshot_view E"])
      (use l in \<open>auto simp: snapshot_view_def snapshot_service_list_def snapshot_list_def pg_snapshot_port_def dest: scanSnapshot_cols split: if_splits\<close>)
  then show "sn_project_id x = lf_project_id f" "\<And>ids. lf_allowed_ids f = Some ids \<Longrightarrow> sn_id x \<in> set ids" by blast+
qed

text \<open>The mirrors change neither the ids nor the projects of a page.\<close>

lemma nic_mirror_batch_keys:
  "List.map (\<lambda>x. (in_id x, in_project_id x)) (applyNicMirrorBatch I n xs) = List.map (\<lambda>x. (in_id x, in_project_id x)) xs"
  by (simp add: applyNicMirrorBatch_def split: option.splits sum.splits)

lemma volume_mirror_batch_keys:
  "List.map (\<lambda>x. (in_id x, in_project_id x)) (applyVolumeMirrorBatch I v xs) = List.map (\<lambda>x. (in_id x, in_project_id x)) xs"
  by (simp add: applyVolumeMirrorBatch_def split: option.splits sum.splits)

lemma with_mirrors_keys [simp]:
  "in_id (with_mirrors I w x) = in_id x" "in_project_id (with_mirrors I w x) = in_project_id x"
  by (simp_all add: with_mirrors_def applyVolumeMirror_def applyNicMirror_def split: option.splits sum.splits)

interpretation instance_lister:
  listed "\<lambda>f p. instance_service_list (I\<lparr> iv_repo := pg_instance_port C E \<rparr>) f p w" in_project_id in_id for I C E w
proof
  fix f p ys nt y
  let ?I = "I\<lparr> iv_repo := pg_instance_port C E \<rparr>"
  assume l: "instance_service_list ?I f p w = Inr (ys, nt)" "y \<in> set ys"
  then obtain xs where xs: "instance_list C E f p (w_db w) = Inr (xs, nt)" "lf_project_id f \<noteq> ''''"
    "ys = applyVolumeMirrorBatch ?I (w_vols w) (applyNicMirrorBatch ?I (w_nics w) xs)"
    by (auto simp: instance_service_list_def map_res_Inr_iff pg_instance_port_def split: if_splits)
  have "(in_id y, in_project_id y) \<in> set (List.map (\<lambda>x. (in_id x, in_project_id x)) ys)" using l(2) by auto
  then have "(in_id y, in_project_id y) \<in> set (List.map (\<lambda>x. (in_id x, in_project_id x)) xs)"
    unfolding xs(3) volume_mirror_batch_keys nic_mirror_batch_keys .
  then obtain x where x: "x \<in> set xs" "in_id y = in_id x" "in_project_id y = in_project_id x" by auto
  have "in_project_id x = lf_project_id f \<and> (\<forall>ids. lf_allowed_ids f = Some ids \<longrightarrow> in_id x \<in> set ids)"
    by (rule view_list_sound [of "instance_view E"])
      (use xs(1,2) x(1) in \<open>auto simp: instance_view_def instance_list_def dest: scanInstance_cols\<close>)
  then show "in_project_id y = lf_project_id f" "\<And>ids. lf_allowed_ids f = Some ids \<Longrightarrow> in_id y \<in> set ids"
    using x by auto
qed

section \<open>The object a check is made on\<close>

lemmas method_defs = disk_method_def image_method_def snapshot_method_def instance_method_def disk_type_method_def
  internal_disk_type_method_def operation_method_def

lemma method_inj [simp]:
  "disk_method a = disk_method b \<longleftrightarrow> a = b" "image_method a = image_method b \<longleftrightarrow> a = b"
  "snapshot_method a = snapshot_method b \<longleftrightarrow> a = b" "instance_method a = instance_method b \<longleftrightarrow> a = b"
  "disk_type_method a = disk_type_method b \<longleftrightarrow> a = b"
  by (simp_all add: method_defs)

text \<open>Methods of different services differ: the byte after the package tells them apart.\<close>

lemma method_neq [simp]:
  "disk_method a \<noteq> image_method b" "disk_method a \<noteq> snapshot_method b" "disk_method a \<noteq> instance_method b"
  "image_method a \<noteq> disk_method b" "image_method a \<noteq> snapshot_method b" "image_method a \<noteq> instance_method b"
  "snapshot_method a \<noteq> disk_method b" "snapshot_method a \<noteq> image_method b" "snapshot_method a \<noteq> instance_method b"
  "instance_method a \<noteq> disk_method b" "instance_method a \<noteq> image_method b" "instance_method a \<noteq> snapshot_method b"
  "disk_type_method a \<noteq> disk_method b" "disk_type_method a \<noteq> image_method b" "disk_type_method a \<noteq> snapshot_method b"
  "disk_type_method a \<noteq> instance_method b" "instance_method b \<noteq> disk_type_method a" "disk_method a \<noteq> disk_type_method b"
  "internal_disk_type_method a \<noteq> instance_method b" "instance_method b \<noteq> internal_disk_type_method a"
  "operation_method a \<noteq> instance_method b" "instance_method b \<noteq> operation_method a"
  "''/kacho.cloud.compute.v1.InternalWatchService/Watch'' \<noteq> instance_method b"
  "instance_method b \<noteq> ''/kacho.cloud.compute.v1.InternalWatchService/Watch''"
  by (simp_all add: method_defs)

text \<open>The entries of a service are found in its own section of the map.\<close>

lemma perm_other [simp]:
  "map_of disk_permissions (image_method a) = None" "map_of disk_permissions (snapshot_method a) = None"
  "map_of disk_permissions (instance_method a) = None" "map_of disk_permissions (disk_type_method a) = None"
  "map_of image_permissions (disk_method a) = None" "map_of image_permissions (snapshot_method a) = None"
  "map_of image_permissions (instance_method a) = None" "map_of image_permissions (disk_type_method a) = None"
  "map_of snapshot_permissions (disk_method a) = None" "map_of snapshot_permissions (image_method a) = None"
  "map_of snapshot_permissions (instance_method a) = None" "map_of snapshot_permissions (disk_type_method a) = None"
  "map_of instance_permissions (disk_method a) = None" "map_of instance_permissions (image_method a) = None"
  "map_of instance_permissions (snapshot_method a) = None" "map_of instance_permissions (disk_type_method a) = None"
  "map_of catalog_permissions (instance_method a) = None" "map_of exempt_permissions (instance_method a) = None"
  by (simp_all add: permission_map_simps)

lemma perm_section:
  "map_of PermissionMap (disk_method a) = (case map_of disk_permissions (disk_method a) of
     None \<Rightarrow> map_of (catalog_permissions @ exempt_permissions) (disk_method a) | e \<Rightarrow> e)"
  "map_of PermissionMap (image_method a) = (case map_of image_permissions (image_method a) of
     None \<Rightarrow> map_of (catalog_permissions @ exempt_permissions) (image_method a) | e \<Rightarrow> e)"
  "map_of PermissionMap (snapshot_method a) = (case map_of snapshot_permissions (snapshot_method a) of
     None \<Rightarrow> map_of (catalog_permissions @ exempt_permissions) (snapshot_method a) | e \<Rightarrow> e)"
  "map_of PermissionMap (instance_method a) = map_of instance_permissions (instance_method a)"
  "map_of PermissionMap (disk_type_method a) = map_of (catalog_permissions @ exempt_permissions) (disk_type_method a)"
  by (simp_all add: PermissionMap_def map_add_def split: option.split)

lemma required_check_cases:
  "required_check c = (case c of
      DiskGet _ \<Rightarrow> Some (relationVGet, objectTypeDisk, get_disk_id c)
    | DiskList _ \<Rightarrow> Some (relationViewer, objectTypeProject, get_project_id c)
    | DiskCreate _ \<Rightarrow> Some (relationEditor, objectTypeProject, get_project_id c)
    | DiskUpdate _ \<Rightarrow> Some (relationVUpdate, objectTypeDisk, get_disk_id c)
    | DiskDelete _ \<Rightarrow> Some (relationVDelete, objectTypeDisk, get_disk_id c)
    | DiskRelocate _ _ \<Rightarrow> Some (relationVUpdate, objectTypeDisk, get_disk_id c)
    | DiskListOperations _ \<Rightarrow> Some (relationVList, objectTypeDisk, get_disk_id c)
    | DiskListSnapshotSchedules _ \<Rightarrow> Some (relationVList, objectTypeDisk, get_disk_id c)
    | ImageGet _ \<Rightarrow> Some (relationVGet, objectTypeImage, get_image_id_of c)
    | ImageGetLatestByFamily _ _ \<Rightarrow> Some (relationViewer, objectTypeProject, get_project_id c)
    | ImageList _ \<Rightarrow> Some (relationViewer, objectTypeProject, get_project_id c)
    | ImageCreate _ \<Rightarrow> Some (relationEditor, objectTypeProject, get_project_id c)
    | ImageUpdate _ \<Rightarrow> Some (relationVUpdate, objectTypeImage, get_image_id_of c)
    | ImageDelete _ \<Rightarrow> Some (relationVDelete, objectTypeImage, get_image_id_of c)
    | ImageListOperations _ \<Rightarrow> Some (relationVList, objectTypeImage, get_image_id_of c)
    | SnapshotGet _ \<Rightarrow> Some (relationVGet, objectTypeSnapshot, get_snapshot_id_of c)
    | SnapshotList _ \<Rightarrow> Some (relationViewer, objectTypeProject, get_project_id c)
    | SnapshotCreate _ \<Rightarrow> Some (relationEditor, objectTypeProject, get_project_id c)
    | SnapshotUpdate _ \<Rightarrow> Some (relationVUpdate, objectTypeSnapshot, get_snapshot_id_of c)
    | SnapshotDelete _ \<Rightarrow> Some (relationVDelete, objectTypeSnapshot, get_snapshot_id_of c)
    | SnapshotListOperations _ \<Rightarrow> Some (relationVList, objectTypeSnapshot, get_snapshot_id_of c)
    | InstanceGet _ _ \<Rightarrow> Some (relationVGet, objectTypeInstance, get_instance_id c)
    | InstanceList _ \<Rightarrow> Some (relationViewer, objectTypeProject, get_project_id c)
    | InstanceCreate _ \<Rightarrow> Some (relationEditor, objectTypeProject, get_project_id c)
    | InstanceUpdate _ \<Rightarrow> Some (relationVUpdate, objectTypeInstance, get_instance_id c)
    | InstanceUpdateMetadata _ _ _ \<Rightarrow> Some (relationVUpdate, objectTypeInstance, get_instance_id c)
    | InstanceDelete _ \<Rightarrow> Some (relationVDelete, objectTypeInstance, get_instance_id c)
    | InstanceGetSerialPortOutput _ \<Rightarrow> Some (relationVGet, objectTypeInstance, get_instance_id c)
    | InstanceListOperations _ \<Rightarrow> Some (relationVList, objectTypeInstance, get_instance_id c)
    | InstanceAttachNetworkInterface _ _ \<Rightarrow> None
    | InstanceDetachNetworkInterface _ _ \<Rightarrow> None
    | DiskTypeGet _ \<Rightarrow> Some (relationViewer, objectTypeCluster, clusterSingletonObject)
    | DiskTypeList _ _ \<Rightarrow> Some (relationViewer, objectTypeCluster, clusterSingletonObject)
    | _ \<Rightarrow> Some (relationVUpdate, objectTypeInstance, get_instance_id c))"
  by (cases c) (simp_all add: required_check_def perm_section disk_permissions_def image_permissions_def snapshot_permissions_def
      instance_permissions_def catalog_permissions_def exempt_permissions_def staticClusterCatalog_def)

text \<open>The project of an object as the service of its type sees it.\<close>

definition resource_project :: "('d, 'n, 'v) app \<Rightarrow> ('d, 'n, 'v) world \<Rightarrow> string \<Rightarrow> string \<Rightarrow> go_error + string" where
  "resource_project A w ty i =
    (if ty = objectTypeDisk then map_res d_project_id (disk_service_get (ap_disks A) i (w_db w))
     else if ty = objectTypeImage then map_res im_project_id (image_service_get (ap_images A) i (w_db w))
     else if ty = objectTypeSnapshot then map_res sn_project_id (snapshot_service_get (ap_snapshots A) i (w_db w))
     else if ty = objectTypeInstance then map_res in_project_id (instance_service_get (ap_instances A) i w)
     else if ty = objectTypeProject then Inr i
     else Inl (status NotFound ''not found''))"

lemma objectType_simps [simp]:
  "resource_project A w objectTypeDisk i = map_res d_project_id (disk_service_get (ap_disks A) i (w_db w))"
  "resource_project A w objectTypeImage i = map_res im_project_id (image_service_get (ap_images A) i (w_db w))"
  "resource_project A w objectTypeSnapshot i = map_res sn_project_id (snapshot_service_get (ap_snapshots A) i (w_db w))"
  "resource_project A w objectTypeInstance i = map_res in_project_id (instance_service_get (ap_instances A) i w)"
  "resource_project A w objectTypeProject i = Inr i" "resource_project A w objectTypeCluster i \<noteq> Inr p"
  by (simp_all add: resource_project_def objectTypeDisk_def objectTypeImage_def objectTypeSnapshot_def objectTypeInstance_def
      objectTypeProject_def objectTypeCluster_def)

lemma owned_denied:
  "i \<noteq> '''' \<Longrightarrow> map_res project get = Inr p \<Longrightarrow> \<not> HasProjectAccess (TenantFromCtx ctx) p \<Longrightarrow>
    owned f i project ctx get k = Inl permissionDenied"
  by (cases get) (auto simp: owned_def AssertProjectOwnership_def)

lemma access_denied: "\<not> HasProjectAccess (TenantFromCtx ctx) p \<Longrightarrow> AssertProjectOwnership ctx p = Some permissionDenied"
  by (simp add: AssertProjectOwnership_def)

lemmas storage_handler_defs = disk_handler_get_def disk_handler_list_def disk_handler_create_def disk_handler_update_def
  disk_handler_delete_def disk_handler_relocate_def disk_handler_list_operations_def
  image_handler_get_def image_handler_latest_def image_handler_list_def image_handler_create_def image_handler_update_def
  image_handler_delete_def image_handler_list_operations_def
  snapshot_handler_get_def snapshot_handler_list_def snapshot_handler_create_def snapshot_handler_update_def
  snapshot_handler_delete_def snapshot_handler_list_operations_def

lemmas instance_handler_defs = on_instance_def instance_handler_get_def instance_handler_list_def instance_handler_create_def
  instance_handler_update_def instance_handler_update_metadata_def instance_handler_lifecycle_def instance_handler_start_def
  instance_handler_stop_def instance_handler_restart_def instance_handler_attach_disk_def instance_handler_detach_disk_def
  instance_handler_attach_nic_def instance_handler_detach_nic_def instance_handler_simulate_maintenance_def
  instance_handler_delete_def instance_handler_serial_port_def instance_handler_list_operations_def

lemma serve_foreign:
  assumes "required_check c = Some (rel, ty, i)" "resource_project A w ty i = Inr p" "i \<noteq> ''''"
    "\<not> HasProjectAccess (TenantFromCtx ctx) p"
  shows "serve A O1 now n ctx w m c \<in> {Inl permissionDenied} \<union> range (\<lambda>x. Inl (unimplemented x))"
  using assms
  by (cases c) (auto simp: required_check_cases storage_handler_defs instance_handler_defs owned_denied access_denied
      list_handler_def read_only_def starts_db_def starts_def)

end
