(* ===== verification/PeerRpc.thy ===== *)
theory PeerRpc
  imports InstanceService
begin

text \<open>
  The RPC adapters of the binding owners: internal/clients/storage\_client.go and
  vpc\_nic\_client.go. The call itself, with its timeout and retry.OnUnavailable of
  kacho-corelib around it, is an input over the state of the owner: what is
  modelled is the request that is built and what is made of the answer.
\<close>

section \<open>StorageClient\<close>

record attach_volume_request =
  aq_volume_id :: string
  aq_instance_id :: string
  aq_instance_name :: string
  aq_instance_zone_id :: string
  aq_project_id :: string
  aq_device_name :: string
  aq_is_boot :: bool
  aq_mode :: wire_mode
  aq_auto_delete :: bool

text \<open>The answers: the volume with its attachments (None is a nil message), and the
  attachments of a listing with the volume they belong to.\<close>

record 's volume_rpc =
  vrAttach :: "attach_volume_request \<Rightarrow> 's \<Rightarrow> (go_error + (string \<times> wire_attachment list) option) \<times> 's"
  vrDetach :: "string \<Rightarrow> string \<Rightarrow> 's \<Rightarrow> (go_error + unit) \<times> 's"
  vrList :: "string list \<Rightarrow> 's \<Rightarrow> go_error + (string \<times> wire_attachment) list"

definition attach_request :: "volume_attach_spec \<Rightarrow> attach_volume_request" where
  "attach_request spec =
    \<lparr> aq_volume_id = vs_volume_id spec, aq_instance_id = vs_instance_id spec,
      aq_instance_name = vs_instance_name spec, aq_instance_zone_id = vs_zone_id spec,
      aq_project_id = vs_project_id spec, aq_device_name = vs_device_name spec, aq_is_boot = vs_is_boot spec,
      aq_mode = attachModeToWire (vs_mode spec), aq_auto_delete = vs_auto_delete spec \<rparr>"

definition attachment_of_wire :: "string \<times> wire_attachment \<Rightarrow> volume_attachment" where
  "attachment_of_wire a =
    (case a of (v, w) \<Rightarrow>
      \<lparr> va_volume_id = v, va_instance_id = wa_instance_id w, va_instance_name = wa_instance_name w,
        va_device_name = wa_device_name w, va_is_boot = wa_is_boot w,
        va_mode = attachModeFromWire (wa_mode w), va_auto_delete = wa_auto_delete w \<rparr>)"

definition storage_client_attach ::
  "'s volume_rpc \<Rightarrow> volume_attach_spec \<Rightarrow> 's \<Rightarrow> (go_error + volume_attachment) \<times> 's" where
  "storage_client_attach R spec s =
    (case vrAttach R (attach_request spec) s of
       (Inl e, s') \<Rightarrow> (Inl (mapStorageErr e), s')
     | (Inr vol, s') \<Rightarrow> (Inr (attachmentFromVolume (vs_instance_id spec) vol), s'))"

definition storage_client_detach :: "'s volume_rpc \<Rightarrow> string \<Rightarrow> string \<Rightarrow> 's \<Rightarrow> (go_error + unit) \<times> 's" where
  "storage_client_detach R volumeID instanceID s =
    (case vrDetach R volumeID instanceID s of (r, s') \<Rightarrow> (map_err mapStorageErr r, s'))"

definition storage_client_list :: "'s volume_rpc \<Rightarrow> string list \<Rightarrow> 's \<Rightarrow> go_error + volume_attachment list" where
  "storage_client_list R instanceIDs s =
    map_err mapStorageErr (map_res (List.map attachment_of_wire) (vrList R instanceIDs s))"

definition storage_client :: "'s volume_rpc \<Rightarrow> 's storage_port" where
  "storage_client R = \<lparr> volAttach = storage_client_attach R, volDetach = storage_client_detach R,
     volList = storage_client_list R \<rparr>"

section \<open>VPCNicClient\<close>

text \<open>The public NetworkInterface of an Attach answer: id, subnet, security groups, MAC.\<close>

record wire_nic =
  wn_id :: string
  wn_subnet_id :: string
  wn_security_group_ids :: "string list"
  wn_mac_address :: string

record attach_nic_request =
  an_nic_id :: string
  an_instance_id :: string
  an_instance_name :: string
  an_instance_zone_id :: string
  an_project_id :: string
  an_index :: int

record 's nic_rpc =
  nrAttach :: "attach_nic_request \<Rightarrow> 's \<Rightarrow> (go_error + wire_nic option) \<times> 's"
  nrDetach :: "string \<Rightarrow> string \<Rightarrow> 's \<Rightarrow> (go_error + unit) \<times> 's"
  nrList :: "string list \<Rightarrow> 's \<Rightarrow> go_error + nic_attachment list"

definition attachmentFromNIC :: "string \<Rightarrow> wire_nic option \<Rightarrow> nic_attachment" where
  "attachmentFromNIC instanceID ni =
    (case ni of
       None \<Rightarrow> \<lparr> na_nic_id = '''', na_instance_id = instanceID, na_index = 0, na_subnet_id = '''', na_v4 = '''',
                 na_v6 = '''', na_sgs = [], na_mac = '''' \<rparr>
     | Some n \<Rightarrow> \<lparr> na_nic_id = wn_id n, na_instance_id = instanceID, na_index = 0, na_subnet_id = wn_subnet_id n,
                   na_v4 = '''', na_v6 = '''', na_sgs = wn_security_group_ids n, na_mac = wn_mac_address n \<rparr>)"

definition vpc_nic_attach :: "'s nic_rpc \<Rightarrow> nic_attach_spec \<Rightarrow> 's \<Rightarrow> (go_error + nic_attachment) \<times> 's" where
  "vpc_nic_attach R spec s =
    (case nrAttach R \<lparr> an_nic_id = ns_nic_id spec, an_instance_id = ns_instance_id spec,
                       an_instance_name = ns_instance_name spec, an_instance_zone_id = ns_zone_id spec,
                       an_project_id = ns_project_id spec, an_index = ns_index spec \<rparr> s of
       (r, s') \<Rightarrow> (map_res (attachmentFromNIC (ns_instance_id spec)) r, s'))"

definition vpc_nic_detach :: "'s nic_rpc \<Rightarrow> string \<Rightarrow> string \<Rightarrow> 's \<Rightarrow> (go_error + unit) \<times> 's" where
  "vpc_nic_detach R nicID instanceID s = nrDetach R nicID instanceID s"

text \<open>The wire attachment of a listing has the fields of NicAttachment, copied one by one.\<close>

definition vpc_nic_list :: "'s nic_rpc \<Rightarrow> string list \<Rightarrow> 's \<Rightarrow> go_error + nic_attachment list" where
  "vpc_nic_list R instanceIDs s =
    map_res (List.map (\<lambda>a. \<lparr> na_nic_id = na_nic_id a, na_instance_id = na_instance_id a, na_index = na_index a,
        na_subnet_id = na_subnet_id a, na_v4 = na_v4 a, na_v6 = na_v6 a, na_sgs = na_sgs a, na_mac = na_mac a \<rparr>))
      (nrList R instanceIDs s)"

definition vpc_nic_client :: "'s nic_rpc \<Rightarrow> 's nic_port" where
  "vpc_nic_client R = \<lparr> nicAttach = vpc_nic_attach R, nicDetach = vpc_nic_detach R, nicList = vpc_nic_list R \<rparr>"

section \<open>What comes back\<close>

text \<open>The storage adapter answers with the whitelisted errors only; the VPC adapter hands
  errors on, and the use case maps them.\<close>

definition whitelisted :: "go_error \<Rightarrow> bool" where
  "whitelisted e \<longleftrightarrow> (\<exists>err. e = mapStorageErr err)"

lemma storage_client_errors:
  "fst (storage_client_attach R spec s) = Inl e \<Longrightarrow> whitelisted e"
  "fst (storage_client_detach R v i s) = Inl e \<Longrightarrow> whitelisted e"
  "storage_client_list R is s = Inl e \<Longrightarrow> whitelisted e"
  by (auto simp: storage_client_attach_def storage_client_detach_def storage_client_list_def whitelisted_def
      map_err_Inl_iff split: prod.splits sum.splits)

text \<open>An attachment the owner recorded for the instance comes back as it was requested.\<close>

definition wire_of_request :: "attach_volume_request \<Rightarrow> wire_attachment" where
  "wire_of_request q = \<lparr> wa_instance_id = aq_instance_id q, wa_instance_name = aq_instance_name q,
     wa_device_name = aq_device_name q, wa_is_boot = aq_is_boot q, wa_mode = aq_mode q, wa_auto_delete = aq_auto_delete q \<rparr>"

lemma attach_reported_back:
  assumes "vs_mode spec \<in> {VolumeAttachModeUnspecified, VolumeAttachModeReadWrite, VolumeAttachModeReadOnly}"
    and "vrAttach R (attach_request spec) s = (Inr (Some (vs_volume_id spec, atts)), s')"
    and "List.find (\<lambda>a. wa_instance_id a = vs_instance_id spec) atts = Some (wire_of_request (attach_request spec))"
  shows "storage_client_attach R spec s = (Inr (attachment_of_spec spec), s')"
  using assms(2,3) attach_mode_roundtrip [OF assms(1)]
  by (simp add: storage_client_attach_def attachmentFromVolume_def Let_def wire_of_request_def attach_request_def
      attachment_of_spec_def)

end
