(* ===== verification/RemoteOwners.thy ===== *)
theory RemoteOwners
  imports PeerRpc Fixtures
begin

text \<open>
  The binding owners as the production process reaches them: the RPC adapters of
  internal/clients over services whose answers can be lost. The locales
  \<^verbatim>\<open>volume_service\<close> and \<^verbatim>\<open>nic_service\<close> are what kacho-storage and kacho-vpc
  promise of their RPCs; through the adapters they give the contract of an owner
  (sublocales), so that everything proved of the sagas holds of the wired process.
\<close>

section \<open>The services\<close>

text \<open>A call that is answered has done what it says; one that fails may have been done or
  not. A listing that is answered is exact.\<close>

locale volume_service =
  fixes inv :: "'s \<Rightarrow> bool"
    and bindings :: "'s \<Rightarrow> (string \<times> string) set"
    and R :: "'s volume_rpc"
  assumes list_answer: "inv s \<Longrightarrow> vrList R is s = Inr xs \<Longrightarrow>
      (\<lambda>(v, a). (v, wa_instance_id a)) ` set xs = {b \<in> bindings s. snd b \<in> set is}"
    and detach_answer: "inv s \<Longrightarrow> vrDetach R v i s = (Inr (), s') \<Longrightarrow> bindings s' = bindings s - {(v, i)}"
    and detach_failed: "inv s \<Longrightarrow> vrDetach R v i s = (Inl e, s') \<Longrightarrow>
      bindings s' = bindings s \<or> bindings s' = bindings s - {(v, i)}"
    and detach_keeps: "inv s \<Longrightarrow> inv (snd (vrDetach R v i s))"
    and attach_binds: "inv s \<Longrightarrow> bindings (snd (vrAttach R q s)) \<subseteq> insert (aq_volume_id q, aq_instance_id q) (bindings s)"
    and attach_keeps: "inv s \<Longrightarrow> inv (snd (vrAttach R q s))"

locale nic_service =
  fixes inv :: "'s \<Rightarrow> bool"
    and bindings :: "'s \<Rightarrow> (string \<times> string) set"
    and R :: "'s nic_rpc"
  assumes list_answer: "inv s \<Longrightarrow> nrList R is s = Inr xs \<Longrightarrow>
      (\<lambda>a. (na_nic_id a, na_instance_id a)) ` set xs = {b \<in> bindings s. snd b \<in> set is}"
    and detach_answer: "inv s \<Longrightarrow> nrDetach R v i s = (Inr (), s') \<Longrightarrow> bindings s' = bindings s - {(v, i)}"
    and detach_failed: "inv s \<Longrightarrow> nrDetach R v i s = (Inl e, s') \<Longrightarrow>
      bindings s' = bindings s \<or> bindings s' = bindings s - {(v, i)}"
    and detach_keeps: "inv s \<Longrightarrow> inv (snd (nrDetach R v i s))"

lemma adapter_sel [simp]:
  "volAttach (storage_client R) = storage_client_attach R" "volDetach (storage_client R) = storage_client_detach R"
  "volList (storage_client R) = storage_client_list R"
  "nicAttach (vpc_nic_client Q) = vpc_nic_attach Q" "nicDetach (vpc_nic_client Q) = nrDetach Q"
  "nicList (vpc_nic_client Q) = nrList Q"
proof -
  have copy: "\<lparr> na_nic_id = na_nic_id a, na_instance_id = na_instance_id a, na_index = na_index a,
        na_subnet_id = na_subnet_id a, na_v4 = na_v4 a, na_v6 = na_v6 a, na_sgs = na_sgs a, na_mac = na_mac a \<rparr> = a" for a :: nic_attachment
    by simp
  show "nicList (vpc_nic_client Q) = nrList Q"
    unfolding vpc_nic_client_def nic_port.simps vpc_nic_list_def copy list.map_ident
    by (simp add: fun_eq_iff map_res_def split: sum.split)
  show "nicDetach (vpc_nic_client Q) = nrDetach Q" by (simp add: vpc_nic_client_def vpc_nic_detach_def fun_eq_iff)
qed (simp_all add: storage_client_def vpc_nic_client_def)

lemma attachment_of_wire_keys [simp]:
  "va_volume_id (attachment_of_wire a) = fst a" "va_instance_id (attachment_of_wire a) = wa_instance_id (snd a)"
  by (simp_all add: attachment_of_wire_def case_prod_beta)

section \<open>The adapters give the contract of an owner\<close>

sublocale volume_service \<subseteq> remote: storage_owner inv bindings "storage_client R"
proof
  show "(\<lambda>a. (va_volume_id a, va_instance_id a)) ` set xs = {b \<in> bindings s. snd b \<in> set is}"
    if s: "inv s" "volList (storage_client R) is s = Inr xs" for s "is" xs
  proof -
    obtain ys where ys: "vrList R is s = Inr ys" "xs = List.map attachment_of_wire ys"
      using s(2) by (auto simp: storage_client_list_def map_res_Inr_iff map_err_Inr_iff)
    show ?thesis using list_answer [OF s(1) ys(1)] by (simp add: ys(2) image_image case_prod_beta)
  qed
  show "inv s \<Longrightarrow> volDetach (storage_client R) v i s = (Inr (), s') \<Longrightarrow> bindings s' = bindings s - {(v, i)}" for s v i s'
    using detach_answer [of s v i] by (auto simp: storage_client_detach_def map_err_Inr_iff split: prod.splits)
  show "inv s \<Longrightarrow> volDetach (storage_client R) v i s = (Inl e, s') \<Longrightarrow>
      bindings s' = bindings s \<or> bindings s' = bindings s - {(v, i)}" for s v i e s'
    using detach_failed [of s v i] by (auto simp: storage_client_detach_def map_err_Inl_iff split: prod.splits)
  show "inv s \<Longrightarrow> inv (snd (volDetach (storage_client R) v i s))" for s v i
    using detach_keeps [of s v i] by (simp add: storage_client_detach_def case_prod_beta)
  show "inv v \<Longrightarrow> volAttach (storage_client R) spec v = (r, v') \<Longrightarrow>
      bindings v' \<subseteq> insert (vs_volume_id spec, vs_instance_id spec) (bindings v)" for v spec r v'
    using attach_binds [of v "attach_request spec"]
    by (auto simp: storage_client_attach_def attach_request_def split: prod.splits sum.splits)
  show "inv v \<Longrightarrow> inv (snd (volAttach (storage_client R) spec v))" for v spec
    using attach_keeps [of v "attach_request spec"]
    by (simp add: storage_client_attach_def case_prod_beta split: sum.split prod.split)
qed

sublocale nic_service \<subseteq> remote: attachment_owner inv bindings "nicList (vpc_nic_client R)" "nicDetach (vpc_nic_client R)"
    na_nic_id na_instance_id
  using list_answer detach_answer detach_failed detach_keeps by unfold_locales auto

context volume_service
begin

lemma adapted: "storage_owner inv bindings (storage_client R)"
  by (rule remote.storage_owner_axioms)

lemma adapted_owner:
  "attachment_owner inv bindings (volList (storage_client R)) (volDetach (storage_client R)) va_volume_id va_instance_id"
  by (rule remote.attachment_owner_axioms)

end

context nic_service
begin

lemma adapted_owner:
  "attachment_owner inv bindings (nicList (vpc_nic_client R)) (nicDetach (vpc_nic_client R)) na_nic_id na_instance_id"
  by (rule remote.attachment_owner_axioms)

end

lemma remote_owners:
  assumes "nic_service invn bn Rn" "volume_service invv bv Rv"
  shows "binding_owners invn bn (vpc_nic_client Rn) invv bv (storage_client Rv)"
  using nic_service.adapted_owner [OF assms(1)] volume_service.adapted_owner [OF assms(2)]
  by (simp only: binding_owners_def)

section \<open>An unreliable network\<close>

text \<open>The in-memory owners as services whose requests and answers can be lost: the state
  carries what will happen to the next calls.\<close>

datatype fate = Delivered | RequestLost | AnswerLost

definition lost :: go_error where "lost = status Unavailable ''connection reset''"

definition over_network :: "('s \<Rightarrow> (go_error + 'a) \<times> 's) \<Rightarrow> 's \<times> fate list \<Rightarrow> (go_error + 'a) \<times> 's \<times> fate list" where
  "over_network call sf =
    (case sf of (s, fs) \<Rightarrow>
      (case fs of
         [] \<Rightarrow> (case call s of (r, s') \<Rightarrow> (r, s', []))
       | Delivered # fs' \<Rightarrow> (case call s of (r, s') \<Rightarrow> (r, s', fs'))
       | RequestLost # fs' \<Rightarrow> (Inl lost, s, fs')
       | AnswerLost # fs' \<Rightarrow> (Inl lost, snd (call s), fs')))"

definition spec_of_volume_request :: "attach_volume_request \<Rightarrow> volume_attach_spec" where
  "spec_of_volume_request q = \<lparr> vs_volume_id = aq_volume_id q, vs_instance_id = aq_instance_id q,
     vs_instance_name = aq_instance_name q, vs_zone_id = aq_instance_zone_id q, vs_project_id = aq_project_id q,
     vs_device_name = aq_device_name q, vs_is_boot = aq_is_boot q, vs_mode = attachModeFromWire (aq_mode q),
     vs_auto_delete = aq_auto_delete q \<rparr>"

definition wire_of_attachment :: "volume_attachment \<Rightarrow> wire_attachment" where
  "wire_of_attachment a = \<lparr> wa_instance_id = va_instance_id a, wa_instance_name = va_instance_name a,
     wa_device_name = va_device_name a, wa_is_boot = va_is_boot a, wa_mode = attachModeToWire (va_mode a),
     wa_auto_delete = va_auto_delete a \<rparr>"

definition net_volume_rpc :: "(volume_owner \<times> fate list) volume_rpc" where
  "net_volume_rpc = \<lparr>
     vrAttach = (\<lambda>q. over_network (\<lambda>s. case mock_vol_attach (spec_of_volume_request q) s of
        (r, s') \<Rightarrow> (map_res (\<lambda>a. Some (va_volume_id a, [wire_of_attachment a])) r, s'))),
     vrDetach = (\<lambda>v i. over_network (mock_vol_detach v i)),
     vrList = (\<lambda>is s. map_res (List.map (\<lambda>a. (va_volume_id a, wire_of_attachment a))) (mock_vol_list is (fst s))) \<rparr>"

definition net_nic_rpc :: "(nic_owner \<times> fate list) nic_rpc" where
  "net_nic_rpc = \<lparr>
     nrAttach = (\<lambda>q. over_network (\<lambda>s. case mock_nic_attach \<lparr> ns_nic_id = an_nic_id q, ns_instance_id = an_instance_id q,
           ns_instance_name = an_instance_name q, ns_zone_id = an_instance_zone_id q, ns_project_id = an_project_id q,
           ns_index = an_index q \<rparr> s of
        (r, s') \<Rightarrow> (map_res (\<lambda>a. Some \<lparr> wn_id = na_nic_id a, wn_subnet_id = na_subnet_id a,
           wn_security_group_ids = na_sgs a, wn_mac_address = na_mac a \<rparr>) r, s'))),
     nrDetach = (\<lambda>n i. over_network (mock_nic_detach n i)),
     nrList = (\<lambda>is s. mock_nic_list is (fst s)) \<rparr>"

text \<open>Whatever a call establishes in both outcomes, it establishes over the network.\<close>

lemma over_network_cases:
  obtains "fst (over_network call (s, fs)) = fst (call s)" "fst (snd (over_network call (s, fs))) = snd (call s)"
  | "fst (over_network call (s, fs)) = Inl lost" "fst (snd (over_network call (s, fs))) = s"
  | "fst (over_network call (s, fs)) = Inl lost" "fst (snd (over_network call (s, fs))) = snd (call s)"
proof (cases fs)
  case Nil
  then show thesis using that(1) by (simp add: over_network_def case_prod_beta)
next
  case (Cons x gs)
  then show thesis using that by (cases x) (simp_all add: over_network_def case_prod_beta)
qed

lemma over_network_fst:
  "P s \<Longrightarrow> P (snd (call s)) \<Longrightarrow> P (fst (snd (over_network call (s, fs))))"
  by (rule over_network_cases [where call = call and s = s and fs = fs]) simp_all

text \<open>A detach over the network removes its binding, or fails with it removed or not.\<close>

lemma over_network_detach:
  assumes "attachment_owner I bind lst det rid iid" "I s" "over_network (det r i) (s, fs) = (res, s', fs')"
  shows "res = Inr () \<Longrightarrow> bind s' = bind s - {(r, i)}" "bind s' = bind s \<or> bind s' = bind s - {(r, i)}"
    "I s'"
proof -
  obtain x t where d: "det r i s = (x, t)" by (cases "det r i s")
  have ok: "x = Inr () \<Longrightarrow> bind t = bind s - {(r, i)}" and err: "bind t = bind s \<or> bind t = bind s - {(r, i)}" and inv: "I t"
    using attachment_owner.det_ok [OF assms(1,2), of r i t] attachment_owner.det_err [OF assms(1,2), of r i _ t]
      attachment_owner.det_inv [OF assms(1,2), of r i] d by (cases x; auto)+
  have e: "fst (over_network (det r i) (s, fs)) = res" "fst (snd (over_network (det r i) (s, fs))) = s'"
    using assms(3) by simp_all
  have "res = x \<and> s' = t \<or> res = Inl lost \<and> (s' = s \<or> s' = t)"
    by (rule over_network_cases [where call = "det r i" and s = s and fs = fs]) (use e d in auto)
  then show "res = Inr () \<Longrightarrow> bind s' = bind s - {(r, i)}" "bind s' = bind s \<or> bind s' = bind s - {(r, i)}" "I s'"
    using ok err inv assms(2) by auto
qed

interpretation net_volumes: volume_service "\<lambda>s. vol_owner_ok (fst s)" "\<lambda>s. vol_bindings (fst s)" net_volume_rpc
proof
  note det = over_network_detach [OF vol_mock.attachment_owner_axioms]
  show "(\<lambda>(v, a). (v, wa_instance_id a)) ` set xs = {b \<in> vol_bindings (fst s). snd b \<in> set is}"
    if s: "vol_owner_ok (fst s)" "vrList net_volume_rpc is s = Inr xs" for s "is" xs
  proof -
    obtain ys where ys: "mock_vol_list is (fst s) = Inr ys" "xs = List.map (\<lambda>a. (va_volume_id a, wire_of_attachment a)) ys"
      using s(2) by (auto simp: net_volume_rpc_def map_res_Inr_iff)
    show ?thesis using vol_mock.list_exact [OF s(1) ys(1)] by (simp add: ys(2) image_image wire_of_attachment_def)
  qed
  show "vol_owner_ok (fst s) \<Longrightarrow> vrDetach net_volume_rpc v i s = (Inr (), s') \<Longrightarrow>
      vol_bindings (fst s') = vol_bindings (fst s) - {(v, i)}" for s v i s'
    using det(1) [of "fst s" v i "snd s" "Inr ()" "fst s'" "snd s'"] by (simp add: net_volume_rpc_def)
  show "vol_owner_ok (fst s) \<Longrightarrow> vrDetach net_volume_rpc v i s = (Inl e, s') \<Longrightarrow>
      vol_bindings (fst s') = vol_bindings (fst s) \<or> vol_bindings (fst s') = vol_bindings (fst s) - {(v, i)}" for s v i e s'
    using det(2) [of "fst s" v i "snd s" "Inl e" "fst s'" "snd s'"] by (simp add: net_volume_rpc_def)
  show "vol_owner_ok (fst s) \<Longrightarrow> vol_owner_ok (fst (snd (vrDetach net_volume_rpc v i s)))" for s v i
    using over_network_fst [of vol_owner_ok "fst s" "mock_vol_detach v i" "snd s"] vol_mock.det_inv [of "fst s" v i]
    by (simp add: net_volume_rpc_def)
  let ?att = "\<lambda>q t. case mock_vol_attach (spec_of_volume_request q) t of
        (r, t') \<Rightarrow> (map_res (\<lambda>a. Some (va_volume_id a, [wire_of_attachment a])) r, t')"
  have att: "snd (?att q t) = snd (mock_vol_attach (spec_of_volume_request q) t)" for q t by (simp add: case_prod_beta)
  show "vol_owner_ok (fst s) \<Longrightarrow> vol_bindings (fst (snd (vrAttach net_volume_rpc q s)))
      \<subseteq> insert (aq_volume_id q, aq_instance_id q) (vol_bindings (fst s))" for s q
    using over_network_fst [of "\<lambda>t. vol_bindings t \<subseteq> insert (aq_volume_id q, aq_instance_id q) (vol_bindings (fst s))" "fst s" "?att q" "snd s"]
      mock_vol_attach_adds [of "spec_of_volume_request q" "fst s"] att [of q "fst s"]
    by (cases "mock_vol_attach (spec_of_volume_request q) (fst s)") (auto simp: net_volume_rpc_def spec_of_volume_request_def)
  show "vol_owner_ok (fst s) \<Longrightarrow> vol_owner_ok (fst (snd (vrAttach net_volume_rpc q s)))" for s q
    using over_network_fst [of vol_owner_ok "fst s" "?att q" "snd s"] mock_vol_attach_inv [of "fst s" "spec_of_volume_request q"] att [of q "fst s"]
    by (simp add: net_volume_rpc_def)
qed

interpretation net_nics: nic_service "\<lambda>s. nic_owner_ok (fst s)" "\<lambda>s. nic_bindings (fst s)" net_nic_rpc
proof
  note det = over_network_detach [OF nic_mock.attachment_owner_axioms]
  show "nic_owner_ok (fst s) \<Longrightarrow> nrList net_nic_rpc is s = Inr xs \<Longrightarrow>
      (\<lambda>a. (na_nic_id a, na_instance_id a)) ` set xs = {b \<in> nic_bindings (fst s). snd b \<in> set is}" for s "is" xs
    using nic_mock.list_exact [of "fst s" "is" xs] by (simp add: net_nic_rpc_def)
  show "nic_owner_ok (fst s) \<Longrightarrow> nrDetach net_nic_rpc v i s = (Inr (), s') \<Longrightarrow>
      nic_bindings (fst s') = nic_bindings (fst s) - {(v, i)}" for s v i s'
    using det(1) [of "fst s" v i "snd s" "Inr ()" "fst s'" "snd s'"] by (simp add: net_nic_rpc_def)
  show "nic_owner_ok (fst s) \<Longrightarrow> nrDetach net_nic_rpc v i s = (Inl e, s') \<Longrightarrow>
      nic_bindings (fst s') = nic_bindings (fst s) \<or> nic_bindings (fst s') = nic_bindings (fst s) - {(v, i)}" for s v i e s'
    using det(2) [of "fst s" v i "snd s" "Inl e" "fst s'" "snd s'"] by (simp add: net_nic_rpc_def)
  show "nic_owner_ok (fst s) \<Longrightarrow> nic_owner_ok (fst (snd (nrDetach net_nic_rpc v i s)))" for s v i
    using over_network_fst [of nic_owner_ok "fst s" "mock_nic_detach v i" "snd s"] nic_mock.det_inv [of "fst s" v i]
    by (simp add: net_nic_rpc_def)
qed


interpretation net_owners: binding_owners "\<lambda>s. nic_owner_ok (fst s)" "\<lambda>s. nic_bindings (fst s)" "vpc_nic_client net_nic_rpc"
    "\<lambda>s. vol_owner_ok (fst s)" "\<lambda>s. vol_bindings (fst s)" "storage_client net_volume_rpc"
  by (rule remote_owners [OF net_nics.nic_service_axioms net_volumes.volume_service_axioms])

section \<open>Deletes that fail and are repeated\<close>

text \<open>Any number of failed runs of the delete worker on the same peers, each with its own
  driver faults.\<close>

inductive failed_deletes ::
  "'n nic_port \<Rightarrow> 'v storage_port \<Rightarrow> string \<Rightarrow> (db, 'n, 'v) world \<Rightarrow> (db, 'n, 'v) world \<Rightarrow> bool" for nc vc i w where
  no_failure: "failed_deletes nc vc i w w"
| one_more: "failed_deletes nc vc i w w1 \<Longrightarrow> iv_nics I = Some nc \<Longrightarrow> iv_vols I = Some vc \<Longrightarrow>
    pg_delete_repo E1 E2 (iv_repo I) \<Longrightarrow> delete_worker I i w1 = (Inl e, w2) \<Longrightarrow> failed_deletes nc vc i w w2"

lemma failed_deletes_keep:
  assumes "failed_deletes nc vc i w w1" "binding_owners invn bn nc invv bv vc" "invn (w_nics w)" "invv (w_vols w)"
    "inst_sel (instances (w_db w)) i = Some r"
  shows "invn (w_nics w1) \<and> invv (w_vols w1)
    \<and> inst_sel (instances (w_db w1)) i \<in> {Some r, Some (r\<lparr> tr_status := ''DELETING'' \<rparr>)}
    \<and> (\<forall>j. j \<noteq> i \<longrightarrow> inst_sel (instances (w_db w1)) j = inst_sel (instances (w_db w)) j)
    \<and> {b \<in> bn (w_nics w1). snd b \<noteq> i} = {b \<in> bn (w_nics w). snd b \<noteq> i}
    \<and> {b \<in> bv (w_vols w1). snd b \<noteq> i} = {b \<in> bv (w_vols w). snd b \<noteq> i}"
  using assms(1)
proof induction
  case no_failure
  then show ?case using assms(3-5) by simp
next
  case (one_more w1 I E1 E2 e w2)
  have v: "invn (w_nics w1)" "invv (w_vols w1)" using one_more.IH by auto
  note f = binding_owners.delete_worker_fails [OF assms(2) one_more.hyps(2-4) v one_more.hyps(5)]
  have "inst_sel (instances (w_db w2)) i \<in> {Some r, Some (r\<lparr> tr_status := ''DELETING'' \<rparr>)}"
    using f(3) one_more.IH by auto
  moreover have "{b \<in> bn (w_nics w2). snd b \<noteq> i} = {b \<in> bn (w_nics w1). snd b \<noteq> i}"
    "{b \<in> bv (w_vols w2). snd b \<noteq> i} = {b \<in> bv (w_vols w1). snd b \<noteq> i}" using f(4) by auto
  ultimately show ?case using f one_more.IH by simp
qed

end
