(* ===== verification/Opaque.thy ===== *)
theory Opaque
  imports Authz RemoteOwners
begin

text \<open>
  What an error may carry out of the service. The mappers of internal/repo/unique.go,
  internal/service/maperr.go and internal/clients exist so that the text of a driver's or a
  peer's error, which may name hosts, databases and queries, stays inside. Here an error is
  blanked down to what the mappers may look at, and every port is shown not to see the
  difference.
\<close>

section \<open>Blanked errors\<close>

text \<open>Of a driver's error the SQLSTATE is kept, or the markers wrapPgErr searches in the text of
  an error that has none.\<close>

definition markers :: "go_error \<Rightarrow> string" where
  "markers e = (if isUniqueViolation e then ''23505;'' else '''') @ (if isFKViolation e then ''23503;'' else '''')
     @ (if isCheckViolation e then ''23514;'' else '''') @ (if isExclusionViolation e then ''23P01;'' else '''')"

definition blank_db :: "go_error \<Rightarrow> go_error" where
  "blank_db e = (if is_no_rows e then NoRows
     else case as_pg e of Some c \<Rightarrow> PgError c '''' | None \<Rightarrow> Plain (markers e))"

definition blank_env :: "env \<Rightarrow> env" where
  "blank_env E = E\<lparr> e_faults :=
     \<lparr> f_begin = map_option (\<lambda>_. Plain '''') (f_begin (e_faults E)), f_query = map_option blank_db (f_query (e_faults E)),
       f_probe = map_option blank_db (f_probe (e_faults E)), f_reload = map_option blank_db (f_reload (e_faults E)),
       f_emit = map_option (\<lambda>_. Plain '''') (f_emit (e_faults E)), f_intent = map_option (\<lambda>_. Plain '''') (f_intent (e_faults E)),
       f_commit = map_option blank_db (f_commit (e_faults E)) \<rparr> \<rparr>"

text \<open>Of the answers of kacho-iam and kacho-geo only the outcome is kept.\<close>

definition blank_peers :: "peers \<Rightarrow> peers" where
  "blank_peers P =
    \<lparr> pe_project_exists = (\<lambda>p. map_err (\<lambda>_. Plain '''') (pe_project_exists P p)),
      pe_get_zone = (\<lambda>z. map_option (\<lambda>e. if is_sentinel e ErrNotFound \<or> from_error e = Some NotFound
                                         then Sentinel ErrNotFound else Plain '''') (pe_get_zone P z)) \<rparr>"

text \<open>Of an owner's error the code is kept, and the message of the codes that are its contract.\<close>

definition contract_codes :: "code set" where
  "contract_codes = {InvalidArgument, FailedPrecondition, NotFound, AlreadyExists, PermissionDenied}"

definition blank_rpc :: "go_error \<Rightarrow> go_error" where
  "blank_rpc e = (case from_error e of None \<Rightarrow> Plain ''''
     | Some c \<Rightarrow> if c \<in> contract_codes then e else status c '''')"

definition blank_volume_rpc :: "'s volume_rpc \<Rightarrow> 's volume_rpc" where
  "blank_volume_rpc R = \<lparr> vrAttach = (\<lambda>q s. apfst (map_err blank_rpc) (vrAttach R q s)),
     vrDetach = (\<lambda>v i s. apfst (map_err blank_rpc) (vrDetach R v i s)), vrList = (\<lambda>is s. map_err blank_rpc (vrList R is s)) \<rparr>"

definition blank_nic_rpc :: "'s nic_rpc \<Rightarrow> 's nic_rpc" where
  "blank_nic_rpc R = \<lparr> nrAttach = (\<lambda>q s. apfst (map_err blank_rpc) (nrAttach R q s)),
     nrDetach = (\<lambda>v i s. apfst (map_err blank_rpc) (nrDetach R v i s)), nrList = (\<lambda>is s. map_err blank_rpc (nrList R is s)) \<rparr>"

section \<open>The mappers do not see the difference\<close>

lemma marker_text:
  "contains_str (markers e) ''23505'' = isUniqueViolation e" "\<not> contains_str (markers e) ''duplicate key value''"
  "contains_str (markers e) ''23503'' = isFKViolation e" "\<not> contains_str (markers e) ''violates foreign key''"
  "contains_str (markers e) ''23514'' = isCheckViolation e" "contains_str (markers e) ''23P01'' = isExclusionViolation e"
  unfolding markers_def
  by (cases "isUniqueViolation e"; cases "isFKViolation e"; cases "isCheckViolation e"; cases "isExclusionViolation e"; simp)+

lemma blank_db_flags [simp]:
  "is_no_rows (blank_db e) = is_no_rows e"
  "\<not> is_no_rows e \<Longrightarrow> isUniqueViolation (blank_db e) = isUniqueViolation e"
  "\<not> is_no_rows e \<Longrightarrow> isFKViolation (blank_db e) = isFKViolation e"
  "\<not> is_no_rows e \<Longrightarrow> isCheckViolation (blank_db e) = isCheckViolation e"
  "\<not> is_no_rows e \<Longrightarrow> isExclusionViolation (blank_db e) = isExclusionViolation e"
proof -
  have plain: "isUniqueViolation (Plain (markers e)) = isUniqueViolation e" "isFKViolation (Plain (markers e)) = isFKViolation e"
    "isCheckViolation (Plain (markers e)) = isCheckViolation e" "isExclusionViolation (Plain (markers e)) = isExclusionViolation e"
    by (subst isUniqueViolation_def isFKViolation_def isCheckViolation_def isExclusionViolation_def, simp add: marker_text)+
  have pg: "as_pg e = Some c \<Longrightarrow> isUniqueViolation (PgError c m) = isUniqueViolation e \<and> isFKViolation (PgError c m) = isFKViolation e
      \<and> isCheckViolation (PgError c m) = isCheckViolation e \<and> isExclusionViolation (PgError c m) = isExclusionViolation e" for c m
    by (simp add: isUniqueViolation_def isFKViolation_def isCheckViolation_def isExclusionViolation_def)
  show "is_no_rows (blank_db e) = is_no_rows e" by (simp add: blank_db_def split: option.splits)
  assume "\<not> is_no_rows e"
  then show "isUniqueViolation (blank_db e) = isUniqueViolation e" "isFKViolation (blank_db e) = isFKViolation e"
    "isCheckViolation (blank_db e) = isCheckViolation e" "isExclusionViolation (blank_db e) = isExclusionViolation e"
    using pg plain by (auto simp: blank_db_def split: option.splits)
qed

lemma wrapPgErr_blank [simp]: "wrapPgErr k i (blank_db e) = wrapPgErr k i e"
  by (cases "is_no_rows e") (simp_all add: wrapPgErr_def)

lemma delete_err_blank [simp]:
  "disk_delete_err i (blank_db e) = disk_delete_err i e" "image_delete_err i (blank_db e) = image_delete_err i e"
  "snapshot_delete_err i (blank_db e) = snapshot_delete_err i e" "instance_delete_err i (blank_db e) = instance_delete_err i e"
  by (cases "is_no_rows e"; simp add: disk_delete_err_def image_delete_err_def snapshot_delete_err_def instance_delete_err_def)+

lemma mapPeerErr_blank [simp]: "mapPeerErr u (blank_rpc e) = mapPeerErr u e"
  by (auto simp: mapPeerErr_def blank_rpc_def contract_codes_def split: option.splits)

lemma mapZoneRefErr_blank: "map_option (mapZoneRefErr z) (pe_get_zone (blank_peers P) z) = map_option (mapZoneRefErr z) (pe_get_zone P z)"
  by (cases "pe_get_zone P z") (auto simp: blank_peers_def mapZoneRefErr_def)

lemma checkProject_blank: "checkProject (blank_peers P) p = checkProject P p"
  by (cases "pe_project_exists P p") (simp_all add: blank_peers_def checkProject_def)

section \<open>Neither do the repositories\<close>

lemma blank_env_sel [simp]:
  "e_now (blank_env E) = e_now E" "e_seq (blank_env E) = e_seq E" "e_pj (blank_env E) = e_pj E"
  "f_query (e_faults (blank_env E)) = map_option blank_db (f_query (e_faults E))"
  "f_probe (e_faults (blank_env E)) = map_option blank_db (f_probe (e_faults E))"
  "f_reload (e_faults (blank_env E)) = map_option blank_db (f_reload (e_faults E))"
  by (simp_all add: blank_env_def)

lemma map_err_guardE: "map_err f (guardE g r) = guardE (map_option f g) (map_err f r)"
  by (cases g) simp_all

lemma in_tx_blank: "(\<And>e. wrap (blank_db e) = wrap e) \<Longrightarrow> in_tx (e_faults (blank_env E)) wrap body = in_tx (e_faults E) wrap body"
  by (auto simp: in_tx_def blank_env_def fun_eq_iff split: option.splits sum.splits)

lemma run_query_blank:
  "(\<And>e. wrap (blank_db e) = wrap e) \<Longrightarrow> map_err wrap (run_query (e_faults (blank_env E)) r) = map_err wrap (run_query (e_faults E) r)"
  by (cases "f_query (e_faults E)") (simp_all add: run_query_def)

lemma reload_blank:
  "(\<And>e. wrap (blank_db e) = wrap e) \<Longrightarrow> map_err wrap (instance_reload (blank_env E) i t) = map_err wrap (instance_reload E i t)"
  by (cases "f_reload (e_faults E)") (simp_all add: instance_reload_def)

lemma emit_blank:
  "or_internal (emitCompute (blank_env E) k i ev p s) = or_internal (emitCompute E k i ev p s)"
  "or_internal (emitFGARegisterIntent (blank_env E) ev k i pr l s) = or_internal (emitFGARegisterIntent E ev k i pr l s)"
  by (auto simp: emitCompute_def emitFGARegisterIntent_def or_internal_def blank_env_def intent_row_def split: option.splits)

lemma probe_blank: "exists_probe (blank_env E) i t msg = exists_probe E i t msg"
  by (cases "f_probe (e_faults E)") (simp_all add: exists_probe_def)

lemmas blanks = in_tx_blank run_query_blank reload_blank emit_blank probe_blank

lemma view_blank: "disk_view (blank_env E) = disk_view E" "image_view (blank_env E) = image_view E"
  "snapshot_view (blank_env E) = snapshot_view E" "instance_view (blank_env E) = instance_view E"
  by (simp_all add: disk_view_def image_view_def snapshot_view_def instance_view_def)

lemma repo_list_blank: "repo_list C (blank_env E) V f p t = repo_list C E V f p t"
  by (simp add: repo_list_def blanks cong: if_cong)

lemma disk_stmt_blank: "disk_update_stmt (blank_env E) i u n s = disk_update_stmt E i u n s"
  by (cases "f_query (e_faults E)"; cases "f_probe (e_faults E)") (simp_all add: disk_update_stmt_def run_query_def cong: if_cong sum.case_cong)

lemma plain_stmt_blank:
  "(\<And>e. wrap (blank_db e) = wrap e) \<Longrightarrow> plain_update_stmt (blank_env E) wrap pk uq chk sc setc i u t = plain_update_stmt E wrap pk uq chk sc setc i u t"
  by (simp add: plain_update_stmt_def blanks cong: if_cong)

lemma instance_stmt_blank: "instance_update_stmt (blank_env E) i u b t = instance_update_stmt E i u b t"
  by (cases "f_query (e_faults E)") (simp_all add: instance_update_stmt_def run_query_def Let_def probe_blank cong: if_cong)

lemma pg_disk_blank: "pg_disk_port C (blank_env E) = pg_disk_port C E"
  by (simp add: pg_disk_port_def fun_eq_iff disk_get_def disk_list_def disk_insert_def disk_update_def disk_delete_def
      disk_set_zone_def blanks view_blank repo_list_blank disk_stmt_blank cong: if_cong)

lemma pg_image_blank: "pg_image_port C (blank_env E) = pg_image_port C E"
  by (simp add: pg_image_port_def fun_eq_iff image_get_def image_latest_by_family_def image_list_def image_insert_def
      image_update_def image_delete_def blanks view_blank repo_list_blank plain_stmt_blank cong: if_cong)

lemma pg_snapshot_blank: "pg_snapshot_port C (blank_env E) = pg_snapshot_port C E"
  by (simp add: pg_snapshot_port_def fun_eq_iff snapshot_get_def snapshot_list_def snapshot_insert_def
      snapshot_update_def snapshot_delete_def blanks view_blank repo_list_blank plain_stmt_blank cong: if_cong)

lemma gate_blank: "gateForAttach (blank_env E) i s = gateForAttach E i s"
  by (cases "f_query (e_faults E)") (simp_all add: gateForAttach_def probe_blank cong: if_cong option.case_cong)

lemma probe_option_blank: "(\<And>e. wrap (blank_db e) = wrap e) \<Longrightarrow> map_option wrap (map_option blank_db x) = map_option wrap x"
  by (cases x) simp_all

lemma mutate_blank: "mutateAndReload (blank_env E) i ev f = mutateAndReload E i ev f"
  by (simp add: mutateAndReload_def blanks probe_option_blank cong: if_cong)

lemma status_blank: "setStatusCAS (blank_env E) i a b = setStatusCAS E i a b" "markDeleting (blank_env E) i = markDeleting E i"
  by (simp_all add: setStatusCAS_def markDeleting_def blanks Let_def cong: if_cong option.case_cong)

lemma pg_instance_blank: "pg_instance_port C (blank_env E) = pg_instance_port C E"
  by (simp add: pg_instance_port_def fun_eq_iff instance_get_def instance_list_def instance_insert_def instance_update_def
      instance_delete_def mergeMetadata_def blanks view_blank repo_list_blank instance_stmt_blank gate_blank mutate_blank
      status_blank cong: if_cong)

lemma pg_disk_type_blank: "pg_disk_type_port C (blank_env E) = pg_disk_type_port C E"
  by (cases "f_query (e_faults E)")
    (simp_all add: pg_disk_type_port_def fun_eq_iff disk_type_get_def disk_type_list_def disk_type_insert_def
      disk_type_update_def disk_type_delete_def run_query_def Let_def split: option.splits prod.splits)

section \<open>Nor do the clients of the owners\<close>

lemma storage_client_blank: "storage_client (blank_volume_rpc R) = storage_client R"
  by (simp add: storage_client_def fun_eq_iff storage_client_attach_def storage_client_detach_def storage_client_list_def
      blank_volume_rpc_def mapStorageErr_def apfst_def map_prod_def map_res_def map_err_def split: prod.splits sum.splits)

text \<open>The NIC client hands errors on; its port is blanked with its calls.\<close>

definition blank_nic_port :: "'s nic_port \<Rightarrow> 's nic_port" where
  "blank_nic_port c = \<lparr> nicAttach = (\<lambda>q s. apfst (map_err blank_rpc) (nicAttach c q s)),
     nicDetach = (\<lambda>r i s. apfst (map_err blank_rpc) (nicDetach c r i s)), nicList = (\<lambda>is s. map_err blank_rpc (nicList c is s)) \<rparr>"

lemma vpc_nic_client_blank: "vpc_nic_client (blank_nic_rpc R) = blank_nic_port (vpc_nic_client R)"
  by (simp add: vpc_nic_client_def blank_nic_port_def blank_nic_rpc_def fun_eq_iff vpc_nic_attach_def vpc_nic_detach_def
      vpc_nic_list_def apfst_def map_prod_def map_res_def map_err_def split: prod.splits sum.splits)

section \<open>Nor do the use cases\<close>

definition pg_instance_service :: "corelib \<Rightarrow> env \<Rightarrow> peers \<Rightarrow> 'n nic_port \<Rightarrow> 'v storage_port \<Rightarrow> (db, 'n, 'v) instance_service" where
  "pg_instance_service C E P c d =
    \<lparr> iv_repo = pg_instance_port C E, iv_peers = P, iv_nics = Some c, iv_vols = Some d, iv_core = C \<rparr>"

text \<open>buildServices: the repositories over one pool, the use cases over them and the clients.\<close>

definition buildServices ::
  "corelib \<Rightarrow> env \<Rightarrow> peers \<Rightarrow> 'n nic_port \<Rightarrow> 'v storage_port \<Rightarrow> (db, 'n, 'v) app \<Rightarrow> (db, 'n, 'v) app" where
  "buildServices C E P nicClient storageClient A =
    A\<lparr> ap_disks := pg_disk_service C E P, ap_images := pg_image_service C E P, ap_snapshots := pg_snapshot_service C E P,
       ap_types := pg_disk_type_port C E,
       ap_instances := pg_instance_service C E P nicClient storageClient \<rparr>"

lemma pg_services_blank:
  "pg_disk_service C (blank_env E) P = pg_disk_service C E P" "pg_image_service C (blank_env E) P = pg_image_service C E P"
  "pg_snapshot_service C (blank_env E) P = pg_snapshot_service C E P"
  by (simp_all add: pg_disk_service_def pg_image_service_def pg_snapshot_service_def pg_disk_blank pg_image_blank
      pg_snapshot_blank pg_disk_type_blank)

lemma disk_peers_blank:
  "disk_service_create (pg_disk_service C E (blank_peers P)) = disk_service_create (pg_disk_service C E P)"
  "disk_service_relocate (pg_disk_service C E (blank_peers P)) = disk_service_relocate (pg_disk_service C E P)"
  by (simp_all add: fun_eq_iff disk_service_create_def disk_do_create_def disk_source_check_def disk_service_relocate_def
      disk_do_relocate_def checkProject_blank mapZoneRefErr_blank Let_def cong: if_cong sum.case_cong)

lemma image_peers_blank: "image_service_create (pg_image_service C E (blank_peers P)) = image_service_create (pg_image_service C E P)"
  by (simp add: fun_eq_iff image_service_create_def image_do_create_def image_source_def checkProject_blank cong: if_cong)

lemma snapshot_peers_blank:
  "snapshot_service_create (pg_snapshot_service C E (blank_peers P)) = snapshot_service_create (pg_snapshot_service C E P)"
  by (simp add: fun_eq_iff snapshot_service_create_def snapshot_do_create_def snapshot_source_def checkProject_blank cong: if_cong)

text \<open>Two instance services that differ in what is blanked.\<close>

abbreviation "blanked C E P c d \<equiv> pg_instance_service C E (blank_peers P) (blank_nic_port c) d"

lemma pg_instance_service_sel [simp]:
  "iv_repo (pg_instance_service C E P c d) = pg_instance_port C E" "iv_peers (pg_instance_service C E P c d) = P"
  "iv_nics (pg_instance_service C E P c d) = Some c" "iv_vols (pg_instance_service C E P c d) = Some d"
  "iv_core (pg_instance_service C E P c d) = C"
  by (simp_all add: pg_instance_service_def)

lemma nic_port_blank [simp]: "nicAttach (blank_nic_port c) q = (\<lambda>s. apfst (map_err blank_rpc) (nicAttach c q s))"
  "nicDetach (blank_nic_port c) r i = (\<lambda>s. apfst (map_err blank_rpc) (nicDetach c r i s))"
  "nicList (blank_nic_port c) is s = map_err blank_rpc (nicList c is s)"
  by (simp_all add: blank_nic_port_def)

lemma mirrors_blank:
  "applyNicMirror (blanked C E P c d) n x = applyNicMirror (pg_instance_service C E P c d) n x"
  "applyNicMirrorBatch (blanked C E P c d) n xs = applyNicMirrorBatch (pg_instance_service C E P c d) n xs"
  "applyVolumeMirror (blanked C E P c d) v x = applyVolumeMirror (pg_instance_service C E P c d) v x"
  "applyVolumeMirrorBatch (blanked C E P c d) v xs = applyVolumeMirrorBatch (pg_instance_service C E P c d) v xs"
  by (simp_all add: applyNicMirror_def applyNicMirrorBatch_def applyVolumeMirror_def applyVolumeMirrorBatch_def map_err_def
      split: sum.splits)

lemma reload_mirror_blank:
  "with_mirrors (blanked C E P c d) = with_mirrors (pg_instance_service C E P c d)"
  "reloadWithMirror (blanked C E P c d) i = reloadWithMirror (pg_instance_service C E P c d) i"
  by (simp_all add: fun_eq_iff with_mirrors_def reloadWithMirror_def mirrors_blank)

lemma mapNicErr_blank [simp]: "mapNicErr (blank_rpc e) = mapNicErr e" "map_err mapNicErr (map_err blank_rpc r) = map_err mapNicErr r"
  by (simp_all add: mapNicErr_def map_err_def split: sum.splits)

lemma nic_step_blank:
  "step_then mapNicErr (on_nics (\<lambda>s. apfst (map_err blank_rpc) (f s))) k = step_then mapNicErr (on_nics f) k"
  by (auto simp: fun_eq_iff step_then_def on_nics_def map_err_def split: prod.splits sum.splits)

lemma detach_all_blank:
  "detach_all (\<lambda>r s. apfst (map_err blank_rpc) (det r s)) mapNicErr rs = detach_all det mapNicErr rs"
proof
  show "detach_all (\<lambda>r s. apfst (map_err blank_rpc) (det r s)) mapNicErr rs s = detach_all det mapNicErr rs s" for s
    by (induction rs arbitrary: s) (auto simp: map_err_def split: prod.splits sum.splits)
qed

lemma release_blank:
  "release_nics (blanked C E P c d) i = release_nics (pg_instance_service C E P c d) i"
  "release_volumes (blanked C E P c d) i = release_volumes (pg_instance_service C E P c d) i"
  "delete_row_last (blanked C E P c d) i = delete_row_last (pg_instance_service C E P c d) i"
  by (simp_all add: fun_eq_iff release_nics_def release_volumes_def delete_row_last_def detach_all_blank)

lemma instance_workers_blank:
  "attach_disk_worker (blanked C E P c d) i q = attach_disk_worker (pg_instance_service C E P c d) i q"
  "detach_disk_worker (blanked C E P c d) i v n = detach_disk_worker (pg_instance_service C E P c d) i v n"
  "attach_nic_worker (blanked C E P c d) i r x = attach_nic_worker (pg_instance_service C E P c d) i r x"
  "detach_nic_worker (blanked C E P c d) i r x z = detach_nic_worker (pg_instance_service C E P c d) i r x z"
  "delete_worker (blanked C E P c d) i = delete_worker (pg_instance_service C E P c d) i"
  "lifecycle_worker (blanked C E P c d) i a b m = lifecycle_worker (pg_instance_service C E P c d) i a b m"
  "simulate_maintenance_worker (blanked C E P c d) i = simulate_maintenance_worker (pg_instance_service C E P c d) i"
  "instance_do_create (blanked C E P c d) now i cq = instance_do_create (pg_instance_service C E P c d) now i cq"
  "instance_do_update (blanked C E P c d) uq = instance_do_update (pg_instance_service C E P c d) uq"
  by (simp_all add: fun_eq_iff attach_disk_worker_def detach_disk_worker_def attach_nic_worker_def detach_nic_worker_def
      delete_worker_def lifecycle_worker_def simulate_maintenance_worker_def instance_do_create_def instance_do_update_def
      reload_mirror_blank mirrors_blank nic_step_blank release_blank checkProject_blank mapZoneRefErr_blank Let_def
      cong: if_cong option.case_cong sum.case_cong prod.case_cong)

lemma instance_reads_blank:
  "instance_service_get (blanked C E P c d) = instance_service_get (pg_instance_service C E P c d)"
  "instance_service_list (blanked C E P c d) = instance_service_list (pg_instance_service C E P c d)"
  "getSerialPortOutput (blanked C E P c d) = getSerialPortOutput (pg_instance_service C E P c d)"
  by (simp_all add: fun_eq_iff instance_service_get_def instance_service_list_def getSerialPortOutput_def
      reload_mirror_blank mirrors_blank)


text \<open>Calls of one resource go through the use cases of that resource.\<close>

lemmas instance_ops_blank = instance_workers_blank instance_reads_blank mirrors_blank reload_mirror_blank

lemma instance_services_blank:
  "instance_service_create (blanked C E P c d) = instance_service_create (pg_instance_service C E P c d)"
  "instance_service_update (blanked C E P c d) = instance_service_update (pg_instance_service C E P c d)"
  "instance_service_update_metadata (blanked C E P c d) = instance_service_update_metadata (pg_instance_service C E P c d)"
  "instance_service_lifecycle (blanked C E P c d) = instance_service_lifecycle (pg_instance_service C E P c d)"
  "instance_service_start (blanked C E P c d) = instance_service_start (pg_instance_service C E P c d)"
  "instance_service_stop (blanked C E P c d) = instance_service_stop (pg_instance_service C E P c d)"
  "instance_service_restart (blanked C E P c d) = instance_service_restart (pg_instance_service C E P c d)"
  "instance_service_simulate_maintenance (blanked C E P c d) = instance_service_simulate_maintenance (pg_instance_service C E P c d)"
  "instance_service_attach_disk (blanked C E P c d) = instance_service_attach_disk (pg_instance_service C E P c d)"
  "instance_service_detach_disk (blanked C E P c d) = instance_service_detach_disk (pg_instance_service C E P c d)"
  "instance_service_attach_nic (blanked C E P c d) = instance_service_attach_nic (pg_instance_service C E P c d)"
  "instance_service_detach_nic (blanked C E P c d) = instance_service_detach_nic (pg_instance_service C E P c d)"
  "instance_service_delete (blanked C E P c d) = instance_service_delete (pg_instance_service C E P c d)"
  "instance_service_list_operations (blanked C E P c d) = instance_service_list_operations (pg_instance_service C E P c d)"
  by (simp_all add: fun_eq_iff instance_service_create_def instance_service_update_def instance_service_update_metadata_def
      instance_service_lifecycle_def instance_service_start_def instance_service_stop_def instance_service_restart_def
      instance_service_simulate_maintenance_def instance_service_attach_disk_def
      instance_service_detach_disk_def instance_service_attach_nic_def instance_service_detach_nic_def
      instance_service_delete_def instance_service_list_operations_def instance_workers_blank)

lemma on_instance_blank: "on_instance (blanked C E P c d) = on_instance (pg_instance_service C E P c d)"
  by (simp add: fun_eq_iff on_instance_def instance_reads_blank)

lemma instance_handlers_blank:
  "instance_handler_get T (blanked C E P c d) = instance_handler_get T (pg_instance_service C E P c d)"
  "instance_handler_list T (blanked C E P c d) = instance_handler_list T (pg_instance_service C E P c d)"
  "instance_handler_create T (blanked C E P c d) = instance_handler_create T (pg_instance_service C E P c d)"
  "instance_handler_update T (blanked C E P c d) = instance_handler_update T (pg_instance_service C E P c d)"
  "instance_handler_update_metadata (blanked C E P c d) = instance_handler_update_metadata (pg_instance_service C E P c d)"
  "instance_handler_delete (blanked C E P c d) = instance_handler_delete (pg_instance_service C E P c d)"
  "instance_handler_serial_port (blanked C E P c d) = instance_handler_serial_port (pg_instance_service C E P c d)"
  "instance_handler_start (blanked C E P c d) = instance_handler_start (pg_instance_service C E P c d)"
  "instance_handler_stop (blanked C E P c d) = instance_handler_stop (pg_instance_service C E P c d)"
  "instance_handler_restart (blanked C E P c d) = instance_handler_restart (pg_instance_service C E P c d)"
  "instance_handler_attach_disk (blanked C E P c d) = instance_handler_attach_disk (pg_instance_service C E P c d)"
  "instance_handler_detach_disk (blanked C E P c d) = instance_handler_detach_disk (pg_instance_service C E P c d)"
  "instance_handler_attach_nic (blanked C E P c d) = instance_handler_attach_nic (pg_instance_service C E P c d)"
  "instance_handler_detach_nic (blanked C E P c d) = instance_handler_detach_nic (pg_instance_service C E P c d)"
  "instance_handler_list_operations (blanked C E P c d) = instance_handler_list_operations (pg_instance_service C E P c d)"
  "instance_handler_simulate_maintenance (blanked C E P c d) = instance_handler_simulate_maintenance (pg_instance_service C E P c d)"
  by (simp_all add: fun_eq_iff instance_handler_get_def instance_handler_list_def instance_handler_create_def
      instance_handler_update_def instance_handler_update_metadata_def instance_handler_delete_def
      instance_handler_serial_port_def instance_handler_lifecycle_def instance_handler_start_def instance_handler_stop_def instance_handler_restart_def
      instance_handler_attach_disk_def instance_handler_detach_disk_def instance_handler_attach_nic_def
      instance_handler_detach_nic_def instance_handler_list_operations_def instance_handler_simulate_maintenance_def
      instance_services_blank instance_reads_blank on_instance_blank cong: option.case_cong detach_nic_arm.case_cong)

section \<open>The API\<close>

lemma owner_clients_blank:
  "buildServices C (blank_env E) (blank_peers P) (vpc_nic_client (blank_nic_rpc Rn)) (storage_client (blank_volume_rpc Rv)) A
   = buildServices C E (blank_peers P) (blank_nic_port (vpc_nic_client Rn)) (storage_client Rv) A"
  by (simp add: buildServices_def pg_services_blank pg_disk_type_blank pg_instance_service_def pg_instance_blank
      storage_client_blank vpc_nic_client_blank)

lemma disk_do_update_blank: "disk_do_update (pg_disk_service C E (blank_peers P)) = disk_do_update (pg_disk_service C E P)"
  by (simp add: fun_eq_iff disk_do_update_def)

lemma image_do_update_blank: "image_do_update (pg_image_service C E (blank_peers P)) = image_do_update (pg_image_service C E P)"
  by (simp add: fun_eq_iff image_do_update_def)

lemma snapshot_do_update_blank:
  "snapshot_do_update (pg_snapshot_service C E (blank_peers P)) = snapshot_do_update (pg_snapshot_service C E P)"
  by (simp add: fun_eq_iff snapshot_do_update_def)

lemma disk_handlers_blank:
  "disk_handler_get (pg_disk_service C E (blank_peers P)) = disk_handler_get (pg_disk_service C E P)"
  "disk_handler_list (pg_disk_service C E (blank_peers P)) = disk_handler_list (pg_disk_service C E P)"
  "disk_handler_create (pg_disk_service C E (blank_peers P)) = disk_handler_create (pg_disk_service C E P)"
  "disk_handler_update (pg_disk_service C E (blank_peers P)) = disk_handler_update (pg_disk_service C E P)"
  "disk_handler_delete (pg_disk_service C E (blank_peers P)) = disk_handler_delete (pg_disk_service C E P)"
  "disk_handler_relocate (pg_disk_service C E (blank_peers P)) = disk_handler_relocate (pg_disk_service C E P)"
  "disk_handler_list_operations (pg_disk_service C E (blank_peers P)) = disk_handler_list_operations (pg_disk_service C E P)"
  by (simp_all add: fun_eq_iff disk_handler_get_def disk_handler_list_def disk_handler_create_def disk_handler_update_def
      disk_handler_delete_def disk_handler_relocate_def disk_handler_list_operations_def disk_peers_blank
      disk_service_get_def disk_service_list_def disk_service_update_def disk_service_delete_def
      disk_service_list_operations_def disk_do_update_blank cong: if_cong)

lemma image_handlers_blank:
  "image_handler_get (pg_image_service C E (blank_peers P)) = image_handler_get (pg_image_service C E P)"
  "image_handler_latest (pg_image_service C E (blank_peers P)) = image_handler_latest (pg_image_service C E P)"
  "image_handler_list (pg_image_service C E (blank_peers P)) = image_handler_list (pg_image_service C E P)"
  "image_handler_create (pg_image_service C E (blank_peers P)) = image_handler_create (pg_image_service C E P)"
  "image_handler_update (pg_image_service C E (blank_peers P)) = image_handler_update (pg_image_service C E P)"
  "image_handler_delete (pg_image_service C E (blank_peers P)) = image_handler_delete (pg_image_service C E P)"
  "image_handler_list_operations (pg_image_service C E (blank_peers P)) = image_handler_list_operations (pg_image_service C E P)"
  by (simp_all add: fun_eq_iff image_handler_get_def image_handler_latest_def image_handler_list_def image_handler_create_def
      image_handler_update_def image_handler_delete_def image_handler_list_operations_def image_peers_blank
      image_service_get_def image_service_latest_def image_service_list_def image_service_update_def image_service_delete_def
      image_service_list_operations_def image_do_update_blank cong: if_cong)

lemma snapshot_handlers_blank:
  "snapshot_handler_get (pg_snapshot_service C E (blank_peers P)) = snapshot_handler_get (pg_snapshot_service C E P)"
  "snapshot_handler_list (pg_snapshot_service C E (blank_peers P)) = snapshot_handler_list (pg_snapshot_service C E P)"
  "snapshot_handler_create (pg_snapshot_service C E (blank_peers P)) = snapshot_handler_create (pg_snapshot_service C E P)"
  "snapshot_handler_update (pg_snapshot_service C E (blank_peers P)) = snapshot_handler_update (pg_snapshot_service C E P)"
  "snapshot_handler_delete (pg_snapshot_service C E (blank_peers P)) = snapshot_handler_delete (pg_snapshot_service C E P)"
  "snapshot_handler_list_operations (pg_snapshot_service C E (blank_peers P)) = snapshot_handler_list_operations (pg_snapshot_service C E P)"
  by (simp_all add: fun_eq_iff snapshot_handler_get_def snapshot_handler_list_def snapshot_handler_create_def
      snapshot_handler_update_def snapshot_handler_delete_def snapshot_handler_list_operations_def snapshot_peers_blank
      snapshot_service_get_def snapshot_service_list_def snapshot_service_update_def snapshot_service_delete_def
      snapshot_service_list_operations_def snapshot_do_update_blank cong: if_cong)

lemma serve_blank:
  "serve (buildServices C E (blank_peers P) (blank_nic_port c) d A) O1 now i ctx w m q
   = serve (buildServices C E P c d A) O1 now i ctx w m q"
  by (cases q) (simp_all add: buildServices_def disk_handlers_blank image_handlers_blank snapshot_handlers_blank instance_handlers_blank)

end
