(* ===== verification/Operations.thy ===== *)
theory Operations
  imports Access Wire
begin

text \<open>
  Long-running operations as clients reach them: OperationHandler
  (internal/handler/operation\_handler.go) over the repository of operations,
  whose SQL implementation is kacho-corelib's, and the in-memory repository of
  internal/ports/portmock. The locale \<^verbatim>\<open>owned_operations\<close> is the contract the handler
  relies on.
\<close>

section \<open>The repository of operations\<close>

text \<open>The sentinels of kacho-corelib/operations and everything else.\<close>

datatype ops_error = OpsNotFound | OpsAlreadyDone | OpsOther string

record owner =
  ow_type :: string
  ow_id :: string

text \<open>operations.OwnedOperationRepo, and operations.Repo as far as the handler calls it; the
  owned interface is absent when AsOwned fails.\<close>

record 's owned_ops =
  getOwned :: "string \<Rightarrow> owner \<Rightarrow> 's \<Rightarrow> ops_error + operation"
  cancelOwned :: "string \<Rightarrow> owner \<Rightarrow> 's \<Rightarrow> (ops_error + operation) \<times> 's"

record 's ops_repo =
  opsGet :: "string \<Rightarrow> 's \<Rightarrow> ops_error + operation"
  asOwned :: "'s owned_ops option"

section \<open>OperationHandler\<close>

definition mapOpGetErr :: "ops_error \<Rightarrow> string \<Rightarrow> go_error" where
  "mapOpGetErr e i =
    (if e = OpsNotFound then status NotFound (''operation '' @ i @ '' not found'')
     else status Internal ''operation get failed'')"

text \<open>The parameter is operations.OwnerFromPrincipal (kacho-corelib).\<close>

definition operation_handler_get ::
  "(principal \<Rightarrow> owner) \<Rightarrow> 's ops_repo \<Rightarrow> rpc_ctx \<Rightarrow> string \<Rightarrow> 's \<Rightarrow> go_error + pb_operation" where
  "operation_handler_get ofp R ctx i s =
    (if i = '''' then Inl (status InvalidArgument ''operation_id required'')
     else if tn_admin (TenantFromCtx ctx)
     then map_res operationToProto (map_err (\<lambda>e. mapOpGetErr e i) (opsGet R i s))
     else case asOwned R of
       None \<Rightarrow> Inl (status Internal ''operation get failed'')
     | Some W \<Rightarrow> map_res operationToProto
         (map_err (\<lambda>e. mapOpGetErr e i) (getOwned W i (ofp (rx_principal ctx)) s)))"

definition cancel_err :: "string \<Rightarrow> ops_error \<Rightarrow> go_error" where
  "cancel_err i e =
    (case e of
       OpsNotFound \<Rightarrow> status NotFound (''operation '' @ i @ '' not found'')
     | OpsAlreadyDone \<Rightarrow> status FailedPrecondition (''operation '' @ i @ '' already completed'')
     | OpsOther _ \<Rightarrow> status Internal ''operation cancel failed'')"

text \<open>The owner key Cancel uses: the caller's, or for an admin the operation's own.\<close>

definition cancel_owner ::
  "(principal \<Rightarrow> owner) \<Rightarrow> 's ops_repo \<Rightarrow> rpc_ctx \<Rightarrow> string \<Rightarrow> 's \<Rightarrow> go_error + owner" where
  "cancel_owner ofp R ctx i s =
    (if tn_admin (TenantFromCtx ctx)
     then case opsGet R i s of
            Inl e \<Rightarrow> Inl (if e = OpsNotFound then status NotFound (''operation '' @ i @ '' not found'')
                         else status Internal ''operation cancel failed'')
          | Inr op1 \<Rightarrow> Inr \<lparr> ow_type = pr_type (op_principal op1), ow_id = pr_id (op_principal op1) \<rparr>
     else Inr (ofp (rx_principal ctx)))"

definition operation_handler_cancel ::
  "(principal \<Rightarrow> owner) \<Rightarrow> 's ops_repo \<Rightarrow> rpc_ctx \<Rightarrow> string \<Rightarrow> 's \<Rightarrow> (go_error + pb_operation) \<times> 's" where
  "operation_handler_cancel ofp R ctx i s =
    (if i = '''' then (Inl (status InvalidArgument ''operation_id required''), s)
     else case asOwned R of
       None \<Rightarrow> (Inl (status Internal ''operation cancel failed''), s)
     | Some W \<Rightarrow>
        (case cancel_owner ofp R ctx i s of
           Inl e \<Rightarrow> (Inl e, s)
         | Inr w \<Rightarrow>
            (case cancelOwned W i w s of
               (r, s') \<Rightarrow> (map_res operationToProto (map_err (cancel_err i) r), s'))))"

section \<open>The in-memory repository\<close>

text \<open>The map of operations as an association list; a listing follows the map iteration,
  whose order is unspecified.\<close>

type_synonym mock_ops = "(string \<times> operation) list"

definition mock_ops_create :: "operation \<Rightarrow> mock_ops \<Rightarrow> (ops_error + unit) \<times> mock_ops" where
  "mock_ops_create op1 s = (Inr (), AList.update (op_id op1) op1 s)"

definition mock_ops_create_with_principal :: "operation \<Rightarrow> principal \<Rightarrow> mock_ops \<Rightarrow> (ops_error + unit) \<times> mock_ops" where
  "mock_ops_create_with_principal op1 p s = (Inr (), AList.update (op_id op1) (op1\<lparr> op_principal := p \<rparr>) s)"

definition mock_ops_get :: "string \<Rightarrow> mock_ops \<Rightarrow> ops_error + operation" where
  "mock_ops_get i s = (case map_of s i of None \<Rightarrow> Inl OpsNotFound | Some op1 \<Rightarrow> Inr op1)"

definition extractResourceID :: "operation \<Rightarrow> string" where "extractResourceID op1 = ''''"

definition mock_ops_list :: "string \<Rightarrow> mock_ops \<Rightarrow> ops_error + (operation list \<times> string)" where
  "mock_ops_list resourceID s =
    Inr (filter (\<lambda>op1. \<not> (resourceID \<noteq> '''' \<and> extractResourceID op1 \<noteq> resourceID)) (List.map snd s), '''')"

definition mock_ops_mark :: "(operation \<Rightarrow> operation) \<Rightarrow> string \<Rightarrow> mock_ops \<Rightarrow> (ops_error + unit) \<times> mock_ops" where
  "mock_ops_mark f i s =
    (case map_of s i of None \<Rightarrow> (Inl OpsNotFound, s) | Some op1 \<Rightarrow> (Inr (), AList.update i (f op1) s))"

definition mock_ops_mark_done :: "string \<Rightarrow> any_msg option \<Rightarrow> mock_ops \<Rightarrow> (ops_error + unit) \<times> mock_ops" where
  "mock_ops_mark_done i resp = mock_ops_mark (\<lambda>op1. op1\<lparr> op_done := True, op_response := resp \<rparr>) i"

definition mock_ops_mark_error :: "string \<Rightarrow> (code \<times> string) option \<Rightarrow> mock_ops \<Rightarrow> (ops_error + unit) \<times> mock_ops" where
  "mock_ops_mark_error i errStatus = mock_ops_mark (\<lambda>op1. op1\<lparr> op_done := True, op_error := errStatus \<rparr>) i"

definition mock_ops_cancel :: "string \<Rightarrow> mock_ops \<Rightarrow> (ops_error + unit) \<times> mock_ops" where
  "mock_ops_cancel i = mock_ops_mark (\<lambda>op1. op1\<lparr> op_done := True \<rparr>) i"

definition opsOwnerMatches :: "operation \<Rightarrow> owner \<Rightarrow> bool" where
  "opsOwnerMatches op1 w \<longleftrightarrow> pr_type (op_principal op1) = ow_type w \<and> pr_id (op_principal op1) = ow_id w"

definition mock_ops_get_owned :: "string \<Rightarrow> owner \<Rightarrow> mock_ops \<Rightarrow> ops_error + operation" where
  "mock_ops_get_owned i w s =
    (case map_of s i of
       None \<Rightarrow> Inl OpsNotFound
     | Some op1 \<Rightarrow> if \<not> opsOwnerMatches op1 w then Inl OpsNotFound else Inr op1)"

definition cancelled :: "operation \<Rightarrow> operation" where
  "cancelled op1 = op1\<lparr> op_done := True, op_error := Some (Canceled, ''operation cancelled'') \<rparr>"

definition mock_ops_cancel_owned :: "string \<Rightarrow> owner \<Rightarrow> mock_ops \<Rightarrow> (ops_error + operation) \<times> mock_ops" where
  "mock_ops_cancel_owned i w s =
    (case map_of s i of
       None \<Rightarrow> (Inl OpsNotFound, s)
     | Some op1 \<Rightarrow>
        if \<not> opsOwnerMatches op1 w then (Inl OpsNotFound, s)
        else if op_done op1
        then (if map_option fst (op_error op1) = Some Canceled then (Inr op1, s) else (Inl OpsAlreadyDone, s))
        else (Inr (cancelled op1), AList.update i (cancelled op1) s))"

definition mock_ops_list_owned :: "string \<Rightarrow> owner \<Rightarrow> mock_ops \<Rightarrow> ops_error + (operation list \<times> string)" where
  "mock_ops_list_owned resourceID w s =
    Inr (filter (\<lambda>op1. opsOwnerMatches op1 w \<and> \<not> (resourceID \<noteq> '''' \<and> extractResourceID op1 \<noteq> resourceID)) (List.map snd s), '''')"

definition mock_owned_ops :: "mock_ops owned_ops" where
  "mock_owned_ops = \<lparr> getOwned = mock_ops_get_owned, cancelOwned = mock_ops_cancel_owned \<rparr>"

definition mock_ops_repo :: "mock_ops ops_repo" where
  "mock_ops_repo = \<lparr> opsGet = mock_ops_get, asOwned = Some mock_owned_ops \<rparr>"

section \<open>The contract\<close>

text \<open>What a caller may know of the repository: its own operations.\<close>

definition owned_view :: "owner \<Rightarrow> operation option \<Rightarrow> operation option" where
  "owned_view w x = (case x of None \<Rightarrow> None | Some op1 \<Rightarrow> if opsOwnerMatches op1 w then Some op1 else None)"

text \<open>The effect of a cancellation on one operation, and its answer.\<close>

definition cancel_effect :: "operation \<Rightarrow> operation" where
  "cancel_effect op1 = (if op_done op1 then op1 else cancelled op1)"

definition cancel_answer :: "operation \<Rightarrow> ops_error + operation" where
  "cancel_answer op1 =
    (if op_done op1 then (if map_option fst (op_error op1) = Some Canceled then Inr op1 else Inl OpsAlreadyDone)
     else Inr (cancelled op1))"

text \<open>The operation a caller's request is about: an admin sees all of them.\<close>

definition seen :: "(principal \<Rightarrow> owner) \<Rightarrow> rpc_ctx \<Rightarrow> operation option \<Rightarrow> operation option" where
  "seen ofp ctx x = (if tn_admin (TenantFromCtx ctx) then x else owned_view (ofp (rx_principal ctx)) x)"

locale owned_operations =
  fixes lookup :: "'s \<Rightarrow> string \<Rightarrow> operation option"
    and R :: "'s ops_repo" and W :: "'s owned_ops"
  assumes owned_iface: "asOwned R = Some W"
    and get_exact: "opsGet R i s = (case lookup s i of None \<Rightarrow> Inl OpsNotFound | Some op1 \<Rightarrow> Inr op1)"
    and get_owned: "getOwned W i w s = (case owned_view w (lookup s i) of None \<Rightarrow> Inl OpsNotFound | Some op1 \<Rightarrow> Inr op1)"
    and cancel_hidden: "owned_view w (lookup s i) = None \<Longrightarrow> cancelOwned W i w s = (Inl OpsNotFound, s)"
    and cancel_owned: "owned_view w (lookup s i) = Some op1 \<Longrightarrow> fst (cancelOwned W i w s) = cancel_answer op1
        \<and> lookup (snd (cancelOwned W i w s)) = (lookup s)(i \<mapsto> cancel_effect op1)"
begin

lemma cancel_spec:
  "fst (cancelOwned W i w s) = (case owned_view w (lookup s i) of None \<Rightarrow> Inl OpsNotFound | Some op1 \<Rightarrow> cancel_answer op1)"
  "lookup (snd (cancelOwned W i w s)) =
    (case owned_view w (lookup s i) of None \<Rightarrow> lookup s | Some op1 \<Rightarrow> (lookup s)(i \<mapsto> cancel_effect op1))"
  by (cases "owned_view w (lookup s i)"; use cancel_hidden cancel_owned in simp)+

lemma handler_get_spec:
  assumes "i \<noteq> ''''"
  shows "operation_handler_get ofp R ctx i s =
    (case seen ofp ctx (lookup s i) of None \<Rightarrow> Inl (status NotFound (''operation '' @ i @ '' not found'')) | Some op1 \<Rightarrow> Inr (operationToProto op1))"
  using assms by (simp add: operation_handler_get_def owned_iface get_exact get_owned seen_def mapOpGetErr_def split: option.splits)

lemma handler_cancel_spec:
  assumes "i \<noteq> ''''"
  shows "fst (operation_handler_cancel ofp R ctx i s) =
      (case seen ofp ctx (lookup s i) of None \<Rightarrow> Inl (status NotFound (''operation '' @ i @ '' not found''))
       | Some op1 \<Rightarrow> map_res operationToProto (map_err (cancel_err i) (cancel_answer op1)))"
    and "lookup (snd (operation_handler_cancel ofp R ctx i s)) =
      (case seen ofp ctx (lookup s i) of None \<Rightarrow> lookup s | Some op1 \<Rightarrow> (lookup s)(i \<mapsto> cancel_effect op1))"
proof -
  have run: "cancel_owner ofp R ctx i s = Inr w \<Longrightarrow> operation_handler_cancel ofp R ctx i s =
      (map_res operationToProto (map_err (cancel_err i) (fst (cancelOwned W i w s))), snd (cancelOwned W i w s))" for w
    using assms owned_iface by (simp add: operation_handler_cancel_def split: prod.splits)
  have "(\<exists>w. cancel_owner ofp R ctx i s = Inr w \<and> owned_view w (lookup s i) = seen ofp ctx (lookup s i))
    \<or> (seen ofp ctx (lookup s i) = None \<and> cancel_owner ofp R ctx i s = Inl (status NotFound (''operation '' @ i @ '' not found'')))"
    by (auto simp: cancel_owner_def get_exact seen_def owned_view_def opsOwnerMatches_def split: option.splits)
  then show "fst (operation_handler_cancel ofp R ctx i s) =
      (case seen ofp ctx (lookup s i) of None \<Rightarrow> Inl (status NotFound (''operation '' @ i @ '' not found''))
       | Some op1 \<Rightarrow> map_res operationToProto (map_err (cancel_err i) (cancel_answer op1)))"
    and "lookup (snd (operation_handler_cancel ofp R ctx i s)) =
      (case seen ofp ctx (lookup s i) of None \<Rightarrow> lookup s | Some op1 \<Rightarrow> (lookup s)(i \<mapsto> cancel_effect op1))"
    using run assms owned_iface
    by (auto simp: cancel_spec cancel_err_def operation_handler_cancel_def split: option.splits)
qed

lemma view_effect: "owned_view w (Some (cancel_effect op1)) = map_option cancel_effect (owned_view w (Some op1))"
  by (simp add: owned_view_def cancel_effect_def cancelled_def opsOwnerMatches_def)

text \<open>What a caller cannot see never matters, neither to the answers nor to what the caller
  can see later.\<close>

lemma isolation:
  assumes "\<not> tn_admin (TenantFromCtx ctx)" "i \<noteq> ''''"
    "\<And>j. owned_view (ofp (rx_principal ctx)) (lookup s j) = owned_view (ofp (rx_principal ctx)) (lookup t j)"
  shows "operation_handler_get ofp R ctx i s = operation_handler_get ofp R ctx i t"
    "fst (operation_handler_cancel ofp R ctx i s) = fst (operation_handler_cancel ofp R ctx i t)"
    "owned_view (ofp (rx_principal ctx)) (lookup (snd (operation_handler_cancel ofp R ctx i s)) j)
       = owned_view (ofp (rx_principal ctx)) (lookup (snd (operation_handler_cancel ofp R ctx i t)) j)"
  using assms by (auto simp: handler_get_spec handler_cancel_spec seen_def view_effect split: option.splits)

end

lemma mock_ops_cancel_owned_spec:
  "owned_view w (map_of s i) = None \<Longrightarrow> mock_ops_cancel_owned i w s = (Inl OpsNotFound, s)"
  "owned_view w (map_of s i) = Some op1 \<Longrightarrow> fst (mock_ops_cancel_owned i w s) = cancel_answer op1
     \<and> map_of (snd (mock_ops_cancel_owned i w s)) = (map_of s)(i \<mapsto> cancel_effect op1)"
  by (auto simp: mock_ops_cancel_owned_def owned_view_def cancel_answer_def cancel_effect_def AList.update_conv' fun_eq_iff
      split: option.splits if_splits)

interpretation mock_operations: owned_operations map_of mock_ops_repo mock_owned_ops
  by unfold_locales
    (simp_all add: mock_ops_repo_def mock_owned_ops_def mock_ops_get_def mock_ops_get_owned_def owned_view_def
      mock_ops_cancel_owned_spec split: option.splits)

end
