(* ===== verification/PublicApi.thy ===== *)
theory PublicApi
  imports AccessControl Operations
begin

text \<open>
  The whole public listener (registerPublicServices of cmd/compute/main.go): the calls of the
  resource services of Authz, OperationService, and the access-binding calls that the resource
  services inherit from the generated Unimplemented servers (docs/architecture/04-api-surface.md
  lists them); and what the permission map says of each.
\<close>

section \<open>Calls\<close>

datatype binding_service = DiskBindings | ImageBindings | SnapshotBindings | InstanceBindings

datatype binding_verb = ListAccessBindings | SetAccessBindings | UpdateAccessBindings

datatype (plugins only: code) public_call =
    Resource api_call
  | OperationGet string
  | OperationCancel string
  | AccessBindings binding_service binding_verb

fun binding_name :: "binding_verb \<Rightarrow> string" where
  "binding_name ListAccessBindings = ''ListAccessBindings''"
| "binding_name SetAccessBindings = ''SetAccessBindings''"
| "binding_name UpdateAccessBindings = ''UpdateAccessBindings''"

fun binding_method :: "binding_service \<Rightarrow> binding_verb \<Rightarrow> string" where
  "binding_method DiskBindings v = disk_method (binding_name v)"
| "binding_method ImageBindings v = image_method (binding_name v)"
| "binding_method SnapshotBindings v = snapshot_method (binding_name v)"
| "binding_method InstanceBindings v = instance_method (binding_name v)"

primrec public_method :: "public_call \<Rightarrow> string" where
  "public_method (Resource c) = full_method c"
| "public_method (OperationGet j) = operation_method ''Get''"
| "public_method (OperationCancel j) = operation_method ''Cancel''"
| "public_method (AccessBindings sv v) = binding_method sv v"

section \<open>The server\<close>

text \<open>The answer, and the repository of operations after it; that a started call is recorded
  there is part of runOp (\<^verbatim>\<open>oe_create\<close>) and not shown here.\<close>

primrec serve_public ::
  "('d, 'n, 'v) app \<Rightarrow> (principal \<Rightarrow> owner) \<Rightarrow> 'o ops_repo \<Rightarrow> op_env \<Rightarrow> int \<Rightarrow> string \<Rightarrow> rpc_ctx \<Rightarrow> ('d, 'n, 'v) world
    \<Rightarrow> filter_cache \<Rightarrow> public_call \<Rightarrow> 'o \<Rightarrow> ('d, 'n, 'v) outcome \<times> 'o" where
  "serve_public A ofp R O1 now i ctx w m (Resource c) t = (serve A O1 now i ctx w m c, t)"
| "serve_public A ofp R O1 now i ctx w m (OperationGet j) t = (read_only (operation_handler_get ofp R ctx j t), t)"
| "serve_public A ofp R O1 now i ctx w m (OperationCancel j) t = apfst read_only (operation_handler_cancel ofp R ctx j t)"
| "serve_public A ofp R O1 now i ctx w m (AccessBindings sv v) t = (Inl (unimplemented (binding_name v)), t)"

section \<open>What the permission map says\<close>

datatype admission = Unmapped | Exempt | Checked string string string

text \<open>The id an extractor reads: those of the map read requests of the resource services.\<close>

primrec checked_object :: "(api_call \<Rightarrow> string) \<Rightarrow> public_call \<Rightarrow> string" where
  "checked_object getter (Resource c) = getter c"
| "checked_object getter (OperationGet j) = ''''"
| "checked_object getter (OperationCancel j) = ''''"
| "checked_object getter (AccessBindings sv v) = ''''"

definition admission :: "public_call \<Rightarrow> admission" where
  "admission q =
    (case map_of PermissionMap (public_method q) of
       None \<Rightarrow> Unmapped
     | Some Public \<Rightarrow> Exempt
     | Some (Gate relation objectType getter) \<Rightarrow> Checked relation objectType (checked_object getter q))"

lemma admission_resource:
  "admission (Resource c) = (case required_check c of None \<Rightarrow> Unmapped | Some (relation, objectType, i) \<Rightarrow> Checked relation objectType i)"
  by (cases c) (simp_all add: admission_def required_check_def perm_section disk_permissions_def image_permissions_def
      snapshot_permissions_def instance_permissions_def catalog_permissions_def exempt_permissions_def staticClusterCatalog_def)

lemma admission_operations: "admission (OperationGet j) = Exempt" "admission (OperationCancel j) = Exempt"
  by (simp_all add: admission_def permission_map_simps method_defs)

lemma no_catalog_entry [simp]:
  "map_of catalog_permissions (disk_method a) = None" "map_of exempt_permissions (disk_method a) = None"
  "map_of catalog_permissions (image_method a) = None" "map_of exempt_permissions (image_method a) = None"
  "map_of catalog_permissions (snapshot_method a) = None" "map_of exempt_permissions (snapshot_method a) = None"
  by (simp_all add: permission_map_simps method_defs)

lemma no_binding_entry [simp]:
  "map_of PermissionMap (disk_method (binding_name v)) = None" "map_of PermissionMap (image_method (binding_name v)) = None"
  "map_of PermissionMap (snapshot_method (binding_name v)) = None" "map_of PermissionMap (instance_method (binding_name v)) = None"
  by (simp_all only: perm_section map_of_append map_add_def no_catalog_entry option.case)
    (cases v; simp add: disk_permissions_def image_permissions_def snapshot_permissions_def instance_permissions_def)+

lemma admission_bindings: "admission (AccessBindings sv v) = Unmapped"
  by (cases sv) (simp_all add: admission_def)

text \<open>The calls of the resource services that the map does not know.\<close>

lemma unmapped_resource: "required_check c = None \<longleftrightarrow> (\<exists>d. (\<exists>x. c = InstanceAttachNetworkInterface d x) \<or> (\<exists>x. c = InstanceDetachNetworkInterface d x))"
  by (cases c) (simp_all add: required_check_cases)

lemma gated_methods:
  "IsGatedCreate (public_method q) \<longleftrightarrow>
    public_method q \<in> {disk_method ''Create'', image_method ''Create'', snapshot_method ''Create'', instance_method ''Create''}"
proof (cases q)
  case (Resource c)
  then show ?thesis by (cases c; simp only: public_method.simps full_method.simps; code_simp)
next
  case (AccessBindings sv v)
  then show ?thesis by (cases sv; cases v; simp only: public_method.simps binding_method.simps binding_name.simps; code_simp)
qed (simp only: public_method.simps; code_simp)+

end
