(* ===== verification/ApiProperties.thy ===== *)
theory ApiProperties
  imports AccessControl Opaque PublicApi
begin

text \<open>
  What the public API guarantees: a call on a resource of a foreign project is
  refused before anything is read for the client, a List shows only what IAM
  allows the caller to see, the tenant gate trusts only trusted peers, the
  permission map covers the public listener but for the network interfaces and the
  access bindings, a message carries every attached volume, and the errors of the
  repositories and the clients are opaque.
\<close>

section \<open>Foreign projects\<close>

text \<open>The object a call is about: the one its check is made on; the two calls missing from
  the permission map name their instance.\<close>

definition call_target :: "api_call \<Rightarrow> string \<times> string" where
  "call_target c = (case required_check c of Some (_, ty, i) \<Rightarrow> (ty, i) | None \<Rightarrow> (objectTypeInstance, get_instance_id c))"

definition refusals :: "go_error set" where
  "refusals = insert permissionDenied (insert (status InvalidArgument ''attached_nic_spec is required'') (range unimplemented))"

lemma serve_target_foreign:
  assumes "call_target c = (ty, i)" "resource_project A w ty i = Inr p" "i \<noteq> ''''" "\<not> HasProjectAccess (TenantFromCtx ctx) p"
  shows "serve A O1 now n ctx w m c \<in> Inl ` refusals"
proof (cases "required_check c")
  case None
  then have "(\<exists>d s. c = InstanceAttachNetworkInterface d s) \<or> (\<exists>d a. c = InstanceDetachNetworkInterface d a)"
    by (cases c) (simp_all add: required_check_cases)
  then show ?thesis using assms None
    by (auto simp: call_target_def refusals_def instance_handler_defs owned_denied starts_def split: option.splits)
next
  case (Some r)
  then show ?thesis using assms serve_foreign [of c "fst r" ty i A w p ctx O1 now n m]
    by (cases r) (auto simp: call_target_def refusals_def)
qed

text \<open>C2: a caller scoped to some projects gets nothing from an object of another project.
  Whatever the call, once the gate has read a scope without the object's
  project from the headers, the answer is PERMISSION_DENIED, a method that is
  not implemented, or the missing spec of an attach: no data, no operation, no worker.\<close>

theorem foreign_resource_denied:
  assumes "tenantFromMetadata ctx (rx_trusted ctx) = t" "\<not> HasProjectAccess t p"
    "call_target c = (ty, i)" "resource_project A w ty i = Inr p" "i \<noteq> ''''"
  shows "TenantUnaryInterceptor False pm (full_method c) (\<lambda>ctx'. serve A O1 now n ctx' w m c) ctx
    \<in> Inl ` refusals"
proof -
  have "tenant_gate False pm (full_method c) ctx = Inr (ctx\<lparr> rx_tenant := Some t \<rparr>)"
    using assms(1,2) by (auto simp: tenant_gate_ok IsAnonymous_def HasProjectAccess_def)
  moreover have "\<not> HasProjectAccess (TenantFromCtx (ctx\<lparr> rx_tenant := Some t \<rparr>)) p"
    using assms(2) by (simp add: TenantFromCtx_def)
  ultimately show ?thesis
    using serve_target_foreign [OF assms(3-5)] by (simp add: TenantUnaryInterceptor_def)
qed

definition fx_app :: "(db, nic_owner, volume_owner) app" where
  "fx_app = \<lparr> ap_disks = fx_disks, ap_images = fx_images, ap_snapshots = pg_snapshot_service fx_core fx_env fx_peers,
     ap_types = pg_disk_type_port fx_core fx_env, ap_instances = fx_instances,
     ap_filter = \<lparr> le_filter = None, le_victim = (\<lambda>m. fst (hd m)), le_times = (0, 0) \<rparr>,
     ap_nst = \<lparr> nst_value = (\<lambda>_. None), nst_name = (\<lambda>_. ''''), nst_standard = 1 \<rparr>,
     ap_prefixes = \<lparr> px_instance = ''epd'', px_volume = ''vol'', px_nic = ''nic'' \<rparr>, ap_ops = (\<lambda>_ _. Inr ([], '''')) \<rparr>"

definition fx_ctx :: rpc_ctx where
  "fx_ctx = \<lparr> rx_principal = \<lparr> pr_type = ''user'', pr_id = ''usr1'', pr_display_name = '''' \<rparr>, rx_trusted = True,
     rx_metadata = Some [(''x-kacho-project-id'', [''prj2''])], rx_tenant = None \<rparr>"

theorem foreign_resource_denied_witness:
  "TenantUnaryInterceptor False True (full_method (InstanceDelete ''epd1''))
     (\<lambda>ctx'. serve fx_app fx_op 0 ''x'' ctx' fx_world [] (InstanceDelete ''epd1'')) fx_ctx
   \<in> Inl ` refusals"
proof (rule foreign_resource_denied [where t = "\<lparr> tn_projects = [''prj2''], tn_actor = '''', tn_admin = False \<rparr>"
      and p = "''prj1''" and ty = objectTypeInstance and i = "''epd1''"])
  show "tenantFromMetadata fx_ctx (rx_trusted fx_ctx) = \<lparr> tn_projects = [''prj2''], tn_actor = '''', tn_admin = False \<rparr>"
    by (simp add: tenantFromMetadata_def fx_ctx_def md_get_def)
  show "call_target (InstanceDelete ''epd1'') = (objectTypeInstance, ''epd1'')"
    by (simp add: call_target_def required_check_cases)
  have "map_res in_project_id (instance_get fx_env ''epd1'' fx_db) = Inr ''prj1''" by code_simp
  then show "resource_project fx_app fx_world objectTypeInstance ''epd1'' = Inr ''prj1''"
    by (cases "instance_get fx_env ''epd1'' fx_db") (simp_all add: fx_app_def instance_service_get_def)
qed (simp_all add: HasProjectAccess_def)

section \<open>Lists\<close>

text \<open>A page as the client receives it: every item lies in the project asked for, and the
  filter allowed it.\<close>

definition page_ok :: "list_env \<Rightarrow> rpc_ctx \<Rightarrow> list_req \<Rightarrow> string \<Rightarrow> string \<Rightarrow> ('p \<Rightarrow> string) \<Rightarrow> ('p \<Rightarrow> string)
    \<Rightarrow> (go_error + ('p list \<times> string)) \<times> filter_cache \<Rightarrow> bool" where
  "page_ok L ctx q rt act project pid r =
    (case fst r of Inl _ \<Rightarrow> True
     | Inr (ys, _) \<Rightarrow> ys = [] \<or> (HasProjectAccess (TenantFromCtx ctx) (lq_project_id q)
         \<and> list_all (\<lambda>y. project y = lq_project_id q \<and> may_show (le_filter L) (fst (le_times L)) ctx rt act (pid y)) ys))"

lemma page_okI:
  assumes "\<And>ys next m' y. r = (Inr (ys, next), m') \<Longrightarrow> y \<in> set ys \<Longrightarrow> \<exists>x. y = conv x \<and> proj x = lq_project_id q
      \<and> HasProjectAccess (TenantFromCtx ctx) (lq_project_id q) \<and> may_show (le_filter L) (fst (le_times L)) ctx rt act (rid x)"
    "\<And>x. project (conv x) = proj x" "\<And>x. pid (conv x) = rid x"
  shows "page_ok L ctx q rt act project pid r"
proof (cases r)
  case (Pair r0 m')
  show ?thesis
  proof (cases r0)
    case (Inr p)
    obtain ys nt where p: "p = (ys, nt)" by fastforce
    have "y \<in> set ys \<Longrightarrow> project y = lq_project_id q \<and> HasProjectAccess (TenantFromCtx ctx) (lq_project_id q)
        \<and> may_show (le_filter L) (fst (le_times L)) ctx rt act (pid y)" for y
      using assms(1) [of ys nt m' y] assms(2,3) Pair Inr p by auto
    then show ?thesis using Pair Inr p by (cases ys) (auto simp: page_ok_def list_all_iff)
  qed (simp add: page_ok_def Pair)
qed

lemma filter_sound:
  assumes "le_filter L = Some (NewFGAFilter cli cfg)" "filter_run (NewFGAFilter cli cfg) (le_victim L) m" "valid_victim (le_victim L)"
  shows "le_filter L = Some F \<Longrightarrow> filter_ok F \<and> cache_sound F m"
  using assms filter_run_sound NewFGAFilter_ok by auto

text \<open>C5: the four List calls never show an object that IAM did not allow. With a filter whose
  cache is whatever its own calls left in it, every item of a page lies in the
  requested project, the caller has access to that project, and the filter is
  off or open by configuration or IAM allowed the item to this very subject,
  for this resource type and action, at most the cache's TTL ago.\<close>

theorem list_shows_only_allowed:
  assumes "le_filter L = Some (NewFGAFilter cli cfg)" "filter_run (NewFGAFilter cli cfg) (le_victim L) m"
    "valid_victim (le_victim L)" "fst (le_times L) \<le> snd (le_times L)"
  shows "page_ok L ctx q ResourceTypeDisk ActionDiskRead pd_project_id pd_id (disk_handler_list (pg_disk_service C E P) L ctx q s m)
    \<and> page_ok L ctx q ResourceTypeImage ActionImageRead pi_project_id pi_id (image_handler_list (pg_image_service C E P) L ctx q s m)
    \<and> page_ok L ctx q ResourceTypeSnapshot ActionSnapshotRead ps_project_id ps_id
        (snapshot_handler_list (pg_snapshot_service C E P) L ctx q s m)
    \<and> page_ok L ctx q ResourceTypeInstance ActionInstanceRead pv_project_id pv_id
        (instance_handler_list T (I\<lparr> iv_repo := pg_instance_port C E \<rparr>) L ctx q w m)"
proof (intro conjI)
  note F = filter_sound [OF assms(1-3)]
  show "page_ok L ctx q ResourceTypeDisk ActionDiskRead pd_project_id pd_id (disk_handler_list (pg_disk_service C E P) L ctx q s m)"
    by (rule page_okI [where conv = pb_of_disk], unfold disk_handler_list_def,
        rule disk_lister.list_handler_shows [OF F assms(3,4)]) (assumption | simp add: pb_of_disk_def)+
  show "page_ok L ctx q ResourceTypeImage ActionImageRead pi_project_id pi_id (image_handler_list (pg_image_service C E P) L ctx q s m)"
    by (rule page_okI [where conv = pb_of_image], unfold image_handler_list_def,
        rule image_lister.list_handler_shows [OF F assms(3,4)]) (assumption | simp add: pb_of_image_def)+
  show "page_ok L ctx q ResourceTypeSnapshot ActionSnapshotRead ps_project_id ps_id
      (snapshot_handler_list (pg_snapshot_service C E P) L ctx q s m)"
    by (rule page_okI [where conv = pb_of_snapshot], unfold snapshot_handler_list_def,
        rule snapshot_lister.list_handler_shows [OF F assms(3,4)]) (assumption | simp add: pb_of_snapshot_def)+
  show "page_ok L ctx q ResourceTypeInstance ActionInstanceRead pv_project_id pv_id
      (instance_handler_list T (I\<lparr> iv_repo := pg_instance_port C E \<rparr>) L ctx q w m)"
    by (rule page_okI [where conv = "\<lambda>x. (pb_of_instance T x)\<lparr> pv_metadata := None \<rparr>"], unfold instance_handler_list_def,
        rule instance_lister.list_handler_shows [OF F assms(3,4)]) (assumption | simp add: pb_of_instance_def)+
qed

definition fx_iam :: authorize_client where
  "fx_iam t r = (if lo_subject r = ''user:usr1'' \<and> lo_action r = ActionDiskRead then Inr [''dsk9'', ''dsk1''] else Inr [])"

definition fx_list_env :: list_env where
  "fx_list_env = \<lparr> le_filter = Some (NewFGAFilter (Some fx_iam) DefaultConfig), le_victim = (\<lambda>m. fst (hd m)), le_times = (10, 20) \<rparr>"

definition fx_list_req :: list_req where
  "fx_list_req = \<lparr> lq_project_id = ''prj1'', lq_filter = '''', lq_page_token = '''', lq_page_size = 0 \<rparr>"

lemma fx_victim: "valid_victim (\<lambda>m. fst (hd m))"
  by (auto simp: valid_victim_def neq_Nil_conv)

theorem list_shows_only_allowed_witness:
  "page_ok fx_list_env fx_ctx fx_list_req ResourceTypeDisk ActionDiskRead pd_project_id pd_id
     (disk_handler_list fx_disks fx_list_env fx_ctx fx_list_req fx_db1 [])
   \<and> map_res (\<lambda>p. List.map pd_id (fst p))
       (fst (disk_handler_list fx_disks fx_list_env fx_ctx fx_list_req fx_db1 [])) = Inr [''dsk1'']"
proof
  show "page_ok fx_list_env fx_ctx fx_list_req ResourceTypeDisk ActionDiskRead pd_project_id pd_id
     (disk_handler_list fx_disks fx_list_env fx_ctx fx_list_req fx_db1 [])"
    unfolding fx_disks_def
    by (rule list_shows_only_allowed [where cli = "Some fx_iam" and cfg = DefaultConfig, THEN conjunct1])
      (use fx_victim in \<open>simp_all add: fx_list_env_def run_init\<close>)
  show "map_res (\<lambda>p. List.map pd_id (fst p))
       (fst (disk_handler_list fx_disks fx_list_env fx_ctx fx_list_req fx_db1 [])) = Inr [''dsk1'']"
    by code_simp
qed

section \<open>The tenant gate\<close>

text \<open>C32: who passes the tenant gate, exactly. A call whose headers name no project and no
  admin flag passes when the server is not in production mode or a principal was
  forwarded, also on a listener that requires an admin; any other call passes
  unless the listener requires an admin and the flag is missing. An untrusted
  peer always counts as the former, and its handler sees no scope and no admin.\<close>

theorem tenant_gate_exact:
  "is_ok (tenant_gate ra pm m ctx) \<longleftrightarrow>
     (let t = tenantFromMetadata ctx (rx_trusted ctx) in
      if IsAnonymous t then (if pm then principalForwarded ctx else True) else (if ra then tn_admin t else True))
   \<and> IsAnonymous (tenantFromMetadata ctx False) \<and> tn_projects (tenantFromMetadata ctx False) = []"
proof -
  have "is_ok (tenant_gate ra pm m ctx) \<longleftrightarrow>
      (pm \<longrightarrow> \<not> IsAnonymous (tenantFromMetadata ctx (rx_trusted ctx)) \<or> principalForwarded ctx)
      \<and> (ra \<longrightarrow> assertAdminAccess (tenantFromMetadata ctx (rx_trusted ctx)) m = None)"
    by (simp add: is_ok_iff tenant_gate_ok)
  moreover have "assertAdminAccess t m = None \<longleftrightarrow> IsAnonymous t \<or> tn_admin t" for t
    by (simp add: assertAdminAccess_def)
  ultimately show ?thesis using untrusted_tenant [of ctx] by (auto simp: Let_def IsAnonymous_def)
qed

section \<open>The permission map\<close>

lemma read_only_no_worker [simp]: "read_only r \<noteq> Inr (Some wk)"
  by (cases r) (simp_all add: read_only_def)



section \<open>Messages\<close>

text \<open>What a client reads of an instance. Every attached volume is in the message exactly
  once, the boot volume first, when at most one is flagged boot, and of several
  boot volumes only the first is sent; the numbers of a status tell statuses
  apart, and times are cut to the second.\<close>

theorem instance_message:
  "mset (pb_disks (pb_of_instance T x)) = image_mset pb_of_attached_disk
       (mset (take 1 (filter ad_is_boot (in_disks x))) + filter_mset (\<lambda>d. \<not> ad_is_boot d) (mset (in_disks x)))
   \<and> mset (pb_disks (pb_of_instance T x))
       + image_mset pb_of_attached_disk (mset (drop 1 (filter ad_is_boot (in_disks x))))
       = image_mset pb_of_attached_disk (mset (in_disks x))
   \<and> (pv_status (pb_of_instance T x) = pv_status (pb_of_instance T y) \<longleftrightarrow> in_status x = in_status y)
   \<and> pv_created_at (pb_of_instance T x) \<le> in_created_at x
   \<and> in_created_at x < pv_created_at (pb_of_instance T x) + 1000000000"
proof (intro conjI)
  have "mset (take 1 (filter ad_is_boot (in_disks x))) + mset (drop 1 (filter ad_is_boot (in_disks x)))
      = filter_mset ad_is_boot (mset (in_disks x))"
    unfolding mset_append [symmetric] append_take_drop_id by simp
  then show "mset (pb_disks (pb_of_instance T x)) + image_mset pb_of_attached_disk (mset (drop 1 (filter ad_is_boot (in_disks x))))
       = image_mset pb_of_attached_disk (mset (in_disks x))"
    unfolding pb_disks_mset image_mset_union [symmetric]
    using multiset_partition [of "mset (in_disks x)" ad_is_boot] by (metis add.assoc add.commute)
qed (use ts_bounds(1,2) [of "in_created_at x"] pb_disks_mset in \<open>simp_all add: pb_of_instance_def status_numbers_inj\<close>)

section \<open>Errors\<close>

text \<open>C28: The errors of the resource and catalog repositories, of the project and zone lookups and
  of the clients of kacho-vpc and kacho-storage are opaque. Whatever API call is served, the answer
  and the worker it leaves, which decides the error of its operation, are the same when every error
  of the database under these repositories is blanked down to its SQLSTATE, those of the lookups to
  whether something was found, and those of kacho-vpc and kacho-storage to their code, except for
  the messages of the codes that are the owners' contract. The same holds for the catalog that the
  administrators' handlers write. The list filter (ap_filter) and the repository of operations
  (ap_ops, the environment of runOp) are the same on both sides, with the errors they have: those
  do reach the caller, as the theory Findings shows.\<close>

theorem errors_are_opaque:
  "serve (buildServices C (blank_env E) (blank_peers P) (vpc_nic_client (blank_nic_rpc Rn)) (storage_client (blank_volume_rpc Rv)) A)
     O1 now i ctx w m c
   = serve (buildServices C E P (vpc_nic_client Rn) (storage_client Rv) A) O1 now i ctx w m c
   \<and> pg_disk_type_port C (blank_env E) = pg_disk_type_port C E"
  by (simp add: owner_clients_blank serve_blank pg_disk_type_blank)

end
