(* ===== verification/RepoContract.thy ===== *)
theory RepoContract
  imports Ports
begin

text \<open>
  What a repository promises to the use cases and to the recovery of orphaned
  operations: the locale \<^verbatim>\<open>resource_repo\<close> on the methods Get, Insert and Delete, its
  extension \<^verbatim>\<open>strict_repo\<close> by the uniqueness of ids, and their interpretations on
  the Postgres repositories of the four resources.
\<close>

section \<open>The contract\<close>

definition absent :: "go_error + 'x \<Rightarrow> bool" where
  "absent r = (case r of Inl e \<Rightarrow> is_sentinel e ErrNotFound | Inr _ \<Rightarrow> False)"

lemma absent_simps [simp]: "absent (Inl e) = is_sentinel e ErrNotFound" "\<not> absent (Inr x)"
  by (simp_all add: absent_def)

locale resource_repo =
  fixes ok :: "'s \<Rightarrow> bool"
    and key :: "'x \<Rightarrow> string"
    and get :: "string \<Rightarrow> 's \<Rightarrow> go_error + 'x"
    and ins :: "'x \<Rightarrow> 's \<Rightarrow> (go_error + 'x) \<times> 's"
    and del :: "string \<Rightarrow> 's \<Rightarrow> (go_error + unit) \<times> 's"
  assumes get_key: "ok s \<Longrightarrow> get i s = Inr x \<Longrightarrow> key x = i"
    and ins_ok: "ok s \<Longrightarrow> ok (snd (ins x s))"
    and del_ok: "ok s \<Longrightarrow> ok (snd (del i s))"
    and ins_get: "ins x s = (Inr y, s') \<Longrightarrow> get (key x) s' = Inr y"
    and ins_frame: "ins x s = (Inr y, s') \<Longrightarrow> j \<noteq> key x \<Longrightarrow> get j s' = get j s"
    and ins_err: "ins x s = (Inl e, s') \<Longrightarrow> s' = s"
    and del_was: "del i s = (Inr (), s') \<Longrightarrow> \<not> absent (get i s)"
    and del_gone: "del i s = (Inr (), s') \<Longrightarrow> absent (get i s')"
    and del_frame: "del i s = (Inr (), s') \<Longrightarrow> j \<noteq> i \<Longrightarrow> get j s' = get j s"
    and del_err: "del i s = (Inl e, s') \<Longrightarrow> s' = s"
begin

lemma ins_key: "ok s \<Longrightarrow> ins x s = (Inr y, s') \<Longrightarrow> key y = key x"
  using ins_get get_key ins_ok by (metis snd_conv)

lemma del_twice: "del i s = (Inr (), s1) \<Longrightarrow> fst (del i s1) \<noteq> Inr ()"
  using del_was [of i s1] del_gone [of i s s1] by (metis prod.collapse)

lemma ins_del_restores:
  assumes "ins x s = (Inr y, s1)" "del (key x) s1 = (Inr (), s2)"
  shows "absent (get (key x) s2)" "j \<noteq> key x \<Longrightarrow> get j s2 = get j s"
  using del_gone [OF assms(2)] del_frame [OF assms(2)] ins_frame [OF assms(1)] by simp_all

end

locale strict_repo = resource_repo +
  assumes ins_fresh: "ins x s = (Inr y, s') \<Longrightarrow> absent (get (key x) s)"
begin

lemma ins_twice: "ins x s = (Inr y, s1) \<Longrightarrow> key z = key x \<Longrightarrow> fst (ins z s1) \<noteq> Inr w"
  using ins_fresh [of z s1] ins_get [of x s y s1] by (metis absent_simps(2) prod.collapse)

end

section \<open>The Postgres repositories\<close>

text \<open>The reader of the contract meets no driver fault.\<close>

definition calm :: "env \<Rightarrow> env" where
  "calm E = E\<lparr> e_faults := no_faults \<rparr>"

lemma calm_simps [simp]: "f_query (e_faults (calm E)) = None" "e_pj (calm E) = e_pj E" "calm (calm E) = calm E"
  by (simp_all add: calm_def no_faults_def)

lemma run_query_calm [simp]: "run_query (e_faults (calm E)) r = r"
  by (simp add: run_query_def)

text \<open>Get of a row that a statement left or removed.\<close>

definition get_row :: "string \<Rightarrow> ('r \<Rightarrow> go_error + 'x) \<Rightarrow> string \<Rightarrow> 'r option \<Rightarrow> go_error + 'x" where
  "get_row kind scan i r = map_err (wrapPgErr kind i) (scan_row scan r)"

lemma get_row_Some: "scan r = Inr x \<Longrightarrow> get_row kind scan i (Some r) = Inr x"
  by (simp add: get_row_def scan_row_def)

lemma get_row_None: "absent (get_row kind scan i None)"
  by (simp add: get_row_def scan_row_def wrapPgErr_def)

lemma wrapPgErr_not_found [simp]: "is_sentinel (wrapPgErr kind i e) ErrNotFound \<longleftrightarrow> is_no_rows e"
  by (simp add: wrapPgErr_def)

lemma get_row_present: "(\<And>e. scan r = Inl e \<Longrightarrow> \<not> is_no_rows e) \<Longrightarrow> \<not> absent (get_row kind scan i (Some r))"
  by (cases "scan r") (simp_all add: get_row_def scan_row_def)

lemma unmarshal_rows:
  "unmarshalJSONB f d j fld = Inl e \<Longrightarrow> \<not> is_no_rows e" "unmarshalProtoJSONB P j fld = Inl e \<Longrightarrow> \<not> is_no_rows e"
  by (auto simp: unmarshalJSONB_def unmarshalProtoJSONB_def corrupted_err_def split: option.splits)

lemma bindE_Inl_iff: "bindE r k = Inl e \<longleftrightarrow> r = Inl e \<or> (\<exists>x. r = Inr x \<and> k x = Inl e)"
  by (cases r) auto

lemma scan_rows:
  "scanDisk P dr = Inl e \<Longrightarrow> \<not> is_no_rows e" "scanImage P ir = Inl e \<Longrightarrow> \<not> is_no_rows e"
  "scanSnapshot P sr = Inl e \<Longrightarrow> \<not> is_no_rows e" "scanInstance P tr = Inl e \<Longrightarrow> \<not> is_no_rows e"
  by (auto simp: scanDisk_def scanImage_def scanSnapshot_def scanInstance_def bindE_Inl_iff dest: unmarshal_rows)

lemma calm_get:
  "disk_get (calm E) i s = get_row ''Disk'' (scanDisk (e_pj E)) i (sql_select dr_id i (disks s))"
  "image_get (calm E) i s = get_row ''Image'' (scanImage (e_pj E)) i (sql_select ir_id i (images s))"
  "snapshot_get (calm E) i s = get_row ''Snapshot'' (scanSnapshot (e_pj E)) i (sql_select sr_id i (snapshots s))"
  "instance_get (calm E) i s = get_row ''Instance'' (scanInstance (e_pj E)) i (sql_select tr_id i (instances s))"
  by (simp_all add: disk_get_def image_get_def snapshot_get_def instance_get_def get_row_def)

lemma insertArgs_keys:
  "diskInsertArgs P d = Inr dr \<Longrightarrow> dr_id dr = d_id d" "imageInsertArgs P im = Inr ir \<Longrightarrow> ir_id ir = im_id im"
  "snapshotInsertArgs P sn = Inr sr \<Longrightarrow> sr_id sr = sn_id sn" "instanceInsertArgs P x = Inr tr \<Longrightarrow> tr_id tr = in_id x"
  by (auto simp: diskInsertArgs_def imageInsertArgs_def snapshotInsertArgs_def instanceInsertArgs_def)

text \<open>A table read through a scan, written by one INSERT or DELETE, meets the contract.\<close>

lemma strict_repo_table:
  assumes get: "\<And>i s. get i s = get_row kind scan i (sql_select pk i (tab s))"
    and scan_key: "\<And>r x. scan r = Inr x \<Longrightarrow> key x = pk r" and scan_rows: "\<And>r e. scan r = Inl e \<Longrightarrow> \<not> is_no_rows e"
    and ins: "\<And>x s y s'. ins x s = (Inr y, s') \<Longrightarrow>
        \<exists>row t. pk row = key x \<and> sql_insert pk uq chk row (tab s) = Inr t \<and> scan row = Inr y \<and> tab s' = t"
    and ins_err: "\<And>x s e s'. ins x s = (Inl e, s') \<Longrightarrow> s' = s"
    and del: "\<And>i s s'. del i s = (Inr (), s') \<Longrightarrow> \<exists>r t. sql_delete pk i (tab s) = Some (r, t) \<and> tab s' = t"
    and del_err: "\<And>i s e s'. del i s = (Inl e, s') \<Longrightarrow> s' = s"
  shows "strict_repo (\<lambda>_. True) key get ins del"
proof
  fix s s' i j x y e
  show "get i s = Inr x \<Longrightarrow> key x = i"
    using scan_key by (auto simp: get get_row_def scan_row_def split: option.splits dest: sql_select_Some_D)
  show "ins x s = (Inl e, s') \<Longrightarrow> s' = s" "del i s = (Inl e, s') \<Longrightarrow> s' = s" by (rule ins_err del_err, assumption)+
  show "True" "True" by simp_all
  { assume "ins x s = (Inr y, s')"
    then obtain row t where r: "pk row = key x" "sql_insert pk uq chk row (tab s) = Inr t" "scan row = Inr y" "tab s' = t"
      using ins by blast
    then show "get (key x) s' = Inr y" "j \<noteq> key x \<Longrightarrow> get j s' = get j s" "absent (get (key x) s)"
      using sql_insert_select [OF r(2)] by (simp_all add: get get_row_Some get_row_None sql_insert_Inr) }
  { assume "del i s = (Inr (), s')"
    then obtain r t where r: "sql_delete pk i (tab s) = Some (r, t)" "tab s' = t" using del by blast
    then show "\<not> absent (get i s)" "absent (get i s')" "j \<noteq> i \<Longrightarrow> get j s' = get j s"
      using sql_delete_select [OF r(1)]
      by (simp_all add: get get_row_None get_row_present scan_rows sql_delete_Some) }
qed

interpretation disk_contract: strict_repo "\<lambda>_. True" d_id "disk_get (calm E)" "disk_insert E" "disk_delete E" for E
  by (rule strict_repo_table [OF calm_get(1) _ scan_rows(1) _ disk_insert_err _ disk_delete_error, where uq = disk_uq and chk = disk_chk])
    (auto dest: scanDisk_cols disk_insert_ok insertArgs_keys disk_delete_ok | fastforce dest: disk_insert_ok disk_delete_ok insertArgs_keys)+

interpretation image_contract: strict_repo "\<lambda>_. True" im_id "image_get (calm E)" "image_insert E" "image_delete E" for E
  by (rule strict_repo_table [OF calm_get(2) _ scan_rows(2) _ image_insert_err _ image_delete_error, where uq = image_uq and chk = image_chk])
    (auto dest: scanImage_cols | fastforce dest: image_insert_ok image_delete_ok insertArgs_keys)+

interpretation snapshot_contract: strict_repo "\<lambda>_. True" sn_id "snapshot_get (calm E)" "snapshot_insert E" "snapshot_delete E" for E
  by (rule strict_repo_table [OF calm_get(3) _ scan_rows(3) _ snapshot_insert_err _ snapshot_delete_error, where uq = snapshot_uq and chk = snapshot_chk])
    (auto dest: scanSnapshot_cols | fastforce dest: snapshot_insert_ok snapshot_delete_ok insertArgs_keys)+

interpretation instance_contract: strict_repo "\<lambda>_. True" in_id "instance_get (calm E)" "instance_insert E" "instance_delete E" for E
  by (rule strict_repo_table [OF calm_get(4) _ scan_rows(4) _ instance_insert_err _ instance_delete_error, where uq = instance_uq and chk = instance_chk])
    (auto dest: scanInstance_cols | fastforce dest: instance_insert_ok instance_delete_ok insertArgs_keys)+

end
