(* ===== verification/Recovery.thy ===== *)
theory Recovery
  imports RepoContract Fixtures
begin

text \<open>
  Recovery of orphaned operations (internal/operationresolver): an operation
  whose process died is brought to the outcome its resource shows. The scan for
  orphans is kacho-corelib's; decoding the metadata and packing the response
  are parameters.
\<close>

section \<open>Outcomes\<close>

datatype op_kind = KindCreate | KindUpdate | KindDelete

datatype resolver_result = ResSkip | ResInterrupted | ResDone "any_msg option"

text \<open>strconv.Quote, the verb \<^verbatim>\<open>%q\<close>; bytes above 127 are taken as printable.\<close>

definition hex_digit :: "nat \<Rightarrow> char" where
  "hex_digit n = (if n < 10 then char_of (48 + n) else char_of (87 + n))"

definition quote_char :: "char \<Rightarrow> string" where
  "quote_char c =
    (let n = of_char c :: nat in
     if n = 34 then [CHR 0x5C, c]
     else if n = 92 then [CHR 0x5C, c]
     else if n = 7 then [CHR 0x5C, CHR ''a''] else if n = 8 then [CHR 0x5C, CHR ''b'']
     else if n = 9 then [CHR 0x5C, CHR ''t''] else if n = 10 then [CHR 0x5C, CHR ''n'']
     else if n = 11 then [CHR 0x5C, CHR ''v''] else if n = 12 then [CHR 0x5C, CHR ''f'']
     else if n = 13 then [CHR 0x5C, CHR ''r'']
     else if n < 32 \<or> n = 127 then [CHR 0x5C, CHR ''x'', hex_digit (n div 16), hex_digit (n mod 16)]
     else [c])"

definition go_quote :: "string \<Rightarrow> string" where
  "go_quote s = CHR 0x22 # concat (List.map quote_char s) @ [CHR 0x22]"

section \<open>Resolver\<close>

record 's readers =
  rd_disk :: "(string \<Rightarrow> 's \<Rightarrow> go_error + disk) option"
  rd_image :: "(string \<Rightarrow> 's \<Rightarrow> go_error + image) option"
  rd_snapshot :: "(string \<Rightarrow> 's \<Rightarrow> go_error + snapshot) option"
  rd_instance :: "(string \<Rightarrow> 's \<Rightarrow> go_error + instance_row) option"

record resolver_env =
  rv_decodable :: "op_meta \<Rightarrow> bool"
  rv_new_any :: "any_msg \<Rightarrow> go_error + any_msg"

definition resolveExistence ::
  "op_kind \<Rightarrow> string \<Rightarrow> (string \<Rightarrow> 's \<Rightarrow> go_error + 'x) option \<Rightarrow> ('x \<Rightarrow> go_error + any_msg) \<Rightarrow> 's \<Rightarrow> go_error + resolver_result" where
  "resolveExistence k i reader toAny s =
    (case reader of
       None \<Rightarrow> Inr ResSkip
     | Some get \<Rightarrow>
        (case get i s of
           Inl e \<Rightarrow>
             (if is_sentinel e ErrNotFound
              then Inr (if k = KindDelete then ResDone None else ResInterrupted)
              else Inl (Prefixed (''operationresolver: get '' @ go_quote i) e))
         | Inr rec \<Rightarrow>
             (if k = KindDelete then Inr ResInterrupted
              else case toAny rec of
                     Inl e \<Rightarrow> Inl (Prefixed (''operationresolver: marshal '' @ go_quote i) e)
                   | Inr resp \<Rightarrow> Inr (ResDone (Some resp)))))"

definition marshalDisk :: "resolver_env \<Rightarrow> disk \<Rightarrow> go_error + any_msg" where "marshalDisk V d = rv_new_any V (AnyDisk d)"
definition marshalImage :: "resolver_env \<Rightarrow> image \<Rightarrow> go_error + any_msg" where "marshalImage V i = rv_new_any V (AnyImage i)"
definition marshalSnapshot :: "resolver_env \<Rightarrow> snapshot \<Rightarrow> go_error + any_msg" where
  "marshalSnapshot V x = rv_new_any V (AnySnapshot x)"
definition marshalInstance :: "resolver_env \<Rightarrow> instance_row \<Rightarrow> go_error + any_msg" where
  "marshalInstance V x = rv_new_any V (AnyInstance x)"

text \<open>The generated getter of a metadata field.\<close>

definition meta_field :: "op_meta \<Rightarrow> string \<Rightarrow> string" where
  "meta_field m f = (case map_of (om_fields m) f of None \<Rightarrow> '''' | Some v \<Rightarrow> v)"

datatype resource_kind = ResDisk | ResImage | ResSnapshot | ResInstance

text \<open>The type switch: the resource and the kind of each metadata type.\<close>

definition meta_kinds :: "(string \<times> resource_kind \<times> op_kind) list" where
  "meta_kinds =
    [(''CreateDiskMetadata'', ResDisk, KindCreate), (''UpdateDiskMetadata'', ResDisk, KindUpdate),
     (''RelocateDiskMetadata'', ResDisk, KindUpdate), (''DeleteDiskMetadata'', ResDisk, KindDelete),
     (''CreateImageMetadata'', ResImage, KindCreate), (''UpdateImageMetadata'', ResImage, KindUpdate),
     (''DeleteImageMetadata'', ResImage, KindDelete),
     (''CreateSnapshotMetadata'', ResSnapshot, KindCreate), (''UpdateSnapshotMetadata'', ResSnapshot, KindUpdate),
     (''DeleteSnapshotMetadata'', ResSnapshot, KindDelete),
     (''CreateInstanceMetadata'', ResInstance, KindCreate), (''UpdateInstanceMetadata'', ResInstance, KindUpdate),
     (''DeleteInstanceMetadata'', ResInstance, KindDelete),
     (''StartInstanceMetadata'', ResInstance, KindUpdate), (''StopInstanceMetadata'', ResInstance, KindUpdate),
     (''RestartInstanceMetadata'', ResInstance, KindUpdate), (''AttachInstanceDiskMetadata'', ResInstance, KindUpdate),
     (''DetachInstanceDiskMetadata'', ResInstance, KindUpdate), (''AddInstanceOneToOneNatMetadata'', ResInstance, KindUpdate),
     (''RemoveInstanceOneToOneNatMetadata'', ResInstance, KindUpdate),
     (''UpdateInstanceMetadataMetadata'', ResInstance, KindUpdate),
     (''SimulateInstanceMaintenanceEventMetadata'', ResInstance, KindUpdate)]"

definition resolve_one :: "resolver_env \<Rightarrow> 's readers \<Rightarrow> resource_kind \<Rightarrow> op_kind \<Rightarrow> op_meta \<Rightarrow> 's \<Rightarrow> go_error + resolver_result" where
  "resolve_one V R rk k m s =
    (case rk of
       ResDisk \<Rightarrow> resolveExistence k (meta_field m ''disk_id'') (rd_disk R) (marshalDisk V) s
     | ResImage \<Rightarrow> resolveExistence k (meta_field m ''image_id'') (rd_image R) (marshalImage V) s
     | ResSnapshot \<Rightarrow> resolveExistence k (meta_field m ''snapshot_id'') (rd_snapshot R) (marshalSnapshot V) s
     | ResInstance \<Rightarrow> resolveExistence k (meta_field m ''instance_id'') (rd_instance R) (marshalInstance V) s)"

definition Resolve :: "resolver_env \<Rightarrow> 's readers \<Rightarrow> op_meta option \<Rightarrow> 's \<Rightarrow> go_error + resolver_result" where
  "Resolve V R md s =
    (case md of
       None \<Rightarrow> Inr ResSkip
     | Some m \<Rightarrow>
        (if \<not> rv_decodable V m then Inr ResSkip
         else case map_of meta_kinds (om_type m) of
                None \<Rightarrow> Inr ResSkip
              | Some (rk, k) \<Rightarrow> resolve_one V R rk k m s))"

text \<open>The readers of the composition root: the Postgres repositories.\<close>

definition pg_readers :: "env \<Rightarrow> db readers" where
  "pg_readers E = \<lparr> rd_disk = Some (disk_get E), rd_image = Some (image_get E), rd_snapshot = Some (snapshot_get E),
     rd_instance = Some (instance_get E) \<rparr>"

section \<open>What the resolution says of a worker\<close>

text \<open>The outcome the worker itself would have recorded: an error or its response.\<close>

definition verdict :: "go_error + any_msg \<Rightarrow> resolver_result" where
  "verdict r = (case r of Inl _ \<Rightarrow> ResInterrupted | Inr a \<Rightarrow> ResDone (if a = AnyEmpty then None else Some a))"

lemma verdict_simps [simp]: "verdict (Inl e) = ResInterrupted" "verdict (Inr a) = ResDone (if a = AnyEmpty then None else Some a)"
  by (simp_all add: verdict_def)

context resource_repo
begin

text \<open>A create that is one Insert of the id: whether it committed or not, the resource tells.\<close>

lemma create_resolved:
  assumes "\<And>e s'. w s = (Inl e, s') \<Longrightarrow> s' = s"
    "\<And>a s'. w s = (Inr a, s') \<Longrightarrow> \<exists>x y. key x = i \<and> ins x s = (Inr y, s') \<and> a = wrap y"
    "\<And>y. wrap y \<noteq> AnyEmpty" "absent (get i s)" "\<And>y. toAny y = Inr (wrap y)"
  shows "resolveExistence KindCreate i (Some get) toAny (snd (w s)) = Inr (verdict (fst (w s)))"
proof (cases "w s")
  case (Pair r s')
  show ?thesis
  proof (cases r)
    case (Inl e)
    then have "s' = s" using assms(1) Pair by simp
    then show ?thesis using Pair Inl assms(4) by (cases "get i s") (simp_all add: resolveExistence_def)
  next
    case (Inr a)
    then obtain x y where "key x = i" "ins x s = (Inr y, s')" "a = wrap y" using assms(2) Pair by blast
    then show ?thesis using Pair Inr ins_get [of x s y s'] assms(3,5) by (auto simp: resolveExistence_def)
  qed
qed

lemma delete_resolved:
  assumes "is_ok (get i s)"
  shows "resolveExistence KindDelete i (Some get) toAny (snd (finish (\<lambda>_. AnyEmpty) (del i s)))
      = Inr (verdict (fst (finish (\<lambda>_. AnyEmpty) (del i s))))"
proof (cases "del i s")
  case (Pair r s')
  show ?thesis
  proof (cases r)
    case (Inl e)
    then show ?thesis using Pair assms del_err [of i s e s'] by (auto simp: finish_def is_ok_iff resolveExistence_def)
  next
    case (Inr u)
    then have "absent (get i s')" using Pair del_gone [of i s s'] by simp
    then show ?thesis using Pair Inr by (cases "get i s'") (simp_all add: finish_def resolveExistence_def)
  qed
qed

end

text \<open>operations.New keeps the metadata it is given; every metadata decodes, every response packs.\<close>

definition new_keeps_meta :: "op_env \<Rightarrow> bool" where
  "new_keeps_meta O1 \<longleftrightarrow> (\<forall>desc m o1. oe_new O1 desc m = Inr o1 \<longrightarrow> op_metadata o1 = m)"

definition resolver_works :: "resolver_env \<Rightarrow> bool" where
  "resolver_works V \<longleftrightarrow> (\<forall>m. rv_decodable V m) \<and> (\<forall>a. rv_new_any V a = Inr a)"

text \<open>The orphan of an operation resolved on the state its worker left.\<close>

definition settled :: "resolver_env \<Rightarrow> env \<Rightarrow> operation \<Rightarrow> (go_error + any_msg) \<times> db \<Rightarrow> bool" where
  "settled V E o1 p \<longleftrightarrow> Resolve V (pg_readers (calm E)) (Some (op_metadata o1)) (snd p) = Inr (verdict (fst p))"

lemma runOp_meta: "runOp O1 d m fn = Inr (o1, w) \<Longrightarrow> new_keeps_meta O1 \<Longrightarrow> w = fn \<and> op_metadata o1 = m"
  using runOp_ok by (fastforce simp: new_keeps_meta_def)

lemma Resolve_known:
  "resolver_works V \<Longrightarrow> map_of meta_kinds (om_type m) = Some (rk, k) \<Longrightarrow> Resolve V R (Some m) s = resolve_one V R rk k m s"
  by (simp add: Resolve_def resolver_works_def)

lemma req_ids [simp]:
  "d_id (disk_of_req i now dq) = i" "im_id (image_of_req i now iq sz) = i" "sn_id (snapshot_of_req i now sq d) = i"
  "in_id (instance_of_req i now vq) = i"
  by (simp_all add: disk_of_req_def image_of_req_def snapshot_of_req_def instance_of_req_def)

lemma disk_create_settled:
  assumes "disk_service_create (pg_disk_service C E P) O1 now i req = Inr (o1, w)" "new_keeps_meta O1" "resolver_works V"
    "absent (disk_get (calm E) i s)"
  shows "settled V E o1 (w s)"
proof -
  let ?D = "pg_disk_service C E P"
  have w: "w = disk_do_create ?D now i req" "op_metadata o1 = \<lparr> om_type = ''CreateDiskMetadata'', om_fields = [(''disk_id'', i)] \<rparr>"
    using assms(1,2) by (auto simp: disk_service_create_def dest: runOp_meta split: if_splits)
  have "resolveExistence KindCreate i (Some (disk_get (calm E))) (marshalDisk V) (snd (w s)) = Inr (verdict (fst (w s)))"
  proof (rule disk_contract.create_resolved [where wrap = AnyDisk])
    show "s' = s" if "w s = (Inl e, s')" for e s'
      using atomicD [OF atomic_disk_do_create [of ?D now i req]] atomic_pg(1) w(1) that by simp
    show "\<exists>x y. d_id x = i \<and> disk_insert E x s = (Inr y, s') \<and> a = AnyDisk y" if "w s = (Inr a, s')" for a s'
      using disk_do_create_ok(5) [OF that [unfolded w(1)]] by (intro exI [of "\<lambda>x. \<exists>y. d_id x = i \<and> _ x y" "disk_of_req i now req"]) auto
  qed (use assms(3,4) in \<open>simp_all add: marshalDisk_def resolver_works_def\<close>)
  then show ?thesis using w(2) by (simp add: settled_def Resolve_known [OF assms(3)] meta_kinds_def resolve_one_def pg_readers_def meta_field_def)
qed

lemma image_create_settled:
  assumes "image_service_create (pg_image_service C E P) O1 now i req = Inr (o1, w)" "new_keeps_meta O1" "resolver_works V"
    "absent (image_get (calm E) i s)"
  shows "settled V E o1 (w s)"
proof -
  let ?M = "pg_image_service C E P"
  have w: "w = image_do_create ?M now i req" "op_metadata o1 = \<lparr> om_type = ''CreateImageMetadata'', om_fields = [(''image_id'', i)] \<rparr>"
    using assms(1,2) by (auto simp: image_service_create_def dest: runOp_meta split: if_splits)
  have "resolveExistence KindCreate i (Some (image_get (calm E))) (marshalImage V) (snd (w s)) = Inr (verdict (fst (w s)))"
  proof (rule image_contract.create_resolved [where wrap = AnyImage])
    show "s' = s" if "w s = (Inl e, s')" for e s'
      using atomicD [OF atomic_image_do_create [of ?M now i req]] atomic_pg(5) w(1) that by simp
    show "\<exists>x y. im_id x = i \<and> image_insert E x s = (Inr y, s') \<and> a = AnyImage y" if "w s = (Inr a, s')" for a s'
      using image_do_create_ok [OF that [unfolded w(1)]] by simp (metis req_ids(2))
  qed (use assms(3,4) in \<open>simp_all add: marshalImage_def resolver_works_def\<close>)
  then show ?thesis using w(2) by (simp add: settled_def Resolve_known [OF assms(3)] meta_kinds_def resolve_one_def pg_readers_def meta_field_def)
qed

lemma snapshot_create_settled:
  assumes "snapshot_service_create (pg_snapshot_service C E P) O1 now i req = Inr (o1, w)" "new_keeps_meta O1" "resolver_works V"
    "absent (snapshot_get (calm E) i s)"
  shows "settled V E o1 (w s)"
proof -
  let ?N = "pg_snapshot_service C E P"
  have w: "w = snapshot_do_create ?N now i req"
    "op_metadata o1 = \<lparr> om_type = ''CreateSnapshotMetadata'', om_fields = [(''snapshot_id'', i), (''disk_id'', cs_disk_id req)] \<rparr>"
    using assms(1,2) by (auto simp: snapshot_service_create_def dest: runOp_meta split: if_splits)
  have "resolveExistence KindCreate i (Some (snapshot_get (calm E))) (marshalSnapshot V) (snd (w s)) = Inr (verdict (fst (w s)))"
  proof (rule snapshot_contract.create_resolved [where wrap = AnySnapshot])
    show "s' = s" if "w s = (Inl e, s')" for e s'
      using atomicD [OF atomic_snapshot_do_create [of ?N now i req]] atomic_pg(8) w(1) that by simp
    show "\<exists>x y. sn_id x = i \<and> snapshot_insert E x s = (Inr y, s') \<and> a = AnySnapshot y" if "w s = (Inr a, s')" for a s'
      using snapshot_do_create_ok [OF that [unfolded w(1)]] by simp (metis req_ids(3))
  qed (use assms(3,4) in \<open>simp_all add: marshalSnapshot_def resolver_works_def\<close>)
  then show ?thesis using w(2) by (simp add: settled_def Resolve_known [OF assms(3)] meta_kinds_def resolve_one_def pg_readers_def meta_field_def)
qed

text \<open>The worker of an instance works on the world; the database is what the readers see.\<close>

definition db_part :: "(go_error + any_msg) \<times> ('d, 'n, 'v) world \<Rightarrow> (go_error + any_msg) \<times> 'd" where
  "db_part p = (fst p, w_db (snd p))"

lemma instance_create_settled:
  assumes "instance_service_create (I\<lparr> iv_repo := pg_instance_port C E \<rparr>) O1 now i req = Inr (o1, wk)" "new_keeps_meta O1"
    "resolver_works V" "absent (instance_get (calm E) i (w_db w))"
  shows "settled V E o1 (db_part (wk w))"
proof -
  let ?I = "I\<lparr> iv_repo := pg_instance_port C E \<rparr>"
  let ?wk = "\<lambda>d. db_part (wk (w\<lparr> w_db := d \<rparr>))"
  have w: "wk = instance_do_create ?I now i req"
    "op_metadata o1 = \<lparr> om_type = ''CreateInstanceMetadata'', om_fields = [(''instance_id'', i)] \<rparr>"
    using assms(1,2) by (auto simp: instance_service_create_def dest: runOp_meta)
  have "resolveExistence KindCreate i (Some (instance_get (calm E))) (marshalInstance V) (snd (?wk (w_db w))) = Inr (verdict (fst (?wk (w_db w))))"
  proof (rule instance_contract.create_resolved [where wrap = AnyInstance])
    have "atomic_worker wk" unfolding w(1) instance_do_create_def by (intro atomic_intros) (simp add: atomic_intros)
    then show "s' = w_db w" if "?wk (w_db w) = (Inl e, s')" for e s'
      using that atomicD [of wk w e "snd (wk w)"] by (cases "wk w") (auto simp: db_part_def)
    show "\<exists>x y. in_id x = i \<and> instance_insert E x (w_db w) = (Inr y, s') \<and> a = AnyInstance y" if "?wk (w_db w) = (Inr a, s')" for a s'
      using that unfolding w(1) by (cases "instance_do_create ?I now i req w")
        (auto simp: instance_do_create_def step_ok db_part_def, metis req_ids(4))
  qed (use assms(3,4) in \<open>simp_all add: marshalInstance_def resolver_works_def\<close>)
  then show ?thesis using w(2)
    by (simp add: settled_def Resolve_known [OF assms(3)] meta_kinds_def resolve_one_def pg_readers_def meta_field_def)
qed

lemma storage_deletes_settled:
  assumes "new_keeps_meta O1" "resolver_works V"
  shows "disk_service_delete (pg_disk_service C E P) O1 i = Inr (o1, wd) \<Longrightarrow> is_ok (disk_get (calm E) i s) \<Longrightarrow> settled V E o1 (wd s)"
    and "image_service_delete (pg_image_service C E P) O1 i = Inr (o2, wi) \<Longrightarrow> is_ok (image_get (calm E) i s) \<Longrightarrow> settled V E o2 (wi s)"
    and "snapshot_service_delete (pg_snapshot_service C E P) O1 i = Inr (o3, wn) \<Longrightarrow> is_ok (snapshot_get (calm E) i s) \<Longrightarrow> settled V E o3 (wn s)"
proof -
  note R = Resolve_known [OF assms(2)] settled_def meta_kinds_def resolve_one_def pg_readers_def meta_field_def
  { assume d: "disk_service_delete (pg_disk_service C E P) O1 i = Inr (o1, wd)" "is_ok (disk_get (calm E) i s)"
    then have "wd = (\<lambda>s. finish (\<lambda>_. AnyEmpty) (disk_delete E i s))"
      "op_metadata o1 = \<lparr> om_type = ''DeleteDiskMetadata'', om_fields = [(''disk_id'', i)] \<rparr>"
      using assms(1) by (auto simp: disk_service_delete_def dest: runOp_meta split: if_splits)
    then show "settled V E o1 (wd s)" using disk_contract.delete_resolved [OF d(2)] by (simp add: R) }
  { assume d: "image_service_delete (pg_image_service C E P) O1 i = Inr (o2, wi)" "is_ok (image_get (calm E) i s)"
    then have "wi = (\<lambda>s. finish (\<lambda>_. AnyEmpty) (image_delete E i s))"
      "op_metadata o2 = \<lparr> om_type = ''DeleteImageMetadata'', om_fields = [(''image_id'', i)] \<rparr>"
      using assms(1) by (auto simp: image_service_delete_def dest: runOp_meta split: if_splits)
    then show "settled V E o2 (wi s)" using image_contract.delete_resolved [OF d(2)] by (simp add: R) }
  { assume d: "snapshot_service_delete (pg_snapshot_service C E P) O1 i = Inr (o3, wn)" "is_ok (snapshot_get (calm E) i s)"
    then have "wn = (\<lambda>s. finish (\<lambda>_. AnyEmpty) (snapshot_delete E i s))"
      "op_metadata o3 = \<lparr> om_type = ''DeleteSnapshotMetadata'', om_fields = [(''snapshot_id'', i)] \<rparr>"
      using assms(1) by (auto simp: snapshot_service_delete_def dest: runOp_meta split: if_splits)
    then show "settled V E o3 (wn s)" using snapshot_contract.delete_resolved [OF d(2)] by (simp add: R) }
qed

lemma scan_deleting: "is_ok (scanInstance P r) \<Longrightarrow> is_ok (scanInstance P (r\<lparr> tr_status := x \<rparr>))"
  by (auto simp: is_ok_iff scanInstance_def)

lemma delete_response: "delete_worker I i w = (Inr m, w') \<Longrightarrow> m = AnyEmpty"
  by (erule delete_worker_ok_cases)

text \<open>The Delete saga, which releases bindings before the row goes: an orphan with the row
  still there is interrupted, one without it is done.\<close>

lemma instance_delete_settled:
  assumes "instance_service_delete I O1 i = Inr (o1, wk)" "new_keeps_meta O1" "resolver_works V"
    "binding_owners invn bn nc invv bv vc" "iv_nics I = Some nc" "iv_vols I = Some vc" "pg_delete_repo E E (iv_repo I)"
    "invn (w_nics w)" "invv (w_vols w)" "is_ok (instance_get (calm E) i (w_db w))"
  shows "settled V E o1 (db_part (wk w))"
proof -
  have wk: "wk = delete_worker I i" "op_metadata o1 = \<lparr> om_type = ''DeleteInstanceMetadata'', om_fields = [(''instance_id'', i)] \<rparr>"
    using assms(1,2) by (auto simp: instance_service_delete_def instance_op_def dest: runOp_meta split: if_splits)
  have res: "Resolve V (pg_readers (calm E)) (Some (op_metadata o1)) s =
      resolveExistence KindDelete i (Some (instance_get (calm E))) (marshalInstance V) s" for s
    using wk(2) by (simp add: Resolve_known [OF assms(3)] meta_kinds_def resolve_one_def pg_readers_def meta_field_def)
  obtain r0 where r0: "inst_sel (instances (w_db w)) i = Some r0" "is_ok (scanInstance (e_pj E) r0)"
    using assms(10) instance_get_ok [of "calm E" i "w_db w"] by (auto simp: is_ok_iff)
  show ?thesis
  proof (cases "delete_worker I i w")
    case (Pair r w')
    show ?thesis
    proof (cases r)
      case (Inl e)
      have "inst_sel (instances (w_db w')) i \<in> {Some r0, Some (r0\<lparr> tr_status := ''DELETING'' \<rparr>)}"
        using binding_owners.delete_worker_fails(3) [OF assms(4-9) Pair [unfolded Inl] r0(1)] .
      then have "is_ok (instance_get (calm E) i (w_db w'))"
        using r0(2) scan_deleting [OF r0(2)] by (auto simp: calm_get get_row_def scan_row_def is_ok_iff)
      then show ?thesis using Pair Inl wk(1) by (auto simp: settled_def res db_part_def resolveExistence_def is_ok_iff)
    next
      case (Inr m)
      have "inst_sel (instances (w_db w')) i = None"
        using binding_owners.delete_worker_releases(1) [OF assms(4-9) Pair [unfolded Inr]] .
      then have "absent (instance_get (calm E) i (w_db w'))" by (simp add: calm_get get_row_None)
      then show ?thesis using Pair Inr wk(1) delete_response [OF Pair [unfolded Inr]]
        by (cases "instance_get (calm E) i (w_db w')") (simp_all add: settled_def res db_part_def resolveExistence_def)
    qed
  qed
qed

section \<open>What no resolution settles\<close>

text \<open>The two metadata types of the network-interface calls are not in the switch.\<close>

lemma nic_metadata_unknown:
  "map_of meta_kinds ''AttachInstanceNetworkInterfaceMetadata'' = None"
  "map_of meta_kinds ''DetachInstanceNetworkInterfaceMetadata'' = None"
  by code_simp+

lemma nic_orphans_skipped:
  assumes "new_keeps_meta O1"
    "instance_service_attach_nic I X O1 i nicID index = Inr (o1, wk) \<or> instance_service_detach_nic I X O1 i nicID index byIndex = Inr (o1, wk)"
  shows "Resolve V R (Some (op_metadata o1)) s = Inr ResSkip"
proof -
  have "om_type (op_metadata o1) \<in> {''AttachInstanceNetworkInterfaceMetadata'', ''DetachInstanceNetworkInterfaceMetadata''}"
    using assms(2,1)
    by (auto simp: instance_service_attach_nic_def instance_service_detach_nic_def dest!: runOp_meta split: if_splits)
  then show ?thesis by (auto simp: Resolve_def nic_metadata_unknown)
qed

text \<open>An update or lifecycle orphan whose resource is readable is always done, with what is stored.\<close>

lemma update_resolved:
  "get i s = Inr x \<Longrightarrow> resolveExistence KindUpdate i (Some get) toAny s =
    (case toAny x of Inl e \<Rightarrow> Inl (Prefixed (''operationresolver: marshal '' @ go_quote i) e) | Inr a \<Rightarrow> Inr (ResDone (Some a)))"
  by (simp add: resolveExistence_def split: sum.splits)

end
