(* ===== verification/Watch.thy ===== *)
theory Watch
  imports Db GoError
begin

text \<open>
  The event stream of internal/handler/internal\_watch\_handler.go: batches read
  from compute\_outbox after a cursor, sent in order, until a batch is not full;
  then a wait for a notification and the next read. The table a query sees, the
  payload bytes, JSON decoding and the client's side of the stream are the
  environment.
\<close>

section \<open>The stream\<close>

definition catchupBatchSize :: nat where "catchupBatchSize = 100"

record 'j watch_event =
  ev_seq :: int
  ev_kind :: string
  ev_id :: string
  ev_type :: string
  ev_payload :: 'j
  ev_created_at :: gotime

text \<open>The n-th query sees the table \<^verbatim>\<open>we_table n\<close>; \<^verbatim>\<open>we_fetch n\<close> breaks its result
  off after some rows.\<close>

record 'j watch_env =
  we_table :: "nat \<Rightarrow> outbox_row list"
  we_query :: "nat \<Rightarrow> go_error option"
  we_fetch :: "nat \<Rightarrow> (nat \<times> go_error) option"
  we_scan :: "outbox_row \<Rightarrow> go_error option"
  we_payload :: "outbox_row \<Rightarrow> string"
  we_unmarshal :: "string \<Rightarrow> go_error + 'j"
  we_empty :: 'j
  we_created :: "outbox_row \<Rightarrow> gotime"
  we_send :: "'j watch_event \<Rightarrow> go_error option"

definition contextCanceled :: go_error where "contextCanceled = Plain ''context canceled''"

fun is_canceled :: "go_error \<Rightarrow> bool" where
  "is_canceled (Prefixed _ e) = is_canceled e"
| "is_canceled e = (e = contextCanceled)"

text \<open>strings.TrimSpace leaves nothing of a string of white space.\<close>

definition is_space :: "char \<Rightarrow> bool" where
  "is_space c = (let n = of_char c :: nat in n = 32 \<or> (9 \<le> n \<and> n \<le> 13))"

definition jsonBytesToStruct :: "'j watch_env \<Rightarrow> string \<Rightarrow> go_error + 'j" where
  "jsonBytesToStruct E raw = (if raw = [] \<or> list_all is_space raw then Inr (we_empty E) else we_unmarshal E raw)"

definition event_of_row :: "'j watch_env \<Rightarrow> outbox_row \<Rightarrow> 'j watch_event" where
  "event_of_row E r =
    \<lparr> ev_seq = int (ob_seq r), ev_kind = ob_kind r, ev_id = ob_id r, ev_type = ob_event r,
      ev_payload = (case jsonBytesToStruct E (we_payload E r) of Inl _ \<Rightarrow> we_empty E | Inr j \<Rightarrow> j),
      ev_created_at = we_created E r \<rparr>"

text \<open>\<^verbatim>\<open>WHERE sequence_no > $1 AND resource_kind = ANY($2) ORDER BY sequence_no LIMIT 100\<close>\<close>

definition wanted :: "string list \<Rightarrow> int \<Rightarrow> outbox_row \<Rightarrow> bool" where
  "wanted kinds cursor r \<longleftrightarrow> cursor < int (ob_seq r) \<and> (kinds = [] \<or> ob_kind r \<in> set kinds)"

definition watch_select :: "string list \<Rightarrow> int \<Rightarrow> outbox_row list \<Rightarrow> outbox_row list" where
  "watch_select kinds cursor t = take catchupBatchSize (sort_key ob_seq (filter (wanted kinds cursor) t))"

text \<open>The loop over the rows of a batch: cursor, error, events sent, count.\<close>

fun send_rows :: "'j watch_env \<Rightarrow> outbox_row list \<Rightarrow> int \<Rightarrow> 'j watch_event list \<Rightarrow> nat
    \<Rightarrow> int \<times> go_error option \<times> 'j watch_event list \<times> nat" where
  "send_rows E [] cursor sent n = (cursor, None, sent, n)"
| "send_rows E (r # rs) cursor sent n =
    (case we_scan E r of
       Some e \<Rightarrow> (cursor, Some (internalMapErr ''scan outbox'' e), sent, n)
     | None \<Rightarrow>
        (case we_send E (event_of_row E r) of
           Some e \<Rightarrow> (cursor, Some e, sent, n)
         | None \<Rightarrow> send_rows E rs (int (ob_seq r)) (sent @ [event_of_row E r]) (Suc n)))"

text \<open>A query and its rows; the flag tells whether the loop goes on.\<close>

definition watch_batch :: "'j watch_env \<Rightarrow> string list \<Rightarrow> nat \<Rightarrow> int \<Rightarrow> 'j watch_event list
    \<Rightarrow> bool \<times> int \<times> go_error option \<times> 'j watch_event list" where
  "watch_batch E kinds n cursor sent =
    (case we_query E n of
       Some e \<Rightarrow> (False, cursor, if is_canceled e then None else Some (internalMapErr ''query outbox'' e), sent)
     | None \<Rightarrow>
        (let rows = watch_select kinds cursor (we_table E n);
             (c, err, out, count) = send_rows E (case we_fetch E n of None \<Rightarrow> rows | Some (k, _) \<Rightarrow> take k rows) cursor sent 0
         in case err of
              Some e \<Rightarrow> (False, c, Some e, out)
            | None \<Rightarrow>
               (case we_fetch E n of
                  Some (_, e) \<Rightarrow> (False, c, Some (internalMapErr ''outbox iter'' e), out)
                | None \<Rightarrow> (\<not> count < catchupBatchSize, c, None, out))))"

text \<open>The reading loop may go on as long as every batch is full.\<close>

partial_function (option) streamSince :: "'j watch_env \<Rightarrow> string list \<Rightarrow> nat \<Rightarrow> int \<Rightarrow> 'j watch_event list
    \<Rightarrow> (nat \<times> int \<times> go_error option \<times> 'j watch_event list) option" where
  "streamSince E kinds n cursor sent =
    (case watch_batch E kinds n cursor sent of
       (again, c, err, out) \<Rightarrow> if again then streamSince E kinds (Suc n) c out else Some (Suc n, c, err, out))"

declare streamSince.simps [code]

section \<open>Watch\<close>

datatype wake = Notified | TimedOut | ContextDone | ConnectionLost

datatype watch_end = Waiting | Ended | Failed go_error

definition NewInternalWatchHandler :: "int \<Rightarrow> nat" where
  "NewInternalWatchHandler maxStreams = (if maxStreams \<le> 0 then 32 else nat maxStreams)"

text \<open>The wait loop over the wake-ups that arrive; after the last one the stream waits.\<close>

fun watch_loop :: "'j watch_env \<Rightarrow> string list \<Rightarrow> wake list \<Rightarrow> nat \<times> int \<times> go_error option \<times> 'j watch_event list
    \<Rightarrow> (watch_end \<times> 'j watch_event list) option" where
  "watch_loop E kinds ws (n, cursor, Some e, sent) = Some (Failed e, sent)"
| "watch_loop E kinds [] (n, cursor, None, sent) = Some (Waiting, sent)"
| "watch_loop E kinds (w # ws) (n, cursor, None, sent) =
    (case w of
       ContextDone \<Rightarrow> Some (Ended, sent)
     | ConnectionLost \<Rightarrow> Some (Failed (status Unavailable ''watch notification stream lost''), sent)
     | _ \<Rightarrow> Option.bind (streamSince E kinds n cursor sent) (watch_loop E kinds ws))"

definition Watch :: "'j watch_env \<Rightarrow> nat \<Rightarrow> nat \<Rightarrow> go_error option \<Rightarrow> go_error option \<Rightarrow> int \<Rightarrow> string list \<Rightarrow> wake list
    \<Rightarrow> (watch_end \<times> 'j watch_event list) option" where
  "Watch E slots inUse connect listen fromSeq kinds ws =
    (if \<not> inUse < slots
     then Some (Failed (status ResourceExhausted ''too many concurrent watch streams (limit reached)''), [])
     else case connect of
       Some _ \<Rightarrow> Some (Failed (status Unavailable ''watch backend unavailable''), [])
     | None \<Rightarrow>
        (case listen of
           Some e \<Rightarrow> Some (Failed (internalMapErr ''watch listen failed'' e), [])
         | None \<Rightarrow> Option.bind (streamSince E kinds 0 fromSeq []) (watch_loop E kinds ws)))"

section \<open>Lists sorted by a key\<close>

lemma last_greatest:
  fixes f :: "'a \<Rightarrow> int"
  shows "sorted_wrt (\<lambda>a b. f a < f b) xs \<Longrightarrow> a \<in> set xs \<Longrightarrow> f a \<le> f (last xs)"
  by (induction xs) (auto intro: less_imp_le)

lemma take_sorted_filter:
  fixes f :: "'a \<Rightarrow> int"
  assumes "sorted_wrt (\<lambda>a b. f a < f b) xs" "take k xs \<noteq> []"
  shows "take k xs = filter (\<lambda>x. f x \<le> f (last (take k xs))) xs"
proof -
  have s: "sorted_wrt (\<lambda>a b. f a < f b) (take k xs @ drop k xs)" using assms(1) by simp
  then have lt: "a \<in> set (take k xs) \<Longrightarrow> b \<in> set (drop k xs) \<Longrightarrow> f a < f b" for a b
    unfolding sorted_wrt_append by blast
  have "sorted_wrt (\<lambda>a b. f a < f b) (take k xs)" using assms(1) by (rule sorted_wrt_take)
  from last_greatest [of f, OF this]
  have "filter (\<lambda>x. f x \<le> f (last (take k xs))) (take k xs) = take k xs" by (intro filter_True) blast
  moreover have "filter (\<lambda>x. f x \<le> f (last (take k xs))) (drop k xs) = []"
    using lt [OF last_in_set [OF assms(2)]] by (fastforce simp: filter_empty_conv)
  ultimately have "filter (\<lambda>x. f x \<le> f (last (take k xs))) (take k xs @ drop k xs) = take k xs"
    unfolding filter_append by simp
  then show ?thesis by simp
qed

lemma filter_window:
  fixes f :: "'a \<Rightarrow> int"
  assumes "sorted (List.map f xs)" "s \<le> c" "c \<le> c'"
  shows "filter (\<lambda>x. s < f x \<and> f x \<le> c) xs @ filter (\<lambda>x. c < f x \<and> f x \<le> c') xs
    = filter (\<lambda>x. s < f x \<and> f x \<le> c') xs"
  using assms
proof (induction xs)
  case (Cons a xs)
  have "f a \<le> c \<or> filter (\<lambda>x. s < f x \<and> f x \<le> c) xs = []"
    using Cons.prems(1) by (fastforce simp: filter_empty_conv)
  then show ?case using Cons by auto
qed simp

section \<open>One batch\<close>

text \<open>The rows of the asked kinds in sequence order.\<close>

definition matching :: "string list \<Rightarrow> outbox_row list \<Rightarrow> outbox_row list" where
  "matching kinds t = sort_key ob_seq (filter (\<lambda>r. kinds = [] \<or> ob_kind r \<in> set kinds) t)"

abbreviation seq :: "outbox_row \<Rightarrow> int" where "seq r \<equiv> int (ob_seq r)"

lemma watch_select_matching: "watch_select kinds c t = take catchupBatchSize (filter (\<lambda>r. c < seq r) (matching kinds t))"
proof -
  have "wanted kinds c = (\<lambda>r. (kinds = [] \<or> ob_kind r \<in> set kinds) \<and> c < seq r)" by (auto simp: wanted_def)
  then show ?thesis by (simp add: watch_select_def matching_def filter_sort)
qed

lemma matching_set: "set (matching kinds t) = {r \<in> set t. kinds = [] \<or> ob_kind r \<in> set kinds}"
  by (simp add: matching_def)

lemma matching_sorted: "sorted (List.map seq (matching kinds t))"
proof -
  have "sorted (List.map ob_seq (matching kinds t))" by (simp add: matching_def)
  then show ?thesis by (simp add: sorted_map)
qed

lemma matching_strict:
  assumes "distinct (List.map ob_seq t)"
  shows "sorted_wrt (\<lambda>a b. seq a < seq b) (filter P (matching kinds t))"
proof -
  have "distinct (List.map ob_seq (filter P (matching kinds t)))"
    using assms by (simp add: matching_def distinct_map filter_sort [symmetric]) (auto intro: inj_on_subset)
  moreover have "sorted (List.map ob_seq (filter P (matching kinds t)))"
    by (simp add: matching_def filter_sort)
  ultimately have "sorted_wrt (<) (List.map ob_seq (filter P (matching kinds t)))"
    by (simp add: strict_sorted_iff)
  then show ?thesis by (simp add: sorted_wrt_map)
qed

lemma send_rows_prefix:
  assumes "send_rows E rs c sent n = (c', err, out, m)"
  shows "\<exists>k\<le>size rs. out = sent @ List.map (event_of_row E) (take k rs) \<and> c' = (if k = 0 then c else seq (last (take k rs)))
    \<and> m = n + k \<and> (err = None \<longrightarrow> k = size rs)"
  using assms
proof (induction rs arbitrary: c sent n)
  case (Cons r rs)
  show ?case
  proof (cases "we_scan E r = None \<and> we_send E (event_of_row E r) = None")
    case True
    then obtain k where "k \<le> size rs" "out = (sent @ [event_of_row E r]) @ List.map (event_of_row E) (take k rs)"
      "c' = (if k = 0 then seq r else seq (last (take k rs)))" "m = Suc n + k" "err = None \<longrightarrow> k = size rs"
      using Cons.IH [of "seq r" "sent @ [event_of_row E r]" "Suc n"] Cons.prems by auto
    then show ?thesis by (intro exI [of _ "Suc k"]) (cases "take k rs", auto)
  next
    case False
    then have "c' = c \<and> out = sent \<and> m = n \<and> err \<noteq> None" 
      using Cons.prems by (cases "we_scan E r"; cases "we_send E (event_of_row E r)") auto
    then show ?thesis by (intro exI [of _ 0]) simp
  qed
qed simp

text \<open>What a batch sends: rows of the table above the cursor, strictly in sequence order, up to
  the new cursor; and when the loop goes on, it has moved.\<close>

lemma watch_batch_sends:
  assumes "watch_batch E kinds n c sent = (again, c', err, out)" "distinct (List.map ob_seq (we_table E n))"
  shows "\<exists>rs. out = sent @ List.map (event_of_row E) rs \<and> sorted_wrt (\<lambda>a b. seq a < seq b) rs \<and> c' = (if rs = [] then c else seq (last rs))
    \<and> (\<forall>r\<in>set rs. c < seq r \<and> r \<in> set (we_table E n)) \<and> (again \<longrightarrow> rs \<noteq> [] \<and> err = None)"
proof (cases "we_query E n")
  case (Some e)
  then show ?thesis using assms(1) by (intro exI [of _ "[]"]) (auto simp: watch_batch_def split: if_splits)
next
  case None
  let ?rows = "watch_select kinds c (we_table E n)"
  define rows where "rows = (case we_fetch E n of None \<Rightarrow> ?rows | Some (k, _) \<Rightarrow> take k ?rows)"
  obtain c1 e1 out1 m where s: "send_rows E rows c sent 0 = (c1, e1, out1, m)" by (cases "send_rows E rows c sent 0")
  from send_rows_prefix [OF s] obtain k where k: "k \<le> size rows" "out1 = sent @ List.map (event_of_row E) (take k rows)"
    "c1 = (if k = 0 then c else seq (last (take k rows)))" "m = k" by auto
  have "\<exists>j. rows = take j (filter (\<lambda>r. c < seq r) (matching kinds (we_table E n)))"
    by (auto simp: rows_def watch_select_matching split: option.splits)
  then obtain j where j: "take k rows = take (min k j) (filter (\<lambda>r. c < seq r) (matching kinds (we_table E n)))"
    by (metis take_take)
  have "sorted_wrt (\<lambda>a b. seq a < seq b) (take k rows)"
    unfolding j by (intro sorted_wrt_take matching_strict assms(2))
  moreover have "set (take k rows) \<subseteq> set (filter (\<lambda>r. c < seq r) (matching kinds (we_table E n)))"
    unfolding j by (rule set_take_subset)
  then have "r \<in> set (take k rows) \<Longrightarrow> c < seq r \<and> r \<in> set (we_table E n)" for r
    unfolding set_filter matching_set by blast
  moreover have "out = out1 \<and> c' = c1 \<and> (again \<longrightarrow> err = None \<and> catchupBatchSize \<le> m)"
    using assms(1) None s
    by (cases e1; cases "we_fetch E n") (auto simp: watch_batch_def rows_def split: if_splits)
  moreover have "catchupBatchSize \<le> m \<Longrightarrow> take k rows \<noteq> []" using k(1,4) by (auto simp: catchupBatchSize_def)
  moreover have "c1 = (if take k rows = [] then c else seq (last (take k rows)))" using k(1,3) by (cases k) auto
  ultimately show ?thesis using k(2) by (intro exI [of _ "take k rows"]) simp
qed

section \<open>The loop ends\<close>

text \<open>If the tables stay inside a finite set of rows, the cursor cannot move forever: the rows
  above it are the measure.\<close>

lemma streamSince_returns:
  assumes "finite S" "\<And>m. set (we_table E m) \<subseteq> S" "\<And>m. distinct (List.map ob_seq (we_table E m))"
  shows "\<exists>y. streamSince E kinds n c sent = Some y"
proof (induction "card {r \<in> S. c < seq r}" arbitrary: n c sent rule: less_induct)
  case less
  obtain again c' err out where b: "watch_batch E kinds n c sent = (again, c', err, out)"
    by (cases "watch_batch E kinds n c sent")
  show ?case
  proof (cases again)
    case False
    then show ?thesis by (subst streamSince.simps) (simp add: b)
  next
    case True
    then obtain rs where rs: "rs \<noteq> []" "c' = seq (last rs)" "\<forall>r\<in>set rs. c < seq r \<and> r \<in> set (we_table E n)"
      using watch_batch_sends [OF b assms(3)] by auto
    then have l: "c < c'" "last rs \<in> S" using assms(2) last_in_set by auto
    have "{r \<in> S. c' < seq r} \<subseteq> {r \<in> S. c < seq r} - {last rs}" using l(1) rs(2) by auto
    moreover have "last rs \<in> {r \<in> S. c < seq r}" using l rs(2) by simp
    ultimately have "{r \<in> S. c' < seq r} \<subset> {r \<in> S. c < seq r}" by blast
    then have "card {r \<in> S. c' < seq r} < card {r \<in> S. c < seq r}" using assms(1) by (intro psubset_card_mono) auto
    then have "\<exists>y. streamSince E kinds (Suc n) c' out = Some y" using less by blast
    then show ?thesis using True by (subst streamSince.simps) (simp add: b)
  qed
qed

lemma watch_loop_returns:
  assumes "finite S" "\<And>m. set (we_table E m) \<subseteq> S" "\<And>m. distinct (List.map ob_seq (we_table E m))"
  shows "\<exists>y. watch_loop E kinds ws p = Some y"
proof (induction ws arbitrary: p)
  case Nil
  obtain n c err sent where p: "p = (n, c, err, sent)" by (cases p)
  show ?case unfolding p by (cases err) auto
next
  case (Cons w ws)
  obtain n c err sent where p: "p = (n, c, err, sent)" by (cases p)
  obtain q where "streamSince E kinds n c sent = Some q" using streamSince_returns [OF assms] by blast
  then show ?case unfolding p using Cons.IH [of q] by (cases err; cases w) auto
qed

section \<open>The order of events\<close>

definition sends :: "int \<Rightarrow> outbox_row list \<Rightarrow> int \<Rightarrow> bool" where
  "sends c rs c' \<longleftrightarrow> sorted_wrt (\<lambda>a b. seq a < seq b) rs \<and> (\<forall>r\<in>set rs. c < seq r) \<and> c' = (if rs = [] then c else seq (last rs))"

lemma sends_append: "sends c rs c' \<Longrightarrow> sends c' rs' c'' \<Longrightarrow> sends c (rs @ rs') c''"
proof -
  assume s: "sends c rs c'" "sends c' rs' c''"
  have m: "a \<in> set rs \<Longrightarrow> c < seq a \<and> seq a \<le> c'" for a
    using s(1) last_greatest [of seq rs a] by (auto simp: sends_def)
  have c: "c \<le> c'" using s(1) last_in_set [of rs] by (cases "rs = []") (auto simp: sends_def less_imp_le)
  have "a \<in> set rs \<Longrightarrow> b \<in> set rs' \<Longrightarrow> seq a < seq b" for a b using m [of a] s(2) by (auto simp: sends_def)
  then show ?thesis using s m c by (auto simp: sends_def sorted_wrt_append)
qed

lemma streamSince_sends:
  assumes "streamSince E kinds n c sent = Some (n', c', err, out)" "\<And>m. distinct (List.map ob_seq (we_table E m))"
  shows "\<exists>rs. out = sent @ List.map (event_of_row E) rs \<and> sends c rs c' \<and> (\<forall>r\<in>set rs. \<exists>m. r \<in> set (we_table E m))"
proof -
  define P where "P = (\<lambda>(E1 :: 'a watch_env) (k1 :: string list) (n1 :: nat) c1 sent1 (y :: nat \<times> int \<times> go_error option \<times> 'a watch_event list).
    E1 = E \<longrightarrow> (case y of (n2, c2, e2, out2) \<Rightarrow> \<exists>rs. out2 = sent1 @ List.map (event_of_row E) rs \<and> sends c1 rs c2
       \<and> (\<forall>r\<in>set rs. \<exists>m. r \<in> set (we_table E m))))"
  have "P E kinds n c sent (n', c', err, out)"
  proof (rule streamSince.raw_induct [where P = P, OF _ assms(1)])
    fix f and E1 :: "'a watch_env" and k1 n1 c1 sent1 y
    assume IH: "\<And>E1 k1 n1 c1 sent1 y. f E1 k1 n1 c1 sent1 = Some y \<Longrightarrow> P E1 k1 n1 c1 sent1 y"
      and run: "(case watch_batch E1 k1 n1 c1 sent1 of
         (again, c, err, out) \<Rightarrow> if again then f E1 k1 (Suc n1) c out else Some (Suc n1, c, err, out)) = Some y"
    show "P E1 k1 n1 c1 sent1 y"
      unfolding P_def
    proof
      assume E: "E1 = E"
      obtain again c2 e2 out2 where b: "watch_batch E k1 n1 c1 sent1 = (again, c2, e2, out2)" by (cases "watch_batch E k1 n1 c1 sent1")
      obtain rs where rs: "out2 = sent1 @ List.map (event_of_row E) rs" "sends c1 rs c2" "\<forall>r\<in>set rs. r \<in> set (we_table E n1)"
        using watch_batch_sends [OF b assms(2)] by (auto simp: sends_def)
      show "case y of (n2, c2, e2, out2) \<Rightarrow> \<exists>rs. out2 = sent1 @ List.map (event_of_row E) rs \<and> sends c1 rs c2
         \<and> (\<forall>r\<in>set rs. \<exists>m. r \<in> set (we_table E m))"
      proof (cases again)
        case False
        then show ?thesis using run rs by (auto simp: E b)
      next
        case True
        then have "P E k1 (Suc n1) c2 out2 y" using IH run by (simp add: E b)
        then obtain n3 c3 e3 out3 rs' where y: "y = (n3, c3, e3, out3)" "out3 = out2 @ List.map (event_of_row E) rs'" "sends c2 rs' c3"
          "\<forall>r\<in>set rs'. \<exists>m. r \<in> set (we_table E m)" unfolding P_def by (cases y) auto
        then show ?thesis using rs sends_append [OF rs(2) y(3)] by (auto intro!: exI [of _ "rs @ rs'"])
      qed
    qed
  qed
  then show ?thesis by (simp add: P_def)
qed

lemma watch_loop_sends:
  assumes "watch_loop E kinds ws (n, c, err, sent) = Some (fin, out)" "\<And>m. distinct (List.map ob_seq (we_table E m))"
  shows "\<exists>rs c'. out = sent @ List.map (event_of_row E) rs \<and> sends c rs c' \<and> (\<forall>r\<in>set rs. \<exists>m. r \<in> set (we_table E m))"
  using assms(1)
proof (induction ws arbitrary: n c err sent)
  case Nil
  then show ?case by (cases err) (auto simp: sends_def intro!: exI [of _ "[]"])
next
  case (Cons w ws)
  show ?case
  proof (cases "err = None \<and> w \<in> {Notified, TimedOut}")
    case False
    then show ?thesis using Cons.prems by (cases err; cases w) (auto simp: sends_def intro!: exI [of _ "[]"])
  next
    case True
    then obtain n1 c1 e1 out1 where s: "streamSince E kinds n c sent = Some (n1, c1, e1, out1)"
      "watch_loop E kinds ws (n1, c1, e1, out1) = Some (fin, out)"
      using Cons.prems by (cases "streamSince E kinds n c sent") auto
    obtain rs where rs: "out1 = sent @ List.map (event_of_row E) rs" "sends c rs c1" "\<forall>r\<in>set rs. \<exists>m. r \<in> set (we_table E m)"
      using streamSince_sends [OF s(1) assms(2)] by blast
    obtain rs' c' where "out = out1 @ List.map (event_of_row E) rs'" "sends c1 rs' c'" "\<forall>r\<in>set rs'. \<exists>m. r \<in> set (we_table E m)"
      using Cons.IH [OF s(2)] by blast
    then show ?thesis using rs sends_append [OF rs(2)] by (intro exI [of _ "rs @ rs'"] exI [of _ c']) auto
  qed
qed

section \<open>Nothing is missed\<close>

text \<open>No failure of the database or the client, and a table that only grows at its end: a row
  that becomes visible has a higher number than all that were visible before.\<close>

definition quiet :: "'j watch_env \<Rightarrow> bool" where
  "quiet E \<longleftrightarrow> (\<forall>n. we_query E n = None \<and> we_fetch E n = None) \<and> (\<forall>r. we_scan E r = None) \<and> (\<forall>e. we_send E e = None)"

definition in_order :: "'j watch_env \<Rightarrow> bool" where
  "in_order E \<longleftrightarrow> (\<forall>n. distinct (List.map ob_seq (we_table E n)) \<and>
     (\<exists>new. we_table E (Suc n) = we_table E n @ new \<and> (\<forall>r\<in>set new. \<forall>q\<in>set (we_table E n). ob_seq q < ob_seq r)))"

definition up_to :: "'j watch_env \<Rightarrow> string list \<Rightarrow> int \<Rightarrow> nat \<Rightarrow> int \<Rightarrow> 'j watch_event list \<Rightarrow> bool" where
  "up_to E kinds s n c sent \<longleftrightarrow>
    sent = List.map (event_of_row E) (filter (\<lambda>r. s < seq r \<and> seq r \<le> c) (matching kinds (we_table E n)))
    \<and> s \<le> c \<and> (c = s \<or> (\<exists>r\<in>set (we_table E n). seq r = c))"

definition all_after :: "'j watch_env \<Rightarrow> string list \<Rightarrow> int \<Rightarrow> nat \<Rightarrow> 'j watch_event list" where
  "all_after E kinds s n = List.map (event_of_row E) (filter (\<lambda>r. s < seq r) (matching kinds (we_table E n)))"

lemma send_rows_quiet:
  "quiet E \<Longrightarrow> send_rows E rs c sent n = (if rs = [] then c else seq (last rs), None, sent @ List.map (event_of_row E) rs, n + size rs)"
  by (induction rs arbitrary: c sent n) (auto simp: quiet_def)

lemma filter_matching_window:
  "filter (\<lambda>r. s < seq r \<and> seq r \<le> c) (matching kinds (t @ new)) = filter (\<lambda>r. s < seq r \<and> seq r \<le> c) (matching kinds t)"
  if "\<And>r. r \<in> set new \<Longrightarrow> \<not> (s < seq r \<and> seq r \<le> c)"
proof -
  have "filter (\<lambda>r. (kinds = [] \<or> ob_kind r \<in> set kinds) \<and> s < seq r \<and> seq r \<le> c) new = []"
    using that by (auto simp: filter_empty_conv)
  then show ?thesis by (simp add: matching_def filter_sort)
qed

lemma up_to_later: "in_order E \<Longrightarrow> up_to E kinds s n c sent \<Longrightarrow> up_to E kinds s (Suc n) c sent"
proof -
  assume a: "in_order E" "up_to E kinds s n c sent"
  obtain new where new: "we_table E (Suc n) = we_table E n @ new" "\<forall>r\<in>set new. \<forall>q\<in>set (we_table E n). ob_seq q < ob_seq r"
    using a(1) unfolding in_order_def by blast
  have "r \<in> set new \<Longrightarrow> \<not> (s < seq r \<and> seq r \<le> c)" for r using a(2) new(2) by (fastforce simp: up_to_def)
  then show ?thesis using a(2) filter_matching_window [of new s c kinds "we_table E n"] by (auto simp: up_to_def new(1))
qed

lemma up_to_batch:
  assumes "quiet E" "in_order E" "up_to E kinds s n c sent" "watch_batch E kinds n c sent = (again, c', err, out)"
  shows "err = None" "up_to E kinds s n c' out" "\<not> again \<Longrightarrow> out = all_after E kinds s n"
proof -
  let ?M = "matching kinds (we_table E n)"
  let ?A = "filter (\<lambda>r. c < seq r) ?M"
  let ?rs = "take catchupBatchSize ?A"
  have d: "distinct (List.map ob_seq (we_table E n))" using assms(2) by (simp add: in_order_def)
  have "watch_batch E kinds n c sent = (\<not> size ?rs < catchupBatchSize, if ?rs = [] then c else seq (last ?rs), None,
      sent @ List.map (event_of_row E) ?rs)"
    using assms(1) by (simp add: watch_batch_def quiet_def send_rows_quiet [OF assms(1)] watch_select_matching Let_def
        del: length_take take_eq_Nil)
  then have b: "again = (\<not> size ?rs < catchupBatchSize)" "c' = (if ?rs = [] then c else seq (last ?rs))" "err = None"
    "out = sent @ List.map (event_of_row E) ?rs"
    using assms(4) by (simp_all del: length_take take_eq_Nil)
  show "err = None" by (rule b(3))
  have mem: "r \<in> set ?rs \<Longrightarrow> c < seq r \<and> r \<in> set (we_table E n)" for r
    using in_set_takeD [of r catchupBatchSize ?A] matching_set [of kinds "we_table E n"] by auto
  have le: "c \<le> c'" using b(2) mem [OF last_in_set] by (cases "?rs = []") (simp_all del: take_eq_Nil)
  have upto: "?rs = filter (\<lambda>r. c < seq r \<and> seq r \<le> c') ?M"
  proof (cases "?rs = []")
    case True
    then have "c' = c" using b(2) by (simp del: take_eq_Nil)
    then have "filter (\<lambda>r. c < seq r \<and> seq r \<le> c') ?M = []" by (auto simp: filter_empty_conv)
    then show ?thesis using True by (simp del: take_eq_Nil)
  next
    case False
    then have "c' = seq (last ?rs)" using b(2) by (simp del: take_eq_Nil)
    then have "?rs = filter (\<lambda>r. seq r \<le> c') ?A"
      using take_sorted_filter [of seq ?A catchupBatchSize, OF matching_strict [OF d] False] by simp
    then show ?thesis unfolding filter_filter .
  qed
  have "s \<le> c" using assms(3) by (simp add: up_to_def)
  note w = filter_window [OF matching_sorted [of kinds "we_table E n"] this le]
  have "out = List.map (event_of_row E) (filter (\<lambda>r. s < seq r \<and> seq r \<le> c') ?M)"
    unfolding b(4) upto w [symmetric] using assms(3) by (simp add: up_to_def)
  moreover have "c' = s \<or> (\<exists>r\<in>set (we_table E n). seq r = c')"
    using assms(3) b(2) mem [OF last_in_set] by (cases "?rs = []") (auto simp: up_to_def simp del: take_eq_Nil)
  ultimately show "up_to E kinds s n c' out" using \<open>s \<le> c\<close> le by (simp add: up_to_def)
  assume "\<not> again"
  then have "?rs = ?A" using b(1) by simp
  then have "filter (\<lambda>r. c < seq r \<and> seq r \<le> c') ?M = ?A" using upto by simp
  then have "seq r \<le> c'" if "r \<in> set ?M" for r using that le by (cases "c < seq r") (auto simp: filter_id_conv dest!: arg_cong [where f = set])
  then have "filter (\<lambda>r. s < seq r \<and> seq r \<le> c') ?M = filter (\<lambda>r. s < seq r) ?M" by (intro filter_cong) auto
  then show "out = all_after E kinds s n"
    using \<open>out = List.map (event_of_row E) (filter (\<lambda>r. s < seq r \<and> seq r \<le> c') ?M)\<close> by (simp add: all_after_def)
qed

lemma streamSince_complete:
  assumes "quiet E" "in_order E" "streamSince E kinds n c sent = Some (n', c', err, out)" "up_to E kinds s n c sent"
  shows "\<exists>m\<ge>n. n' = Suc m \<and> err = None \<and> up_to E kinds s m c' out \<and> out = all_after E kinds s m"
proof -
  define Q where "Q = (\<lambda>(n1 :: nat) c1 sent1 (y :: nat \<times> int \<times> go_error option \<times> 'a watch_event list).
    up_to E kinds s n1 c1 sent1 \<longrightarrow> (case y of (n2, c2, e2, out2) \<Rightarrow>
      \<exists>m\<ge>n1. n2 = Suc m \<and> e2 = None \<and> up_to E kinds s m c2 out2 \<and> out2 = all_after E kinds s m))"
  define P where "P = (\<lambda>(E1 :: 'a watch_env) (k1 :: string list) n1 c1 sent1 y. E1 = E \<and> k1 = kinds \<longrightarrow> Q n1 c1 sent1 y)"
  have "P E kinds n c sent (n', c', err, out)"
  proof (rule streamSince.raw_induct [where P = P, OF _ assms(3)])
    fix f and E1 :: "'a watch_env" and k1 n1 c1 sent1 y
    assume IH: "\<And>E1 k1 n1 c1 sent1 y. f E1 k1 n1 c1 sent1 = Some y \<Longrightarrow> P E1 k1 n1 c1 sent1 y"
      and run: "(case watch_batch E1 k1 n1 c1 sent1 of
         (again, c, err, out) \<Rightarrow> if again then f E1 k1 (Suc n1) c out else Some (Suc n1, c, err, out)) = Some y"
    have "Q n1 c1 sent1 y" if "E1 = E" "k1 = kinds"
      unfolding Q_def
    proof
      assume u: "up_to E kinds s n1 c1 sent1"
      obtain again c2 e2 out2 where b: "watch_batch E kinds n1 c1 sent1 = (again, c2, e2, out2)"
        by (cases "watch_batch E kinds n1 c1 sent1")
      note B = up_to_batch [OF assms(1,2) u b]
      show "case y of (n2, c2, e2, out2) \<Rightarrow>
          \<exists>m\<ge>n1. n2 = Suc m \<and> e2 = None \<and> up_to E kinds s m c2 out2 \<and> out2 = all_after E kinds s m"
      proof (cases again)
        case False
        then show ?thesis using run that b B by auto
      next
        case True
        then have "Q (Suc n1) c2 out2 y" using IH run that b by (simp add: P_def)
        then show ?thesis using up_to_later [OF assms(2) B(2)] by (auto simp: Q_def intro: Suc_leD)
      qed
    qed
    then show "P E1 k1 n1 c1 sent1 y" by (simp add: P_def)
  qed
  then show ?thesis using assms(4) by (simp add: P_def Q_def)
qed

lemma watch_loop_complete:
  assumes "quiet E" "in_order E" "watch_loop E kinds ws (Suc m, c, None, sent) = Some (Waiting, out)"
    "up_to E kinds s m c sent" "sent = all_after E kinds s m"
  shows "\<exists>m'\<ge>m + size ws. out = all_after E kinds s m'"
  using assms(3-5)
proof (induction ws arbitrary: m c sent)
  case (Cons w ws)
  then have w: "w = Notified \<or> w = TimedOut" by (cases w) auto
  then obtain n1 c1 e1 out1 where s: "streamSince E kinds (Suc m) c sent = Some (n1, c1, e1, out1)"
    "watch_loop E kinds ws (n1, c1, e1, out1) = Some (Waiting, out)"
    using Cons.prems(1) by (cases "streamSince E kinds (Suc m) c sent") auto
  obtain k where "Suc m \<le> k" "n1 = Suc k" "e1 = None" "up_to E kinds s k c1 out1" "out1 = all_after E kinds s k"
    using streamSince_complete [OF assms(1,2) s(1) up_to_later [OF assms(2) Cons.prems(2)]] by blast
  then obtain m' where "m' \<ge> k + size ws" "out = all_after E kinds s m'" using Cons.IH [of k c1 out1] s(2) by blast
  then show ?case using \<open>Suc m \<le> k\<close> by (intro exI [of _ m']) simp
qed auto

lemma up_to_start: "up_to E kinds s 0 s []"
  by (auto simp: up_to_def filter_empty_conv)

text \<open>A stream that waits has sent everything its last read saw.\<close>

lemma Watch_complete:
  assumes "quiet E" "in_order E" "Watch E slots inUse None None fromSeq kinds ws = Some (Waiting, sent)"
  shows "\<exists>m\<ge>size ws. sent = all_after E kinds fromSeq m \<and> sorted_wrt (<) (List.map ev_seq sent)"
proof -
  obtain n1 c1 e1 out1 where s: "streamSince E kinds 0 fromSeq [] = Some (n1, c1, e1, out1)"
    "watch_loop E kinds ws (n1, c1, e1, out1) = Some (Waiting, sent)"
    using assms(3) by (cases "streamSince E kinds 0 fromSeq []") (auto simp: Watch_def split: if_splits)
  obtain k where k: "n1 = Suc k" "e1 = None" "up_to E kinds fromSeq k c1 out1" "out1 = all_after E kinds fromSeq k"
    using streamSince_complete [OF assms(1,2) s(1) up_to_start] by blast
  obtain m where m: "k + size ws \<le> m" "sent = all_after E kinds fromSeq m"
    using watch_loop_complete [OF assms(1,2) s(2) [unfolded k(1,2)] k(3,4)] by blast
  have "distinct (List.map ob_seq (we_table E m))" using assms(2) by (simp add: in_order_def)
  then have "sorted_wrt (<) (List.map ev_seq sent)"
    using matching_strict [of "we_table E m" "\<lambda>r. fromSeq < seq r" kinds]
    by (simp add: m(2) all_after_def sorted_wrt_map event_of_row_def comp_def)
  then show ?thesis using m by (intro exI [of _ m]) simp
qed

lemma in_order_grows:
  assumes "in_order E" "m \<le> n"
  shows "set (we_table E m) \<subseteq> set (we_table E n)"
  using assms(2)
proof (induction n rule: dec_induct)
  case (step n)
  moreover have "set (we_table E n) \<subseteq> set (we_table E (Suc n))"
    using assms(1) by (metis in_order_def set_append Un_upper1)
  ultimately show ?case by blast
qed simp

end
