(* ===== verification/Payload.thy ===== *)
theory Payload
  imports Paging Watch Wire "HOL-Library.Log_Nat"
begin

text \<open>
  The payload of an event (internal/repo/outbox.go): the JSON that encoding/json
  makes of a domain object, read back into a \<^verbatim>\<open>map[string]any\<close>, whose numbers
  are float64. The tables keep the object itself (\<^verbatim>\<open>event_payload\<close>); here is the map
  it becomes, what of the object the map determines, and where it does not.
\<close>

section \<open>float64 images of integers\<close>

text \<open>An int64 read as a float64: rounded to 53 significant bits, ties to even. The result is
  an integer again.\<close>

definition ulp :: "nat \<Rightarrow> nat" where "ulp m = 2 ^ (floorlog 2 m - 53)"

definition round_even :: "nat \<Rightarrow> nat \<Rightarrow> nat" where
  "round_even u m =
    (let q = m div u; r = m mod u in
     if 2 * r < u \<or> 2 * r = u \<and> even q then q * u else (q + 1) * u)"

definition float64 :: "int \<Rightarrow> int" where
  "float64 n = sgn n * int (round_even (ulp (nat \<bar>n\<bar>)) (nat \<bar>n\<bar>))"

lemma ulp_pos [simp]: "0 < ulp m" by (simp add: ulp_def)

lemma ulp_small: "m < 2 ^ 53 \<Longrightarrow> ulp m = 1"
  using floorlog_leI [of m 2 53] by (simp add: ulp_def)

lemma ulp_large:
  assumes "2 ^ 53 \<le> m" shows "ulp m * 2 ^ 52 \<le> m"
proof -
  have l: "54 \<le> floorlog 2 m" using floorlog_geI [of 2 54 m] assms by simp
  have "ulp m * 2 ^ 52 = (2::nat) ^ (floorlog 2 m - 53 + 52)" by (simp only: ulp_def power_add)
  also have "\<dots> = 2 ^ (floorlog 2 m - 1)" using l by (intro arg_cong [where f = "\<lambda>k. 2 ^ k"]) simp
  also have "\<dots> \<le> m" using floorlog_bounds [of m 2] assms by auto
  finally show ?thesis .
qed

lemma round_even_exact: "u dvd m \<Longrightarrow> round_even u m = m"
  by (cases "u = 0") (auto simp: round_even_def Let_def)

lemma round_even_dvd: "u dvd round_even u m"
  by (simp add: round_even_def Let_def)

lemma round_even_error:
  assumes "0 < u" shows "2 * \<bar>int (round_even u m) - int m\<bar> \<le> int u"
proof -
  define q r where qr: "q = m div u" "r = m mod u"
  have m: "m = q * u + r" and r: "r < u" using assms by (auto simp: qr)
  have "int (q * u) - int m = - int r" "int ((q + 1) * u) - int m = int u - int r"
    using m by (simp_all add: algebra_simps)
  then show ?thesis using r by (auto simp: round_even_def Let_def simp flip: qr)
qed

lemma round_even_zero [simp]: "round_even u 0 = 0"
  by (simp add: round_even_def)

lemma abs_float64: "\<bar>float64 n - n\<bar> = \<bar>int (round_even (ulp (nat \<bar>n\<bar>)) (nat \<bar>n\<bar>)) - int (nat \<bar>n\<bar>)\<bar>"
proof (cases n "0 :: int" rule: linorder_cases)
  case less
  then have "float64 n = - int (round_even (ulp (nat \<bar>n\<bar>)) (nat \<bar>n\<bar>))" "n = - int (nat \<bar>n\<bar>)"
    by (simp_all add: float64_def)
  then show ?thesis by (smt (verit))
qed (simp_all add: float64_def)

lemma float64_exact: 
  assumes "\<bar>n\<bar> \<le> 2 ^ 53" shows "float64 n = n"
proof -
  have "ulp (nat \<bar>n\<bar>) dvd nat \<bar>n\<bar>"
  proof (cases "\<bar>n\<bar> = 2 ^ 53")
    case True
    then have "nat \<bar>n\<bar> = 1 * 2 ^ 53" by simp
    then have "floorlog 2 (nat \<bar>n\<bar>) = floorlog 2 1 + 53" by (simp only: floorlog_power)
    then show ?thesis using True by (simp add: ulp_def floorlog_def)
  next
    case False
    then have "nat \<bar>n\<bar> < 2 ^ 53" using assms by simp
    then show ?thesis by (simp add: ulp_small)
  qed
  then have "\<bar>float64 n - n\<bar> = 0" unfolding abs_float64 by (simp add: round_even_exact)
  then show ?thesis by simp
qed

lemma float64_error: "\<bar>float64 n - n\<bar> * 2 ^ 53 \<le> \<bar>n\<bar>"
proof (cases "\<bar>n\<bar> \<le> 2 ^ 53")
  case False
  let ?m = "nat \<bar>n\<bar>"
  have "2 ^ 53 \<le> ?m" using False by simp
  from ulp_large [OF this] have "int (ulp ?m * 2 ^ 52) \<le> int ?m" by (simp only: of_nat_le_iff)
  then have u: "int (ulp ?m) * 2 ^ 52 \<le> \<bar>n\<bar>" by (simp only: of_nat_mult of_nat_power of_nat_numeral)
  have "2 * \<bar>float64 n - n\<bar> \<le> int (ulp ?m)" unfolding abs_float64 by (rule round_even_error) simp
  then have "2 * \<bar>float64 n - n\<bar> * 2 ^ 52 \<le> int (ulp ?m) * 2 ^ 52" by (rule mult_right_mono) simp
  then show ?thesis using u by simp
qed (simp add: float64_exact)

lemma round_even_cases:
  "round_even u m = m div u * u \<or> round_even u m = (m div u + 1) * u"
  by (simp add: round_even_def Let_def)

lemma round_even_ge:
  assumes "0 < u" "u dvd a" "a \<le> m" shows "a \<le> round_even u m"
proof -
  obtain k where a: "a = k * u" using assms(2) by (metis dvd_def mult.commute)
  then have "k \<le> m div u" using assms(1,3) by (simp add: less_eq_div_iff_mult_less_eq)
  then have "k * u \<le> m div u * u" "k * u \<le> (m div u + 1) * u" by (intro mult_le_mono1; simp)+
  then show ?thesis using round_even_cases [of u m] unfolding a by (elim disjE) (simp_all only:)
qed

lemma round_even_le:
  assumes "0 < u" "u dvd b" "m \<le> b" shows "round_even u m \<le> b"
proof (cases "u dvd m")
  case False
  obtain k where b: "b = k * u" using assms(2) by (metis dvd_def mult.commute)
  have "m < k * u" using assms(2,3) False b by (metis le_neq_implies_less)
  then have "m div u + 1 \<le> k" using assms(1) by (simp add: div_less_iff_less_mult Suc_leI)
  then have "m div u * u \<le> k * u" "(m div u + 1) * u \<le> k * u" by (intro mult_le_mono1; simp)+
  then show ?thesis using round_even_cases [of u m] unfolding b by (elim disjE) (simp_all only:)
qed (simp add: assms(3) round_even_exact)

lemma ulp_dvd: "ulp (round_even (ulp m) m) dvd round_even (ulp m) m"
proof (cases "m < 2 ^ 53")
  case True
  then show ?thesis by (simp add: ulp_small round_even_exact)
next
  case False
  define l where "l = floorlog 2 m"
  let ?r = "round_even (ulp m) m"
  have l: "54 \<le> l" using floorlog_geI [of 2 54 m] False by (simp add: l_def)
  have m: "2 ^ (l - 1) \<le> m" "m < 2 ^ l" using floorlog_bounds [of m 2] False by (auto simp: l_def)
  have u: "ulp m = 2 ^ (l - 53)" by (simp add: ulp_def l_def)
  have le: "2 ^ (l - 1) \<le> ?r" "?r \<le> 2 ^ l"
    using m l by (auto intro!: round_even_ge round_even_le le_imp_power_dvd simp: u)
  show ?thesis
  proof (cases "?r = 2 ^ l")
    case True
    then have "floorlog 2 ?r = Suc l" using floorlog_power [of 1 2 l] by (simp add: floorlog_def)
    then have "ulp ?r = 2 ^ (Suc l - 53)" by (simp add: ulp_def)
    then show ?thesis unfolding True using l by (simp add: le_imp_power_dvd)
  next
    case False
    then have "floorlog 2 ?r \<le> l" using le(2) by (simp add: floorlog_leI)
    then have "(2::nat) ^ (floorlog 2 ?r - 53) dvd 2 ^ (l - 53)" by (intro le_imp_power_dvd diff_le_mono)
    then have "ulp ?r dvd ulp m" by (simp only: ulp_def l_def)
    then show ?thesis using round_even_dvd dvd_trans by blast
  qed
qed

text \<open>What is read once is read again without loss: the payload column holds float64 images.\<close>

lemma float64_idem [simp]: "float64 (float64 n) = float64 n"
proof -
  have "nat \<bar>float64 n\<bar> = (if n = 0 then 0 else round_even (ulp (nat \<bar>n\<bar>)) (nat \<bar>n\<bar>))"
    by (auto simp: float64_def abs_mult)
  then have "ulp (nat \<bar>float64 n\<bar>) dvd nat \<bar>float64 n\<bar>" using ulp_dvd by simp
  then have "\<bar>float64 (float64 n) - float64 n\<bar> = 0" unfolding abs_float64 by (simp add: round_even_exact)
  then show ?thesis by simp
qed

fun float_json :: "json \<Rightarrow> json" where
  "float_json (JNum n) = JNum (float64 n)"
| "float_json (JArr js) = JArr (List.map float_json js)"
| "float_json (JObj m) = JObj (List.map (\<lambda>f. (fst f, float_json (snd f))) m)"
| "float_json j = j"

fun exact_json :: "json \<Rightarrow> bool" where
  "exact_json (JNum n) \<longleftrightarrow> \<bar>n\<bar> \<le> 2 ^ 53"
| "exact_json (JArr js) \<longleftrightarrow> list_all exact_json js"
| "exact_json (JObj m) \<longleftrightarrow> list_all (\<lambda>f. exact_json (snd f)) m"
| "exact_json j \<longleftrightarrow> True"

lemma float_json_exact: "exact_json j \<Longrightarrow> float_json j = j"
  by (induction j rule: float_json.induct) (auto simp: float64_exact list_all_iff intro: map_idI)

lemma float_json_idem [simp]: "float_json (float_json j) = float_json j"
  by (induction j rule: float_json.induct) auto

section \<open>encoding/json on the domain objects\<close>

text \<open>From outside: encoding/json on the generated protobuf structs, and which empty slices are
  nil (marshalled as null).\<close>

record payload_env =
  pe_proto :: "proto_msg \<Rightarrow> json option"
  pe_nil :: "string \<Rightarrow> bool"

text \<open>A struct is marshalled field by field under the Go names; one field that cannot be
  marshalled fails the whole.\<close>

fun marshal_fields :: "(string \<times> json option) list \<Rightarrow> (string \<times> json) list option" where
  "marshal_fields [] = Some []"
| "marshal_fields ((k, None) # _) = None"
| "marshal_fields ((k, Some j) # fs) = map_option ((#) (k, j)) (marshal_fields fs)"

definition json_struct :: "(string \<times> json option) list \<Rightarrow> json option" where
  "json_struct fs = map_option JObj (marshal_fields fs)"

definition slice_json :: "payload_env \<Rightarrow> string \<Rightarrow> json list \<Rightarrow> json" where
  "slice_json P k js = (if js = [] \<and> pe_nil P k then JNull else JArr js)"

definition proto_json :: "payload_env \<Rightarrow> proto_msg option \<Rightarrow> json option" where
  "proto_json P m = (case m of None \<Rightarrow> Some JNull | Some x \<Rightarrow> pe_proto P x)"

text \<open>Time.MarshalJSON refuses years outside 0 to 9999.\<close>

definition time_json :: "gotime \<Rightarrow> json option" where
  "time_json t = (if -62167219200 * 10 ^ 9 \<le> t \<and> t < 253402300800 * 10 ^ 9 then Some (JTime (Some t)) else None)"

text \<open>\<^verbatim>\<open>[]byte\<close> as standard base64 with padding\<close>

definition std_char :: "char \<Rightarrow> char" where
  "std_char c = (if c = CHR ''-'' then CHR ''+'' else if c = CHR ''_'' then CHR ''/'' else c)"

definition b64_std :: "string \<Rightarrow> string" where
  "b64_std s = List.map std_char (b64_encode (bytes_of s)) @ replicate ((3 - size s mod 3) mod 3) (CHR ''='')"

definition one_to_one_nat_json :: "one_to_one_nat \<Rightarrow> json" where
  "one_to_one_nat_json n = JObj (
     omit_str ''address'' (nat_address n) @ omit_str ''address_id'' (nat_address_id n)
     @ (if nat_ephemeral n then [(''ephemeral'', JBool True)] else [])
     @ (if nat_ip_version n = 0 then [] else [(''ip_version'', JNum (nat_ip_version n))])
     @ omit_str ''dns_records'' (b64_std (nat_dns_records n)))"

definition nat_json :: "one_to_one_nat option \<Rightarrow> json" where
  "nat_json n = (case n of None \<Rightarrow> JNull | Some x \<Rightarrow> one_to_one_nat_json x)"

definition nic_json :: "payload_env \<Rightarrow> network_interface \<Rightarrow> json" where
  "nic_json P n = JObj [
     (''Index'', JStr (ni_index n)), (''NICID'', JStr (ni_nic_id n)), (''MACAddress'', JStr (ni_mac_address n)),
     (''SubnetID'', JStr (ni_subnet_id n)), (''PrimaryV4Address'', JStr (ni_primary_v4_address n)),
     (''PrimaryV4AddressID'', JStr (ni_primary_v4_address_id n)), (''PrimaryV4Nat'', nat_json (ni_primary_v4_nat n)),
     (''PrimaryV6Address'', JStr (ni_primary_v6_address n)), (''PrimaryV6Nat'', nat_json (ni_primary_v6_nat n)),
     (''SecurityGroupIDs'', slice_json P ''SecurityGroupIDs'' (List.map JStr (ni_security_group_ids n)))]"

definition attached_disk_json :: "attached_disk \<Rightarrow> json option" where
  "attached_disk_json a = json_struct [
     (''DiskID'', Some (JStr (ad_disk_id a))), (''IsBoot'', Some (JBool (ad_is_boot a))),
     (''Mode'', Some (JNum (ad_mode a))), (''DeviceName'', Some (JStr (ad_device_name a))),
     (''AutoDelete'', Some (JBool (ad_auto_delete a))), (''AttachedAt'', time_json (ad_attached_at a))]"

text \<open>InstanceIDs of a disk is never filled.\<close>

definition disk_json :: "payload_env \<Rightarrow> disk \<Rightarrow> json option" where
  "disk_json P d = json_struct [
     (''ID'', Some (JStr (d_id d))),
     (''ProjectID'', Some (JStr (d_project_id d))),
     (''CreatedAt'', time_json (d_created_at d)),
     (''Name'', Some (JStr (d_name d))),
     (''Description'', Some (JStr (d_description d))),
     (''Labels'', Some (json_of_map (d_labels d))),
     (''TypeID'', Some (JStr (d_type_id d))),
     (''ZoneID'', Some (JStr (d_zone_id d))),
     (''Size'', Some (JNum (d_size d))),
     (''BlockSize'', Some (JNum (d_block_size d))),
     (''ProductIDs'', Some (slice_json P ''ProductIDs'' (List.map JStr (d_product_ids d)))),
     (''Status'', Some (JNum (disk_status_number (d_status d)))),
     (''SourceImageID'', Some (JStr (d_source_image_id d))),
     (''SourceSnapshotID'', Some (JStr (d_source_snapshot_id d))),
     (''DiskPlacementPolicy'', proto_json P (d_placement_policy d)),
     (''HardwareGeneration'', proto_json P (d_hardware_generation d)),
     (''KMSKey'', proto_json P (d_kms_key d)),
     (''InstanceIDs'', Some JNull)]"

definition image_json :: "payload_env \<Rightarrow> image \<Rightarrow> json option" where
  "image_json P i = json_struct [
     (''ID'', Some (JStr (im_id i))),
     (''ProjectID'', Some (JStr (im_project_id i))),
     (''CreatedAt'', time_json (im_created_at i)),
     (''Name'', Some (JStr (im_name i))),
     (''Description'', Some (JStr (im_description i))),
     (''Labels'', Some (json_of_map (im_labels i))),
     (''Family'', Some (JStr (im_family i))),
     (''StorageSize'', Some (JNum (im_storage_size i))),
     (''MinDiskSize'', Some (JNum (im_min_disk_size i))),
     (''ProductIDs'', Some (slice_json P ''ProductIDs'' (List.map JStr (im_product_ids i)))),
     (''Status'', Some (JNum (image_status_number (im_status i)))),
     (''OsType'', Some (JNum (os_type_number (im_os_type i)))),
     (''OsNvidiaDriver'', Some (JStr (im_os_nvidia_driver i))),
     (''Pooled'', Some (JBool (im_pooled i))),
     (''HardwareGeneration'', proto_json P (im_hardware_generation i)),
     (''KMSKey'', proto_json P (im_kms_key i)),
     (''SourceImageID'', Some (JStr (im_source_image_id i))),
     (''SourceSnapshotID'', Some (JStr (im_source_snapshot_id i))),
     (''SourceDiskID'', Some (JStr (im_source_disk_id i))),
     (''SourceURI'', Some (JStr (im_source_uri i)))]"

definition snapshot_json :: "payload_env \<Rightarrow> snapshot \<Rightarrow> json option" where
  "snapshot_json P s = json_struct [
     (''ID'', Some (JStr (sn_id s))),
     (''ProjectID'', Some (JStr (sn_project_id s))),
     (''CreatedAt'', time_json (sn_created_at s)),
     (''Name'', Some (JStr (sn_name s))),
     (''Description'', Some (JStr (sn_description s))),
     (''Labels'', Some (json_of_map (sn_labels s))),
     (''StorageSize'', Some (JNum (sn_storage_size s))),
     (''DiskSize'', Some (JNum (sn_disk_size s))),
     (''ProductIDs'', Some (slice_json P ''ProductIDs'' (List.map JStr (sn_product_ids s)))),
     (''Status'', Some (JNum (snapshot_status_number (sn_status s)))),
     (''SourceDiskID'', Some (JStr (sn_source_disk_id s))),
     (''HardwareGeneration'', proto_json P (sn_hardware_generation s)),
     (''KMSKey'', proto_json P (sn_kms_key s))]"

definition instance_json :: "payload_env \<Rightarrow> instance_row \<Rightarrow> json option" where
  "instance_json P i = json_struct [
     (''ID'', Some (JStr (in_id i))),
     (''ProjectID'', Some (JStr (in_project_id i))),
     (''CreatedAt'', time_json (in_created_at i)),
     (''Name'', Some (JStr (in_name i))),
     (''Description'', Some (JStr (in_description i))),
     (''Labels'', Some (json_of_map (in_labels i))),
     (''ZoneID'', Some (JStr (in_zone_id i))),
     (''PlatformID'', Some (JStr (in_platform_id i))),
     (''Cores'', Some (JNum (in_cores i))),
     (''Memory'', Some (JNum (in_memory i))),
     (''CoreFraction'', Some (JNum (in_core_fraction i))),
     (''GPUs'', Some (JNum (in_gpus i))),
     (''CPUGuaranteePercent'', Some (JNum (in_cpu_guarantee i))),
     (''Image'', Some (JStr (in_image i))),
     (''ImageDigest'', Some (JStr (in_image_digest i))),
     (''Status'', Some (JNum (instance_status_number (in_status i)))),
     (''Metadata'', Some (json_of_map (in_metadata i))),
     (''MetadataOptions'', proto_json P (in_metadata_options i)),
     (''ServiceAccountID'', Some (JStr (in_service_account_id i))),
     (''Hostname'', Some (JStr (in_hostname i))),
     (''FQDN'', Some (JStr (in_fqdn i))),
     (''NetworkSettingsType'', Some (JStr (in_network_settings_type i))),
     (''SchedulingPreemptible'', Some (JBool (in_preemptible i))),
     (''PlacementPolicy'', proto_json P (in_placement_policy i)),
     (''SerialPortSSHAuthorization'', Some (JStr (in_serial_ssh i))),
     (''GPUClusterID'', Some (JStr (in_gpu_cluster_id i))),
     (''HardwareGeneration'', proto_json P (in_hardware_generation i)),
     (''MaintenancePolicy'', Some (JStr (in_maintenance_policy i))),
     (''MaintenanceGracePeriodSeconds'', Some (JNum (in_maintenance_grace i))),
     (''ReservedInstancePoolID'', Some (JStr (in_reserved_pool_id i))),
     (''HostGroupID'', Some (JStr (in_host_group_id i))),
     (''HostID'', Some (JStr (in_host_id i))),
     (''Application'', proto_json P (in_application i)),
     (''NetworkInterfaces'', Some (slice_json P ''NetworkInterfaces'' (List.map (nic_json P) (in_nics i)))),
     (''AttachedDisks'', map_option (slice_json P ''AttachedDisks'') (those (List.map attached_disk_json (in_disks i))))]"

section \<open>domainToMap\<close>

text \<open>An object that cannot be marshalled leaves an empty map.\<close>

definition domainToMap :: "json option \<Rightarrow> json" where
  "domainToMap b = (case map_option float_json b of Some (JObj m) \<Rightarrow> JObj m | _ \<Rightarrow> JObj [])"

definition diskPayload :: "payload_env \<Rightarrow> disk \<Rightarrow> json" where
  "diskPayload P d = domainToMap (disk_json P d)"

definition imagePayload :: "payload_env \<Rightarrow> image \<Rightarrow> json" where
  "imagePayload P i = domainToMap (image_json P i)"

definition snapshotPayload :: "payload_env \<Rightarrow> snapshot \<Rightarrow> json" where
  "snapshotPayload P s = domainToMap (snapshot_json P s)"

definition instancePayload :: "payload_env \<Rightarrow> instance_row \<Rightarrow> json" where
  "instancePayload P i = domainToMap (instance_json P i)"

definition payload_map :: "payload_env \<Rightarrow> event_payload \<Rightarrow> json" where
  "payload_map P p = (case p of PDisk d \<Rightarrow> diskPayload P d | PImage i \<Rightarrow> imagePayload P i
     | PSnapshot s \<Rightarrow> snapshotPayload P s | PInstance i \<Rightarrow> instancePayload P i
     | PId i \<Rightarrow> JObj [(''id'', JStr i)] | PEmpty \<Rightarrow> JObj [])"

section \<open>What the JSON determines\<close>

lemma marshal_fields_Cons:
  "marshal_fields ((k, v) # fs) = Some m \<longleftrightarrow> (\<exists>j m'. v = Some j \<and> marshal_fields fs = Some m' \<and> m = (k, j) # m')"
  by (cases v) auto

lemma json_struct_Some: "json_struct fs = Some j \<longleftrightarrow> (\<exists>m. marshal_fields fs = Some m \<and> j = JObj m)"
  by (auto simp: json_struct_def)

lemma json_struct_JNull [simp]: "json_struct fs \<noteq> Some JNull"
  by (simp add: json_struct_Some)

lemmas struct_simps = json_struct_Some marshal_fields_Cons

lemma map_JStr_eq [simp]: "List.map JStr xs = List.map JStr ys \<longleftrightarrow> xs = ys"
  by (simp add: inj_map_eq_map inj_on_def)

lemma json_of_map_eq [simp]: "json_of_map m = json_of_map m' \<longleftrightarrow> m = m'"
  by (metis json_map_roundtrip option.inject)

lemma slice_json_eqD: "slice_json P k js = slice_json Q l js' \<Longrightarrow> js = js'"
  by (auto simp: slice_json_def split: if_splits)

lemma time_json_eqD: "time_json t = Some j \<Longrightarrow> time_json u = Some j \<Longrightarrow> t = u"
  by (auto simp: time_json_def split: if_splits)

lemma map_eqD: "List.map f xs = List.map g ys \<Longrightarrow> (\<And>x y. f x = g y \<Longrightarrow> x = y) \<Longrightarrow> xs = ys"
  by (induction xs arbitrary: ys) (auto simp: Cons_eq_map_conv)

lemma those_map_eqD:
  "those (List.map f xs) = Some js \<Longrightarrow> those (List.map f ys) = Some js
    \<Longrightarrow> (\<And>x y j. f x = Some j \<Longrightarrow> f y = Some j \<Longrightarrow> x = y) \<Longrightarrow> xs = ys"
proof (induction xs arbitrary: ys js)
  case Nil
  then show ?case by (cases ys) (auto split: option.splits)
next
  case (Cons x xs)
  obtain j ks where x: "f x = Some j" "those (List.map f xs) = Some ks" "js = j # ks"
    using Cons.prems(1) by (auto split: option.splits)
  obtain y zs where y: "ys = y # zs" "f y = Some j" "those (List.map f zs) = Some ks"
    using Cons.prems(2) x(3) by (cases ys) (auto split: option.splits)
  have "x = y" using x(1) y(2) by (rule Cons.prems(3))
  moreover have "xs = zs" using x(2) y(3) Cons.prems(3) by (rule Cons.IH)
  ultimately show ?case using y(1) by simp
qed

lemma std_alphabet: "distinct (List.map std_char b64_alphabet)"
  by code_simp

lemma std_char_inj: "inj_on std_char (set b64_alphabet)"
  using std_alphabet by (simp add: distinct_map)

lemma std_char_pad: "list_all (\<lambda>c. std_char c \<noteq> CHR ''='') b64_alphabet"
  by code_simp

lemma b64_encode_alphabet: "set (b64_encode (bytes_of s)) \<subseteq> set b64_alphabet"
proof -
  have "\<forall>b\<in>set (bytes_of s). b < 256" by (auto simp: bytes_of_def)
  moreover have "size b64_alphabet = 64" by code_simp
  ultimately show ?thesis
    using sextets_bound [of "bytes_of s"] by (auto simp: b64_encode_sextets b64_char_def intro!: nth_mem)
qed

lemma b64_std_eq [simp]: "b64_std s = b64_std t \<longleftrightarrow> s = t"
proof
  assume eq: "b64_std s = b64_std t"
  have body: "takeWhile (\<lambda>c. c \<noteq> CHR ''='') (b64_std u) = List.map std_char (b64_encode (bytes_of u))" for u
    using b64_encode_alphabet [of u] std_char_pad unfolding b64_std_def
    by (subst takeWhile_append2) (auto simp: takeWhile_replicate list_all_iff)
  then have "List.map std_char (b64_encode (bytes_of s)) = List.map std_char (b64_encode (bytes_of t))"
    by (metis eq)
  then have "b64_encode (bytes_of s) = b64_encode (bytes_of t)"
    using b64_encode_alphabet [of s] b64_encode_alphabet [of t]
    by (simp add: inj_on_map_eq_map inj_on_subset [OF std_char_inj])
  moreover have "b64_decode (b64_encode (bytes_of u)) = Some (bytes_of u)" for u
    by (rule b64_roundtrip) (auto simp: bytes_of_def)
  ultimately have "bytes_of s = bytes_of t" by (metis option.inject)
  then show "s = t" unfolding bytes_of_def by (rule map_eqD) simp
qed simp

lemma b64_std_empty [simp]: "b64_std s = [] \<longleftrightarrow> s = []"
  using b64_std_eq [of s "[]"] by (simp add: b64_std_def bytes_of_def)

lemma field_Nil [simp]: "field k [] = JNull"
  by (simp add: field_def)

lemma field_Cons [simp]: "field k ((l, j) # m) = (if k = l then j else field k m)"
  by (simp add: field_def)

lemma field_omit_str [simp]: "field k (omit_str l s @ m) = (if k = l \<and> s \<noteq> '''' then JStr s else field k m)"
  by (simp add: omit_str_def)

lemma field_if [simp]: "field k ((if b then [] else [(l, j)]) @ m) = (if k = l \<and> \<not> b then j else field k m)"
  "field k ((if b then [(l, j)] else []) @ m) = (if k = l \<and> b then j else field k m)"
  by auto

lemma one_to_one_nat_json_inj:
  assumes "one_to_one_nat_json x = one_to_one_nat_json y" shows "x = y"
proof -
  have f: "field k (omit_str ''dns_records'' s) = (if k = ''dns_records'' \<and> s \<noteq> '''' then JStr s else JNull)" for k s
    using field_omit_str [of k "''dns_records''" s "[]"] by simp
  define m where "m n = (omit_str ''address'' (nat_address n) @ omit_str ''address_id'' (nat_address_id n)
     @ (if nat_ephemeral n then [(''ephemeral'', JBool True)] else [])
     @ (if nat_ip_version n = 0 then [] else [(''ip_version'', JNum (nat_ip_version n))])
     @ omit_str ''dns_records'' (b64_std (nat_dns_records n)))" for n :: one_to_one_nat
  have "m x = m y" using assms by (simp only: one_to_one_nat_json_def m_def json.inject)
  then have "field k (m x) = field k (m y)" for k by simp
  from this [of "''address''"] this [of "''address_id''"] this [of "''ephemeral''"] this [of "''ip_version''"]
    this [of "''dns_records''"]
  have "nat_address x = nat_address y \<and> nat_address_id x = nat_address_id y \<and> nat_ephemeral x = nat_ephemeral y
    \<and> nat_ip_version x = nat_ip_version y \<and> nat_dns_records x = nat_dns_records y"
    unfolding m_def by (auto simp: f split: if_splits)
  then show ?thesis by simp
qed

lemma one_to_one_nat_json_JNull [simp]: "one_to_one_nat_json n \<noteq> JNull" "JNull \<noteq> one_to_one_nat_json n"
  by (simp_all add: one_to_one_nat_json_def)

lemma nat_json_inj: "nat_json x = nat_json y \<Longrightarrow> x = y"
  by (cases x; cases y) (auto simp: nat_json_def dest: one_to_one_nat_json_inj)

lemma nic_json_inj: "nic_json P x = nic_json Q y \<Longrightarrow> x = y"
  by (auto simp: nic_json_def dest!: nat_json_inj slice_json_eqD)

lemma attached_disk_json_inj: "attached_disk_json x = Some j \<Longrightarrow> attached_disk_json y = Some j \<Longrightarrow> x = y"
  by (auto simp: attached_disk_json_def struct_simps dest: time_json_eqD)

text \<open>encoding/json tells apart what it marshals: messages of one type, and a message from nil.\<close>

definition proto_injective :: "payload_env \<Rightarrow> bool" where
  "proto_injective P \<longleftrightarrow> (\<forall>x. pe_proto P x \<noteq> Some JNull)
     \<and> (\<forall>x y j. pe_proto P x = Some j \<longrightarrow> pe_proto P y = Some j \<longrightarrow> x = y)"

lemma os_type_number_inj: "os_type_number a = os_type_number b \<longleftrightarrow> a = b"
  by (cases a; cases b; simp)

section \<open>An event determines its object\<close>

definition event_json :: "payload_env \<Rightarrow> event_payload \<Rightarrow> json option" where
  "event_json P p = (case p of PDisk d \<Rightarrow> disk_json P d | PImage i \<Rightarrow> image_json P i
     | PSnapshot s \<Rightarrow> snapshot_json P s | PInstance i \<Rightarrow> instance_json P i
     | PId i \<Rightarrow> Some (JObj [(''id'', JStr i)]) | PEmpty \<Rightarrow> Some (JObj []))"

lemma payload_map_event_json: "payload_map P p = domainToMap (event_json P p)"
  by (simp add: payload_map_def event_json_def diskPayload_def imagePayload_def snapshotPayload_def
      instancePayload_def domainToMap_def split: event_payload.split)

lemma event_json_JObj: "event_json P p = Some j \<Longrightarrow> \<exists>m. j = JObj m"
  by (auto simp: event_json_def disk_json_def image_json_def snapshot_json_def instance_json_def
      json_struct_Some split: event_payload.splits)

text \<open>The map an event carries when its object can be marshalled: the JSON with rounded numbers.\<close>

lemma payload_map_Some: "event_json P p = Some j \<Longrightarrow> payload_map P p = float_json j"
  using event_json_JObj [of P p j] by (auto simp: payload_map_event_json domainToMap_def)

lemma payload_map_None: "event_json P p = None \<Longrightarrow> payload_map P p = JObj []"
  by (simp add: payload_map_event_json domainToMap_def)

lemma payload_map_stable [simp]: "float_json (payload_map P p) = payload_map P p"
  by (cases "event_json P p") (simp_all add: payload_map_Some payload_map_None)

lemma marshal_fields_iff: "marshal_fields fs = Some m \<longleftrightarrow> fs = List.map (\<lambda>(k, j). (k, Some j)) m"
proof (induction fs arbitrary: m)
  case (Cons f fs)
  then show ?case by (cases f) (auto simp: marshal_fields_Cons Cons_eq_map_conv)
qed auto

definition marshalled :: "json option \<Rightarrow> bool" where "marshalled v \<longleftrightarrow> v \<noteq> None"

lemma marshalled_Some [simp]: "marshalled (Some j)"
  by (simp add: marshalled_def)

lemma time_eqD: "time_json t = time_json u \<Longrightarrow> marshalled (time_json t) \<Longrightarrow> t = u"
  by (auto simp: marshalled_def dest: time_json_eqD)

lemma proto_json_same: "pe_proto Q = pe_proto P \<Longrightarrow> proto_json Q x = proto_json P x"
  by (simp add: proto_json_def split: option.split)

lemma proto_json_eqD: "proto_injective P \<Longrightarrow> proto_json P x = proto_json P y \<Longrightarrow> marshalled (proto_json P x) \<Longrightarrow> x = y"
  by (auto simp: proto_injective_def proto_json_def marshalled_def split: option.splits)

lemma slice_strs_eq: "slice_json P k (List.map JStr xs) = slice_json Q k (List.map JStr ys) \<Longrightarrow> xs = ys"
  by (auto dest!: slice_json_eqD)

text \<open>Two structs with the same JSON agree field by field, and every field was marshalled.\<close>

lemma json_struct_eqD:
  assumes "json_struct fs = Some j" "json_struct gs = Some j"
  shows "fs = gs \<and> list_all (\<lambda>f. marshalled (snd f)) fs"
  using assms by (auto simp: json_struct_Some marshal_fields_iff list_all_iff)

lemmas number_inj = status_numbers_inj os_type_number_inj

lemma disk_json_inj:
  assumes P: "proto_injective P" "pe_proto Q = pe_proto P" and x: "disk_json P x = Some j" and y: "disk_json Q y = Some j"
  shows "x = y"
  using json_struct_eqD [OF x [unfolded disk_json_def] y [unfolded disk_json_def]]
  by (intro disk.equality) (auto simp: number_inj proto_json_same [OF P(2)] dest: proto_json_eqD [OF P(1)] slice_strs_eq time_eqD)

lemma image_json_inj:
  assumes P: "proto_injective P" "pe_proto Q = pe_proto P" and x: "image_json P x = Some j" and y: "image_json Q y = Some j"
  shows "x = y"
  using json_struct_eqD [OF x [unfolded image_json_def] y [unfolded image_json_def]]
  by (intro image.equality) (auto simp: number_inj proto_json_same [OF P(2)] dest: proto_json_eqD [OF P(1)] slice_strs_eq time_eqD)

lemma snapshot_json_inj:
  assumes P: "proto_injective P" "pe_proto Q = pe_proto P" and x: "snapshot_json P x = Some j" and y: "snapshot_json Q y = Some j"
  shows "x = y"
  using json_struct_eqD [OF x [unfolded snapshot_json_def] y [unfolded snapshot_json_def]]
  by (intro snapshot.equality) (auto simp: number_inj proto_json_same [OF P(2)] dest: proto_json_eqD [OF P(1)] slice_strs_eq time_eqD)

lemma nics_json_eqD:
  "slice_json P k (List.map (nic_json P) xs) = slice_json Q k (List.map (nic_json Q) ys) \<Longrightarrow> xs = ys"
  by (auto dest!: slice_json_eqD intro: map_eqD nic_json_inj)

lemma disks_json_eqD:
  assumes "map_option (slice_json P k) (those (List.map attached_disk_json xs)) = map_option (slice_json Q k) (those (List.map attached_disk_json ys))"
    "marshalled (map_option (slice_json P k) (those (List.map attached_disk_json xs)))"
  shows "xs = ys"
proof -
  obtain js where "those (List.map attached_disk_json xs) = Some js" using assms(2) by (auto simp: marshalled_def)
  moreover have "those (List.map attached_disk_json ys) = Some js"
    using assms(1) calculation slice_json_eqD by (auto simp: map_option_eq_Some dest: sym)
  ultimately show ?thesis by (rule those_map_eqD) (rule attached_disk_json_inj)
qed

lemma instance_json_inj:
  assumes P: "proto_injective P" "pe_proto Q = pe_proto P" and x: "instance_json P x = Some j" and y: "instance_json Q y = Some j"
  shows "x = y"
  using json_struct_eqD [OF x [unfolded instance_json_def] y [unfolded instance_json_def]]
  by (intro instance_row.equality)
     (auto simp: number_inj proto_json_same [OF P(2)] dest: proto_json_eqD [OF P(1)] time_eqD nics_json_eqD disks_json_eqD)

section \<open>Events\<close>

lemma json_struct_size: "json_struct fs = Some (JObj m) \<Longrightarrow> size m = size fs"
  by (auto simp: json_struct_Some marshal_fields_iff)

fun event_size :: "event_payload \<Rightarrow> nat" where
  "event_size (PDisk d) = 18"
| "event_size (PImage i) = 20"
| "event_size (PSnapshot s) = 13"
| "event_size (PInstance i) = 35"
| "event_size (PId i) = 1"
| "event_size PEmpty = 0"

lemma event_json_size: "event_json P p = Some (JObj m) \<Longrightarrow> size m = event_size p"
  by (cases p) (auto simp: event_json_def disk_json_def image_json_def snapshot_json_def instance_json_def
      dest: json_struct_size)

text \<open>No two objects, of the same kind or not, have the same JSON.\<close>

lemma event_json_inj:
  assumes P: "proto_injective P" "pe_proto Q = pe_proto P" and p: "event_json P p = Some j" and q: "event_json Q q = Some j"
  shows "p = q"
proof -
  obtain m where "j = JObj m" using event_json_JObj p by blast
  then have "event_size p = event_size q" using event_json_size p q by metis
  then show ?thesis
    using p q by (cases p; cases q)
      (auto simp: event_json_def dest: disk_json_inj [OF P] image_json_inj [OF P] snapshot_json_inj [OF P] instance_json_inj [OF P])
qed

definition event_exact :: "payload_env \<Rightarrow> event_payload \<Rightarrow> bool" where
  "event_exact P p \<longleftrightarrow> (case event_json P p of None \<Rightarrow> False | Some j \<Rightarrow> exact_json j)"

lemma event_exactE:
  assumes "event_exact P p"
  obtains j where "event_json P p = Some j" "payload_map P p = j"
  using assms by (auto simp: event_exact_def payload_map_Some float_json_exact split: option.splits)

lemma payload_map_inj:
  assumes "proto_injective P" "pe_proto Q = pe_proto P" "event_exact P p" "event_exact Q q" "payload_map P p = payload_map Q q"
  shows "p = q"
  using assms by (auto elim!: event_exactE intro: event_json_inj)

text \<open>What exactness asks of a disk: numbers of at most 53 bits, a creation time in the years of
  RFC 3339, messages that can be marshalled.\<close>

lemma exact_struct:
  "(\<exists>j. json_struct fs = Some j \<and> exact_json j) \<longleftrightarrow> list_all (\<lambda>f. case snd f of None \<Rightarrow> False | Some j \<Rightarrow> exact_json j) fs"
proof (induction fs)
  case (Cons f fs)
  then show ?case by (cases f; cases "snd f") (auto simp: struct_simps)
qed (simp add: json_struct_def)

definition exact_proto :: "payload_env \<Rightarrow> proto_msg option \<Rightarrow> bool" where
  "exact_proto P m \<longleftrightarrow> (case proto_json P m of None \<Rightarrow> False | Some j \<Rightarrow> exact_json j)"

lemma exact_leaves [simp]:
  "exact_json (json_of_map m)" "exact_json (slice_json P k (List.map JStr xs))"
  by (auto simp: json_of_map_def slice_json_def list_all_iff split: option.split)

lemma disk_event_exact:
  "event_exact P (PDisk d) \<longleftrightarrow> \<bar>d_size d\<bar> \<le> 2 ^ 53 \<and> \<bar>d_block_size d\<bar> \<le> 2 ^ 53 \<and> time_json (d_created_at d) \<noteq> None
    \<and> exact_proto P (d_placement_policy d) \<and> exact_proto P (d_hardware_generation d) \<and> exact_proto P (d_kms_key d)"
proof -
  have n: "\<bar>disk_status_number s\<bar> \<le> 9007199254740992" for s by (cases s) simp_all
  have t: "(case time_json u of None \<Rightarrow> False | Some j \<Rightarrow> exact_json j) \<longleftrightarrow> time_json u \<noteq> None" for u
    by (simp add: time_json_def)
  have "event_exact P (PDisk d) \<longleftrightarrow> (\<exists>j. disk_json P d = Some j \<and> exact_json j)"
    by (auto simp: event_exact_def event_json_def split: option.splits)
  then show ?thesis
    unfolding disk_json_def exact_struct by (auto simp: n t simp flip: exact_proto_def)
qed

text \<open>Beyond 53 bits two objects may share a payload.\<close>

definition two_images :: "int \<Rightarrow> image" where
  "two_images n = \<lparr> im_id = ''fd8'', im_project_id = ''prj1'', im_created_at = 0, im_name = '''', im_description = '''',
     im_labels = None, im_family = '''', im_storage_size = 0, im_min_disk_size = n, im_product_ids = [],
     im_status = ImageStatusReady, im_os_type = OsTypeUnspecified, im_os_nvidia_driver = '''', im_pooled = False,
     im_hardware_generation = None, im_kms_key = None, im_source_image_id = '''', im_source_snapshot_id = '''',
     im_source_disk_id = '''', im_source_uri = '''' \<rparr>"

lemma float64_odd: "float64 (2 ^ 53 + 1) = 2 ^ 53"
proof -
  have "floorlog 2 9007199254740993 = 54"
    by (rule antisym) (simp_all add: floorlog_leI floorlog_geI)
  then have "ulp 9007199254740993 = 2" by (simp add: ulp_def)
  then show ?thesis by (simp add: float64_def round_even_def Let_def)
qed

lemma payload_rounds_min_disk_size:
  "payload_map P (PImage (two_images (2 ^ 53 + 1))) = payload_map P (PImage (two_images (2 ^ 53)))"
proof -
  have "float64 (2 ^ 53 + 1) = float64 (2 ^ 53)" unfolding float64_odd by (simp add: float64_exact)
  then show ?thesis
    by (simp add: payload_map_def imagePayload_def domainToMap_def image_json_def json_struct_def two_images_def
        proto_json_def time_json_def)
qed

end
