(* ===== verification/Portmock.thy ===== *)
theory Portmock
  imports RepoContract
begin

text \<open>
  The in-memory repositories of internal/ports/portmock, which the tests of the
  use cases run on, as a second implementation of the ports. A Go map is an
  association list whose order stands for the unspecified iteration order; the
  pointer a Get returns is read as the value it points to at that time.
\<close>

section \<open>Maps of objects\<close>

record 'x mock_repo =
  mk_data :: "(string \<times> 'x) list"
  mk_last_emit_labels :: "bool option"

definition mock_seed :: "('x \<Rightarrow> string) \<Rightarrow> 'x \<Rightarrow> 'x mock_repo \<Rightarrow> 'x mock_repo" where
  "mock_seed key x r = r\<lparr> mk_data := AList.update (key x) x (mk_data r) \<rparr>"

definition mock_get :: "string \<Rightarrow> 'x mock_repo \<Rightarrow> go_error + 'x" where
  "mock_get i r = (case map_of (mk_data r) i of None \<Rightarrow> Inl (Sentinel ErrNotFound) | Some x \<Rightarrow> Inr x)"

definition allowSet :: "string list option \<Rightarrow> string set option" where
  "allowSet ids = map_option set ids"

definition mock_list ::
  "('x \<Rightarrow> string) \<Rightarrow> ('x \<Rightarrow> string) \<Rightarrow> list_filter \<Rightarrow> 'x mock_repo \<Rightarrow> go_error + ('x list \<times> string)" where
  "mock_list key project f r =
    (if lf_allowed_ids f = Some [] then Inr ([], '''')
     else Inr (filter (\<lambda>x. (lf_project_id f = '''' \<or> project x = lf_project_id f)
                 \<and> (case allowSet (lf_allowed_ids f) of None \<Rightarrow> True | Some A \<Rightarrow> key x \<in> A))
               (List.map snd (mk_data r)), ''''))"

definition mock_insert ::
  "('x \<Rightarrow> string) \<Rightarrow> ('x \<Rightarrow> string) \<Rightarrow> ('x \<Rightarrow> string) \<Rightarrow> 'x \<Rightarrow> 'x mock_repo \<Rightarrow> (go_error + 'x) \<times> 'x mock_repo" where
  "mock_insert key project nm x r =
    (if nm x \<noteq> '''' \<and> list_ex (\<lambda>y. project y = project x \<and> nm y = nm x) (List.map snd (mk_data r))
     then (Inl (Sentinel ErrAlreadyExists), r)
     else (Inr x, mock_seed key x r))"

definition mock_update :: "('x \<Rightarrow> string) \<Rightarrow> 'x \<Rightarrow> bool \<Rightarrow> string list \<Rightarrow> 'x mock_repo \<Rightarrow> (go_error + 'x) \<times> 'x mock_repo" where
  "mock_update key x emitLabelsRegister changed r =
    (let r1 = r\<lparr> mk_last_emit_labels := Some emitLabelsRegister \<rparr> in
     if map_of (mk_data r) (key x) = None then (Inl (Sentinel ErrNotFound), r1) else (Inr x, mock_seed key x r1))"

definition mock_delete :: "string \<Rightarrow> 'x mock_repo \<Rightarrow> (go_error + unit) \<times> 'x mock_repo" where
  "mock_delete i r =
    (if map_of (mk_data r) i = None then (Inl (Sentinel ErrNotFound), r)
     else (Inr (), r\<lparr> mk_data := AList.delete i (mk_data r) \<rparr>))"

text \<open>A write through the pointer found under a key.\<close>

definition mock_modify :: "string \<Rightarrow> ('x \<Rightarrow> go_error + 'x) \<Rightarrow> go_error \<Rightarrow> 'x mock_repo \<Rightarrow> (go_error + 'x) \<times> 'x mock_repo" where
  "mock_modify i f missing r =
    (case map_of (mk_data r) i of
       None \<Rightarrow> (Inl missing, r)
     | Some x \<Rightarrow> (case f x of Inl e \<Rightarrow> (Inl e, r) | Inr y \<Rightarrow> (Inr y, r\<lparr> mk_data := AList.update i y (mk_data r) \<rparr>)))"

text \<open>Every object lies under its own id.\<close>

definition mock_ok :: "('x \<Rightarrow> string) \<Rightarrow> 'x mock_repo \<Rightarrow> bool" where
  "mock_ok key r \<longleftrightarrow> list_all (\<lambda>(k, x). key x = k) (mk_data r) \<and> distinct (List.map fst (mk_data r))"

section \<open>The repositories\<close>

definition mock_disk_seed :: "disk \<Rightarrow> disk mock_repo \<Rightarrow> disk mock_repo" where "mock_disk_seed = mock_seed d_id"
definition mock_disk_get :: "string \<Rightarrow> disk mock_repo \<Rightarrow> go_error + disk" where "mock_disk_get = mock_get"
definition mock_disk_list :: "list_filter \<Rightarrow> pagination \<Rightarrow> disk mock_repo \<Rightarrow> go_error + (disk list \<times> string)" where
  "mock_disk_list f p = mock_list d_id d_project_id f"
definition mock_disk_insert :: "disk \<Rightarrow> disk mock_repo \<Rightarrow> (go_error + disk) \<times> disk mock_repo" where
  "mock_disk_insert = mock_insert d_id d_project_id d_name"
definition mock_disk_update :: "disk \<Rightarrow> bool \<Rightarrow> string list \<Rightarrow> disk mock_repo \<Rightarrow> (go_error + disk) \<times> disk mock_repo" where
  "mock_disk_update = mock_update d_id"
definition mock_disk_delete :: "string \<Rightarrow> disk mock_repo \<Rightarrow> (go_error + unit) \<times> disk mock_repo" where
  "mock_disk_delete = mock_delete"
definition mock_disk_set_zone :: "string \<Rightarrow> string \<Rightarrow> disk mock_repo \<Rightarrow> (go_error + disk) \<times> disk mock_repo" where
  "mock_disk_set_zone i zoneID = mock_modify i (\<lambda>d. Inr (d\<lparr> d_zone_id := zoneID \<rparr>)) (Sentinel ErrNotFound)"

definition mock_image_seed :: "image \<Rightarrow> image mock_repo \<Rightarrow> image mock_repo" where "mock_image_seed = mock_seed im_id"
definition mock_image_get :: "string \<Rightarrow> image mock_repo \<Rightarrow> go_error + image" where "mock_image_get = mock_get"

text \<open>The scan keeps the first image met with the latest creation time.\<close>

definition mock_image_latest :: "string \<Rightarrow> string \<Rightarrow> image mock_repo \<Rightarrow> go_error + image" where
  "mock_image_latest folderID family r =
    (case fold (\<lambda>i best. if im_project_id i \<noteq> folderID \<or> im_family i \<noteq> family then best
                  else (case best of None \<Rightarrow> Some i
                        | Some b \<Rightarrow> if im_created_at b < im_created_at i then Some i else best))
            (List.map snd (mk_data r)) None of
       None \<Rightarrow> Inl (Sentinel ErrNotFound) | Some b \<Rightarrow> Inr b)"

definition mock_image_list :: "list_filter \<Rightarrow> pagination \<Rightarrow> image mock_repo \<Rightarrow> go_error + (image list \<times> string)" where
  "mock_image_list f p = mock_list im_id im_project_id f"
definition mock_image_insert :: "image \<Rightarrow> image mock_repo \<Rightarrow> (go_error + image) \<times> image mock_repo" where
  "mock_image_insert = mock_insert im_id im_project_id im_name"
definition mock_image_update :: "image \<Rightarrow> bool \<Rightarrow> string list \<Rightarrow> image mock_repo \<Rightarrow> (go_error + image) \<times> image mock_repo" where
  "mock_image_update = mock_update im_id"
definition mock_image_delete :: "string \<Rightarrow> image mock_repo \<Rightarrow> (go_error + unit) \<times> image mock_repo" where
  "mock_image_delete = mock_delete"

definition mock_snapshot_seed :: "snapshot \<Rightarrow> snapshot mock_repo \<Rightarrow> snapshot mock_repo" where "mock_snapshot_seed = mock_seed sn_id"
definition mock_snapshot_get :: "string \<Rightarrow> snapshot mock_repo \<Rightarrow> go_error + snapshot" where "mock_snapshot_get = mock_get"
definition mock_snapshot_list :: "list_filter \<Rightarrow> pagination \<Rightarrow> snapshot mock_repo \<Rightarrow> go_error + (snapshot list \<times> string)" where
  "mock_snapshot_list f p = mock_list sn_id sn_project_id f"
definition mock_snapshot_insert :: "snapshot \<Rightarrow> snapshot mock_repo \<Rightarrow> (go_error + snapshot) \<times> snapshot mock_repo" where
  "mock_snapshot_insert = mock_insert sn_id sn_project_id sn_name"
definition mock_snapshot_update :: "snapshot \<Rightarrow> bool \<Rightarrow> string list \<Rightarrow> snapshot mock_repo \<Rightarrow> (go_error + snapshot) \<times> snapshot mock_repo" where
  "mock_snapshot_update = mock_update sn_id"
definition mock_snapshot_delete :: "string \<Rightarrow> snapshot mock_repo \<Rightarrow> (go_error + unit) \<times> snapshot mock_repo" where
  "mock_snapshot_delete = mock_delete"

definition mock_instance_seed :: "instance_row \<Rightarrow> instance_row mock_repo \<Rightarrow> instance_row mock_repo" where
  "mock_instance_seed = mock_seed in_id"
definition mock_instance_get :: "string \<Rightarrow> instance_row mock_repo \<Rightarrow> go_error + instance_row" where "mock_instance_get = mock_get"
definition mock_instance_list :: "list_filter \<Rightarrow> pagination \<Rightarrow> instance_row mock_repo \<Rightarrow> go_error + (instance_row list \<times> string)" where
  "mock_instance_list f p = mock_list in_id in_project_id f"
definition mock_instance_insert :: "instance_row \<Rightarrow> instance_row mock_repo \<Rightarrow> (go_error + instance_row) \<times> instance_row mock_repo" where
  "mock_instance_insert = mock_insert in_id in_project_id in_name"
definition mock_instance_update ::
  "instance_row \<Rightarrow> bool \<Rightarrow> string list \<Rightarrow> instance_row mock_repo \<Rightarrow> (go_error + instance_row) \<times> instance_row mock_repo" where
  "mock_instance_update = mock_update in_id"
definition mock_instance_delete :: "string \<Rightarrow> instance_row mock_repo \<Rightarrow> (go_error + unit) \<times> instance_row mock_repo" where
  "mock_instance_delete = mock_delete"

definition mock_set_status_cas ::
  "string \<Rightarrow> instance_status \<Rightarrow> instance_status \<Rightarrow> instance_row mock_repo \<Rightarrow> (go_error + instance_row) \<times> instance_row mock_repo" where
  "mock_set_status_cas i expected next =
    mock_modify i (\<lambda>x. if in_status x \<noteq> expected
                      then Inl (Wrapped ErrFailedPrecondition ''state transition not allowed from current status'')
                      else Inr (x\<lparr> in_status := next \<rparr>)) (Sentinel ErrNotFound)"

definition instance_missing :: "string \<Rightarrow> go_error" where
  "instance_missing i = Wrapped ErrNotFound (''Instance '' @ i @ '' not found'')"

definition mock_gate_for_attach :: "string \<Rightarrow> instance_row mock_repo \<Rightarrow> go_error + (string \<times> string \<times> string)" where
  "mock_gate_for_attach i r =
    (case map_of (mk_data r) i of
       None \<Rightarrow> Inl (instance_missing i)
     | Some x \<Rightarrow>
        if in_status x \<noteq> InstanceStatusRunning \<and> in_status x \<noteq> InstanceStatusStopped
        then Inl (Wrapped ErrFailedPrecondition ''Instance must be RUNNING or STOPPED'')
        else Inr (in_zone_id x, in_project_id x, in_name x))"

definition mock_mark_deleting :: "string \<Rightarrow> instance_row mock_repo \<Rightarrow> (go_error + instance_row) \<times> instance_row mock_repo" where
  "mock_mark_deleting i = mock_modify i (\<lambda>x. Inr (x\<lparr> in_status := InstanceStatusDeleting \<rparr>)) (instance_missing i)"

definition mock_merge_metadata ::
  "string \<Rightarrow> string list \<Rightarrow> gomap \<Rightarrow> instance_row mock_repo \<Rightarrow> (go_error + instance_row) \<times> instance_row mock_repo" where
  "mock_merge_metadata i del upsert =
    mock_modify i (\<lambda>x. Inr (x\<lparr> in_metadata := Some
        (fold (\<lambda>(k, v). AList.update k v) (gomap_entries upsert)
          (fold AList.delete del (gomap_entries (in_metadata x)))) \<rparr>)) (Sentinel ErrNotFound)"

definition mock_disk_types :: "string list \<Rightarrow> disk_type mock_repo" where
  "mock_disk_types ids =
    \<lparr> mk_data = fold (\<lambda>i. AList.update i \<lparr> dt_id = i, dt_description = '''', dt_zone_ids = [], dt_created_at = 0 \<rparr>)
        (if ids = [] then [''network-ssd'', ''network-hdd''] else ids) [],
      mk_last_emit_labels = None \<rparr>"

definition mock_disk_type_get :: "string \<Rightarrow> disk_type mock_repo \<Rightarrow> go_error + disk_type" where "mock_disk_type_get = mock_get"
definition mock_disk_type_list :: "pagination \<Rightarrow> disk_type mock_repo \<Rightarrow> go_error + (disk_type list \<times> string)" where
  "mock_disk_type_list p r = Inr (sort_key dt_id (List.map snd (mk_data r)), '''')"
definition mock_disk_type_insert :: "disk_type \<Rightarrow> disk_type mock_repo \<Rightarrow> (go_error + disk_type) \<times> disk_type mock_repo" where
  "mock_disk_type_insert t r =
    (if map_of (mk_data r) (dt_id t) \<noteq> None then (Inl (Sentinel ErrAlreadyExists), r) else (Inr t, mock_seed dt_id t r))"
definition mock_disk_type_update :: "disk_type \<Rightarrow> disk_type mock_repo \<Rightarrow> (go_error + disk_type) \<times> disk_type mock_repo" where
  "mock_disk_type_update t r =
    (if map_of (mk_data r) (dt_id t) = None then (Inl (Sentinel ErrNotFound), r) else (Inr t, mock_seed dt_id t r))"
definition mock_disk_type_delete :: "string \<Rightarrow> disk_type mock_repo \<Rightarrow> (go_error + unit) \<times> disk_type mock_repo" where
  "mock_disk_type_delete = mock_delete"

definition mock_get_zone :: "string list \<Rightarrow> string \<Rightarrow> go_error option" where
  "mock_get_zone seeded zoneID = (if zoneID \<notin> set seeded then Some (Sentinel ErrNotFound) else None)"

definition mock_default_zones :: "string list" where
  "mock_default_zones = [''ru-central1-a'', ''ru-central1-b'', ''ru-central1-d'']"

definition mock_project_exists :: "bool \<Rightarrow> string \<Rightarrow> go_error + bool" where
  "mock_project_exists answer p = Inr answer"

section \<open>The contract holds\<close>

text \<open>An id is not unique: Insert overwrites, so these are not strict repositories.\<close>

lemma mock_okD: "mock_ok key r \<Longrightarrow> map_of (mk_data r) i = Some x \<Longrightarrow> key x = i"
  by (auto simp: mock_ok_def list_all_iff dest!: map_of_SomeD)

lemma mock_ok_update: "mock_ok key r \<Longrightarrow> key x = i \<Longrightarrow> mock_ok key (r\<lparr> mk_data := AList.update i x (mk_data r) \<rparr>)"
proof -
  assume r: "mock_ok key r" "key x = i"
  have "set (AList.update i x xs) \<subseteq> insert (i, x) (set xs)" for xs
    by (induction xs) auto
  then show ?thesis using r by (fastforce simp: mock_ok_def list_all_iff distinct_update)
qed

lemma mock_ok_delete: "mock_ok key r \<Longrightarrow> mock_ok key (r\<lparr> mk_data := AList.delete i (mk_data r) \<rparr>)"
  by (auto simp: mock_ok_def list_all_iff distinct_delete) (auto simp: AList.delete_eq)

lemma mock_seed_laws [simp]:
  "mock_get (key x) (mock_seed key x r) = Inr x" "j \<noteq> key x \<Longrightarrow> mock_get j (mock_seed key x r) = mock_get j r"
  "mock_ok key r \<Longrightarrow> mock_ok key (mock_seed key x r)"
  using mock_ok_update [of key r x "key x"] by (simp_all add: mock_seed_def mock_get_def AList.update_conv')

lemma mock_delete_laws:
  "mock_delete i r = (Inr (), r') \<Longrightarrow> \<not> absent (mock_get i r)"
  "mock_delete i r = (Inr (), r') \<Longrightarrow> absent (mock_get i r')"
  "mock_delete i r = (Inr (), r') \<Longrightarrow> j \<noteq> i \<Longrightarrow> mock_get j r' = mock_get j r"
  "mock_delete i r = (Inl e, r') \<Longrightarrow> r' = r"
  "mock_ok key r \<Longrightarrow> mock_ok key (snd (mock_delete i r))"
  using mock_ok_delete [of key r i] by (auto simp: mock_delete_def mock_get_def AList.delete_conv' split: if_splits option.splits)

lemma mock_get_None: "map_of (mk_data r) i = None \<longleftrightarrow> mock_get i r = Inl (Sentinel ErrNotFound)"
  by (simp add: mock_get_def split: option.splits)

lemma mock_get_key: "mock_ok key r \<Longrightarrow> mock_get i r = Inr x \<Longrightarrow> key x = i"
  using mock_okD by (fastforce simp: mock_get_def split: option.splits)

lemma mock_repo_contract: "resource_repo (mock_ok key) key mock_get (mock_insert key project nm) mock_delete"
  by unfold_locales (auto simp: mock_insert_def split: if_splits dest: mock_get_key mock_delete_laws)

lemma mock_type_contract: "strict_repo (mock_ok dt_id) dt_id mock_get mock_disk_type_insert mock_delete"
  by unfold_locales (auto simp: mock_disk_type_insert_def mock_get_None split: if_splits dest: mock_get_key mock_delete_laws)

interpretation mock_disk_contract: resource_repo "mock_ok d_id" d_id mock_disk_get mock_disk_insert mock_disk_delete
  unfolding mock_disk_get_def mock_disk_insert_def mock_disk_delete_def by (rule mock_repo_contract)

interpretation mock_image_contract: resource_repo "mock_ok im_id" im_id mock_image_get mock_image_insert mock_image_delete
  unfolding mock_image_get_def mock_image_insert_def mock_image_delete_def by (rule mock_repo_contract)

interpretation mock_snapshot_contract: resource_repo "mock_ok sn_id" sn_id mock_snapshot_get mock_snapshot_insert mock_snapshot_delete
  unfolding mock_snapshot_get_def mock_snapshot_insert_def mock_snapshot_delete_def by (rule mock_repo_contract)

interpretation mock_instance_contract: resource_repo "mock_ok in_id" in_id mock_instance_get mock_instance_insert mock_instance_delete
  unfolding mock_instance_get_def mock_instance_insert_def mock_instance_delete_def by (rule mock_repo_contract)

text \<open>A type is never overwritten.\<close>

interpretation mock_disk_type_contract: strict_repo "mock_ok dt_id" dt_id mock_disk_type_get mock_disk_type_insert mock_disk_type_delete
  unfolding mock_disk_type_get_def mock_disk_type_delete_def by (rule mock_type_contract)

end
