(* ===== verification/AsyncProperties.thy ===== *)
theory AsyncProperties
  imports Operations Recovery Watch Payload Portmock
begin

text \<open>
  What holds of the asynchronous side: operations are visible to their owner
  only, orphaned operations are brought to the outcome their worker would have
  recorded, and the event stream ends its reads, keeps its order and loses
  nothing that becomes visible in order.
\<close>

section \<open>Concrete runs\<close>

definition fx_outbox_row :: "nat \<Rightarrow> outbox_row" where
  "fx_outbox_row n = \<lparr> ob_seq = n, ob_kind = ''Disk'', ob_id = ''dsk1'', ob_event = ''UPDATED'', ob_payload = PEmpty \<rparr>"

text \<open>A stream over given tables; the last one stays.\<close>

definition fx_watch_env :: "nat list list \<Rightarrow> unit watch_env" where
  "fx_watch_env tabs = \<lparr> we_table = (\<lambda>n. List.map fx_outbox_row (tabs ! min n (size tabs - 1))), we_query = (\<lambda>_. None), we_fetch = (\<lambda>_. None),
     we_scan = (\<lambda>_. None), we_payload = (\<lambda>_. []), we_unmarshal = (\<lambda>_. Inr ()), we_empty = (), we_created = (\<lambda>_. 0), we_send = (\<lambda>_. None) \<rparr>"

text \<open>What the witnesses below need of the runs they show, evaluated once.\<close>

lemma fx_async_runs:
  "(is_ok (disk_service_create fx_disks fx_op 1500 ''dsk1'' fx_disk_req))
   \<and> (absent (disk_get (calm fx_env) ''dsk1'' fx_db0))
   \<and> (is_ok (instance_service_delete fx_instances fx_op ''epd1''))
   \<and> (is_ok (instance_get (calm fx_env) ''epd1'' (w_db fx_world)))
   \<and> (is_ok (instance_service_attach_nic fx_instances \<lparr> px_instance = ''epd'', px_volume = ''vol'', px_nic = ''nic'' \<rparr> fx_op ''epd1'' ''nic1'' 0))
   \<and> (Watch (fx_watch_env [[3], [3, 5]]) 32 0 None None 0 [] [Notified] = Some (Waiting, List.map (event_of_row (fx_watch_env [])) [fx_outbox_row 3, fx_outbox_row 5]))
   \<and> (Watch (fx_watch_env [[5], [3, 5]]) 32 0 None None 0 [] [Notified, TimedOut] = Some (Waiting, [event_of_row (fx_watch_env []) (fx_outbox_row 5)]))
   \<and> (\<not> is_space (CHR ''{''))"
  by code_simp

section \<open>Operations\<close>







section \<open>Orphaned operations\<close>

text \<open>C14: a crash of a Create loses nothing. For each of the four resources, whatever the worker
  did and reported, the resolver gives the orphan exactly that outcome on the
  state the worker left: the created resource as the response if the row was
  committed, an interruption if it was not.\<close>

theorem orphan_create_settled:
  assumes "new_keeps_meta O1" "resolver_works V"
  shows "(disk_service_create (pg_disk_service C E P) O1 now i dq = Inr (o1, w1) \<and> absent (disk_get (calm E) i s) \<longrightarrow> settled V E o1 (w1 s))
    \<and> (image_service_create (pg_image_service C E P) O1 now i iq = Inr (o2, w2) \<and> absent (image_get (calm E) i s) \<longrightarrow> settled V E o2 (w2 s))
    \<and> (snapshot_service_create (pg_snapshot_service C E P) O1 now i sq = Inr (o3, w3) \<and> absent (snapshot_get (calm E) i s)
        \<longrightarrow> settled V E o3 (w3 s))
    \<and> (instance_service_create (I\<lparr> iv_repo := pg_instance_port C E \<rparr>) O1 now i vq = Inr (o4, w4)
        \<and> absent (instance_get (calm E) i (w_db w)) \<longrightarrow> settled V E o4 (db_part (w4 w)))"
proof (intro conjI impI; elim conjE)
  show "disk_service_create (pg_disk_service C E P) O1 now i dq = Inr (o1, w1) \<Longrightarrow> absent (disk_get (calm E) i s) \<Longrightarrow> settled V E o1 (w1 s)"
    by (rule disk_create_settled [OF _ assms])
  show "image_service_create (pg_image_service C E P) O1 now i iq = Inr (o2, w2) \<Longrightarrow> absent (image_get (calm E) i s) \<Longrightarrow> settled V E o2 (w2 s)"
    by (rule image_create_settled [OF _ assms])
  show "snapshot_service_create (pg_snapshot_service C E P) O1 now i sq = Inr (o3, w3) \<Longrightarrow> absent (snapshot_get (calm E) i s)
      \<Longrightarrow> settled V E o3 (w3 s)"
    by (rule snapshot_create_settled [OF _ assms])
  show "instance_service_create (I\<lparr> iv_repo := pg_instance_port C E \<rparr>) O1 now i vq = Inr (o4, w4)
      \<Longrightarrow> absent (instance_get (calm E) i (w_db w)) \<Longrightarrow> settled V E o4 (db_part (w4 w))"
    by (rule instance_create_settled [OF _ assms])
qed

definition fx_resolver :: resolver_env where
  "fx_resolver = \<lparr> rv_decodable = (\<lambda>_. True), rv_new_any = Inr \<rparr>"

lemma fx_resolver_works: "resolver_works fx_resolver" by (simp add: resolver_works_def fx_resolver_def)

lemma fx_op_keeps: "new_keeps_meta fx_op" by (simp add: new_keeps_meta_def fx_op_def)

theorem orphan_create_settled_witness:
  "\<exists>o1 wk. disk_service_create fx_disks fx_op 1500 ''dsk1'' fx_disk_req = Inr (o1, wk) \<and> settled fx_resolver fx_env o1 (wk fx_db0)"
proof -
  have "is_ok (disk_service_create fx_disks fx_op 1500 ''dsk1'' fx_disk_req)" using fx_async_runs by (elim conjE)
  then obtain o1 wk where r: "disk_service_create fx_disks fx_op 1500 ''dsk1'' fx_disk_req = Inr (o1, wk)"
    by (metis is_ok_iff surj_pair)
  have "absent (disk_get (calm fx_env) ''dsk1'' fx_db0)" using fx_async_runs by (elim conjE)
  then show ?thesis
    using orphan_create_settled [OF fx_op_keeps fx_resolver_works, THEN conjunct1, of fx_core fx_env fx_peers 1500 "''dsk1''" fx_disk_req o1 wk fx_db0]
      r by (auto simp: fx_disks_def)
qed

text \<open>C24: a crash of a Delete is judged rightly too, also of the instance Delete, which releases
  the bindings at their owners before the row goes: if the row is gone the
  orphan is done, and if the run failed anywhere the row is there and the
  orphan is interrupted. The object was readable before the run.\<close>

theorem orphan_delete_settled:
  assumes "new_keeps_meta O1" "resolver_works V"
  shows "(disk_service_delete (pg_disk_service C E P) O1 i = Inr (o1, w1) \<and> is_ok (disk_get (calm E) i s) \<longrightarrow> settled V E o1 (w1 s))
    \<and> (image_service_delete (pg_image_service C E P) O1 i = Inr (o2, w2) \<and> is_ok (image_get (calm E) i s) \<longrightarrow> settled V E o2 (w2 s))
    \<and> (snapshot_service_delete (pg_snapshot_service C E P) O1 i = Inr (o3, w3) \<and> is_ok (snapshot_get (calm E) i s)
        \<longrightarrow> settled V E o3 (w3 s))
    \<and> (instance_service_delete I O1 i = Inr (o4, w4) \<and> binding_owners invn bn nc invv bv vc \<and> iv_nics I = Some nc
        \<and> iv_vols I = Some vc \<and> pg_delete_repo E E (iv_repo I) \<and> invn (w_nics w) \<and> invv (w_vols w)
        \<and> is_ok (instance_get (calm E) i (w_db w)) \<longrightarrow> settled V E o4 (db_part (w4 w)))"
proof (intro conjI impI; elim conjE)
  show "disk_service_delete (pg_disk_service C E P) O1 i = Inr (o1, w1) \<Longrightarrow> is_ok (disk_get (calm E) i s) \<Longrightarrow> settled V E o1 (w1 s)"
    by (rule storage_deletes_settled(1) [OF assms])
  show "image_service_delete (pg_image_service C E P) O1 i = Inr (o2, w2) \<Longrightarrow> is_ok (image_get (calm E) i s) \<Longrightarrow> settled V E o2 (w2 s)"
    by (rule storage_deletes_settled(2) [OF assms])
  show "snapshot_service_delete (pg_snapshot_service C E P) O1 i = Inr (o3, w3) \<Longrightarrow> is_ok (snapshot_get (calm E) i s) \<Longrightarrow> settled V E o3 (w3 s)"
    by (rule storage_deletes_settled(3) [OF assms])
  show "instance_service_delete I O1 i = Inr (o4, w4) \<Longrightarrow> binding_owners invn bn nc invv bv vc \<Longrightarrow> iv_nics I = Some nc
      \<Longrightarrow> iv_vols I = Some vc \<Longrightarrow> pg_delete_repo E E (iv_repo I) \<Longrightarrow> invn (w_nics w) \<Longrightarrow> invv (w_vols w)
      \<Longrightarrow> is_ok (instance_get (calm E) i (w_db w)) \<Longrightarrow> settled V E o4 (db_part (w4 w))"
    by (rule instance_delete_settled [OF _ assms])
qed

theorem orphan_delete_settled_witness:
  "\<exists>o1 wk. instance_service_delete fx_instances fx_op ''epd1'' = Inr (o1, wk) \<and> settled fx_resolver fx_env o1 (db_part (wk fx_world))"
proof -
  have "is_ok (instance_service_delete fx_instances fx_op ''epd1'')" using fx_async_runs by (elim conjE)
  then obtain o1 wk where r: "instance_service_delete fx_instances fx_op ''epd1'' = Inr (o1, wk)"
    by (metis is_ok_iff surj_pair)
  have "is_ok (instance_get (calm fx_env) ''epd1'' (w_db fx_world))" using fx_async_runs by (elim conjE)
  then show ?thesis
    using orphan_delete_settled [OF fx_op_keeps fx_resolver_works, THEN conjunct2, THEN conjunct2, THEN conjunct2, rule_format,
        of fx_instances "''epd1''" o1 wk nic_owner_ok nic_bindings mock_nic_port vol_owner_ok vol_bindings mock_storage_port fx_env fx_world]
      r mock_owners.binding_owners_axioms fx_pg_delete fx_nic_owner_ok fx_vol_owner_ok by auto
qed

text \<open>An orphan of attaching or detaching a network interface is never settled. Its metadata
  type is missing from the resolver's switch, so every sweep skips it, whatever
  the resources show.\<close>

theorem nic_orphans_never_settled:
  assumes "new_keeps_meta O1"
    "instance_service_attach_nic I X O1 i nicID index = Inr (o1, wk) \<or> instance_service_detach_nic I X O1 i nicID index byIndex = Inr (o1, wk)"
  shows "Resolve V R (Some (op_metadata o1)) s = Inr ResSkip"
  by (rule nic_orphans_skipped [OF assms])

theorem nic_orphans_never_settled_witness:
  "\<exists>o1 wk. instance_service_attach_nic fx_instances \<lparr> px_instance = ''epd'', px_volume = ''vol'', px_nic = ''nic'' \<rparr> fx_op ''epd1'' ''nic1'' 0 = Inr (o1, wk)
     \<and> Resolve fx_resolver (pg_readers fx_env) (Some (op_metadata o1)) fx_db = Inr ResSkip"
proof -
  have "is_ok (instance_service_attach_nic fx_instances \<lparr> px_instance = ''epd'', px_volume = ''vol'', px_nic = ''nic'' \<rparr> fx_op ''epd1'' ''nic1'' 0)" using fx_async_runs by (elim conjE)
  then obtain o1 wk where
    r: "instance_service_attach_nic fx_instances \<lparr> px_instance = ''epd'', px_volume = ''vol'', px_nic = ''nic'' \<rparr> fx_op ''epd1'' ''nic1'' 0 = Inr (o1, wk)"
    by (metis is_ok_iff surj_pair)
  show ?thesis
    using nic_orphans_never_settled [OF fx_op_keeps, of fx_instances "\<lparr> px_instance = ''epd'', px_volume = ''vol'', px_nic = ''nic'' \<rparr>" "''epd1''"
        "''nic1''" 0 o1 wk False fx_resolver "pg_readers fx_env" fx_db] r by blast
qed

section \<open>The event stream\<close>

text \<open>C25: the reads of a Watch end. If the rows the queries can ever see are finitely many, each
  round of batches stops and so does the stream for any finite number of
  wake-ups, with or without failures; a reading loop could only go on forever
  behind a table that grows by full batches forever.\<close>

theorem watch_ends:
  assumes "finite S" "\<And>m. set (we_table E m) \<subseteq> S" "\<And>m. distinct (List.map ob_seq (we_table E m))"
  shows "\<exists>y. Watch E slots inUse connect listen fromSeq kinds ws = Some y"
proof -
  obtain y where "streamSince E kinds 0 fromSeq [] = Some y" using streamSince_returns [OF assms] by blast
  then show ?thesis using watch_loop_returns [OF assms] by (auto simp: Watch_def split: option.splits)
qed

theorem watch_ends_witness:
  "\<exists>y. Watch (fx_watch_env [[3], [3, 5]]) 32 0 None None 0 [] [Notified] = Some y"
proof (rule watch_ends)
  show "finite {fx_outbox_row 3, fx_outbox_row 5}" by simp
  show "set (we_table (fx_watch_env [[3], [3, 5]]) m) \<subseteq> {fx_outbox_row 3, fx_outbox_row 5}" for m
    by (cases m) (auto simp: fx_watch_env_def nth_Cons')
  show "distinct (List.map ob_seq (we_table (fx_watch_env [[3], [3, 5]]) m))" for m
    by (cases m) (auto simp: fx_watch_env_def nth_Cons' fx_outbox_row_def)
qed

text \<open>C13: a Watch loses nothing that becomes visible in order. Without failures, when every row
  that appears has a higher number than all rows visible before it, a stream
  that waits after some wake-ups has sent exactly the rows of the asked kinds
  above the asked number that its last read saw, each once, in the order of
  their numbers.\<close>

theorem watch_delivers_all:
  assumes "quiet E" "in_order E" "Watch E slots inUse None None fromSeq kinds ws = Some (Waiting, sent)"
  shows "\<exists>m\<ge>size ws. sent = all_after E kinds fromSeq m \<and> sorted_wrt (<) (List.map ev_seq sent)"
  by (rule Watch_complete [OF assms])

lemma fx_watch_run:
  "Watch (fx_watch_env [[3], [3, 5]]) 32 0 None None 0 [] [Notified] = Some (Waiting, List.map (event_of_row (fx_watch_env [])) [fx_outbox_row 3, fx_outbox_row 5])"
  using fx_async_runs by (elim conjE)

theorem watch_delivers_all_witness:
  "\<exists>m\<ge>1. List.map ev_seq (all_after (fx_watch_env [[3], [3, 5]]) [] 0 m) = [3, 5]"
proof -
  have q: "quiet (fx_watch_env tabs)" for tabs by (simp add: quiet_def fx_watch_env_def)
  have o: "in_order (fx_watch_env [[3], [3, 5]])"
    unfolding in_order_def by (auto simp: fx_watch_env_def nth_Cons' fx_outbox_row_def)
  obtain m where m: "1 \<le> m"
    "List.map (event_of_row (fx_watch_env [])) [fx_outbox_row 3, fx_outbox_row 5] = all_after (fx_watch_env [[3], [3, 5]]) [] 0 m"
    using watch_delivers_all [OF q o fx_watch_run] by auto
  have "List.map ev_seq (all_after (fx_watch_env [[3], [3, 5]]) [] 0 m) = [3, 5]"
    unfolding m(2) [symmetric] by (simp add: event_of_row_def fx_outbox_row_def)
  with m(1) show ?thesis by (intro exI [of _ m] conjI)
qed

text \<open>The order of visibility matters: a row whose transaction commits after that of a higher
  number is behind the cursor and never sent.\<close>

theorem watch_misses_late_row:
  "Watch (fx_watch_env [[5], [3, 5]]) 32 0 None None 0 [] [Notified, TimedOut] = Some (Waiting, [event_of_row (fx_watch_env []) (fx_outbox_row 5)])"
  using fx_async_runs by (elim conjE)

section \<open>Event payloads\<close>

text \<open>The payload column holds the map as JSON text, and reading it gives it back, numbers as float64.\<close>

definition faithful_column :: "(outbox_row \<Rightarrow> payload_env) \<Rightarrow> json watch_env \<Rightarrow> outbox_row \<Rightarrow> bool" where
  "faithful_column P W r \<longleftrightarrow>
     jsonBytesToStruct W (we_payload W r) = Inr (float_json (payload_map (P r) (ob_payload r)))"

lemma ev_payload_faithful: "faithful_column P W r \<Longrightarrow> ev_payload (event_of_row W r) = payload_map (P r) (ob_payload r)"
  by (simp add: faithful_column_def event_of_row_def)

text \<open>C39: An event carries the whole object: two events a watcher receives with the same payload
  were written for the same disk, image, snapshot, instance or deleted id, if no
  number in them has more than 53 bits.\<close>

theorem event_payload_determines_object:
  assumes "faithful_column P W r" "faithful_column P W s"
    "event_exact (P r) (ob_payload r)" "event_exact (P s) (ob_payload s)"
    "proto_injective (P r)" "pe_proto (P s) = pe_proto (P r)"
    "ev_payload (event_of_row W r) = ev_payload (event_of_row W s)"
  shows "ob_payload r = ob_payload s"
  using assms by (auto simp: ev_payload_faithful intro: payload_map_inj)

definition fx_payload_env :: payload_env where
  "fx_payload_env = \<lparr> pe_proto = (\<lambda>m. Some (JStr m)), pe_nil = (\<lambda>_. True) \<rparr>"

definition fx_event_row :: "nat \<Rightarrow> outbox_row" where
  "fx_event_row n = \<lparr> ob_seq = n, ob_kind = ''Disk'', ob_id = ''dsk1'', ob_event = ''UPDATED'', ob_payload = PDisk fx_disk \<rparr>"

definition fx_payload_watch :: "json watch_env" where
  "fx_payload_watch = \<lparr> we_table = (\<lambda>_. []), we_query = (\<lambda>_. None), we_fetch = (\<lambda>_. None), we_scan = (\<lambda>_. None),
     we_payload = (\<lambda>_. ''{...}''), we_unmarshal = (\<lambda>_. Inr (payload_map fx_payload_env (PDisk fx_disk))),
     we_empty = JObj [], we_created = (\<lambda>_. 0), we_send = (\<lambda>_. None) \<rparr>"

theorem event_payload_determines_object_witness:
  "ob_payload (fx_event_row 3) = ob_payload (fx_event_row 5) \<and> ob_payload (fx_event_row 3) \<noteq> PId ''dsk1''"
proof -
  have sp: "\<not> is_space (CHR ''{'')" using fx_async_runs by (elim conjE)
  have col: "faithful_column (\<lambda>_. fx_payload_env) fx_payload_watch (fx_event_row n)" for n
    using sp by (simp add: faithful_column_def jsonBytesToStruct_def fx_payload_watch_def fx_event_row_def)
  have inj: "proto_injective fx_payload_env" by (simp add: proto_injective_def fx_payload_env_def)
  have ex: "event_exact fx_payload_env (ob_payload (fx_event_row n))" for n
    by (simp add: fx_event_row_def disk_event_exact fx_disk_def disk_of_req_def fx_disk_req_def exact_proto_def
        proto_json_def time_json_def fx_payload_env_def or_default_def defaultBlockSize_def)
  have "ev_payload (event_of_row fx_payload_watch (fx_event_row 3)) = ev_payload (event_of_row fx_payload_watch (fx_event_row 5))"
    unfolding ev_payload_faithful [OF col] by (simp add: fx_event_row_def)
  from event_payload_determines_object [OF col col ex ex inj refl this]
  show ?thesis by (simp add: fx_event_row_def)
qed

end
