(* ===== verification/Boot.thy ===== *)
theory Boot
  imports Authz Recovery
begin

text \<open>
  Start-up: internal/config/config.go (the configuration, the DSN, the per-edge
  credentials) and the composition root cmd/compute/main.go: the fail-closed
  gates of validateAuthMode, the dialling of the peers, the list filter, the
  register drainer and the interceptor chains of the two listeners. Dialling and
  TLS material are inputs. Log lines are left out.
\<close>

section \<open>Configuration\<close>

text \<open>grpcclient.TLSClient and grpcsrv.TLSServer: the switch, and the files and server
  name, which only the credential constructors of kacho-corelib read.\<close>

record tls =
  tls_enable :: bool
  tls_material :: string

record config =
  cf_db_host :: string
  cf_db_port :: string
  cf_db_user :: string
  cf_db_password :: string
  cf_db_name :: string
  cf_db_ssl_mode :: string
  cf_db_max_conns :: int
  cf_grpc_port :: string
  cf_internal_grpc_port :: string
  cf_watch_max_streams :: int
  cf_metrics_addr :: string
  cf_iam_addr :: string
  cf_geo_addr :: string
  cf_vpc_internal_addr :: string
  cf_storage_internal_addr :: string
  cf_skip_peer_validation :: bool
  cf_auth_mode :: string
  cf_authz_iam_addr :: string
  cf_authz_breakglass :: bool
  cf_trusted_forwarders :: "string list"
  cf_list_filter_enabled :: bool
  cf_list_filter_timeout_ms :: int
  cf_list_filter_cache_ttl_ms :: int
  cf_list_filter_cache_max :: int
  cf_list_filter_fail_open :: bool
  cf_register_drainer_enabled :: bool
  cf_require_iam :: bool
  cf_iam_register_mtls :: tls
  cf_iam_project_mtls :: tls
  cf_iam_authz_mtls :: tls
  cf_geo_mtls :: tls
  cf_vpc_nic_mtls :: tls
  cf_storage_mtls :: tls
  cf_public_server_mtls :: tls
  cf_internal_server_mtls :: tls

definition baseDSN :: "config \<Rightarrow> string" where
  "baseDSN c =
    (let mode = (if cf_db_ssl_mode c = '''' then ''disable'' else cf_db_ssl_mode c) in
     ''postgres://'' @ cf_db_user c @ '':'' @ cf_db_password c @ ''@'' @ cf_db_host c @ '':'' @ cf_db_port c
       @ ''/'' @ cf_db_name c @ ''?sslmode='' @ mode)"

definition DSN :: "config \<Rightarrow> string" where
  "DSN c = (if cf_db_max_conns c > 0 then baseDSN c @ ''&pool_max_conns='' @ int_dec (cf_db_max_conns c) else baseDSN c)"

definition MigrateDSN :: "config \<Rightarrow> string" where
  "MigrateDSN c = baseDSN c"

text \<open>What kacho-corelib and gRPC provide: credentials from a TLS value, a connection
  to an address (the flag is the keepalive of idle connections).\<close>

record ('k, 'c) transport =
  xp_client_creds :: "tls \<Rightarrow> go_error + 'k"
  xp_server_creds :: "tls \<Rightarrow> go_error + 'k"
  xp_dial :: "string \<Rightarrow> 'k \<Rightarrow> bool \<Rightarrow> go_error + 'c"

definition IAMRegisterClientCreds :: "('k, 'c) transport \<Rightarrow> config \<Rightarrow> go_error + 'k" where
  "IAMRegisterClientCreds X c = xp_client_creds X (cf_iam_register_mtls c)"

definition IAMProjectClientCreds :: "('k, 'c) transport \<Rightarrow> config \<Rightarrow> go_error + 'k" where
  "IAMProjectClientCreds X c = xp_client_creds X (cf_iam_project_mtls c)"

definition IAMAuthzClientCreds :: "('k, 'c) transport \<Rightarrow> config \<Rightarrow> go_error + 'k" where
  "IAMAuthzClientCreds X c = xp_client_creds X (cf_iam_authz_mtls c)"

definition GeoClientCreds :: "('k, 'c) transport \<Rightarrow> config \<Rightarrow> go_error + 'k" where
  "GeoClientCreds X c = xp_client_creds X (cf_geo_mtls c)"

definition VPCNicClientCreds :: "('k, 'c) transport \<Rightarrow> config \<Rightarrow> go_error + 'k" where
  "VPCNicClientCreds X c = xp_client_creds X (cf_vpc_nic_mtls c)"

definition StorageClientCreds :: "('k, 'c) transport \<Rightarrow> config \<Rightarrow> go_error + 'k" where
  "StorageClientCreds X c = xp_client_creds X (cf_storage_mtls c)"

definition PublicServerCreds :: "('k, 'c) transport \<Rightarrow> config \<Rightarrow> go_error + 'k" where
  "PublicServerCreds X c = xp_server_creds X (cf_public_server_mtls c)"

definition InternalServerCreds :: "('k, 'c) transport \<Rightarrow> config \<Rightarrow> go_error + 'k" where
  "InternalServerCreds X c = xp_server_creds X (cf_internal_server_mtls c)"

section \<open>The gates of the authentication mode\<close>

definition requireDBSSLMode :: "config \<Rightarrow> go_error option" where
  "requireDBSSLMode c =
    (if cf_db_ssl_mode c \<in> {''require'', ''verify-ca'', ''verify-full''} then None
     else Some (Plain (''production mode: KACHO_COMPUTE_DB_SSLMODE must be one of require|verify-ca|verify-full (got ''
       @ go_quote (cf_db_ssl_mode c) @ '')'')))"

text \<open>The arrow of the messages, in UTF-8.\<close>

definition right_arrow :: string where
  "right_arrow = [CHR 0xE2, CHR 0x86, CHR 0x92]"

definition requireTrustedForwarders :: "config \<Rightarrow> go_error option" where
  "requireTrustedForwarders c =
    (if cf_trusted_forwarders c = []
     then Some (Plain (''production mode requires a non-empty KACHO_COMPUTE_AUTHZ_TRUSTED_FORWARDER_SANS allow-list (empty ''
       @ right_arrow @ '' any mTLS peer is trusted to forward the end-user principal '' @ right_arrow
       @ '' subject spoofing / tenant crossing)''))
     else None)"

definition requireListFilter :: "config \<Rightarrow> go_error option" where
  "requireListFilter c =
    (if \<not> cf_list_filter_enabled c
     then Some (Plain (''production mode requires KACHO_COMPUTE_LIST_FILTER_ENABLED=true (false '' @ right_arrow
       @ '' public List bypasses the per-object FGA allow-list; project-tier viewer sees every resource ''
       @ right_arrow @ '' BOLA-lite)''))
     else if cf_authz_iam_addr c = ''''
     then Some (Plain (''production mode requires KACHO_COMPUTE_AUTHZ_IAM_GRPC_ADDR (list-filter authorize endpoint) to be set (empty ''
       @ right_arrow @ '' authzConn nil '' @ right_arrow @ '' public List bypasses the per-object FGA filter)''))
     else None)"

text \<open>The names of the edges whose switch is off, in the order they are appended.\<close>

definition off :: "bool \<Rightarrow> string \<Rightarrow> string list" where
  "off enabled name = (if enabled then [] else [name])"

definition insecure_listeners :: "config \<Rightarrow> string list" where
  "insecure_listeners c =
    off (tls_enable (cf_public_server_mtls c)) ''PUBLIC_SERVER_MTLS_ENABLE'' @
    off (tls_enable (cf_internal_server_mtls c)) ''INTERNAL_SERVER_MTLS_ENABLE''"

definition insecureListenersInProduction :: "config \<Rightarrow> go_error option" where
  "insecureListenersInProduction c =
    (let insecure = insecure_listeners c in
     if insecure = [] then None
     else Some (Plain (''production mode requires server-mTLS on both listeners (forwarded principal is trusted on plaintext ''
       @ right_arrow @ '' subject spoofing); insecure (Enable=false): '' @ join_str '', '' insecure)))"

definition insecureEdgesInProductionStrict :: "config \<Rightarrow> go_error option" where
  "insecureEdgesInProductionStrict c =
    (let insecure = insecure_listeners c @
       (if cf_skip_peer_validation c then []
        else off (tls_enable (cf_iam_project_mtls c)) ''IAM_PROJECT_MTLS_ENABLE'' @
             off (tls_enable (cf_geo_mtls c)) ''GEO_MTLS_ENABLE'') @
       off (cf_authz_breakglass c \<or> tls_enable (cf_iam_authz_mtls c)) ''IAM_AUTHZ_MTLS_ENABLE'' @
       off (\<not> cf_register_drainer_enabled c \<or> tls_enable (cf_iam_register_mtls c)) ''IAM_REGISTER_MTLS_ENABLE''
     in if insecure = [] then None
        else Some (Plain (''production-strict mode requires per-edge mTLS on all live transport edges; insecure (Enable=false): ''
               @ join_str '', '' insecure)))"

definition validateAuthMode :: "config \<Rightarrow> go_error + bool" where
  "validateAuthMode c =
    (if cf_auth_mode c = ''dev'' then Inr False
     else if cf_auth_mode c = ''production'' then
       guardE (insecureListenersInProduction c) (guardE (requireDBSSLMode c)
         (guardE (requireTrustedForwarders c) (guardE (requireListFilter c) (Inr True))))
     else if cf_auth_mode c = ''production-strict'' then
       guardE (insecureEdgesInProductionStrict c) (guardE (requireDBSSLMode c)
         (guardE (requireTrustedForwarders c) (guardE (requireListFilter c) (Inr True))))
     else Inl (Plain (''unknown KACHO_COMPUTE_AUTH_MODE='' @ go_quote (cf_auth_mode c)
            @ '' (allowed: dev, production, production-strict)'')))"

section \<open>Peers\<close>

text \<open>What happens to connections, in order.\<close>

datatype 'c conn_event = Opened 'c | Closed 'c

datatype 'c project_client = NoopProjectClient | IAMProjectClient 'c
datatype 'c zone_registry = NoopGeoClient | GeoClient 'c
datatype 'c nic_client = NoopNicClient | VPCNicClient 'c
datatype 'c storage_client_kind = NoopStorageClient | StorageClientOn 'c

record 'c peer_set =
  ws_project :: "'c project_client"
  ws_zones :: "'c zone_registry"
  ws_nics :: "'c nic_client"
  ws_vols :: "'c storage_client_kind"
  ws_closers :: "'c list"

text \<open>One edge: credentials, then the connection; on an error the connections opened so
  far are closed.\<close>

definition dial_edge ::
  "('k, 'c) transport \<Rightarrow> 'c list \<Rightarrow> string \<Rightarrow> tls \<Rightarrow> string \<Rightarrow> string
    \<Rightarrow> ('c \<Rightarrow> (go_error + 'r) \<times> 'c conn_event list) \<Rightarrow> (go_error + 'r) \<times> 'c conn_event list" where
  "dial_edge X conns credsWhat t dialWhat addr k =
    (case xp_client_creds X t of
       Inl e \<Rightarrow> (Inl (Prefixed (credsWhat @ '' mTLS creds'') e), List.map Closed conns)
     | Inr creds \<Rightarrow>
        (case xp_dial X addr creds False of
           Inl e \<Rightarrow> (Inl (Prefixed (''dial '' @ dialWhat) e), List.map Closed conns)
         | Inr c \<Rightarrow> (case k c of (r, tr) \<Rightarrow> (r, Opened c # tr))))"

definition dial_storage ::
  "('k, 'c) transport \<Rightarrow> config \<Rightarrow> 'c list \<Rightarrow> ('c storage_client_kind \<Rightarrow> 'c list \<Rightarrow> (go_error + 'r) \<times> 'c conn_event list)
    \<Rightarrow> (go_error + 'r) \<times> 'c conn_event list" where
  "dial_storage X cfg conns k =
    (if cf_storage_internal_addr cfg \<noteq> '''' then
       dial_edge X conns (''compute'' @ right_arrow @ ''storage InternalVolumeService'') (cf_storage_mtls cfg)
         ''storage'' (cf_storage_internal_addr cfg) (\<lambda>c. k (StorageClientOn c) (conns @ [c]))
     else k NoopStorageClient conns)"

definition dial_vpc ::
  "('k, 'c) transport \<Rightarrow> config \<Rightarrow> 'c list \<Rightarrow> ('c nic_client \<Rightarrow> 'c list \<Rightarrow> (go_error + 'r) \<times> 'c conn_event list)
    \<Rightarrow> (go_error + 'r) \<times> 'c conn_event list" where
  "dial_vpc X cfg conns k =
    (if cf_vpc_internal_addr cfg \<noteq> '''' then
       dial_edge X conns (''compute'' @ right_arrow @ ''vpc InternalNetworkInterfaceService'') (cf_vpc_nic_mtls cfg)
         ''vpc'' (cf_vpc_internal_addr cfg) (\<lambda>c. k (VPCNicClient c) (conns @ [c]))
     else k NoopNicClient conns)"

definition dialPeers :: "('k, 'c) transport \<Rightarrow> config \<Rightarrow> (go_error + 'c peer_set) \<times> 'c conn_event list" where
  "dialPeers X cfg =
    (if cf_skip_peer_validation cfg
     then (Inr \<lparr> ws_project = NoopProjectClient, ws_zones = NoopGeoClient, ws_nics = NoopNicClient,
                 ws_vols = NoopStorageClient, ws_closers = [] \<rparr>, [])
     else
       dial_edge X [] (''compute'' @ right_arrow @ ''iam ProjectService.Get'') (cf_iam_project_mtls cfg) ''iam'' (cf_iam_addr cfg) (\<lambda>iam.
         dial_edge X [iam] (''compute'' @ right_arrow @ ''geo ZoneService.Get'') (cf_geo_mtls cfg) ''geo'' (cf_geo_addr cfg) (\<lambda>geo.
           dial_vpc X cfg [iam, geo] (\<lambda>nics conns.
             dial_storage X cfg conns (\<lambda>vols conns'.
               (Inr \<lparr> ws_project = IAMProjectClient iam, ws_zones = GeoClient geo, ws_nics = nics,
                      ws_vols = vols, ws_closers = conns' \<rparr>, []))))))"

section \<open>The list filter\<close>

definition buildListFilter :: "config \<Rightarrow> 'c option \<Rightarrow> ('c \<Rightarrow> authorize_client) \<Rightarrow> fga_filter option" where
  "buildListFilter cfg authzConn cli =
    (if \<not> cf_list_filter_enabled cfg then None
     else case authzConn of None \<Rightarrow> None
     | Some conn \<Rightarrow>
        (let cacheMax = (if cf_list_filter_cache_max cfg \<le> 0 then 10000 else cf_list_filter_cache_max cfg) in
         Some (NewFGAFilter (Some (cli conn))
           \<lparr> fc_enabled = True, fc_timeout = cf_list_filter_timeout_ms cfg * 1000000,
             fc_cache_ttl = cf_list_filter_cache_ttl_ms cfg * 1000000, fc_max_entries = cacheMax,
             fc_max_results = 0, fc_fail_open = cf_list_filter_fail_open cfg \<rparr>)))"

section \<open>The register drainer\<close>

text \<open>\<^verbatim>\<open>newDrainer\<close> is the error of drainer.New, if any. The value is the
  connection the drainer runs on; the trace shows it closed when the drainer
  could not be built.\<close>

definition register_addr :: "config \<Rightarrow> string" where
  "register_addr cfg = (if cf_authz_iam_addr cfg = '''' then cf_iam_addr cfg else cf_authz_iam_addr cfg)"

definition startRegisterDrainer ::
  "('k, 'c) transport \<Rightarrow> go_error option \<Rightarrow> config \<Rightarrow> (go_error + 'c) \<times> 'c conn_event list" where
  "startRegisterDrainer X newDrainer cfg =
    (case IAMRegisterClientCreds X cfg of
       Inl e \<Rightarrow> (Inl (Prefixed (''compute'' @ right_arrow @ ''iam register mTLS creds'') e), [])
     | Inr creds \<Rightarrow>
        (case xp_dial X (register_addr cfg) creds True of
           Inl e \<Rightarrow> (Inl (Prefixed ''dial kacho-iam (register-drainer)'' e), [])
         | Inr conn \<Rightarrow>
            (case newDrainer of
               Some e \<Rightarrow> (Inl (Prefixed ''build register-drainer'' e), [Opened conn, Closed conn])
             | None \<Rightarrow> (Inr conn, [Opened conn]))))"

section \<open>The interceptor chains\<close>

text \<open>The interceptor chains of the listeners, outermost first.\<close>

datatype 'c chain_link =
    GuardCreate
  | CertIdentityExtract
  | TrustedPrincipalExtract "string list"
  | TenantInterceptor bool bool
  | AuthzCheck "'c interceptor"

definition tenant_chain :: "config \<Rightarrow> bool \<Rightarrow> bool \<Rightarrow> 'c interceptor option \<Rightarrow> 'c chain_link list" where
  "tenant_chain cfg requireAdmin productionMode authz =
    [CertIdentityExtract, TrustedPrincipalExtract (cf_trusted_forwarders cfg),
     TenantInterceptor requireAdmin productionMode] @
    (case authz of None \<Rightarrow> [] | Some a \<Rightarrow> [AuthzCheck a])"

section \<open>What the gates guarantee\<close>

lemma off_Nil [simp]: "off b n = [] \<longleftrightarrow> b"
  by (simp add: off_def)

lemma insecure_listeners_Nil: "insecure_listeners c = [] \<longleftrightarrow>
    tls_enable (cf_public_server_mtls c) \<and> tls_enable (cf_internal_server_mtls c)"
  by (simp add: insecure_listeners_def)

text \<open>The conditions both production modes share.\<close>

definition production_ready :: "config \<Rightarrow> bool" where
  "production_ready c \<longleftrightarrow>
    tls_enable (cf_public_server_mtls c) \<and> tls_enable (cf_internal_server_mtls c)
    \<and> cf_db_ssl_mode c \<in> {''require'', ''verify-ca'', ''verify-full''}
    \<and> cf_trusted_forwarders c \<noteq> [] \<and> cf_list_filter_enabled c \<and> cf_authz_iam_addr c \<noteq> ''''"

definition strict_edges :: "config \<Rightarrow> bool" where
  "strict_edges c \<longleftrightarrow>
    (cf_skip_peer_validation c \<or> tls_enable (cf_iam_project_mtls c) \<and> tls_enable (cf_geo_mtls c))
    \<and> (cf_authz_breakglass c \<or> tls_enable (cf_iam_authz_mtls c))
    \<and> (cf_register_drainer_enabled c \<longrightarrow> tls_enable (cf_iam_register_mtls c))"

lemma listeners_ok: "insecureListenersInProduction c = None \<longleftrightarrow>
    tls_enable (cf_public_server_mtls c) \<and> tls_enable (cf_internal_server_mtls c)"
  by (simp add: insecureListenersInProduction_def Let_def insecure_listeners_Nil)

lemma strict_ok: "insecureEdgesInProductionStrict c = None \<longleftrightarrow>
    tls_enable (cf_public_server_mtls c) \<and> tls_enable (cf_internal_server_mtls c) \<and> strict_edges c"
  by (auto simp: insecureEdgesInProductionStrict_def Let_def insecure_listeners_Nil strict_edges_def)

lemma ssl_ok: "requireDBSSLMode c = None \<longleftrightarrow> cf_db_ssl_mode c \<in> {''require'', ''verify-ca'', ''verify-full''}"
  by (simp add: requireDBSSLMode_def)

lemma forwarders_ok: "requireTrustedForwarders c = None \<longleftrightarrow> cf_trusted_forwarders c \<noteq> []"
  by (simp add: requireTrustedForwarders_def)

lemma list_filter_ok: "requireListFilter c = None \<longleftrightarrow> cf_list_filter_enabled c \<and> cf_authz_iam_addr c \<noteq> ''''"
  by (simp add: requireListFilter_def)

lemmas gates_ok = listeners_ok strict_ok ssl_ok forwarders_ok list_filter_ok

text \<open>validateAuthMode accepts exactly these configurations.\<close>

lemma validateAuthMode_iff:
  "validateAuthMode c = Inr m \<longleftrightarrow>
    cf_auth_mode c = ''dev'' \<and> \<not> m
    \<or> cf_auth_mode c = ''production'' \<and> m \<and> production_ready c
    \<or> cf_auth_mode c = ''production-strict'' \<and> m \<and> production_ready c \<and> strict_edges c"
  by (auto simp: validateAuthMode_def gates_ok production_ready_def)

lemma buildListFilter_Some:
  "buildListFilter cfg (Some conn) cli = Some F \<Longrightarrow>
    cf_list_filter_enabled cfg \<and> fc_enabled (ff_cfg F) \<and> ff_cli F = Some (cli conn)
    \<and> fc_fail_open (ff_cfg F) = cf_list_filter_fail_open cfg \<and> filter_ok F"
  by (auto simp: buildListFilter_def NewFGAFilter_def Let_def filter_ok_def split: if_splits)

section \<open>Connections\<close>

text \<open>A dialling step that starts with open connections: it fails with everything
  closed, or hands on what it opened.\<close>

definition tidy :: "'c list \<Rightarrow> (go_error + 'c peer_set) \<times> 'c conn_event list \<Rightarrow> bool" where
  "tidy conns a =
    (case a of
       (Inl e, tr) \<Rightarrow> \<exists>cs. tr = List.map Opened cs @ List.map Closed (conns @ cs)
     | (Inr w, tr) \<Rightarrow> \<exists>cs. ws_closers w = conns @ cs \<and> tr = List.map Opened cs)"

lemma tidy_done: "ws_closers w = conns \<Longrightarrow> tidy conns (Inr w, [])"
  by (simp add: tidy_def)

lemma tidy_edge:
  assumes "\<And>c. tidy (conns @ [c]) (k c)"
  shows "tidy conns (dial_edge X conns w t d a k)"
proof -
  have fail: "tidy conns (Inl e, List.map Closed conns)" for e
    unfolding tidy_def by (simp add: exI [of _ "[]"])
  have go: "tidy conns (fst (k c), Opened c # snd (k c))" for c
  proof -
    obtain r tr where k: "k c = (r, tr)" by fastforce
    show ?thesis
    proof (cases r)
      case (Inl e)
      then obtain cs where "tr = List.map Opened cs @ List.map Closed (conns @ [c] @ cs)"
        using assms [of c] k by (auto simp: tidy_def)
      then show ?thesis using k Inl by (simp add: tidy_def exI [of _ "c # cs"])
    next
      case (Inr w)
      then obtain cs where "ws_closers w = conns @ [c] @ cs" "tr = List.map Opened cs"
        using assms [of c] k by (auto simp: tidy_def)
      then show ?thesis using k Inr by (simp add: tidy_def exI [of _ "c # cs"])
    qed
  qed
  have go': "tidy conns (case k c of (r, tr) \<Rightarrow> (r, Opened c # tr))" for c
    using go [of c] by (simp add: case_prod_beta)
  show ?thesis
    unfolding dial_edge_def
    by (cases "xp_client_creds X t"; simp add: fail; rename_tac cr; case_tac "xp_dial X a cr False"; simp add: fail go')
qed

lemma tidy_vpc: "(\<And>n cs. tidy cs (k n cs)) \<Longrightarrow> tidy conns (dial_vpc X cfg conns k)"
  unfolding dial_vpc_def by (auto intro: tidy_edge)

lemma tidy_storage: "(\<And>n cs. tidy cs (k n cs)) \<Longrightarrow> tidy conns (dial_storage X cfg conns k)"
  unfolding dial_storage_def by (auto intro: tidy_edge)

lemma dialPeers_tidy: "tidy [] (dialPeers X cfg)"
proof (cases "cf_skip_peer_validation cfg")
  case True
  then show ?thesis by (simp add: dialPeers_def tidy_done)
next
  case False
  show ?thesis
    unfolding dialPeers_def if_not_P [OF False]
    by (intro tidy_edge) (simp, intro tidy_edge, simp, intro tidy_vpc tidy_storage tidy_done, simp)
qed

section \<open>An example configuration\<close>

text \<open>It passes the strictest gate.\<close>

definition fx_tls :: tls where "fx_tls = \<lparr> tls_enable = True, tls_material = ''pem'' \<rparr>"
definition fx_plain :: tls where "fx_plain = \<lparr> tls_enable = False, tls_material = '''' \<rparr>"

definition fx_config :: config where
  "fx_config = \<lparr> cf_db_host = ''db'', cf_db_port = ''5432'', cf_db_user = ''compute'', cf_db_password = ''s3cret'',
     cf_db_name = ''kacho_compute'', cf_db_ssl_mode = ''verify-full'', cf_db_max_conns = 0, cf_grpc_port = ''9090'',
     cf_internal_grpc_port = ''9091'', cf_watch_max_streams = 32, cf_metrics_addr = '':9095'', cf_iam_addr = ''iam:9090'',
     cf_geo_addr = ''geo:9090'', cf_vpc_internal_addr = ''vpc:9091'', cf_storage_internal_addr = ''storage:9091'',
     cf_skip_peer_validation = False, cf_auth_mode = ''production-strict'', cf_authz_iam_addr = ''iam:9091'',
     cf_authz_breakglass = False, cf_trusted_forwarders = [''spiffe://gw''], cf_list_filter_enabled = True,
     cf_list_filter_timeout_ms = 500, cf_list_filter_cache_ttl_ms = 5000, cf_list_filter_cache_max = 10000,
     cf_list_filter_fail_open = False, cf_register_drainer_enabled = True, cf_require_iam = True,
     cf_iam_register_mtls = fx_tls, cf_iam_project_mtls = fx_tls, cf_iam_authz_mtls = fx_tls, cf_geo_mtls = fx_tls,
     cf_vpc_nic_mtls = fx_plain, cf_storage_mtls = fx_plain, cf_public_server_mtls = fx_tls, cf_internal_server_mtls = fx_tls \<rparr>"

end
