(* ===== verification/Start.thy ===== *)
theory Start
  imports Boot
begin

text \<open>
  runServe of cmd/compute/main.go up to the point where it serves: the order of
  the steps, what each exit returns, and the deferred releases. Every resource
  that is opened or closed on the way leaves an event. The pool, the worker
  registry, the drainer, the outbox backstop and the sockets are inputs.
\<close>

section \<open>Resources and deferred releases\<close>

datatype 'c resource = Pool | PeerConn 'c | DiagnosticSocket | PublicSocket | InternalSocket

type_synonym ('c, 'a) start = "(go_error + 'a) \<times> 'c resource conn_event list"

definition exits :: "go_error + 'a \<Rightarrow> ('a \<Rightarrow> ('c, 'b) start) \<Rightarrow> ('c, 'b) start" where
  "exits r k = (case r of Inl e \<Rightarrow> (Inl e, []) | Inr x \<Rightarrow> k x)"

definition unless_error :: "go_error option \<Rightarrow> ('c, 'b) start \<Rightarrow> ('c, 'b) start" where
  "unless_error e m = (case e of Some x \<Rightarrow> (Inl x, []) | None \<Rightarrow> m)"

text \<open>A step that opens resources, and what comes after it under a deferred release of
  them: the release runs when a later step fails.\<close>

definition deferring ::
  "('c, 'a) start \<Rightarrow> ('a \<Rightarrow> 'c resource list) \<Rightarrow> ('a \<Rightarrow> ('c, 'b) start) \<Rightarrow> ('c, 'b) start" where
  "deferring m held k =
    (case m of
       (Inl e, tr) \<Rightarrow> (Inl e, tr)
     | (Inr x, tr) \<Rightarrow>
        (case k x of
           (Inl e, tr') \<Rightarrow> (Inl e, tr @ tr' @ List.map Closed (held x))
         | (Inr w, tr') \<Rightarrow> (Inr w, tr @ tr')))"

definition opens :: "'c resource \<Rightarrow> go_error option \<Rightarrow> ('c, unit) start" where
  "opens r e = (case e of Some x \<Rightarrow> (Inl x, []) | None \<Rightarrow> (Inr (), [Opened r]))"

definition on_conns :: "(go_error + 'a) \<times> 'c conn_event list \<Rightarrow> ('c, 'a) start" where
  "on_conns m = (case m of (r, tr) \<Rightarrow> (r, List.map (map_conn_event PeerConn) tr))"

definition option_conns :: "'c option \<Rightarrow> 'c resource list" where
  "option_conns c = (case c of None \<Rightarrow> [] | Some x \<Rightarrow> [PeerConn x])"

section \<open>runServe\<close>

record boot_env =
  be_pool :: "go_error option"
  be_lro_worker :: "go_error option"
  be_drainer :: "go_error option"
  be_backstop :: "go_error option"
  be_diagnostic :: "go_error option"
  be_public_listener :: "go_error option"
  be_internal_listener :: "go_error option"

record ('k, 'c) wiring =
  wr_production :: bool
  wr_peers :: "'c peer_set"
  wr_drainer :: "'c option"
  wr_authz :: "'c option"
  wr_gate_connected :: bool
  wr_filter :: "fga_filter option"
  wr_public_unary :: "'c chain_link list"
  wr_public_stream :: "'c chain_link list"
  wr_internal_unary :: "'c chain_link list"
  wr_internal_stream :: "'c chain_link list"
  wr_public_creds :: 'k
  wr_internal_creds :: 'k
  wr_dsn :: string
  wr_diagnostic :: bool

definition startLROWorker :: "go_error option \<Rightarrow> go_error option" where
  "startLROWorker configure = map_option (Prefixed ''configure LRO default-registry'') configure"

definition start_drainer :: "('k, 'c) transport \<Rightarrow> boot_env \<Rightarrow> config \<Rightarrow> ('c, 'c option) start" where
  "start_drainer X B cfg =
    (if cf_register_drainer_enabled cfg
     then (case startRegisterDrainer X (be_drainer B) cfg of
             (r, tr) \<Rightarrow> on_conns (map_res Some (map_err (Prefixed ''start register-drainer'') r), tr))
     else (Inr None, []))"

definition start_backstop :: "boot_env \<Rightarrow> 'c option \<Rightarrow> go_error option" where
  "start_backstop B drainer =
    (if drainer = None then None else map_option (Prefixed ''start outbox backstop'') (be_backstop B))"

definition dial_authz :: "('k, 'c) transport \<Rightarrow> config \<Rightarrow> ('c, 'c option) start" where
  "dial_authz X cfg =
    (if cf_authz_iam_addr cfg = '''' then (Inr None, [])
     else case xp_client_creds X (cf_iam_authz_mtls cfg) of
       Inl e \<Rightarrow> (Inl (Prefixed (''compute'' @ right_arrow @ ''iam Check/list-filter mTLS creds'') e), [])
     | Inr creds \<Rightarrow>
        (case xp_dial X (cf_authz_iam_addr cfg) creds True of
           Inl e \<Rightarrow> (Inl (Prefixed ''dial kacho-iam (authz)'' e), [])
         | Inr c \<Rightarrow> (Inr (Some c), [Opened (PeerConn c)])))"

text \<open>The interceptor is built over the connection as it is, nil or not.\<close>

definition wire_authz :: "config \<Rightarrow> bool \<Rightarrow> 'c option \<Rightarrow> go_error + 'c interceptor option" where
  "wire_authz cfg productionMode authzConn =
    map_err (Prefixed ''authz wiring'')
      (authzWiringDecision productionMode (NewInterceptor (cf_authz_breakglass cfg) (Iface authzConn)))"

text \<open>Without an address there is no diagnostic listener and nothing to fail.\<close>

definition startDiagnosticListener :: "boot_env \<Rightarrow> config \<Rightarrow> ('c, bool) start" where
  "startDiagnosticListener B cfg =
    (if cf_metrics_addr cfg = '''' then (Inr False, [])
     else case be_diagnostic B of
       Some e \<Rightarrow> (Inl (Prefixed ''start diagnostic listener'' e), [])
     | None \<Rightarrow> (Inr True, [Opened DiagnosticSocket]))"

text \<open>The socket of the public listener is closed by hand when the internal one fails; the
  diagnostic one is not released.\<close>

definition listen_both :: "boot_env \<Rightarrow> ('c, 'b) start \<Rightarrow> ('c, 'b) start" where
  "listen_both B k =
    deferring (opens PublicSocket (be_public_listener B)) (\<lambda>_. [PublicSocket]) (\<lambda>_.
    deferring (opens InternalSocket (be_internal_listener B)) (\<lambda>_. []) (\<lambda>_. k))"

definition runServe ::
  "('k, 'c) transport \<Rightarrow> ('c \<Rightarrow> authorize_client) \<Rightarrow> boot_env \<Rightarrow> config \<Rightarrow> ('c, ('k, 'c) wiring) start" where
  "runServe X cli B cfg =
    exits (validateAuthMode cfg) (\<lambda>productionMode.
    deferring (opens Pool (be_pool B)) (\<lambda>_. [Pool]) (\<lambda>_.
    deferring (on_conns (dialPeers X cfg)) (\<lambda>peers1. List.map PeerConn (ws_closers peers1)) (\<lambda>peers1.
    unless_error (map_option (Prefixed ''start LRO worker'') (startLROWorker (be_lro_worker B))) (
    deferring (start_drainer X B cfg) option_conns (\<lambda>drainer.
    unless_error (start_backstop B drainer) (
    deferring (dial_authz X cfg) option_conns (\<lambda>authzConn.
    exits (wire_authz cfg productionMode authzConn) (\<lambda>authzIntr.
    exits (map_err (Prefixed ''public listener tls creds'') (PublicServerCreds X cfg)) (\<lambda>publicCreds.
    exits (map_err (Prefixed ''internal listener tls creds'') (InternalServerCreds X cfg)) (\<lambda>internalCreds.
    deferring (startDiagnosticListener B cfg) (\<lambda>_. []) (\<lambda>diag.
    listen_both B
      (Inr \<lparr> wr_production = productionMode, wr_peers = peers1, wr_drainer = drainer, wr_authz = authzConn,
          wr_gate_connected = (drainer \<noteq> None), wr_filter = buildListFilter cfg authzConn cli,
          wr_public_unary = GuardCreate # tenant_chain cfg False productionMode authzIntr,
          wr_public_stream = tenant_chain cfg False productionMode authzIntr,
          wr_internal_unary = tenant_chain cfg True productionMode authzIntr,
          wr_internal_stream = tenant_chain cfg True productionMode authzIntr,
          wr_public_creds = publicCreds, wr_internal_creds = internalCreds, wr_dsn = DSN cfg,
          wr_diagnostic = diag \<rparr>, []))))))))))))"

section \<open>Lemmas\<close>

lemma exits_Inr: "fst (exits r k) = Inr w \<longleftrightarrow> (\<exists>x. r = Inr x \<and> fst (k x) = Inr w)"
  by (cases r) (simp_all add: exits_def)

lemma unless_error_Inr: "fst (unless_error e m) = Inr w \<longleftrightarrow> e = None \<and> fst m = Inr w"
  by (cases e) (simp_all add: unless_error_def)

lemma deferring_Inr: "fst (deferring m h k) = Inr w \<longleftrightarrow> (\<exists>x. fst m = Inr x \<and> fst (k x) = Inr w)"
  by (cases m; cases "fst m") (auto simp: deferring_def split: prod.splits sum.splits)

lemmas start_Inr = exits_Inr unless_error_Inr deferring_Inr

lemma dial_authz_Some: "fst (dial_authz X cfg) = Inr a \<Longrightarrow> a \<noteq> None \<longleftrightarrow> cf_authz_iam_addr cfg \<noteq> ''''"
  by (auto simp: dial_authz_def split: if_splits sum.splits)

text \<open>How often a resource was opened more than closed.\<close>

definition balance :: "'c resource conn_event list \<Rightarrow> 'c resource \<Rightarrow> int" where
  "balance tr r = int (count_list tr (Opened r)) - int (count_list tr (Closed r))"

lemma balance_simps [simp]:
  "balance [] r = 0" "balance (tr @ tr') r = balance tr r + balance tr' r"
  "balance (Opened x # tr) r = (if x = r then 1 else 0) + balance tr r"
  "balance (Closed x # tr) r = (if x = r then - 1 else 0) + balance tr r"
  "balance (List.map Opened xs) r = int (count_list xs r)" "balance (List.map Closed xs) r = - int (count_list xs r)"
proof -
  show "balance (List.map Opened xs) r = int (count_list xs r)" by (induction xs) (auto simp: balance_def)
  show "balance (List.map Closed xs) r = - int (count_list xs r)" by (induction xs) (auto simp: balance_def)
qed (auto simp: balance_def)

text \<open>A start that fails leaves nothing open but possibly the diagnostic socket; one that
  succeeds leaves what its wiring holds.\<close>

definition leaves :: "('w \<Rightarrow> 'c resource \<Rightarrow> int) \<Rightarrow> ('c, 'w) start \<Rightarrow> bool" where
  "leaves held m \<longleftrightarrow> (case m of
     (Inl e, tr) \<Rightarrow> \<forall>r. r \<noteq> DiagnosticSocket \<longrightarrow> balance tr r = 0
   | (Inr w, tr) \<Rightarrow> \<forall>r. balance tr r = held w r)"

lemma leaves_exits: "(\<And>x. r = Inr x \<Longrightarrow> leaves h (k x)) \<Longrightarrow> leaves h (exits r k)"
  by (cases r) (simp_all add: exits_def leaves_def)

lemma leaves_unless: "leaves h m \<Longrightarrow> leaves h (unless_error e m)"
  by (cases e) (simp_all add: unless_error_def leaves_def)

lemma leaves_deferring:
  assumes "leaves (\<lambda>x r. int (count_list (c x) r)) m"
    and "\<And>x. fst m = Inr x \<Longrightarrow> leaves (\<lambda>w r. h w r - int (count_list (c x) r)) (k x)"
    and "\<And>x r. fst m = Inr x \<Longrightarrow> r \<noteq> DiagnosticSocket \<Longrightarrow> count_list (held x) r = count_list (c x) r"
  shows "leaves h (deferring m held k)"
proof (cases m)
  case (Pair res tr)
  show ?thesis
  proof (cases res)
    case (Inl e)
    then show ?thesis using assms(1) Pair by (simp add: deferring_def leaves_def)
  next
    case (Inr x)
    obtain res' tr' where k: "k x = (res', tr')" by fastforce
    show ?thesis using assms(1) assms(2,3) [of x] Pair Inr k
      by (cases res') (auto simp: deferring_def leaves_def)
  qed
qed

lemma leaves_opens: "leaves (\<lambda>_ r. int (count_list [R] r)) (opens R e)"
  by (cases e) (simp_all add: opens_def leaves_def)

lemma balance_conns:
  "balance (List.map (map_conn_event PeerConn) (List.map Opened cs @ tr)) r =
     int (count_list (List.map PeerConn cs) r) + balance (List.map (map_conn_event PeerConn) tr) r"
  by (induction cs) auto

lemma balance_closed_conns:
  "balance (List.map (map_conn_event PeerConn \<circ> Closed) cs) r = - int (count_list (List.map PeerConn cs) r)"
  by (induction cs) auto

lemma leaves_dial_peers: "leaves (\<lambda>w r. int (count_list (List.map PeerConn (ws_closers w)) r)) (on_conns (dialPeers X cfg))"
proof (cases "dialPeers X cfg")
  case (Pair res tr)
  show ?thesis
  proof (cases res)
    case (Inl e)
    then obtain cs where "tr = List.map Opened cs @ List.map Closed cs" using dialPeers_tidy [of X cfg] Pair by (auto simp: tidy_def)
    then show ?thesis using Pair Inl
      by (simp add: leaves_def on_conns_def balance_conns balance_closed_conns del: map_append list.map_comp)
  next
    case (Inr w)
    then have "tr = List.map Opened (ws_closers w)" using dialPeers_tidy [of X cfg] Pair by (auto simp: tidy_def)
    then show ?thesis using Pair Inr balance_conns [of "ws_closers w" "[]"]
      by (simp add: leaves_def on_conns_def del: list.map_comp)
  qed
qed

lemma leaves_start_drainer: "leaves (\<lambda>d r. int (count_list (option_conns d) r)) (start_drainer X B cfg)"
  by (auto simp: start_drainer_def startRegisterDrainer_def leaves_def on_conns_def option_conns_def split: sum.split option.split)

lemma leaves_dial_authz: "leaves (\<lambda>d r. int (count_list (option_conns d) r)) (dial_authz X cfg)"
  by (auto simp: dial_authz_def leaves_def option_conns_def split: sum.split)

lemma leaves_diagnostic:
  "leaves (\<lambda>d r. int (count_list (if d then [DiagnosticSocket] else []) r)) (startDiagnosticListener B cfg)"
  by (auto simp: startDiagnosticListener_def leaves_def split: option.split)

lemma leaves_listen:
  "(\<And>r. h w r = int (count_list [PublicSocket, InternalSocket] r)) \<Longrightarrow> leaves h (listen_both B (Inr w, []))"
  unfolding listen_both_def
  by (cases "be_public_listener B"; cases "be_internal_listener B") (auto simp: opens_def deferring_def leaves_def)

text \<open>What the process holds when it begins to serve.\<close>

definition wiring_holds :: "('k, 'c) wiring \<Rightarrow> 'c resource list" where
  "wiring_holds w = Pool # List.map PeerConn (ws_closers (wr_peers w)) @ option_conns (wr_drainer w)
     @ option_conns (wr_authz w) @ (if wr_diagnostic w then [DiagnosticSocket] else []) @ [PublicSocket, InternalSocket]"

lemma runServe_leaves: "leaves (\<lambda>w r. int (count_list (wiring_holds w) r)) (runServe X cli B cfg)"
  unfolding runServe_def
  apply (rule leaves_exits)
  apply (rule leaves_deferring [OF leaves_opens _ refl])
  apply (rule leaves_deferring [OF leaves_dial_peers _ refl])
  apply (rule leaves_unless)
  apply (rule leaves_deferring [OF leaves_start_drainer _ refl])
  apply (rule leaves_unless)
  apply (rule leaves_deferring [OF leaves_dial_authz _ refl])
  apply (rule leaves_exits)+
  apply (rule leaves_deferring [OF leaves_diagnostic])
   apply (rule leaves_listen)
   apply (simp add: wiring_holds_def)
  apply simp
  done

end
