(* ===== verification/Health.thy ===== *)
theory Health
  imports Authz
begin

text \<open>
  Liveness and readiness: internal/observability/health/health.go, the checkers
  and the supervision of background loops of cmd/compute/observability.go. The
  concurrent checks of one evaluation are modelled by what each of them does and
  by the order in which their results arrive.
\<close>

section \<open>Checks\<close>

text \<open>One run of a check: its answer and the time it takes, or no answer at all.
  \<^verbatim>\<open>budget\<close> is the time until the context of the run is done: the timeout of the
  aggregator or the end of the request, whichever is first.\<close>

datatype check_run = Answers "go_error option" int | Hangs

fun runChecker :: "int \<Rightarrow> check_run \<Rightarrow> bool" where
  "runChecker budget (Answers r elapsed) = (elapsed < budget \<and> r = None)"
| "runChecker budget Hangs = False"

definition defaultCheckerTimeout :: int where "defaultCheckerTimeout = 1000000000"

type_synonym checker = "string \<times> check_run"

definition withTimeout :: "int \<Rightarrow> int \<Rightarrow> int" where
  "withTimeout d current = (if d > 0 then d else current)"

text \<open>\<^verbatim>\<open>arrival\<close> lists the checkers in the order their results arrive; the map keeps
  the last result of a name, and a name without a result counts as down. The third
  component is what the observer saw.\<close>

definition arrived :: "int \<Rightarrow> checker list \<Rightarrow> nat list \<Rightarrow> (string \<times> bool) list" where
  "arrived budget checkers arrival =
    List.map (\<lambda>k. case checkers ! k of (n, c) \<Rightarrow> (n, runChecker budget c)) arrival"

definition up_by_name :: "(string \<times> bool) list \<Rightarrow> string \<Rightarrow> bool" where
  "up_by_name results n = (case map_of (rev results) n of Some u \<Rightarrow> u | None \<Rightarrow> False)"

definition Evaluate :: "int \<Rightarrow> checker list \<Rightarrow> nat list \<Rightarrow> bool \<times> string list \<times> (string \<times> bool) list" where
  "Evaluate budget checkers arrival =
    (let results = arrived budget checkers arrival;
         down = filter (\<lambda>n. \<not> up_by_name results n) (List.map fst checkers)
     in (down = [], down, results))"

section \<open>Handlers\<close>

definition LiveHandler :: "bool \<Rightarrow> int \<times> string" where
  "LiveHandler shutting = (if shutting then (503, ''shutting down'') else (200, ''ok''))"

text \<open>The status code, the status and the dependencies reported as down.\<close>

definition ReadyHandler :: "bool \<Rightarrow> int \<Rightarrow> checker list \<Rightarrow> nat list \<Rightarrow> int \<times> string \<times> string list" where
  "ReadyHandler shutting budget checkers arrival =
    (if shutting then (503, ''shutting_down'', [])
     else case Evaluate budget checkers arrival of
       (ready, down, _) \<Rightarrow> if ready then (200, ''ready'', []) else (503, ''not_ready'', down))"

section \<open>The checkers of the service\<close>

datatype connectivity = Idle | Connecting | Ready | TransientFailure | Shutdown

definition errDrainerNotConnected :: go_error where
  "errDrainerNotConnected = Plain ''register-drainer not connected to kacho-iam''"

definition errLROWorkerDown :: go_error where
  "errLROWorkerDown = Plain ''LRO dispatcher loop not running''"

definition errIAMConnShutdown :: go_error where
  "errIAMConnShutdown = Plain ''kacho-iam authz connection is shut down''"

definition authzConnHealth :: "connectivity \<Rightarrow> go_error option" where
  "authzConnHealth st = (if st = Shutdown then Some errIAMConnShutdown else None)"

definition buildReadinessCheckers :: "check_run \<Rightarrow> bool \<Rightarrow> bool \<Rightarrow> connectivity option \<Rightarrow> checker list" where
  "buildReadinessCheckers ping gateReady workerReady authzConn =
    [(''database'', ping),
     (''register-drainer'', Answers (if gateReady then None else Some errDrainerNotConnected) 0),
     (''lro-worker'', Answers (if workerReady then None else Some errLROWorkerDown) 0)]
    @ (case authzConn of None \<Rightarrow> [] | Some st \<Rightarrow> [(''iam-authz'', Answers (authzConnHealth st) 0)])"

section \<open>Supervision\<close>

text \<open>What a background loop returned and whether its context had ended by then: the
  error of the task, and whether the shutdown was triggered.\<close>

definition superviseBackground :: "string \<Rightarrow> go_error option \<Rightarrow> bool \<Rightarrow> go_error option \<times> bool" where
  "superviseBackground name err ctxDone =
    (if ctxDone then (None, False)
     else (case err of Some e \<Rightarrow> (Some (Prefixed name e), True)
           | None \<Rightarrow> (Some (Plain (name @ '' exited unexpectedly'')), True)))"

section \<open>Lemmas\<close>

lemma arrived_fst: "List.map fst (arrived b checkers arrival) = List.map (\<lambda>k. fst (checkers ! k)) arrival"
  by (simp add: arrived_def case_prod_beta)

text \<open>With distinct names each checker finds its own result, whatever the order.\<close>

lemma up_by_name_arrived:
  assumes d: "distinct (List.map fst checkers)" and p: "mset arrival = mset [0..<size checkers]"
    and k: "k < size checkers"
  shows "up_by_name (arrived b checkers arrival) (fst (checkers ! k)) = runChecker b (snd (checkers ! k))"
proof -
  have "set arrival = set [0..<size checkers]" using p by (rule mset_eq_setD)
  then have s: "set arrival = {..<size checkers}" by (simp only: set_upt atLeast0LessThan)
  have di: "distinct arrival" using p by (metis distinct_upt mset_eq_imp_distinct_iff)
  have "inj_on (\<lambda>k. fst (checkers ! k)) (set arrival)"
  proof (rule inj_onI)
    fix i j assume h: "i \<in> set arrival" "j \<in> set arrival" "fst (checkers ! i) = fst (checkers ! j)"
    then show "i = j" using nth_eq_iff_index_eq [OF d, of i j] by (simp add: s)
  qed
  then have "distinct (List.map fst (arrived b checkers arrival))"
    using di by (simp add: arrived_fst distinct_map)
  moreover have "(fst (checkers ! k), runChecker b (snd (checkers ! k))) \<in> set (arrived b checkers arrival)"
    using k by (auto simp: arrived_def s case_prod_beta image_iff intro!: bexI [of _ k])
  ultimately have "map_of (rev (arrived b checkers arrival)) (fst (checkers ! k)) = Some (runChecker b (snd (checkers ! k)))"
    by (intro map_of_is_SomeI) (simp_all add: rev_map [symmetric])
  then show ?thesis by (simp add: up_by_name_def)
qed

lemma Evaluate_exact:
  assumes "distinct (List.map fst checkers)" "mset arrival = mset [0..<size checkers]"
  shows "fst (snd (Evaluate b checkers arrival)) = List.map fst (filter (\<lambda>(_, c). \<not> runChecker b c) checkers)"
proof -
  have "up_by_name (arrived b checkers arrival) n = runChecker b c" if "(n, c) \<in> set checkers" for n c
    using that up_by_name_arrived [OF assms] by (fastforce simp: in_set_conv_nth)
  then have "filter (\<lambda>x. \<not> up_by_name (arrived b checkers arrival) (fst x)) checkers
      = filter (\<lambda>(_, c). \<not> runChecker b c) checkers"
    by (intro filter_cong) auto
  then show ?thesis by (simp add: Evaluate_def Let_def filter_map comp_def)
qed

lemma ReadyHandler_exact:
  assumes "distinct (List.map fst checkers)" "mset arrival = mset [0..<size checkers]"
  shows "ReadyHandler sh b checkers arrival =
    (if sh then (503, ''shutting_down'', [])
     else let down = List.map fst (filter (\<lambda>(_, c). \<not> runChecker b c) checkers) in
       if down = [] then (200, ''ready'', []) else (503, ''not_ready'', down))"
proof -
  obtain ready down obs where e: "Evaluate b checkers arrival = (ready, down, obs)" by (metis surj_pair)
  have "ready = (down = [])" using e by (auto simp: Evaluate_def Let_def)
  moreover have "down = List.map fst (filter (\<lambda>(_, c). \<not> runChecker b c) checkers)"
    using Evaluate_exact [OF assms, of b] e by simp
  ultimately show ?thesis by (simp add: ReadyHandler_def e Let_def)
qed

lemma readiness_names: "distinct (List.map fst (buildReadinessCheckers p g w a))"
  by (simp add: buildReadinessCheckers_def split: option.split)

end
