(* ===== verification/Register.thy ===== *)
theory Register
  imports Recovery
begin

text \<open>
  The delivery of owner tuples to IAM: internal/clients/iam\_register\_applier.go
  (what the drainer does with one decoded intent), the payload decoder of
  startRegisterDrainer in cmd/compute/main.go, and the database side of the
  reconciler, internal/clients/fga\_reconcile\_adapter.go. The drainer and the
  reconciler loops are kacho-corelib; IAM is a client over an abstract state.
\<close>

section \<open>IAMRegisterApplier\<close>

text \<open>RegisterResourceRequest and UnregisterResourceRequest have the same fields.\<close>

record register_req =
  rq_subject :: string
  rq_relation :: string
  rq_object :: string
  rq_labels :: gomap
  rq_parent_project :: string
  rq_parent_account :: string
  rq_source_version :: "gotime option"

record 's iam_register_client =
  registerResource :: "register_req \<Rightarrow> 's \<Rightarrow> (go_error + unit) \<times> 's"
  unregisterResource :: "register_req \<Rightarrow> 's \<Rightarrow> (go_error + unit) \<times> 's"

text \<open>The error of one delivery: \<^verbatim>\<open>Poison e\<close> is
  \<^verbatim>\<open>errors.Join(drainer.ErrPermanent, e)\<close>, which the drainer never
  retries; any other error is retried.\<close>

datatype apply_error = Poison go_error | Retry go_error

definition classifyApplyErr :: "go_error \<Rightarrow> apply_error" where
  "classifyApplyErr e = (if from_error e = Some InvalidArgument then Poison e else Retry e)"

text \<open>A decoded time.Time is an option whose None is the zero time, and a timestamp pointer one whose
  None is nil: IsZero sends the one None to the other.\<close>

definition sourceVersionPB :: "gotime option \<Rightarrow> gotime option" where
  "sourceVersionPB t = (case t of None \<Rightarrow> None | Some v \<Rightarrow> Some v)"

definition register_request :: "fga_payload \<Rightarrow> fga_tuple \<Rightarrow> register_req" where
  "register_request p tpl =
    \<lparr> rq_subject = tp_subject tpl, rq_relation = tp_relation tpl, rq_object = tp_object tpl,
      rq_labels = pl_labels p, rq_parent_project = pl_parent_project p,
      rq_parent_account = pl_parent_account p, rq_source_version = sourceVersionPB (pl_source_version p) \<rparr>"

fun apply_tuples ::
  "(register_req \<Rightarrow> 's \<Rightarrow> (go_error + unit) \<times> 's) \<Rightarrow> fga_payload \<Rightarrow> fga_tuple list \<Rightarrow> 's \<Rightarrow> apply_error option \<times> 's" where
  "apply_tuples call p [] s = (None, s)"
| "apply_tuples call p (tpl # ts) s =
    (case call (register_request p tpl) s of
       (Inl e, s') \<Rightarrow> (Some (classifyApplyErr e), s')
     | (Inr _, s') \<Rightarrow> apply_tuples call p ts s')"

definition payload_tuples :: "fga_payload \<Rightarrow> fga_tuple list" where
  "payload_tuples p = (case pl_tuples p of None \<Rightarrow> [] | Some ts \<Rightarrow> ts)"

definition apply_intent ::
  "'s iam_register_client \<Rightarrow> string \<Rightarrow> fga_payload \<Rightarrow> 's \<Rightarrow> apply_error option \<times> 's" where
  "apply_intent C eventType p s =
    (if payload_tuples p = [] then (None, s)
     else if eventType = EventRegister then apply_tuples (registerResource C) p (payload_tuples p) s
     else if eventType = EventUnregister then apply_tuples (unregisterResource C) p (payload_tuples p) s
     else (Some (Poison (Plain (''unknown fga intent event_type '' @ go_quote eventType))), s))"

text \<open>The decoder handed to the drainer: a malformed payload is poison.\<close>

definition decode_intent :: "json \<Rightarrow> apply_error + fga_payload" where
  "decode_intent j = map_err Poison (fga_decode j)"

text \<open>One attempt of the drainer on a claimed row: decode, then apply.\<close>

definition deliver :: "'s iam_register_client \<Rightarrow> fga_row \<Rightarrow> 's \<Rightarrow> apply_error option \<times> 's" where
  "deliver C row s =
    (case decode_intent (fg_payload row) of Inl e \<Rightarrow> (Some e, s)
     | Inr p \<Rightarrow> apply_intent C (fg_event row) p s)"

text \<open>A sequence of attempts, with the result of each.\<close>

fun attempts :: "'s iam_register_client \<Rightarrow> fga_row list \<Rightarrow> 's \<Rightarrow> (fga_row \<times> apply_error option) list \<times> 's" where
  "attempts C [] s = ([], s)"
| "attempts C (r # rs) s =
    (case deliver C r s of (x, s') \<Rightarrow> (case attempts C rs s' of (xs, s'') \<Rightarrow> ((r, x) # xs, s'')))"

section \<open>FGAReconcileAdapter\<close>

definition computeResourceTables :: "(string \<times> string) list" where
  "computeResourceTables =
    [(''Instance'', ''instances''), (''Disk'', ''disks''), (''Image'', ''images''), (''Snapshot'', ''snapshots'')]"

definition computeKindToTable :: "string \<Rightarrow> string" where
  "computeKindToTable kind = (case map_of computeResourceTables kind of Some t \<Rightarrow> t | None \<Rightarrow> '''')"

text \<open>\<^verbatim>\<open>SELECT id, project_id FROM <table>\<close>; there is no table of another name.\<close>

definition table_ids :: "string \<Rightarrow> db \<Rightarrow> (string \<times> string) list" where
  "table_ids table s =
    (if table = ''instances'' then List.map (\<lambda>r. (tr_id r, tr_project_id r)) (instances s)
     else if table = ''disks'' then List.map (\<lambda>r. (dr_id r, dr_project_id r)) (disks s)
     else if table = ''images'' then List.map (\<lambda>r. (ir_id r, ir_project_id r)) (images s)
     else if table = ''snapshots'' then List.map (\<lambda>r. (sr_id r, sr_project_id r)) (snapshots s)
     else [])"

record resource_ref =
  rr_kind :: string
  rr_id :: string
  rr_project :: string

text \<open>\<^verbatim>\<open>fault table\<close> is the driver error of the query on that table, if any, with
  the stage (enumerate, scan or rows) it is reported under.\<close>

fun list_resources_of ::
  "(string \<Rightarrow> (string \<times> go_error) option) \<Rightarrow> (string \<times> string) list \<Rightarrow> db \<Rightarrow> go_error + resource_ref list" where
  "list_resources_of fault [] s = Inr []"
| "list_resources_of fault ((kind, table) # ts) s =
    (case fault table of
       Some (stage, e) \<Rightarrow> Inl (Prefixed (''compute reconcile '' @ stage @ '' '' @ table) e)
     | None \<Rightarrow> map_res (\<lambda>rs. List.map (\<lambda>(i, p). \<lparr> rr_kind = kind, rr_id = i, rr_project = p \<rparr>) (table_ids table s) @ rs)
                 (list_resources_of fault ts s))"

definition ListResources :: "(string \<Rightarrow> (string \<times> go_error) option) \<Rightarrow> db \<Rightarrow> go_error + resource_ref list" where
  "ListResources fault s = list_resources_of fault computeResourceTables s"

definition ResourceExists :: "(string \<Rightarrow> go_error option) \<Rightarrow> string \<Rightarrow> string \<Rightarrow> db \<Rightarrow> go_error + bool" where
  "ResourceExists fault kind i s =
    (let table = computeKindToTable kind in
     if table = '''' then Inr False
     else case fault table of
       Some e \<Rightarrow> Inl (Prefixed (''compute reconcile exists '' @ kind @ ''/'' @ i) e)
     | None \<Rightarrow> Inr (i \<in> set (List.map fst (table_ids table s))))"

text \<open>\<^verbatim>\<open>SELECT DISTINCT ON (resource_id) ... WHERE resource_id <> '' AND sent_at IS NOT
  NULL ORDER BY resource_id, id DESC\<close>: of the delivered rows of an id the last one.
  Rows are kept in the order of their id; \<^verbatim>\<open>sent k\<close> tells whether the drainer has
  stamped sent\_at on row k.\<close>

definition delivered_rows :: "(nat \<Rightarrow> bool) \<Rightarrow> db \<Rightarrow> fga_row list" where
  "delivered_rows sent s =
    List.map snd (filter (\<lambda>(k, r). fg_id r \<noteq> '''' \<and> sent k) (enumerate 0 (fga_outbox s)))"

definition latest_row_of :: "string \<Rightarrow> fga_row list \<Rightarrow> fga_row option" where
  "latest_row_of i rows = List.find (\<lambda>r. fg_id r = i) (rev rows)"

definition distinct_on_id :: "fga_row list \<Rightarrow> fga_row list" where
  "distinct_on_id rows =
    List.map_filter (\<lambda>i. latest_row_of i rows) (remdups (sort (List.map fg_id rows)))"

definition ListRegistered :: "go_error option \<Rightarrow> (nat \<Rightarrow> bool) \<Rightarrow> db \<Rightarrow> go_error + (string \<times> string) list" where
  "ListRegistered fault sent s =
    (case fault of
       Some e \<Rightarrow> Inl (Prefixed ''compute reconcile list-registered'' e)
     | None \<Rightarrow> Inr (List.map (\<lambda>r. (fg_kind r, fg_id r))
                 (filter (\<lambda>r. fg_event r = ''fga.register'') (distinct_on_id (delivered_rows sent s)))))"

section \<open>What a delivery does\<close>

text \<open>The request an intent row stands for, its object, version and effect.\<close>

definition intent_req :: "fga_row \<Rightarrow> register_req option" where
  "intent_req r =
    (case decode_intent (fg_payload r) of Inl _ \<Rightarrow> None
     | Inr p \<Rightarrow> (case payload_tuples p of [t] \<Rightarrow> Some (register_request p t) | _ \<Rightarrow> None))"

definition well_formed_intent :: "fga_row \<Rightarrow> bool" where
  "well_formed_intent r \<longleftrightarrow>
    (\<exists>E ev k i p l. ev \<in> {EventRegister, EventUnregister} \<and> r \<in> set (intents_of E ev k i p l))"

definition row_object :: "fga_row \<Rightarrow> string" where
  "row_object r = (case intent_req r of Some q \<Rightarrow> rq_object q | None \<Rightarrow> '''')"

definition row_version :: "fga_row \<Rightarrow> gotime" where
  "row_version r = (case intent_req r of Some q \<Rightarrow> (case rq_source_version q of Some v \<Rightarrow> v | None \<Rightarrow> 0) | None \<Rightarrow> 0)"

definition row_effect :: "fga_row \<Rightarrow> register_req option" where
  "row_effect r = (if fg_event r = EventRegister then intent_req r else None)"

definition register_call :: "'s iam_register_client \<Rightarrow> string \<Rightarrow> register_req \<Rightarrow> 's \<Rightarrow> (go_error + unit) \<times> 's" where
  "register_call C ev = (if ev = EventRegister then registerResource C else unregisterResource C)"

definition disposition :: "(go_error + unit) \<times> 's \<Rightarrow> apply_error option \<times> 's" where
  "disposition a = (case a of (Inl e, s') \<Rightarrow> (Some (classifyApplyErr e), s') | (Inr _, s') \<Rightarrow> (None, s'))"

lemma events_distinct [simp]: "EventRegister \<noteq> EventUnregister" "EventUnregister \<noteq> EventRegister"
  by (simp_all add: EventRegister_def EventUnregister_def)

lemma decode_intent_row:
  "decode_intent (fg_payload (intent_row E ev k i p l t)) =
    Inr \<lparr> pl_tuples = Some [t], pl_labels = norm_labels l, pl_parent_project = p, pl_parent_account = '''',
          pl_source_version = Some (e_now E) \<rparr>"
  by (simp add: decode_intent_def intent_row_def fga_decode_encode)

lemma intent_req_row:
  "intent_req (intent_row E ev k i p l t) =
    Some \<lparr> rq_subject = tp_subject t, rq_relation = tp_relation t, rq_object = tp_object t, rq_labels = norm_labels l,
           rq_parent_project = p, rq_parent_account = '''', rq_source_version = Some (e_now E) \<rparr>"
  by (simp add: intent_req_def decode_intent_row payload_tuples_def register_request_def sourceVersionPB_def)

lemma fg_event_intent_row [simp]: "fg_event (intent_row E ev k i p l t) = ev"
  by (simp add: intent_row_def)

lemma deliver_intent_row:
  assumes "ev \<in> {EventRegister, EventUnregister}"
  shows "deliver C (intent_row E ev k i p l t) s
    = disposition (register_call C ev (the (intent_req (intent_row E ev k i p l t))) s)"
  using assms
  by (auto simp: deliver_def decode_intent_row apply_intent_def payload_tuples_def intent_req_row register_call_def
      register_request_def sourceVersionPB_def disposition_def split: prod.splits sum.splits)

lemma intents_of_cases:
  assumes "r \<in> set (intents_of E ev k i p l)"
  obtains t where "ProjectHierarchyTuple k i p = Some t" "r = intent_row E ev k i p l t"
  using assms by (cases "ProjectHierarchyTuple k i p") (auto simp: intents_of_def)

lemma well_formed_intentE:
  assumes "well_formed_intent r"
  obtains q v where "intent_req r = Some q" "rq_source_version q = Some v"
    "\<And>(C :: 's iam_register_client) s. deliver C r s = disposition (register_call C (fg_event r) q s)"
proof -
  obtain E ev k i p l where h: "ev \<in> {EventRegister, EventUnregister}" "r \<in> set (intents_of E ev k i p l)"
    using assms unfolding well_formed_intent_def by blast
  obtain t where t: "r = intent_row E ev k i p l t" using h(2) by (rule intents_of_cases)
  show thesis
  proof (rule that)
    show "intent_req r = Some (the (intent_req r))" "rq_source_version (the (intent_req r)) = Some (e_now E)"
      by (simp_all add: t intent_req_row)
    show "deliver C r s = disposition (register_call C (fg_event r) (the (intent_req r)) s)" for C :: "'s iam_register_client" and s
      using deliver_intent_row [OF h(1)] by (simp add: t)
  qed
qed

section \<open>A registry in which the last source version wins\<close>

text \<open>
  IAM's side as the comments of the applier state it: the registry keeps for each
  object the version and the effect last applied (a registration or a
  tombstone), a request with an older version changes nothing, a repeated
  request is answered OK, and a failed request was either applied or not.
\<close>

type_synonym registry = "string \<Rightarrow> (gotime \<times> register_req option) option"

definition supersede :: "registry \<Rightarrow> string \<Rightarrow> gotime \<Rightarrow> register_req option \<Rightarrow> registry" where
  "supersede m obj v eff =
    (case m obj of Some (w, _) \<Rightarrow> if w \<le> v then m(obj \<mapsto> (v, eff)) else m | None \<Rightarrow> m(obj \<mapsto> (v, eff)))"

definition last_version_wins :: "'s iam_register_client \<Rightarrow> ('s \<Rightarrow> registry) \<Rightarrow> bool" where
  "last_version_wins C entries \<longleftrightarrow>
    (\<forall>ev q v s x s'. ev \<in> {EventRegister, EventUnregister} \<longrightarrow> rq_source_version q = Some v \<longrightarrow> register_call C ev q s = (x, s') \<longrightarrow>
       (let new = supersede (entries s) (rq_object q) v (if ev = EventRegister then Some q else None) in
        entries s' = new \<or> \<not> is_ok x \<and> entries s' = entries s))"

lemma well_formed_event: "well_formed_intent r \<Longrightarrow> fg_event r \<in> {EventRegister, EventUnregister}"
  by (auto simp: well_formed_intent_def elim!: intents_of_cases)

lemma deliver_effect:
  assumes "last_version_wins C entries" "well_formed_intent r" "deliver C r s = (x, s')"
  shows "entries s' = supersede (entries s) (row_object r) (row_version r) (row_effect r)
    \<or> x \<noteq> None \<and> entries s' = entries s"
proof -
  obtain q v where q: "intent_req r = Some q" "rq_source_version q = Some v"
    "deliver C r s = disposition (register_call C (fg_event r) q s)"
    using assms(2) by (metis well_formed_intentE)
  obtain y where y: "register_call C (fg_event r) q s = (y, s')" "x \<noteq> None \<longleftrightarrow> \<not> is_ok y"
    using assms(3) q(3) by (auto simp: disposition_def split: prod.splits sum.splits)
  show ?thesis
    using assms(1) well_formed_event [OF assms(2)] q(1,2) y
    unfolding last_version_wins_def row_object_def row_version_def row_effect_def Let_def
    by (metis option.simps(5))
qed

text \<open>The entry of an object is settled when it is that of its newest row.\<close>

definition older_than :: "registry \<Rightarrow> fga_row \<Rightarrow> bool" where
  "older_than m r \<longleftrightarrow> (\<forall>w eff. m (row_object r) = Some (w, eff) \<longrightarrow> w < row_version r)"

definition holds_row :: "registry \<Rightarrow> fga_row \<Rightarrow> bool" where
  "holds_row m r \<longleftrightarrow> m (row_object r) = Some (row_version r, row_effect r)"

lemma supersede_step:
  assumes "row_object r = row_object r0 \<Longrightarrow> r = r0 \<or> row_version r < row_version r0"
    and "m' = supersede m (row_object r) (row_version r) (row_effect r)"
  shows "holds_row m r0 \<Longrightarrow> holds_row m' r0"
    and "older_than m r0 \<Longrightarrow> (if r = r0 then holds_row m' r0 else older_than m' r0)"
proof -
  show "holds_row m' r0" if "holds_row m r0"
  proof (cases "row_object r = row_object r0")
    case True
    then show ?thesis using that assms(1) by (auto simp: assms(2) supersede_def holds_row_def)
  next
    case False
    then show ?thesis using that by (simp add: assms(2) supersede_def holds_row_def split: option.split)
  qed
  show "if r = r0 then holds_row m' r0 else older_than m' r0" if o: "older_than m r0"
  proof (cases "row_object r = row_object r0")
    case True
    then have "m' (row_object r0) = m (row_object r0)
        \<or> m' (row_object r0) = Some (row_version r, row_effect r)"
      by (simp add: assms(2) supersede_def split: option.split)
    moreover have "m' (row_object r0) = Some (row_version r0, row_effect r0)" if "r = r0"
      using o that by (auto simp: assms(2) supersede_def older_than_def split: option.split)
    ultimately show ?thesis using o assms(1) [OF True] by (auto simp: holds_row_def older_than_def)
  next
    case False
    then have "m' (row_object r0) = m (row_object r0)"
      by (simp add: assms(2) supersede_def split: option.split)
    then show ?thesis using o False by (auto simp: older_than_def)
  qed
qed

lemma attempts_settle:
  assumes C: "last_version_wins C entries"
  shows "\<lbrakk> \<And>r. r \<in> set rs \<Longrightarrow> well_formed_intent r \<and> (row_object r = row_object r0 \<longrightarrow> r = r0 \<or> row_version r < row_version r0);
     holds_row (entries s) r0 \<or> older_than (entries s) r0 \<and> (r0, None) \<in> set (fst (attempts C rs s)) \<rbrakk>
   \<Longrightarrow> holds_row (entries (snd (attempts C rs s))) r0"
proof (induction rs arbitrary: s)
  case (Cons r rs)
  obtain x s1 where d: "deliver C r s = (x, s1)" by fastforce
  have a: "set (fst (attempts C (r # rs) s)) = insert (r, x) (set (fst (attempts C rs s1)))"
      "snd (attempts C (r # rs) s) = snd (attempts C rs s1)"
    using d by (simp_all split: prod.splits)
  have r: "well_formed_intent r" "row_object r = row_object r0 \<Longrightarrow> r = r0 \<or> row_version r < row_version r0"
    using Cons.prems(1) [of r] by auto
  note st = supersede_step [OF r(2)]
  have "holds_row (entries s1) r0 \<or> older_than (entries s1) r0 \<and> (r0, None) \<in> set (fst (attempts C rs s1))"
  proof (cases "entries s1 = supersede (entries s) (row_object r) (row_version r) (row_effect r)")
    case True
    then show ?thesis using st [OF _ True] Cons.prems(2) a(1) by (auto split: if_splits)
  next
    case False
    then have "x \<noteq> None" "entries s1 = entries s" using deliver_effect [OF C r(1) d] by auto
    then show ?thesis using Cons.prems(2) a(1) by auto
  qed
  then show ?case using Cons.IH [of s1] Cons.prems(1) a(2) by simp
qed auto

section \<open>What the reconciler sees\<close>

lemma latest_row_of_id: "latest_row_of i rows = Some r \<Longrightarrow> fg_id r = i \<and> r \<in> set rows"
  unfolding latest_row_of_def by (auto dest: find_Some_D)

lemma latest_row_of_exists: "i \<in> fg_id ` set rows \<Longrightarrow> \<exists>r. latest_row_of i rows = Some r"
  unfolding latest_row_of_def by (cases "List.find (\<lambda>r. fg_id r = i) (rev rows)") (auto simp: find_None_D)

lemma set_distinct_on_id: "set (distinct_on_id rows) = {r. \<exists>i. latest_row_of i rows = Some r}"
proof -
  have m: "set (List.map_filter f xs) = {y. \<exists>x \<in> set xs. f x = Some y}" for f :: "string \<Rightarrow> fga_row option" and xs
    by (induction xs) (auto simp: List.map_filter_def split: option.splits)
  show ?thesis unfolding distinct_on_id_def m using latest_row_of_id by fastforce
qed

lemma ListRegistered_iff:
  assumes "ListRegistered None sent s = Inr ts"
  shows "(k, i) \<in> set ts \<longleftrightarrow>
    (\<exists>r. latest_row_of i (delivered_rows sent s) = Some r \<and> fg_kind r = k \<and> fg_event r = EventRegister)"
proof -
  have "(k, i) \<in> set ts \<longleftrightarrow>
      (\<exists>r j. latest_row_of j (delivered_rows sent s) = Some r \<and> fg_event r = EventRegister \<and> k = fg_kind r \<and> i = fg_id r)"
    using assms by (simp add: ListRegistered_def EventRegister_def) (force simp: set_distinct_on_id)
  then show ?thesis using latest_row_of_id [of _ "delivered_rows sent s"] by blast
qed

text \<open>Every live row is listed once with its kind; the existence query agrees with the listing.\<close>

lemma list_resources_calm:
  "list_resources_of (\<lambda>_. None) kts s
    = Inr (concat (List.map (\<lambda>(kind, table). List.map (\<lambda>(i, p). \<lparr> rr_kind = kind, rr_id = i, rr_project = p \<rparr>) (table_ids table s)) kts))"
  by (induction kts) auto

lemma resource_tables_map:
  "distinct (List.map fst computeResourceTables)" "'''' \<notin> set (List.map snd computeResourceTables)"
  by (simp_all add: computeResourceTables_def)

lemma in_resource_tables: "(k, t) \<in> set computeResourceTables \<longleftrightarrow> computeKindToTable k = t \<and> t \<noteq> ''''"
  by (auto simp: computeKindToTable_def computeResourceTables_def split: if_splits)

lemma ListResources_iff:
  assumes "ListResources (\<lambda>_. None) s = Inr rs"
  shows "\<lparr> rr_kind = k, rr_id = i, rr_project = p \<rparr> \<in> set rs \<longleftrightarrow>
    computeKindToTable k \<noteq> '''' \<and> (i, p) \<in> set (table_ids (computeKindToTable k) s)"
proof -
  have "rs = concat (List.map (\<lambda>(kind, table). List.map (\<lambda>(i, p). \<lparr> rr_kind = kind, rr_id = i, rr_project = p \<rparr>)
      (table_ids table s)) computeResourceTables)"
    using assms by (simp add: ListResources_def list_resources_calm)
  then have "\<lparr> rr_kind = k, rr_id = i, rr_project = p \<rparr> \<in> set rs \<longleftrightarrow>
      (\<exists>t. (k, t) \<in> set computeResourceTables \<and> (i, p) \<in> set (table_ids t s))"
    by force
  then show ?thesis by (auto simp: in_resource_tables)
qed

lemma ResourceExists_iff:
  assumes "ListResources (\<lambda>_. None) s = Inr rs"
  shows "ResourceExists (\<lambda>_. None) k i s = Inr (\<exists>r \<in> set rs. rr_kind r = k \<and> rr_id r = i)"
proof -
  have "(\<exists>r \<in> set rs. rr_kind r = k \<and> rr_id r = i) \<longleftrightarrow>
      (\<exists>p. \<lparr> rr_kind = k, rr_id = i, rr_project = p \<rparr> \<in> set rs)"
    by (metis resource_ref.surjective old.unit.exhaust resource_ref.select_convs(1,2))
  also have "\<dots> \<longleftrightarrow> computeKindToTable k \<noteq> '''' \<and> i \<in> set (List.map fst (table_ids (computeKindToTable k) s))"
    by (force simp: ListResources_iff [OF assms])
  finally show ?thesis by (simp add: ResourceExists_def Let_def)
qed

end
