(* ===== verification/RuntimeProperties.thy ===== *)
theory RuntimeProperties
  imports Start Health Register PeerRpc
begin

text \<open>
  Properties of the running process: what a start in a production mode
  guarantees, the connections of the peers, readiness, and the delivery of
  owner tuples to IAM.
\<close>

section \<open>Concrete runs\<close>

text \<open>The credentials of the example keep the switch, a connection its address and credentials.\<close>

definition fx_transport :: "(bool, string \<times> bool) transport" where
  "fx_transport = \<lparr> xp_client_creds = (\<lambda>t. Inr (tls_enable t)), xp_server_creds = (\<lambda>t. Inr (tls_enable t)),
     xp_dial = (\<lambda>addr creds _. Inr (addr, creds)) \<rparr>"

definition fx_boot :: boot_env where
  "fx_boot = \<lparr> be_pool = None, be_lro_worker = None, be_drainer = None, be_backstop = None, be_diagnostic = None,
     be_public_listener = None, be_internal_listener = None \<rparr>"

definition fx_authorize :: "string \<times> bool \<Rightarrow> authorize_client" where
  "fx_authorize c = (\<lambda>_ _. Inr [])"

text \<open>A registry as IAM documents it, for the examples: the entries are the state, a
  request without a version is ignored.\<close>

definition fx_register :: "register_req \<Rightarrow> register_req option \<Rightarrow> registry \<Rightarrow> (go_error + unit) \<times> registry" where
  "fx_register q eff m =
    (case rq_source_version q of None \<Rightarrow> (Inr (), m) | Some v \<Rightarrow> (Inr (), supersede m (rq_object q) v eff))"

definition fx_iam_registry :: "registry iam_register_client" where
  "fx_iam_registry = \<lparr> registerResource = (\<lambda>q. fx_register q (Some q)), unregisterResource = (\<lambda>q. fx_register q None) \<rparr>"

text \<open>Two intents of one disk: registered with labels, later unregistered; and an image's.\<close>

definition fx_register_row :: fga_row where
  "fx_register_row = hd (intents_of fx_env EventRegister ''Disk'' ''dsk1'' ''prj1'' (Some [(''env'', ''dev'')]))"

definition fx_unregister_row :: fga_row where
  "fx_unregister_row = hd (intents_of (fx_env\<lparr> e_now := 9000 \<rparr>) EventUnregister ''Disk'' ''dsk1'' ''prj1'' None)"

text \<open>An update of one label, in a transaction that began at the given time.\<close>

definition fx_label_update :: "int \<Rightarrow> string \<Rightarrow> db \<Rightarrow> db" where
  "fx_label_update begin1 v s =
    snd (disk_update (fx_env\<lparr> e_now := begin1 \<rparr>) (fx_disk\<lparr> d_labels := Some [(''env'', v)] \<rparr>) True [''labels''] s)"

text \<open>What the witnesses below need of the runs they show, evaluated once.\<close>

lemma fx_runtime_runs:
  "(is_ok (fst (runServe fx_transport fx_authorize fx_boot fx_config)))
   \<and> (cf_auth_mode fx_config \<noteq> ''dev'')
   \<and> (wr_public_stream (projr (fst (runServe fx_transport fx_authorize fx_boot fx_config))) = [CertIdentityExtract, TrustedPrincipalExtract [''spiffe://gw''], TenantInterceptor False True, AuthzCheck (CheckInterceptor (Some (''iam:9091'', True)))])
   \<and> (cf_auth_mode fx_config = ''production-strict'' \<and> is_ok (validateAuthMode fx_config) \<and> ws_closers (projr (fst (dialPeers fx_transport fx_config))) = [(''iam:9090'', True), (''geo:9090'', True), (''vpc:9091'', False), (''storage:9091'', False)])
   \<and> (wr_public_stream (projr (fst (runServe fx_transport fx_authorize fx_boot (fx_config\<lparr> cf_auth_mode := ''dev'', cf_authz_iam_addr := '''' \<rparr>)))) = [CertIdentityExtract, TrustedPrincipalExtract [''spiffe://gw''], TenantInterceptor False False, AuthzCheck (CheckInterceptor None)])
   \<and> (baseDSN (fx_config\<lparr> cf_db_password := ''a@b'', cf_db_host := ''h'' \<rparr>) = baseDSN (fx_config\<lparr> cf_db_password := ''a'', cf_db_host := ''b@h'' \<rparr>))
   \<and> (case (runServe fx_transport fx_authorize (fx_boot\<lparr> be_internal_listener := Some (Plain ''address in use'') \<rparr>) fx_config) of (Inl e, tr) \<Rightarrow> size tr = 17 | (Inr w, tr) \<Rightarrow> False)
   \<and> (intents_of fx_env EventRegister ''Disk'' ''dsk1'' ''prj1'' (Some [(''env'', ''dev'')]) \<noteq> [])
   \<and> (intents_of (fx_env\<lparr> e_now := 9000 \<rparr>) EventUnregister ''Disk'' ''dsk1'' ''prj1'' None \<noteq> [])
   \<and> (norm_labels (Some [(''env'', ''dev'')]) = Some [(''env'', ''dev'')])
   \<and> (FGAType ''Disk'' = ''compute_disk'')
   \<and> (row_object fx_register_row = ''compute_disk:dsk1'')
   \<and> (row_object fx_unregister_row = ''compute_disk:dsk1'')
   \<and> (row_version fx_register_row = 5000)
   \<and> (row_version fx_unregister_row = 9000)
   \<and> (row_effect fx_unregister_row = None)
   \<and> (fst (deliver fx_iam_registry fx_unregister_row Map.empty) = None)
   \<and> (let s = fx_label_update 7000 ''stage'' (fx_label_update 9000 ''prod'' fx_db1) in map_option dr_labels (disk_sel (disks s) ''dsk1'') = Some (Some (JObj [(''env'', JStr ''stage'')])) \<and> map_option (\<lambda>(v, eff). (v, map_option rq_labels eff)) (snd (attempts fx_iam_registry (fga_outbox s) Map.empty) ''compute_disk:dsk1'') = Some (9000, Some (Some [(''env'', ''prod'')])))
   \<and> (computeKindToTable ''Disk'' = ''disks'')
   \<and> ((''dsk1'', ''prj1'') \<in> set (table_ids ''disks'' fx_db1))
   \<and> (ListRegistered None (\<lambda>k. k = 0) (empty_db\<lparr> fga_outbox := [fx_register_row, fx_unregister_row] \<rparr>) = Inr [(''Disk'', ''dsk1'')])"
  by code_simp

section \<open>Start-up\<close>

lemma runServe_inv:
  assumes "fst (runServe X cli B cfg) = Inr w"
  obtains conn authz where "validateAuthMode cfg = Inr (wr_production w)" "fst (dial_authz X cfg) = Inr conn"
    "authzWiringDecision (wr_production w) (NewInterceptor (cf_authz_breakglass cfg) (Iface conn)) = Inr authz"
    "wr_filter w = buildListFilter cfg conn cli"
    "wr_public_unary w = GuardCreate # tenant_chain cfg False (wr_production w) authz"
    "wr_public_stream w = tenant_chain cfg False (wr_production w) authz"
    "wr_internal_unary w = tenant_chain cfg True (wr_production w) authz"
    "wr_internal_stream w = tenant_chain cfg True (wr_production w) authz"
    "PublicServerCreds X cfg = Inr (wr_public_creds w)" "InternalServerCreds X cfg = Inr (wr_internal_creds w)"
    "fst (dialPeers X cfg) = Inr (wr_peers w)"
  using assms by (auto simp: runServe_def start_Inr wire_authz_def listen_both_def on_conns_def split: prod.splits)

lemma interceptor_present:
  "authzWiringDecision m (NewInterceptor b (Iface conn)) = Inr a \<Longrightarrow>
    a = Some (if b then BreakglassInterceptor else CheckInterceptor conn)"
  by (auto simp: authzWiringDecision_def NewInterceptor_def split: if_splits)

text \<open>C15: A start in a production mode that reaches the listeners is closed. Both
  listeners have their TLS switched on; the database connection requires TLS;
  the forwarder allow-list is not empty; every List goes through an enabled
  filter with an IAM client; both listeners, unary and stream, extract the
  certificate identity first, drop principals of forwarders outside the
  allow-list, refuse anonymous callers, and then check each call, with a live
  connection to IAM unless break-glass is set. In the strict mode the edges to
  IAM and geo that are dialled have TLS too.\<close>

theorem production_boot_is_closed:
  assumes "fst (runServe X cli B cfg) = Inr w" "cf_auth_mode cfg \<noteq> ''dev''"
  shows "tls_enable (cf_public_server_mtls cfg) \<and> tls_enable (cf_internal_server_mtls cfg)
    \<and> cf_db_ssl_mode cfg \<in> {''require'', ''verify-ca'', ''verify-full''} \<and> cf_trusted_forwarders cfg \<noteq> []
    \<and> (\<exists>F conn. wr_filter w = Some F \<and> fc_enabled (ff_cfg F) \<and> ff_cli F = Some (cli conn)
         \<and> fc_fail_open (ff_cfg F) = cf_list_filter_fail_open cfg
         \<and> (let chain = \<lambda>requireAdmin. [CertIdentityExtract, TrustedPrincipalExtract (cf_trusted_forwarders cfg),
                  TenantInterceptor requireAdmin True,
                  AuthzCheck (if cf_authz_breakglass cfg then BreakglassInterceptor else CheckInterceptor (Some conn))] in
            wr_public_unary w = GuardCreate # chain False \<and> wr_public_stream w = chain False
            \<and> wr_internal_unary w = chain True \<and> wr_internal_stream w = chain True))
    \<and> (cf_auth_mode cfg = ''production-strict'' \<longrightarrow> strict_edges cfg)"
proof (rule runServe_inv [OF assms(1)])
  fix conn authz
  assume h: "validateAuthMode cfg = Inr (wr_production w)" "fst (dial_authz X cfg) = Inr conn"
    "authzWiringDecision (wr_production w) (NewInterceptor (cf_authz_breakglass cfg) (Iface conn)) = Inr authz"
    and f: "wr_filter w = buildListFilter cfg conn cli"
    and ch: "wr_public_unary w = GuardCreate # tenant_chain cfg False (wr_production w) authz"
    "wr_public_stream w = tenant_chain cfg False (wr_production w) authz"
    "wr_internal_unary w = tenant_chain cfg True (wr_production w) authz"
    "wr_internal_stream w = tenant_chain cfg True (wr_production w) authz"
  have m: "wr_production w" "production_ready cfg" "cf_auth_mode cfg = ''production-strict'' \<longrightarrow> strict_edges cfg"
    using h(1) assms(2) by (auto simp: validateAuthMode_iff)
  obtain c where c: "conn = Some c" using dial_authz_Some [OF h(2)] m(2) by (auto simp: production_ready_def)
  obtain F where F: "buildListFilter cfg (Some c) cli = Some F"
    using m(2) by (auto simp: buildListFilter_def production_ready_def Let_def)
  show ?thesis
    using m buildListFilter_Some [OF F] F ch f c interceptor_present [OF h(3)]
    by (auto simp: production_ready_def tenant_chain_def Let_def intro!: exI [of _ F])
qed

lemma fx_boot_runs: "is_ok (fst (runServe fx_transport fx_authorize fx_boot fx_config))"
  using fx_runtime_runs by (elim conjE)

theorem production_boot_is_closed_witness:
  "wr_public_stream (projr (fst (runServe fx_transport fx_authorize fx_boot fx_config))) =
     [CertIdentityExtract, TrustedPrincipalExtract [''spiffe://gw''], TenantInterceptor False True,
      AuthzCheck (CheckInterceptor (Some (''iam:9091'', True)))]
   \<and> cf_db_ssl_mode fx_config \<in> {''require'', ''verify-ca'', ''verify-full''}"
proof -
  obtain w where w: "fst (runServe fx_transport fx_authorize fx_boot fx_config) = Inr w"
    using fx_boot_runs by (auto simp: is_ok_iff)
  have "cf_auth_mode fx_config \<noteq> ''dev''" using fx_runtime_runs by (elim conjE)
  note p = production_boot_is_closed [OF w this]
  have "wr_public_stream (projr (fst (runServe fx_transport fx_authorize fx_boot fx_config))) =
     [CertIdentityExtract, TrustedPrincipalExtract [''spiffe://gw''], TenantInterceptor False True,
      AuthzCheck (CheckInterceptor (Some (''iam:9091'', True)))]" using fx_runtime_runs by (elim conjE)
  then show ?thesis using p by blast
qed

text \<open>The edges to VPC and storage are dialled too, but the strict gate does not ask for
  their TLS: the start above succeeds and holds plaintext connections to both.\<close>

theorem strict_leaves_saga_edges_plain:
  "cf_auth_mode fx_config = ''production-strict'' \<and> is_ok (validateAuthMode fx_config)
   \<and> ws_closers (projr (fst (dialPeers fx_transport fx_config))) =
       [(''iam:9090'', True), (''geo:9090'', True), (''vpc:9091'', False), (''storage:9091'', False)]"
  using fx_runtime_runs by (intro conjI; elim conjE)

text \<open>A development start without the address of IAM: the nil connection is wrapped in a
  non-nil interface, so the interceptor is built over it, although the comment and the
  log message say that the interceptor is left out.\<close>

theorem dev_without_iam_keeps_interceptor:
  "wr_public_stream (projr (fst (runServe fx_transport fx_authorize fx_boot
      (fx_config\<lparr> cf_auth_mode := ''dev'', cf_authz_iam_addr := '''' \<rparr>)))) =
     [CertIdentityExtract, TrustedPrincipalExtract [''spiffe://gw''], TenantInterceptor False False,
      AuthzCheck (CheckInterceptor None)]"
  using fx_runtime_runs by (elim conjE)

text \<open>The parts of the DSN are not escaped: an at-sign moves text between password and host.\<close>

theorem dsn_is_ambiguous:
  "baseDSN (fx_config\<lparr> cf_db_password := ''a@b'', cf_db_host := ''h'' \<rparr>)
   = baseDSN (fx_config\<lparr> cf_db_password := ''a'', cf_db_host := ''b@h'' \<rparr>)"
  using fx_runtime_runs by (elim conjE)

text \<open>Dialling the peers leaks no connection. On an error every connection that
  was opened is closed, in order and once; on success the list of closers that
  runServe defers holds exactly the opened connections, and each client is the
  Noop client or one over a connection of that list.\<close>

theorem dial_peers_leaks_nothing:
  "case dialPeers X cfg of
     (Inl e, tr) \<Rightarrow> \<exists>cs. tr = List.map Opened cs @ List.map Closed cs
   | (Inr w, tr) \<Rightarrow> tr = List.map Opened (ws_closers w)"
  using dialPeers_tidy [of X cfg] by (auto simp: tidy_def split: prod.splits sum.splits)

text \<open>C38: A start leaks nothing. When any step fails, every connection, the pool and the
  sockets of the API that were opened before are closed again, each exactly once; when it
  reaches the point where it serves, what is open is exactly the pool, the connections of the
  peers, of the drainer and of the authorization check, and the sockets. The socket of the
  diagnostic listener alone may outlive a failed start.\<close>

theorem start_leaks_nothing:
  "case runServe X cli B cfg of
     (Inl e, tr) \<Rightarrow> r \<noteq> DiagnosticSocket \<longrightarrow> count_list tr (Opened r) = count_list tr (Closed r)
   | (Inr w, tr) \<Rightarrow> count_list tr (Opened r) = count_list tr (Closed r) + count_list (wiring_holds w) r"
  using runServe_leaves [of X cli B cfg] by (auto simp: leaves_def balance_def split: prod.splits sum.splits dest: spec [of _ r])

text \<open>A start whose internal port is taken: four peers, drainer and IAM are closed again.\<close>

theorem start_leaks_nothing_witness:
  "case runServe fx_transport fx_authorize (fx_boot\<lparr> be_internal_listener := Some (Plain ''address in use'') \<rparr>) fx_config of
     (Inl e, tr) \<Rightarrow> count_list tr (Opened Pool) = count_list tr (Closed Pool) \<and> size tr = 17
   | (Inr w, tr) \<Rightarrow> False"
proof -
  let ?m = "runServe fx_transport fx_authorize (fx_boot\<lparr> be_internal_listener := Some (Plain ''address in use'') \<rparr>) fx_config"
  have "case ?m of (Inl e, tr) \<Rightarrow> size tr = 17 | (Inr w, tr) \<Rightarrow> False" using fx_runtime_runs by (elim conjE)
  then show ?thesis
    using start_leaks_nothing [where X = fx_transport and cli = fx_authorize and cfg = fx_config and r = Pool
        and B = "fx_boot\<lparr> be_internal_listener := Some (Plain ''address in use'') \<rparr>"]
    by (auto split: prod.splits sum.splits)
qed

section \<open>Readiness\<close>

text \<open>C37: The readiness probe answers 200 exactly when the process is not shutting
  down, the database answered its ping without error within the budget, the
  register drainer is connected, the operation worker runs, and the IAM
  connection, where there is one, is not shut down. Otherwise it answers 503
  with the failing dependencies in the declared order. None of this depends on
  the order in which the concurrent checks finish.\<close>

theorem readiness_exact:
  assumes "0 < budget"
    and "mset arrival = mset [0..<size (buildReadinessCheckers ping gate worker authz)]"
  shows "ReadyHandler shutting budget (buildReadinessCheckers ping gate worker authz) arrival =
    (let down = (if runChecker budget ping then [] else [''database'']) @
                (if gate then [] else [''register-drainer'']) @
                (if worker then [] else [''lro-worker'']) @
                (if authz = Some Shutdown then [''iam-authz''] else []) in
     if shutting then (503, ''shutting_down'', [])
     else if down = [] then (200, ''ready'', []) else (503, ''not_ready'', down))"
  using assms(1) unfolding ReadyHandler_exact [OF readiness_names assms(2)]
  by (simp add: buildReadinessCheckers_def authzConnHealth_def Let_def split: option.split)

theorem readiness_exact_witness:
  "ReadyHandler False 1000000000 (buildReadinessCheckers Hangs True False (Some Idle)) [3, 0, 2, 1] =
     (503, ''not_ready'', [''database'', ''lro-worker''])"
proof -
  have "mset [3, 0, 2, 1] = mset [0..<size (buildReadinessCheckers Hangs True False (Some Idle))]"
    by (simp add: buildReadinessCheckers_def upt_rec eval_nat_numeral)
  then show ?thesis using readiness_exact [of 1000000000 "[3, 0, 2, 1]" Hangs True False "Some Idle" False] by simp
qed

section \<open>Delivery of owner tuples\<close>

text \<open>C26: What a writer transaction leaves in the intent outbox reaches IAM as it was
  meant: delivering the row makes one call, RegisterResource or
  UnregisterResource by its event, with the project-hierarchy tuple of the
  resource, its labels, its project and the timestamp of the transaction; the
  row is never poisoned by the decoder or the event type. The drainer is told
  to drop the row only when IAM answers INVALID_ARGUMENT, to mark it sent when
  IAM accepts, and to retry on every other error.\<close>

theorem intent_delivery:
  assumes "ev \<in> {EventRegister, EventUnregister}" "r \<in> set (intents_of E ev kind i project labels)"
  shows "deliver C r s =
    (case (if ev = EventRegister then registerResource C else unregisterResource C)
       \<lparr> rq_subject = ''project:'' @ project, rq_relation = ''project'', rq_object = FGAType kind @ '':'' @ i,
         rq_labels = norm_labels labels, rq_parent_project = project, rq_parent_account = '''',
         rq_source_version = Some (e_now E) \<rparr> s of
       (Inr _, s') \<Rightarrow> (None, s')
     | (Inl e, s') \<Rightarrow> (Some (if from_error e = Some InvalidArgument then Poison e else Retry e), s'))"
proof -
  obtain t where t: "ProjectHierarchyTuple kind i project = Some t" "r = intent_row E ev kind i project labels t"
    using assms(2) by (rule intents_of_cases)
  have "t = \<lparr> tp_subject = ''project:'' @ project, tp_relation = ''project'', tp_object = FGAType kind @ '':'' @ i \<rparr>"
    using t(1) by (auto simp: ProjectHierarchyTuple_def Let_def split: if_splits)
  then show ?thesis
    using deliver_intent_row [OF assms(1), of C E kind i project labels t s]
    by (simp add: t(2) intent_req_row register_call_def disposition_def classifyApplyErr_def
        split: prod.splits sum.splits)
qed

lemma fx_registry_ok: "last_version_wins fx_iam_registry id"
  by (auto simp: last_version_wins_def fx_iam_registry_def register_call_def fx_register_def Let_def)

lemma fx_rows:
  "fx_register_row \<in> set (intents_of fx_env EventRegister ''Disk'' ''dsk1'' ''prj1'' (Some [(''env'', ''dev'')]))"
  "fx_unregister_row \<in> set (intents_of (fx_env\<lparr> e_now := 9000 \<rparr>) EventUnregister ''Disk'' ''dsk1'' ''prj1'' None)"
proof -
  have "intents_of fx_env EventRegister ''Disk'' ''dsk1'' ''prj1'' (Some [(''env'', ''dev'')]) \<noteq> []"
    "intents_of (fx_env\<lparr> e_now := 9000 \<rparr>) EventUnregister ''Disk'' ''dsk1'' ''prj1'' None \<noteq> []" by (simp_all only: fx_runtime_runs simp_thms)
  then show "fx_register_row \<in> set (intents_of fx_env EventRegister ''Disk'' ''dsk1'' ''prj1'' (Some [(''env'', ''dev'')]))"
    "fx_unregister_row \<in> set (intents_of (fx_env\<lparr> e_now := 9000 \<rparr>) EventUnregister ''Disk'' ''dsk1'' ''prj1'' None)"
    unfolding fx_register_row_def fx_unregister_row_def by (auto intro: hd_in_set)
qed

theorem intent_delivery_witness:
  "deliver fx_iam_registry fx_register_row Map.empty =
    (None, [''compute_disk:dsk1'' \<mapsto> (5000, Some \<lparr> rq_subject = ''project:prj1'', rq_relation = ''project'',
       rq_object = ''compute_disk:dsk1'', rq_labels = Some [(''env'', ''dev'')], rq_parent_project = ''prj1'',
       rq_parent_account = '''', rq_source_version = Some 5000 \<rparr>)])"
proof -
  have l: "norm_labels (Some [(''env'', ''dev'')]) = Some [(''env'', ''dev'')]" "FGAType ''Disk'' = ''compute_disk''" by (simp_all only: fx_runtime_runs simp_thms)
  show ?thesis
    using intent_delivery [OF _ fx_rows(1), of fx_iam_registry Map.empty]
    by (simp add: l fx_iam_registry_def fx_register_def supersede_def fx_env_def)
qed

text \<open>C4: Whatever the order, the repetitions and the failures of the attempts, the
  registry ends with what the newest intent of a resource says, as soon as one
  attempt on that intent succeeded: IAM need only keep, per object, the request
  with the greatest source version, and treat a failed request as applied or
  not. Older intents of the resource that arrive late change nothing.\<close>

theorem intents_converge:
  assumes "last_version_wins C entries"
    and "\<forall>r \<in> set rows. well_formed_intent r"
    and "\<forall>r \<in> set rows. row_object r = row_object newest \<longrightarrow> r = newest \<or> row_version r < row_version newest"
    and "older_than (entries s) newest"
    and "(newest, None) \<in> set (fst (attempts C rows s))"
  shows "entries (snd (attempts C rows s)) (row_object newest) = Some (row_version newest, row_effect newest)"
  using attempts_settle [OF assms(1), of rows newest s] assms(2-5) by (simp add: holds_row_def)

theorem intents_converge_witness:
  "snd (attempts fx_iam_registry [fx_unregister_row, fx_register_row, fx_unregister_row] Map.empty) ''compute_disk:dsk1''
     = Some (9000, None)"
proof -
  let ?rows = "[fx_unregister_row, fx_register_row, fx_unregister_row]"
  have w: "\<forall>r \<in> set ?rows. well_formed_intent r"
    using fx_rows unfolding well_formed_intent_def by (metis insertCI list.set(1,2) empty_iff insertE)
  have o: "row_object fx_register_row = ''compute_disk:dsk1''" "row_object fx_unregister_row = ''compute_disk:dsk1''"
    "row_version fx_register_row = 5000" "row_version fx_unregister_row = 9000" "row_effect fx_unregister_row = None" by (simp_all only: fx_runtime_runs simp_thms)
  have d: "(fx_unregister_row, None) \<in> set (fst (attempts fx_iam_registry ?rows Map.empty))"
  proof -
    have "fst (deliver fx_iam_registry fx_unregister_row Map.empty) = None" using fx_runtime_runs by (elim conjE)
    then show ?thesis by (simp add: case_prod_beta)
  qed
  show ?thesis
    using intents_converge [OF fx_registry_ok w, of fx_unregister_row Map.empty] d by (simp add: o older_than_def)
qed

text \<open>The source version is the time the transaction began, not the time it committed.
  Of two updates of one disk the one that began first may commit last: the database
  then holds its labels, and IAM, given every intent in commit order, keeps those of
  the other.\<close>

theorem source_version_is_not_commit_order:
  "let s = fx_label_update 7000 ''stage'' (fx_label_update 9000 ''prod'' fx_db1) in
   map_option dr_labels (disk_sel (disks s) ''dsk1'') = Some (Some (JObj [(''env'', JStr ''stage'')]))
   \<and> map_option (\<lambda>(v, eff). (v, map_option rq_labels eff))
       (snd (attempts fx_iam_registry (fga_outbox s) Map.empty) ''compute_disk:dsk1'')
     = Some (9000, Some (Some [(''env'', ''prod'')]))"
  using fx_runtime_runs by (elim conjE)

text \<open>The listing of the reconciler agrees with the tables: every row of the four
  resource tables is listed with its kind, id and project and nothing else is,
  and the existence query answers yes exactly for what is listed. A tuple is a
  candidate for collection exactly when the last delivered intent of its id is
  a registration.\<close>

theorem reconciler_view_exact:
  assumes "ListResources (\<lambda>_. None) s = Inr live" "ListRegistered None sent s = Inr candidates"
  shows "(\<lparr> rr_kind = k, rr_id = i, rr_project = p \<rparr> \<in> set live \<longleftrightarrow>
            computeKindToTable k \<noteq> '''' \<and> (i, p) \<in> set (table_ids (computeKindToTable k) s))
    \<and> ResourceExists (\<lambda>_. None) k i s = Inr (\<exists>r \<in> set live. rr_kind r = k \<and> rr_id r = i)
    \<and> ((k, i) \<in> set candidates \<longleftrightarrow>
         (\<exists>r. latest_row_of i (delivered_rows sent s) = Some r \<and> fg_kind r = k \<and> fg_event r = EventRegister))"
  using ListResources_iff [OF assms(1)] ResourceExists_iff [OF assms(1)] ListRegistered_iff [OF assms(2)] by blast

theorem reconciler_view_exact_witness:
  "ResourceExists (\<lambda>_. None) ''Disk'' ''dsk1'' fx_db1 = Inr True"
proof -
  obtain live where l: "ListResources (\<lambda>_. None) fx_db1 = Inr live"
    by (simp add: ListResources_def list_resources_calm)
  obtain cs where c: "ListRegistered None (\<lambda>_. True) fx_db1 = Inr cs" by (simp add: ListRegistered_def)
  have "computeKindToTable ''Disk'' = ''disks''" "(''dsk1'', ''prj1'') \<in> set (table_ids ''disks'' fx_db1)" by (simp_all only: fx_runtime_runs simp_thms)
  then have "\<lparr> rr_kind = ''Disk'', rr_id = ''dsk1'', rr_project = ''prj1'' \<rparr> \<in> set live"
    using reconciler_view_exact [OF l c, of "''Disk''" "''dsk1''" "''prj1''"] by simp
  then show ?thesis using reconciler_view_exact [OF l c, of "''Disk''" "''dsk1''" "''prj1''"] by force
qed

text \<open>A pending deregistration is not seen: the comment speaks of the latest intent, the
  query takes the latest delivered one.\<close>

theorem pending_deregistration_is_ignored:
  "ListRegistered None (\<lambda>k. k = 0) (empty_db\<lparr> fga_outbox := [fx_register_row, fx_unregister_row] \<rparr>)
    = Inr [(''Disk'', ''dsk1'')]"
  using fx_runtime_runs by (elim conjE)

end
