(* ===== verification/Shutdown.thy ===== *)
theory Shutdown
  imports Boot Health
begin

text \<open>
  The running process: the supervised tasks of runServe (cmd/compute/main.go) after
  it listens, the shutdown trigger they share, and the end of the process. The
  tasks are goroutines of one errgroup; what interleaves is modelled as events on
  a state. gRPC's servers and the background loops are the environment: a server
  that is asked to stop gracefully waits for its open calls.
\<close>

section \<open>Tasks\<close>

datatype listener = InternalListener | PublicListener

datatype serve_task = Background string | Diagnostics | Grpc listener | Waiter

definition background_loops :: "config \<Rightarrow> string list" where
  "background_loops cfg = ''lro-reconciler'' #
    (if cf_register_drainer_enabled cfg
     then [''fga-register-drainer'', ''fga-register-reconciler'', ''outbox-metrics-collector''] else [])"

text \<open>startDiagnosticListener gives no task without an address.\<close>

definition serve_tasks :: "config \<Rightarrow> serve_task list" where
  "serve_tasks cfg = List.map Background (background_loops cfg)
    @ (if cf_metrics_addr cfg = '''' then [] else [Diagnostics]) @ [Grpc InternalListener, Grpc PublicListener, Waiter]"

text \<open>Where a task is: in its own work, after its loop returned, in triggerShutdown
  with what it returns afterwards, draining the workers, or returned.\<close>

datatype task_at = AtWork | LoopExited "go_error option" | AtTrigger "go_error option" | Draining | Exited "go_error option"

text \<open>The next statement of the body of triggerShutdown; GracefulStop is entered and
  then waits.\<close>

datatype trigger = NotTriggered | FlipReadiness | CloseChannel | CancelContext | StopInternal | AwaitInternal
  | StopPublic | AwaitPublic | TriggerDone

datatype phase = Up | Stopping | Stopped

record serve_state =
  ss_ctx_done :: bool
  ss_shutting :: bool
  ss_ch_closed :: bool
  ss_trigger :: trigger
  ss_phase :: "listener \<Rightarrow> phase"
  ss_open :: "listener \<Rightarrow> nat"
  ss_diagnostics :: bool
  ss_at :: "serve_task \<Rightarrow> task_at"
  ss_err :: "go_error option"
  ss_killed :: bool

definition serve_init :: "serve_task list \<Rightarrow> serve_state" where
  "serve_init tks = \<lparr> ss_ctx_done = False, ss_shutting = False, ss_ch_closed = False, ss_trigger = NotTriggered,
    ss_phase = (\<lambda>_. Up), ss_open = (\<lambda>_. 0), ss_diagnostics = (Diagnostics \<in> set tks), ss_at = (\<lambda>_. AtWork), ss_err = None,
    ss_killed = False \<rparr>"

section \<open>Steps\<close>

definition move_to :: "serve_task \<Rightarrow> task_at \<Rightarrow> serve_state \<Rightarrow> serve_state" where
  "move_to t p s = s\<lparr> ss_at := (ss_at s)(t := p) \<rparr>"

text \<open>A task returns: the group keeps the first error.\<close>

definition task_returns :: "serve_task \<Rightarrow> go_error option \<Rightarrow> serve_state \<Rightarrow> serve_state" where
  "task_returns t r s = (move_to t (Exited r) s)\<lparr> ss_err := (case ss_err s of None \<Rightarrow> r | Some e \<Rightarrow> Some e) \<rparr>"

definition ErrServerStopped :: go_error where "ErrServerStopped = Plain ''grpc: the server has been stopped''"

fun is_server_stopped :: "go_error \<Rightarrow> bool" where
  "is_server_stopped (Prefixed _ e) = is_server_stopped e"
| "is_server_stopped e = (e = ErrServerStopped)"

definition server_error_name :: "listener \<Rightarrow> string" where
  "server_error_name l = (case l of InternalListener \<Rightarrow> ''internal grpc server'' | PublicListener \<Rightarrow> ''public grpc server'')"

text \<open>What Serve may answer: an error while it is up, that it was stopped when it is
  called too late, nothing once the graceful stop is through.\<close>

definition serve_answers :: "phase \<Rightarrow> go_error option \<Rightarrow> bool" where
  "serve_answers p r =
    (case r of
       None \<Rightarrow> p = Stopped
     | Some e \<Rightarrow> if is_server_stopped e then p \<noteq> Up else p = Up)"

definition grpc_task :: "listener \<Rightarrow> go_error option \<Rightarrow> serve_state \<Rightarrow> serve_state" where
  "grpc_task l serr s =
    (case serr of
       Some e \<Rightarrow> if is_server_stopped e then task_returns (Grpc l) None s
                 else move_to (Grpc l) (AtTrigger (Some (Prefixed (server_error_name l) e))) s
     | None \<Rightarrow> task_returns (Grpc l) None s)"

definition diagnostic_task :: "go_error option \<Rightarrow> serve_state \<Rightarrow> serve_state" where
  "diagnostic_task derr s =
    (case derr of
       Some e \<Rightarrow> move_to Diagnostics (AtTrigger (Some (Prefixed ''diagnostic listener'' e))) (s\<lparr> ss_diagnostics := False \<rparr>)
     | None \<Rightarrow> task_returns Diagnostics None s)"

definition supervised :: "string \<Rightarrow> go_error option \<Rightarrow> serve_state \<Rightarrow> serve_state" where
  "supervised name err s =
    (case superviseBackground name err (ss_ctx_done s) of
       (r, True) \<Rightarrow> move_to (Background name) (AtTrigger r) s
     | (r, False) \<Rightarrow> task_returns (Background name) r s)"

text \<open>One statement of the body; None while a graceful stop waits for open calls.\<close>

definition trigger_step :: "serve_state \<Rightarrow> serve_state option" where
  "trigger_step s =
    (case ss_trigger s of
       FlipReadiness \<Rightarrow> Some (s\<lparr> ss_shutting := True, ss_trigger := CloseChannel \<rparr>)
     | CloseChannel \<Rightarrow> Some (s\<lparr> ss_ch_closed := True, ss_trigger := CancelContext \<rparr>)
     | CancelContext \<Rightarrow> Some (s\<lparr> ss_ctx_done := True, ss_trigger := StopInternal \<rparr>)
     | StopInternal \<Rightarrow> Some (s\<lparr> ss_phase := (ss_phase s)(InternalListener := Stopping), ss_trigger := AwaitInternal \<rparr>)
     | AwaitInternal \<Rightarrow> if ss_open s InternalListener = 0
         then Some (s\<lparr> ss_phase := (ss_phase s)(InternalListener := Stopped), ss_trigger := StopPublic \<rparr>) else None
     | StopPublic \<Rightarrow> Some (s\<lparr> ss_phase := (ss_phase s)(PublicListener := Stopping), ss_trigger := AwaitPublic \<rparr>)
     | AwaitPublic \<Rightarrow> if ss_open s PublicListener = 0
         then Some (s\<lparr> ss_phase := (ss_phase s)(PublicListener := Stopped), ss_trigger := TriggerDone \<rparr>) else None
     | _ \<Rightarrow> None)"

text \<open>cancel() is the stop function of signal.NotifyContext: besides ending the context it gives
  SIGTERM and SIGINT their default action back, so the next one kills the process.\<close>

definition signals_restored :: "serve_state \<Rightarrow> bool" where
  "signals_restored s \<longleftrightarrow> ss_trigger s \<in> {StopInternal, AwaitInternal, StopPublic, AwaitPublic, TriggerDone}"

text \<open>Events: nothing at all, a signal, calls that begin and end, what the environment returns to a
  task, and the steps of the tasks themselves. Only the first task that enters the
  sync.Once runs its body; every other one leaves when the body is done.\<close>

datatype serve_event =
    Idle
  | Signal
  | CallBegins listener
  | CallEnds listener
  | LoopReturns string "go_error option"
  | ServeReturns listener "go_error option"
  | DiagnosticsReturn "go_error option"
  | Supervise string
  | WaiterWakes
  | EnterOnce serve_task
  | OnceBody
  | LeaveOnce serve_task
  | WaiterDrains

definition leave_once :: "serve_task \<Rightarrow> go_error option \<Rightarrow> serve_state \<Rightarrow> serve_state" where
  "leave_once t r s = (if t = Waiter then move_to Waiter Draining s else task_returns t r s)"

fun live_step :: "serve_task list \<Rightarrow> serve_event \<Rightarrow> serve_state \<Rightarrow> serve_state option" where
  "live_step tks Idle s = Some s"
| "live_step tks Signal s = Some (if signals_restored s then s\<lparr> ss_killed := True \<rparr> else s\<lparr> ss_ctx_done := True \<rparr>)"
| "live_step tks (CallBegins l) s =
    (if ss_phase s l = Up then Some (s\<lparr> ss_open := (ss_open s)(l := Suc (ss_open s l)) \<rparr>) else None)"
| "live_step tks (CallEnds l) s =
    (if 0 < ss_open s l then Some (s\<lparr> ss_open := (ss_open s)(l := ss_open s l - 1) \<rparr>) else None)"
| "live_step tks (LoopReturns n r) s =
    (if Background n \<in> set tks \<and> ss_at s (Background n) = AtWork then Some (move_to (Background n) (LoopExited r) s) else None)"
| "live_step tks (ServeReturns l r) s =
    (if Grpc l \<in> set tks \<and> ss_at s (Grpc l) = AtWork \<and> serve_answers (ss_phase s l) r then Some (grpc_task l r s) else None)"
| "live_step tks (DiagnosticsReturn r) s =
    (if Diagnostics \<in> set tks \<and> ss_at s Diagnostics = AtWork \<and> (ss_diagnostics s \<longleftrightarrow> r \<noteq> None)
     then Some (diagnostic_task r s) else None)"
| "live_step tks (Supervise n) s =
    (case ss_at s (Background n) of
       LoopExited r \<Rightarrow> if Background n \<in> set tks then Some (supervised n r s) else None
     | _ \<Rightarrow> None)"
| "live_step tks WaiterWakes s =
    (if Waiter \<in> set tks \<and> ss_at s Waiter = AtWork \<and> (ss_ctx_done s \<or> ss_ch_closed s)
     then Some (move_to Waiter (AtTrigger None) s) else None)"
| "live_step tks (EnterOnce t) s =
    (case ss_at s t of
       AtTrigger r \<Rightarrow> if t \<in> set tks \<and> ss_trigger s = NotTriggered then Some (s\<lparr> ss_trigger := FlipReadiness \<rparr>) else None
     | _ \<Rightarrow> None)"
| "live_step tks OnceBody s = trigger_step s"
| "live_step tks (LeaveOnce t) s =
    (case ss_at s t of
       AtTrigger r \<Rightarrow> if t \<in> set tks \<and> ss_trigger s = TriggerDone then Some (leave_once t r s) else None
     | _ \<Rightarrow> None)"
| "live_step tks WaiterDrains s =
    (if Waiter \<in> set tks \<and> ss_at s Waiter = Draining
     then Some (task_returns Waiter None (s\<lparr> ss_diagnostics := False \<rparr>)) else None)"

text \<open>A process that was killed does nothing any more.\<close>

definition perform :: "serve_task list \<Rightarrow> serve_event \<Rightarrow> serve_state \<Rightarrow> serve_state option" where
  "perform tks e s = (if ss_killed s then None else live_step tks e s)"

lemma perform_Some [simp]: "perform tks e s = Some s' \<longleftrightarrow> \<not> ss_killed s \<and> live_step tks e s = Some s'"
  by (simp add: perform_def)

inductive serve_reach :: "serve_task list \<Rightarrow> serve_state \<Rightarrow> bool" for tks where
  serve_start: "serve_reach tks (serve_init tks)"
| serve_event: "serve_reach tks s \<Longrightarrow> perform tks e s = Some s' \<Longrightarrow> serve_reach tks s'"

text \<open>A sequence of events.\<close>

fun run_events :: "serve_task list \<Rightarrow> serve_event list \<Rightarrow> serve_state \<Rightarrow> serve_state option" where
  "run_events tks [] s = Some s"
| "run_events tks (e # es) s = (case perform tks e s of None \<Rightarrow> None | Some s' \<Rightarrow> run_events tks es s')"

definition serve_finished :: "serve_task list \<Rightarrow> serve_state \<Rightarrow> bool" where
  "serve_finished tks s = list_all (\<lambda>t. case ss_at s t of Exited _ \<Rightarrow> True | _ \<Rightarrow> False) tks"

section \<open>What the order of the steps guarantees\<close>

fun trigger_rank :: "trigger \<Rightarrow> nat" where
  "trigger_rank NotTriggered = 0"
| "trigger_rank FlipReadiness = 1"
| "trigger_rank CloseChannel = 2"
| "trigger_rank CancelContext = 3"
| "trigger_rank StopInternal = 4"
| "trigger_rank AwaitInternal = 5"
| "trigger_rank StopPublic = 6"
| "trigger_rank AwaitPublic = 7"
| "trigger_rank TriggerDone = 8"

text \<open>What the trigger has done is what its program counter says.\<close>

definition trigger_inv :: "serve_state \<Rightarrow> bool" where
  "trigger_inv s \<longleftrightarrow> (let k = trigger_rank (ss_trigger s) in
    (ss_shutting s \<longleftrightarrow> 2 \<le> k) \<and> (ss_ch_closed s \<longleftrightarrow> 3 \<le> k) \<and> (4 \<le> k \<longrightarrow> ss_ctx_done s)
    \<and> ss_phase s InternalListener = (if k \<le> 4 then Up else if k = 5 then Stopping else Stopped)
    \<and> ss_phase s PublicListener = (if k \<le> 6 then Up else if k = 7 then Stopping else Stopped)
    \<and> (\<forall>l. ss_phase s l = Stopped \<longrightarrow> ss_open s l = 0))"

text \<open>Where each kind of task can be, and when.\<close>

fun task_ok :: "serve_state \<Rightarrow> serve_task \<Rightarrow> task_at \<Rightarrow> bool" where
  "task_ok s t AtWork = True"
| "task_ok s t (LoopExited r) = (\<exists>n. t = Background n)"
| "task_ok s t (AtTrigger r) = (t = Waiter \<longleftrightarrow> r = None)"
| "task_ok s t Draining = (t = Waiter \<and> ss_trigger s = TriggerDone)"
| "task_ok s t (Exited (Some e)) = (t \<noteq> Waiter \<and> ss_trigger s = TriggerDone)"
| "task_ok s t (Exited None) =
    (case t of Background n \<Rightarrow> ss_ctx_done s | Grpc l \<Rightarrow> ss_phase s l \<noteq> Up | Diagnostics \<Rightarrow> \<not> ss_diagnostics s
     | Waiter \<Rightarrow> ss_trigger s = TriggerDone \<and> \<not> ss_diagnostics s)"

definition failed_at :: "task_at \<Rightarrow> bool" where
  "failed_at p = (case p of AtTrigger (Some _) \<Rightarrow> True | Exited (Some _) \<Rightarrow> True | _ \<Rightarrow> False)"

definition serve_inv :: "serve_task list \<Rightarrow> serve_state \<Rightarrow> bool" where
  "serve_inv tks s \<longleftrightarrow> trigger_inv s
    \<and> (\<forall>t. task_ok s t (ss_at s t) \<and> (ss_at s t \<noteq> AtWork \<longrightarrow> t \<in> set tks))
    \<and> (Diagnostics \<in> set tks \<longrightarrow> \<not> ss_diagnostics s \<longrightarrow> ss_at s Waiter = Exited None \<or> failed_at (ss_at s Diagnostics))
    \<and> (ss_err s = None \<longleftrightarrow> (\<forall>t e. ss_at s t \<noteq> Exited (Some e)))"

lemma move_to_simps [simp]:
  "ss_at (move_to t p s) = (ss_at s)(t := p)" "ss_trigger (move_to t p s) = ss_trigger s"
  "ss_phase (move_to t p s) = ss_phase s" "ss_open (move_to t p s) = ss_open s" "ss_err (move_to t p s) = ss_err s"
  "ss_ctx_done (move_to t p s) = ss_ctx_done s" "ss_shutting (move_to t p s) = ss_shutting s"
  "ss_ch_closed (move_to t p s) = ss_ch_closed s" "ss_diagnostics (move_to t p s) = ss_diagnostics s"
  "ss_killed (move_to t p s) = ss_killed s"
  by (simp_all add: move_to_def)

lemma task_returns_simps [simp]:
  "ss_at (task_returns t r s) = (ss_at s)(t := Exited r)" "ss_trigger (task_returns t r s) = ss_trigger s"
  "ss_phase (task_returns t r s) = ss_phase s" "ss_open (task_returns t r s) = ss_open s"
  "ss_err (task_returns t r s) = (case ss_err s of None \<Rightarrow> r | Some e \<Rightarrow> Some e)"
  "ss_ctx_done (task_returns t r s) = ss_ctx_done s" "ss_shutting (task_returns t r s) = ss_shutting s"
  "ss_ch_closed (task_returns t r s) = ss_ch_closed s" "ss_diagnostics (task_returns t r s) = ss_diagnostics s"
  "ss_killed (task_returns t r s) = ss_killed s"
  by (simp_all add: task_returns_def)

lemma serve_inv_init: "serve_inv tks (serve_init tks)"
  by (auto simp: serve_inv_def serve_init_def trigger_inv_def)

lemmas perform_defs = trigger_step_def leave_once_def supervised_def superviseBackground_def grpc_task_def
  diagnostic_task_def serve_answers_def

lemma task_ok_mono:
  assumes "task_ok s t p" "ss_trigger s = TriggerDone \<Longrightarrow> ss_trigger s' = TriggerDone" "ss_ctx_done s \<Longrightarrow> ss_ctx_done s'"
    "\<And>l. ss_phase s l \<noteq> Up \<Longrightarrow> ss_phase s' l \<noteq> Up" "\<not> ss_diagnostics s \<Longrightarrow> \<not> ss_diagnostics s'"
  shows "task_ok s' t p"
  using assms by (cases "(s, t, p)" rule: task_ok.cases) (auto split: serve_task.splits)

lemma trigger_step_frame:
  assumes "trigger_step s = Some s'"
  shows "ss_at s' = ss_at s" "ss_err s' = ss_err s" "ss_diagnostics s' = ss_diagnostics s" "ss_open s' = ss_open s"
    "trigger_rank (ss_trigger s') = Suc (trigger_rank (ss_trigger s))" "ss_trigger s \<noteq> NotTriggered"
    "ss_ctx_done s \<Longrightarrow> ss_ctx_done s'" "\<And>l. ss_phase s l \<noteq> Up \<Longrightarrow> ss_phase s' l \<noteq> Up" "ss_killed s' = ss_killed s"
  using assms by (auto simp: trigger_step_def split: trigger.splits if_splits)

lemma trigger_step_inv:
  assumes "trigger_step s = Some s'" "trigger_inv s"
  shows "trigger_inv s'"
  using assms by (cases "ss_trigger s") (auto simp: trigger_step_def trigger_inv_def split: if_splits)

lemma listener_all: "(\<forall>l. P l) \<longleftrightarrow> P InternalListener \<and> P PublicListener"
  by (metis listener.exhaust)

text \<open>An event is nothing, a signal, a call, an entry of the trigger, a statement of its body, or
  one task that comes nearer to its end.\<close>

fun task_rank :: "task_at \<Rightarrow> nat" where
  "task_rank AtWork = 4"
| "task_rank (LoopExited r) = 3"
| "task_rank (AtTrigger r) = 2"
| "task_rank Draining = 1"
| "task_rank (Exited r) = 0"

definition settle :: "serve_task \<Rightarrow> task_at \<Rightarrow> serve_state \<Rightarrow> serve_state" where
  "settle t p s = (case p of Exited r \<Rightarrow> task_returns t r s | _ \<Rightarrow> move_to t p s)"

lemma settle_simps:
  "settle t (Exited r) s = task_returns t r s" "settle t (AtTrigger x) s = move_to t (AtTrigger x) s"
  "settle t (LoopExited r) s = move_to t (LoopExited r) s" "settle t Draining s = move_to t Draining s"
  by (simp_all add: settle_def)

definition task_move :: "serve_task list \<Rightarrow> serve_task \<Rightarrow> task_at \<Rightarrow> bool \<Rightarrow> serve_state \<Rightarrow> serve_state \<Rightarrow> bool" where
  "task_move tks t p d s s' \<longleftrightarrow> t \<in> set tks \<and> task_rank p < task_rank (ss_at s t) \<and> task_ok s' t p
    \<and> (failed_at (ss_at s t) \<longrightarrow> failed_at p)
    \<and> s' = settle t p (s\<lparr> ss_diagnostics := d \<rparr>) \<and> (d \<longrightarrow> ss_diagnostics s)
    \<and> (ss_diagnostics s \<longrightarrow> \<not> d \<longrightarrow> t = Waiter \<and> p = Exited None \<or> t = Diagnostics \<and> failed_at p)"

lemma same_diagnostics: "s\<lparr> ss_diagnostics := ss_diagnostics s \<rparr> = s"
  by simp

lemma plain_move:
  "t \<in> set tks \<Longrightarrow> task_rank p < task_rank (ss_at s t) \<Longrightarrow> task_ok (settle t p s) t p \<Longrightarrow>
    failed_at (ss_at s t) \<longrightarrow> failed_at p \<Longrightarrow> task_move tks t p (ss_diagnostics s) s (settle t p s)"
  by (simp add: task_move_def)

lemma perform_effect:
  assumes "perform tks e s = Some s'" "\<And>t. task_ok s t (ss_at s t)"
  shows "s' = s \<and> e = Idle
    \<or> s' = s\<lparr> ss_killed := True \<rparr> \<and> e = Signal \<and> signals_restored s
    \<or> s' = s\<lparr> ss_ctx_done := True \<rparr> \<and> e = Signal \<and> \<not> signals_restored s
    \<or> (\<exists>n l. s' = s\<lparr> ss_open := (ss_open s)(l := n) \<rparr> 
        \<and> (e = CallBegins l \<and> ss_phase s l = Up \<and> ss_open s l < n \<or> e = CallEnds l \<and> n < ss_open s l))
    \<or> ss_trigger s = NotTriggered \<and> s' = s\<lparr> ss_trigger := FlipReadiness \<rparr>
    \<or> trigger_step s = Some s'
    \<or> (\<exists>t p d. task_move tks t p d s s')"
proof -
  have move: "t \<in> set tks \<Longrightarrow> task_rank p < task_rank (ss_at s t) \<Longrightarrow> task_ok (settle t p s) t p \<Longrightarrow>
      failed_at (ss_at s t) \<longrightarrow> failed_at p \<Longrightarrow> s' = settle t p s \<Longrightarrow> \<exists>t p d. task_move tks t p d s s'" for t p
    using plain_move by blast
  show ?thesis
  proof (cases e)
    case (CallEnds l)
    then have "0 < ss_open s l" "s' = s\<lparr> ss_open := (ss_open s)(l := ss_open s l - 1) \<rparr>"
      using assms(1) by (auto split: if_splits)
    then show ?thesis using CallEnds by (metis diff_less zero_less_one)
  next
    case (LoopReturns n r)
    then show ?thesis using assms(1) by (intro disjI2 move [of "Background n" "LoopExited r"]) (auto simp: settle_simps failed_at_def split: if_splits)
  next
    case (ServeReturns l r)
    then have h: "Grpc l \<in> set tks" "ss_at s (Grpc l) = AtWork" "serve_answers (ss_phase s l) r" "s' = grpc_task l r s"
      using assms(1) by (auto split: if_splits)
    show ?thesis
    proof (cases "\<exists>x. r = Some x \<and> \<not> is_server_stopped x")
      case True
      then obtain x where "r = Some x" "\<not> is_server_stopped x" by blast
      then show ?thesis using h
        by (intro disjI2 move [of "Grpc l" "AtTrigger (Some (Prefixed (server_error_name l) x))"]) (auto simp: settle_simps failed_at_def grpc_task_def)
    next
      case False
      then have "s' = task_returns (Grpc l) None s" "ss_phase s l \<noteq> Up"
        using h by (auto simp: grpc_task_def serve_answers_def split: option.splits if_splits)
      then show ?thesis using h by (intro disjI2 move [of "Grpc l" "Exited None"]) (auto simp: settle_simps failed_at_def)
    qed
  next
    case (DiagnosticsReturn r)
    then have h: "Diagnostics \<in> set tks" "ss_at s Diagnostics = AtWork" "ss_diagnostics s \<longleftrightarrow> r \<noteq> None" "s' = diagnostic_task r s"
      using assms(1) by (auto split: if_splits)
    show ?thesis
    proof (cases r)
      case None
      then show ?thesis using h by (intro disjI2 move [of Diagnostics "Exited None"]) (auto simp: settle_simps failed_at_def diagnostic_task_def)
    next
      case (Some x)
      then have "task_move tks Diagnostics (AtTrigger (Some (Prefixed ''diagnostic listener'' x))) False s s'"
        using h by (simp add: task_move_def settle_simps failed_at_def diagnostic_task_def)
      then show ?thesis by blast
    qed
  next
    case (Supervise n)
    then obtain r where h: "ss_at s (Background n) = LoopExited r" "Background n \<in> set tks" "s' = supervised n r s"
      using assms(1) by (auto split: task_at.splits if_splits)
    show ?thesis
    proof (cases "ss_ctx_done s")
      case True
      then show ?thesis using h
        by (intro disjI2 move [of "Background n" "Exited None"]) (auto simp: settle_simps failed_at_def supervised_def superviseBackground_def)
    next
      case False
      then obtain x where "superviseBackground n r (ss_ctx_done s) = (Some x, True)"
        by (cases r) (auto simp: superviseBackground_def)
      then show ?thesis using h
        by (intro disjI2 move [of "Background n" "AtTrigger (Some x)"]) (auto simp: settle_simps failed_at_def supervised_def)
    qed
  next
    case WaiterWakes
    then show ?thesis using assms(1) by (intro disjI2 move [of Waiter "AtTrigger None"]) (auto simp: settle_simps failed_at_def split: if_splits)
  next
    case (LeaveOnce t)
    then obtain r where h: "ss_at s t = AtTrigger r" "t \<in> set tks" "ss_trigger s = TriggerDone" "s' = leave_once t r s"
      using assms(1) by (auto split: task_at.splits if_splits)
    show ?thesis
    proof (cases "t = Waiter")
      case True
      then have "r = None" using assms(2) [of t] h(1) by auto
      then show ?thesis using h True by (intro disjI2 move [of Waiter Draining]) (auto simp: settle_simps failed_at_def leave_once_def)
    next
      case False
      then obtain x where "r = Some x" using assms(2) [of t] h(1) by auto
      then show ?thesis using h False by (intro disjI2 move [of t "Exited (Some x)"]) (auto simp: settle_simps failed_at_def leave_once_def)
    qed
  next
    case WaiterDrains
    then have h: "Waiter \<in> set tks" "ss_at s Waiter = Draining" "s' = task_returns Waiter None (s\<lparr> ss_diagnostics := False \<rparr>)"
      using assms(1) by (auto split: if_splits)
    then have "task_move tks Waiter (Exited None) False s s'"
      using assms(2) [of Waiter] by (simp add: task_move_def settle_simps failed_at_def)
    then show ?thesis by blast
  qed (use assms(1) in \<open>auto split: if_splits task_at.splits\<close>)
qed


lemma task_move_frame:
  assumes "task_move tks t p d s s'"
  shows "ss_at s' = (ss_at s)(t := p)" "ss_trigger s' = ss_trigger s" "ss_ctx_done s' = ss_ctx_done s"
    "ss_phase s' = ss_phase s" "ss_diagnostics s' = d" "ss_open s' = ss_open s" "ss_shutting s' = ss_shutting s"
    "ss_ch_closed s' = ss_ch_closed s"
    "ss_err s' = (case p of Exited r \<Rightarrow> (case ss_err s of None \<Rightarrow> r | Some e \<Rightarrow> Some e) | _ \<Rightarrow> ss_err s)"
    "ss_killed s' = ss_killed s"
  using assms by (auto simp: task_move_def settle_def split: task_at.splits)

text \<open>An event only forwards what the others wait for.\<close>

lemma perform_forward:
  assumes "perform tks e s = Some s'" "\<And>t. task_ok s t (ss_at s t)"
  shows "(ss_trigger s = TriggerDone \<longrightarrow> ss_trigger s' = TriggerDone) \<and> (ss_ctx_done s \<longrightarrow> ss_ctx_done s')
    \<and> (\<forall>l. ss_phase s l \<noteq> Up \<longrightarrow> ss_phase s' l \<noteq> Up) \<and> (\<not> ss_diagnostics s \<longrightarrow> \<not> ss_diagnostics s')"
  using perform_effect [OF assms]
proof (elim disjE exE conjE)
  fix t p d assume m: "task_move tks t p d s s'"
  then have "d \<longrightarrow> ss_diagnostics s" by (simp add: task_move_def)
  then show ?thesis using task_move_frame [OF m] by auto
next
  assume b: "trigger_step s = Some s'"
  then have "ss_trigger s \<noteq> TriggerDone" by (auto simp: trigger_step_def)
  then show ?thesis using trigger_step_frame [OF b] by simp
qed simp_all

lemma perform_trigger_inv:
  assumes "perform tks e s = Some s'" "\<And>t. task_ok s t (ss_at s t)" "trigger_inv s"
  shows "trigger_inv s'"
  using perform_effect [OF assms(1,2)]
proof (elim disjE exE conjE)
  fix t p d assume m: "task_move tks t p d s s'"
  then show ?thesis using assms(3) task_move_frame [OF m] by (simp add: trigger_inv_def)
next
  fix n l assume "s' = s\<lparr> ss_open := (ss_open s)(l := n) \<rparr>" "ss_phase s l = Up"
  then show ?thesis using assms(3) by (simp add: trigger_inv_def Let_def)
next
  fix n l assume "s' = s\<lparr> ss_open := (ss_open s)(l := n) \<rparr>" "n < ss_open s l"
  then show ?thesis using assms(3) by (auto simp: trigger_inv_def Let_def)
next
  assume "ss_trigger s = NotTriggered" "s' = s\<lparr> ss_trigger := FlipReadiness \<rparr>"
  then show ?thesis using assms(3) by (simp add: trigger_inv_def Let_def)
next
  assume "s' = s\<lparr> ss_ctx_done := True \<rparr>"
  then show ?thesis using assms(3) by (simp add: trigger_inv_def Let_def)
next
  assume "s' = s\<lparr> ss_killed := True \<rparr>"
  then show ?thesis using assms(3) by (simp add: trigger_inv_def Let_def)
next
  assume "trigger_step s = Some s'"
  then show ?thesis using assms(3) by (rule trigger_step_inv)
qed (use assms(3) in simp)

lemma perform_serve_inv:
  assumes "perform tks e s = Some s'" "serve_inv tks s"
  shows "serve_inv tks s'"
proof -
  have ok: "\<And>t. task_ok s t (ss_at s t)" and mem: "\<And>t. ss_at s t \<noteq> AtWork \<Longrightarrow> t \<in> set tks"
    and diag: "Diagnostics \<in> set tks \<Longrightarrow> \<not> ss_diagnostics s \<Longrightarrow> ss_at s Waiter = Exited None \<or> failed_at (ss_at s Diagnostics)"
    and err: "ss_err s = None \<longleftrightarrow> (\<forall>t e. ss_at s t \<noteq> Exited (Some e))"
    using assms(2) by (auto simp: serve_inv_def)
  note fwd = perform_forward [OF assms(1) ok]
  have keep: "task_ok s' t (ss_at s t)" for t
    by (rule task_ok_mono [OF ok]) (use fwd in auto)
  have still: ?thesis if "ss_at s' = ss_at s" "ss_err s' = ss_err s" "ss_diagnostics s' = ss_diagnostics s"
    using that keep mem diag err perform_trigger_inv [OF assms(1) ok] assms(2) by (auto simp: serve_inv_def)
  from perform_effect [OF assms(1) ok] show ?thesis
  proof (elim disjE exE conjE)
    fix t p d assume m: "task_move tks t p d s s'"
    note f = task_move_frame [OF m]
    have h: "t \<in> set tks" "task_rank p < task_rank (ss_at s t)" "task_ok s' t p"
      "ss_diagnostics s \<Longrightarrow> \<not> d \<Longrightarrow> t = Waiter \<and> p = Exited None \<or> t = Diagnostics \<and> failed_at p" "d \<Longrightarrow> ss_diagnostics s"
      using m by (auto simp: task_move_def)
    have not_back: "ss_at s t \<noteq> Exited r" for r using h(2) by auto
    have e': "ss_err s' = None \<longleftrightarrow> (\<forall>u x. ss_at s' u \<noteq> Exited (Some x))"
    proof -
      have "(\<exists>u x. ss_at s' u = Exited (Some x)) \<longleftrightarrow> (\<exists>x. p = Exited (Some x)) \<or> (\<exists>u x. ss_at s u = Exited (Some x))"
        using not_back by (simp add: f(1)) metis
      moreover have "ss_err s' \<noteq> None \<longleftrightarrow> (\<exists>x. p = Exited (Some x)) \<or> ss_err s \<noteq> None"
        by (auto simp: f(9) split: task_at.splits option.splits)
      ultimately show ?thesis using err by metis
    qed
    have d': "Diagnostics \<in> set tks \<Longrightarrow> \<not> ss_diagnostics s' \<Longrightarrow> ss_at s' Waiter = Exited None \<or> failed_at (ss_at s' Diagnostics)"
    proof -
      assume a: "Diagnostics \<in> set tks" "\<not> ss_diagnostics s'"
      show ?thesis
      proof (cases "ss_diagnostics s")
        case True
        then show ?thesis using h(4) a f(1,5) by auto
      next
        case False
        then consider "ss_at s Waiter = Exited None" | "failed_at (ss_at s Diagnostics)" using diag a(1) by blast
        then show ?thesis
        proof cases
          case 1
          then have "t \<noteq> Waiter" using not_back by auto
          then show ?thesis using 1 by (simp add: f(1))
        next
          case 2
          show ?thesis
          proof (cases "t = Diagnostics")
            case True
            then have "failed_at p" using 2 m by (simp add: task_move_def)
            then show ?thesis using True by (simp add: f(1))
          qed (use 2 in \<open>simp add: f(1)\<close>)
        qed
      qed
    qed
    show ?thesis
      using perform_trigger_inv [OF assms(1) ok] assms(2) keep mem h(1,3) e' d' unfolding serve_inv_def by (auto simp: f(1))
  qed (use still trigger_step_frame [of s s'] in auto)
qed

lemma serve_reach_inv: "serve_reach tks s \<Longrightarrow> serve_inv tks s"
  by (induction rule: serve_reach.induct) (auto intro: serve_inv_init perform_serve_inv)


section \<open>Progress\<close>

text \<open>What the tasks and the environment owe: every step of a task, the return of a loop
  whose context is done, of a server that is stopped and of a closed listener.\<close>

definition due :: "serve_task list \<Rightarrow> serve_event \<Rightarrow> serve_state \<Rightarrow> bool" where
  "due tks e s \<longleftrightarrow> perform tks e s \<noteq> None \<and>
    (case e of
       Idle \<Rightarrow> False
     | Signal \<Rightarrow> False
     | CallBegins l \<Rightarrow> False
     | CallEnds l \<Rightarrow> False
     | LoopReturns n r \<Rightarrow> ss_ctx_done s
     | ServeReturns l r \<Rightarrow> ss_phase s l = Stopped
     | DiagnosticsReturn r \<Rightarrow> \<not> ss_diagnostics s
     | _ \<Rightarrow> True)"

definition waits_for_calls :: "serve_state \<Rightarrow> bool" where
  "waits_for_calls s \<longleftrightarrow> ss_trigger s = AwaitInternal \<and> 0 < ss_open s InternalListener
    \<or> ss_trigger s = AwaitPublic \<and> 0 < ss_open s PublicListener"

definition stop_requested :: "serve_state \<Rightarrow> bool" where
  "stop_requested s \<longleftrightarrow> ss_ctx_done s \<or> ss_trigger s \<noteq> NotTriggered \<or> (\<exists>t. ss_at s t \<noteq> AtWork)"

lemma trigger_step_defined:
  "ss_trigger s \<noteq> NotTriggered \<Longrightarrow> ss_trigger s \<noteq> TriggerDone \<Longrightarrow> trigger_step s \<noteq> None \<or> waits_for_calls s"
  by (cases "ss_trigger s") (auto simp: trigger_step_def waits_for_calls_def)

text \<open>A task that has left its work and not returned can go on.\<close>

lemma moving_task_due:
  assumes "serve_inv tks s" "ss_at s t = LoopExited r \<or> ss_at s t = AtTrigger r \<or> ss_at s t = Draining" "\<not> ss_killed s"
  shows "(\<exists>e. due tks e s) \<or> waits_for_calls s"
proof -
  have t: "t \<in> set tks" "task_ok s t (ss_at s t)" using assms by (auto simp: serve_inv_def)
  from assms(2) show ?thesis
  proof (elim disjE)
    assume a: "ss_at s t = LoopExited r"
    then obtain n where "t = Background n" using t by auto
    then have "due tks (Supervise n) s" using a t assms(3) by (simp add: due_def)
    then show ?thesis by blast
  next
    assume a: "ss_at s t = AtTrigger r"
    consider "ss_trigger s = NotTriggered" | "ss_trigger s = TriggerDone" | "trigger_step s \<noteq> None \<or> waits_for_calls s"
      using trigger_step_defined by blast
    then show ?thesis
    proof cases
      case 1
      then have "due tks (EnterOnce t) s" using a t assms(3) by (simp add: due_def)
      then show ?thesis by blast
    next
      case 2
      then have "due tks (LeaveOnce t) s" using a t assms(3) by (simp add: due_def)
      then show ?thesis by blast
    next
      case 3
      moreover have "due tks OnceBody s" if "trigger_step s \<noteq> None" using that assms(3) by (auto simp: due_def)
      ultimately show ?thesis by blast
    qed
  next
    assume a: "ss_at s t = Draining"
    then have "due tks WaiterDrains s" using t assms(3) by (simp add: due_def)
    then show ?thesis by blast
  qed
qed

text \<open>A task that is at work when the trigger is done is owed its return.\<close>

lemma working_task_due:
  assumes "serve_inv tks s" "ss_trigger s = TriggerDone" "t \<in> set tks" "ss_at s t = AtWork"
    "t = Diagnostics \<Longrightarrow> ss_at s Waiter = Exited None \<and> \<not> ss_diagnostics s" "\<not> ss_killed s"
  shows "\<exists>e. due tks e s"
proof -
  have k: "ss_ctx_done s" "ss_ch_closed s" "ss_phase s InternalListener = Stopped" "ss_phase s PublicListener = Stopped"
    using assms(1,2) by (auto simp: serve_inv_def trigger_inv_def)
  have ph: "ss_phase s l = Stopped" for l using k by (cases l) auto
  show ?thesis
  proof (cases t)
    case (Background n)
    then have "due tks (LoopReturns n None) s" using assms k by (simp add: due_def)
    then show ?thesis by blast
  next
    case Diagnostics
    then have "due tks (DiagnosticsReturn None) s" using assms by (simp add: due_def)
    then show ?thesis by blast
  next
    case (Grpc l)
    then have "due tks (ServeReturns l None) s" using assms ph by (simp add: due_def serve_answers_def)
    then show ?thesis by blast
  next
    case Waiter
    then have "due tks WaiterWakes s" using assms k by (simp add: due_def)
    then show ?thesis by blast
  qed
qed


lemma serve_progress:
  assumes "serve_inv tks s" "Waiter \<in> set tks" "stop_requested s" "\<not> serve_finished tks s" "\<not> ss_killed s"
  shows "(\<exists>e. due tks e s) \<or> waits_for_calls s"
proof (cases "\<exists>t r. ss_at s t = LoopExited r \<or> ss_at s t = AtTrigger r \<or> ss_at s t = Draining")
  case True
  then show ?thesis using moving_task_due [OF assms(1) _ assms(5)] by blast
next
  case False
  then have at: "ss_at s t = AtWork \<or> (\<exists>r. ss_at s t = Exited r)" for t by (metis task_at.exhaust)
  have ok: "task_ok s t (ss_at s t)" for t using assms(1) by (simp add: serve_inv_def)
  have tr: "trigger_inv s" using assms(1) by (simp add: serve_inv_def)
  have gone: "ss_at s Waiter = Exited r \<Longrightarrow> r = None \<and> ss_trigger s = TriggerDone \<and> \<not> ss_diagnostics s" for r
    using ok [of Waiter] by (cases r) auto
  consider "ss_trigger s = NotTriggered" | "ss_trigger s = TriggerDone" | "trigger_step s \<noteq> None \<or> waits_for_calls s"
    using trigger_step_defined by blast
  then show ?thesis
  proof cases
    case 1
    have "ss_ctx_done s"
    proof (rule ccontr)
      assume n: "\<not> ss_ctx_done s"
      then obtain t r where t: "ss_at s t = Exited r" using assms(3) 1 at by (metis stop_requested_def)
      have up: "ss_phase s l = Up" for l using tr 1 by (cases l) (auto simp: trigger_inv_def)
      have r: "r = None" using ok [of t] t 1 by (cases r) auto
      have "t \<in> set tks" using assms(1) t by (auto simp: serve_inv_def)
      have o: "task_ok s t (Exited None)" using ok [of t] t r by simp
      have g: "t \<noteq> Waiter" using gone [of r] t 1 by auto
      show False
      proof (cases t)
        case Diagnostics
        then have "failed_at (ss_at s Diagnostics)"
          using assms(1) o gone 1 \<open>t \<in> set tks\<close> unfolding serve_inv_def by auto
        then show False using Diagnostics t r by (simp add: failed_at_def)
      qed (use o n up g in auto)
    qed
    moreover have "ss_at s Waiter = AtWork" using at [of Waiter] gone 1 by auto
    ultimately have "due tks WaiterWakes s" using assms(2,5) by (simp add: due_def)
    then show ?thesis by blast
  next
    case 2
    obtain t where t: "t \<in> set tks" "ss_at s t = AtWork"
      using assms(4) at by (auto simp: serve_finished_def list_all_iff split: task_at.splits)
    show ?thesis
    proof (cases "ss_at s Waiter = AtWork")
      case True
      then show ?thesis using working_task_due [OF assms(1) 2 assms(2) _ _ assms(5)] by blast
    next
      case False
      then have "ss_at s Waiter = Exited None \<and> \<not> ss_diagnostics s" using at [of Waiter] gone by auto
      then show ?thesis using working_task_due [OF assms(1) 2 t _ assms(5)] by blast
    qed
  next
    case 3
    moreover have "due tks OnceBody s" if "trigger_step s \<noteq> None" using that assms(5) by (auto simp: due_def)
    ultimately show ?thesis by blast
  qed
qed

section \<open>Termination\<close>

text \<open>Every step of a task or of the trigger brings the end nearer; signals and calls leave
  the distance as it is.\<close>

definition distance :: "serve_task list \<Rightarrow> serve_state \<Rightarrow> nat" where
  "distance tks s = (\<Sum>t\<in>set tks. task_rank (ss_at s t)) + (8 - trigger_rank (ss_trigger s))"

definition advances :: "serve_state \<Rightarrow> serve_state \<Rightarrow> bool" where
  "advances s s' \<longleftrightarrow> ss_at s' \<noteq> ss_at s \<or> ss_trigger s' \<noteq> ss_trigger s"

lemma sum_lower:
  assumes "finite A" "a \<in> A" "f a < (g a :: nat)" "\<And>x. x \<noteq> a \<Longrightarrow> f x = g x"
  shows "sum f A < sum g A"
  using assms by (intro sum_strict_mono_ex1) (auto simp: le_less, metis)

lemma advances_nearer:
  assumes "perform tks e s = Some s'" "serve_inv tks s" "advances s s'"
  shows "distance tks s' < distance tks s"
proof -
  have ok: "\<And>t. task_ok s t (ss_at s t)" using assms(2) by (simp add: serve_inv_def)
  from perform_effect [OF assms(1) ok] show ?thesis
  proof (elim disjE exE conjE)
    fix t p d assume m: "task_move tks t p d s s'"
    have "t \<in> set tks" "task_rank p < task_rank (ss_at s t)" using m by (auto simp: task_move_def)
    then have "(\<Sum>u\<in>set tks. task_rank (ss_at s' u)) < (\<Sum>u\<in>set tks. task_rank (ss_at s u))"
      by (intro sum_lower [of _ t]) (auto simp: task_move_frame [OF m])
    then show ?thesis by (simp add: distance_def task_move_frame [OF m])
  next
    assume b: "trigger_step s = Some s'"
    have "trigger_rank (ss_trigger s') \<le> 8" by (cases "ss_trigger s'") auto
    then show ?thesis using trigger_step_frame [OF b] by (simp add: distance_def)
  qed (use assms(3) in \<open>auto simp: advances_def distance_def\<close>)
qed

text \<open>What stays as it is keeps the request and the end.\<close>

lemma still_same:
  assumes "\<not> advances s s'" "perform tks e s = Some s'" "serve_inv tks s"
  shows "distance tks s' = distance tks s" "serve_finished tks s' = serve_finished tks s" "stop_requested s \<Longrightarrow> stop_requested s'"
proof -
  have "ss_ctx_done s \<longrightarrow> ss_ctx_done s'" using perform_forward [OF assms(2)] assms(3) by (auto simp: serve_inv_def)
  then show "stop_requested s \<Longrightarrow> stop_requested s'" using assms(1) by (auto simp: stop_requested_def advances_def)
qed (use assms(1) in \<open>auto simp: advances_def distance_def serve_finished_def\<close>)

lemma stop_requested_stays:
  assumes "perform tks e s = Some s'" "serve_inv tks s" "stop_requested s"
  shows "stop_requested s'"
proof -
  have ok: "\<And>t. task_ok s t (ss_at s t)" using assms(2) by (simp add: serve_inv_def)
  from perform_effect [OF assms(1) ok] show ?thesis
  proof (elim disjE exE conjE)
    fix t p d assume m: "task_move tks t p d s s'"
    have "p \<noteq> AtWork" using m by (cases "ss_at s t") (auto simp: task_move_def)
    then have "ss_at s' t \<noteq> AtWork" by (simp add: task_move_frame [OF m])
    then show ?thesis unfolding stop_requested_def by blast
  next
    assume b: "trigger_step s = Some s'"
    have "ss_trigger s' \<noteq> NotTriggered" using trigger_step_frame(5) [OF b] by auto
    then show ?thesis by (simp add: stop_requested_def)
  qed (use assms(3) in \<open>auto simp: stop_requested_def\<close>)
qed

text \<open>An infinite run in which owed steps are taken and calls end comes to its end.\<close>

lemma run_finishes:
  fixes \<sigma> :: "nat \<Rightarrow> serve_state"
  assumes start: "\<sigma> 0 = serve_init tks" and run: "\<And>k. perform tks (ev k) (\<sigma> k) = Some (\<sigma> (Suc k))"
    and w: "Waiter \<in> set tks" and req: "stop_requested (\<sigma> k0)"
    and fair: "\<And>k e. due tks e (\<sigma> k) \<Longrightarrow> \<exists>m\<ge>k. advances (\<sigma> m) (\<sigma> (Suc m))"
    and calls: "\<And>k. waits_for_calls (\<sigma> k) \<Longrightarrow> \<exists>m\<ge>k. \<not> waits_for_calls (\<sigma> m)"
  shows "\<exists>k\<ge>k0. serve_finished tks (\<sigma> k)"
proof -
  have inv: "serve_inv tks (\<sigma> k)" for k
    by (induction k) (simp_all add: start serve_inv_init perform_serve_inv [OF run])
  have req': "stop_requested (\<sigma> (k0 + j))" for j
    by (induction j) (simp_all add: req stop_requested_stays [OF run inv])
  obtain n where n: "k0 \<le> n" "\<And>m. k0 \<le> m \<Longrightarrow> distance tks (\<sigma> n) \<le> distance tks (\<sigma> m)"
    using exists_least_iff [of "\<lambda>d. \<exists>n\<ge>k0. distance tks (\<sigma> n) = d"] by (metis not_le_imp_less order_refl)
  have near: "distance tks (\<sigma> (n + j)) = distance tks (\<sigma> n) \<and> \<not> advances (\<sigma> (n + j)) (\<sigma> (Suc (n + j)))" for j
  proof (induction j)
    case 0
    show ?case using advances_nearer [OF run [of n] inv] n(2) [of "Suc n"] n(1) by fastforce
  next
    case (Suc j)
    then have "distance tks (\<sigma> (n + Suc j)) = distance tks (\<sigma> n)" using still_same(1) [OF _ run [of "n + j"] inv] by simp
    then show ?case using advances_nearer [OF run [of "n + Suc j"] inv] n(2) [of "Suc (n + Suc j)"] n(1) by fastforce
  qed
  then have never: "n \<le> m \<Longrightarrow> \<not> advances (\<sigma> m) (\<sigma> (Suc m))" for m by (metis le_iff_add)
  have "serve_finished tks (\<sigma> n)"
  proof (rule ccontr)
    assume nf: "\<not> serve_finished tks (\<sigma> n)"
    have nf': "\<not> serve_finished tks (\<sigma> (n + j))" for j
      by (induction j) (use nf never still_same(2) [OF _ run inv] in auto)
    have alive: "\<not> ss_killed (\<sigma> m)" for m using run [of m] by simp
    have stuck: "n \<le> m \<Longrightarrow> waits_for_calls (\<sigma> m)" for m
      using serve_progress [OF inv w _ _ alive, of m] req' [of "m - k0"] nf' [of "m - n"] n(1) fair [of _ m] never by fastforce
    then show False using calls [of n] by blast
  qed
  then show ?thesis using n(1) by blast
qed


lemma run_events_snoc:
  "run_events tks (es @ [e]) s = (case run_events tks es s of None \<Rightarrow> None | Some s' \<Rightarrow> perform tks e s')"
  by (induction es arbitrary: s) (simp_all del: perform_Some split: option.split)

lemma run_events_reach: "serve_reach tks s \<Longrightarrow> run_events tks es s = Some s' \<Longrightarrow> serve_reach tks s'"
  by (induction es arbitrary: s) (auto split: option.splits intro: serve_event [unfolded perform_Some])

lemma finished_exited: "serve_finished tks s \<Longrightarrow> t \<in> set tks \<Longrightarrow> \<exists>r. ss_at s t = Exited r"
  by (cases "ss_at s t") (auto simp: serve_finished_def list_all_iff)

lemma finished_settled:
  assumes "serve_finished tks s" "ss_trigger s = TriggerDone"
  shows "\<not> due tks e s" "\<not> waits_for_calls s"
proof -
  note at = finished_exited [OF assms(1)]
  show "\<not> due tks e s"
    using at assms(2) by (cases e) (force simp: due_def trigger_step_def split: task_at.splits if_splits)+
  show "\<not> waits_for_calls s" using assms(2) by (simp add: waits_for_calls_def)
qed

text \<open>Only a signal after cancel() kills the process.\<close>

lemma perform_killed:
  assumes "perform tks e s = Some s'"
  shows "ss_killed s' \<longleftrightarrow> e = Signal \<and> signals_restored s"
proof -
  have h: "\<not> ss_killed s" "live_step tks e s = Some s'" using assms by simp_all
  show ?thesis
  proof (cases "e = OnceBody")
    case True
    then show ?thesis using h trigger_step_frame(9) [of s s'] by simp
  next
    case False
    then show ?thesis using h
      by (cases e) (auto simp: grpc_task_def diagnostic_task_def supervised_def leave_once_def
          split: if_splits option.splits task_at.splits prod.splits bool.splits)
  qed
qed

text \<open>While the trigger waits for a call of the internal listener, nothing but the end of
  such a call lets it go on.\<close>

lemma blocked_step:
  assumes "serve_inv tks s" "ss_trigger s = AwaitInternal" "0 < ss_open s InternalListener"
    "perform tks e s = Some s'" "e \<noteq> CallEnds InternalListener"
  shows "ss_trigger s' = AwaitInternal \<and> 0 < ss_open s' InternalListener"
proof -
  have ok: "\<And>t. task_ok s t (ss_at s t)" using assms(1) by (simp add: serve_inv_def)
  from perform_effect [OF assms(4) ok] show ?thesis
  proof (elim disjE exE conjE)
    fix t p d assume m: "task_move tks t p d s s'"
    show ?thesis using assms(2,3) by (simp add: task_move_frame [OF m])
  qed (use assms(2,3,5) in \<open>auto simp: trigger_step_def\<close>)
qed

section \<open>main\<close>

text \<open>The message log.Fatal ends the process with, if any: \<^verbatim>\<open>loaded\<close> is the answer of
  config.Load, \<^verbatim>\<open>run_serve\<close> the error of runServe.\<close>

definition compute_main :: "string list \<Rightarrow> go_error + config \<Rightarrow> (config \<Rightarrow> go_error option) \<Rightarrow> string option" where
  "compute_main args loaded run_serve =
    (if size args < 2 then Some ''usage: compute serve''
     else case loaded of
       Inl e \<Rightarrow> Some (''config: '' @ err_text e)
     | Inr cfg \<Rightarrow>
        (if args ! 1 = ''serve'' then map_option err_text (run_serve cfg)
         else if args ! 1 = ''migrate''
         then Some (''migrations are not handled by this binary '' @ em_dash @ '' use the kacho-migrator CLI ({up|down|status})'')
         else Some (''unknown command '' @ go_quote (args ! 1)
                @ '' (this binary only serves the API; migrations live in `kacho-migrator`)'')))"

end
