(* ===== verification/ProcessProperties.thy ===== *)
theory ProcessProperties
  imports Shutdown
begin

text \<open>
  Properties of the serving process: the order in which it shuts down, that it
  does end, and what can keep it from ending.
\<close>

section \<open>An example run\<close>

text \<open>A process with all its tasks, a call that outlasts the signal, and the whole shutdown.\<close>

definition fx_tasks :: "serve_task list" where "fx_tasks = serve_tasks fx_config"

definition fx_stop :: "serve_event list" where
  "fx_stop = [CallBegins InternalListener, Signal, WaiterWakes, EnterOnce Waiter, OnceBody, OnceBody, OnceBody, OnceBody,
     CallEnds InternalListener, OnceBody, OnceBody, OnceBody, LeaveOnce Waiter, WaiterDrains]
   @ concat (List.map (\<lambda>n. [LoopReturns n None, Supervise n]) (background_loops fx_config))
   @ [ServeReturns InternalListener None, ServeReturns PublicListener None, DiagnosticsReturn None]"

text \<open>After the last event nothing happens any more.\<close>

definition fx_event :: "nat \<Rightarrow> serve_event" where
  "fx_event k = (if k < size fx_stop then fx_stop ! k else Idle)"

definition fx_at :: "nat \<Rightarrow> serve_state" where
  "fx_at k = the (run_events fx_tasks (take k fx_stop) (serve_init fx_tasks))"

fun runs_to :: "(serve_state \<Rightarrow> bool) \<Rightarrow> serve_state option \<Rightarrow> bool" where
  "runs_to P None = False"
| "runs_to P (Some s) = P s"

lemma runs_to_iff: "runs_to P r \<longleftrightarrow> (\<exists>s. r = Some s \<and> P s)"
  by (cases r) auto

lemma fx_stop_runs:
  "runs_to (\<lambda>s. serve_finished fx_tasks s \<and> ss_trigger s = TriggerDone \<and> ss_ctx_done s \<and> ss_err s = None
     \<and> \<not> ss_killed s \<and> ss_at s Diagnostics = Exited None) (run_events fx_tasks fx_stop (serve_init fx_tasks))"
  by code_simp

lemma fx_stop_last:
  "runs_to (\<lambda>s. ss_at s Diagnostics = AtWork) (run_events fx_tasks (butlast fx_stop) (serve_init fx_tasks))"
  by code_simp

lemma run_events_append:
  "run_events tks (es @ fs) s = (case run_events tks es s of None \<Rightarrow> None | Some s' \<Rightarrow> run_events tks fs s')"
  by (induction es arbitrary: s) (simp_all del: perform_Some split: option.split)

lemma fx_prefix: "run_events fx_tasks (take k fx_stop) (serve_init fx_tasks) = Some (fx_at k)"
proof -
  have "run_events fx_tasks (take k fx_stop) (serve_init fx_tasks) \<noteq> None"
    using fx_stop_runs run_events_append [of fx_tasks "take k fx_stop" "drop k fx_stop" "serve_init fx_tasks"]
    by (auto simp: runs_to_iff split: option.splits)
  then show ?thesis by (auto simp: fx_at_def)
qed

lemma fx_end: "size fx_stop \<le> k \<Longrightarrow> run_events fx_tasks fx_stop (serve_init fx_tasks) = Some (fx_at k)"
  using fx_prefix [of k] by simp

lemma fx_final:
  "size fx_stop \<le> k \<Longrightarrow> serve_finished fx_tasks (fx_at k) \<and> ss_trigger (fx_at k) = TriggerDone \<and> ss_ctx_done (fx_at k)
     \<and> ss_err (fx_at k) = None \<and> \<not> ss_killed (fx_at k) \<and> ss_at (fx_at k) Diagnostics = Exited None"
  using fx_stop_runs fx_end [of k] by (auto simp: runs_to_iff)

lemma fx_run: "perform fx_tasks (fx_event k) (fx_at k) = Some (fx_at (Suc k))"
proof (cases "k < size fx_stop")
  case True
  then show ?thesis
    using fx_prefix [of k] fx_prefix [of "Suc k"] by (simp add: take_Suc_conv_app_nth run_events_snoc fx_event_def del: perform_Some)
next
  case False
  then have "fx_at (Suc k) = fx_at k" by (simp add: fx_at_def)
  then show ?thesis using False fx_final [of k] by (simp add: fx_event_def)
qed

lemma fx_reach: "serve_reach fx_tasks (fx_at k)"
  by (rule run_events_reach [OF serve_start fx_prefix])

lemma fx_moves: "k < size fx_stop \<Longrightarrow> \<exists>m\<ge>k. advances (fx_at m) (fx_at (Suc m))"
proof (intro exI [of _ "size fx_stop - 1"] conjI)
  assume k: "k < size fx_stop"
  show "k \<le> size fx_stop - 1" using k by simp
  have "ss_at (fx_at (size fx_stop - 1)) Diagnostics = AtWork"
    using fx_stop_last fx_prefix [of "size fx_stop - 1"] by (auto simp: runs_to_iff butlast_conv_take)
  moreover have "ss_at (fx_at (Suc (size fx_stop - 1))) Diagnostics = Exited None" using fx_final [of "Suc (size fx_stop - 1)"] by simp
  ultimately show "advances (fx_at (size fx_stop - 1)) (fx_at (Suc (size fx_stop - 1)))"
    by (auto simp: advances_def)
qed

section \<open>Order\<close>

lemma serve_tasks_waiter [simp]: "Waiter \<in> set (serve_tasks cfg)"
  by (simp add: serve_tasks_def)

text \<open>C34: The shutdown goes in order: a server stops only when readiness answers 503 and the
  context is done, the public one only when the internal one has served its calls, the diagnostic
  listener goes last unless it fails itself, and when all tasks have returned no call is open and
  runServe returns an error exactly if a task failed.\<close>

theorem shutdown_order:
  assumes "serve_reach (serve_tasks cfg) s"
  shows "(ss_phase s l = Up \<or> ss_ctx_done s \<and> ReadyHandler (ss_shutting s) budget checkers arrival = (503, ''shutting_down'', []))
    \<and> (ss_phase s PublicListener = Up \<or> ss_phase s InternalListener = Stopped \<and> ss_open s InternalListener = 0)
    \<and> (cf_metrics_addr cfg = '''' \<or> ss_diagnostics s \<or> failed_at (ss_at s Diagnostics) \<or> ss_phase s l = Stopped \<and> ss_open s l = 0)
    \<and> (serve_finished (serve_tasks cfg) s \<longrightarrow> ss_phase s l = Stopped \<and> ss_open s l = 0 \<and> ss_shutting s
        \<and> (ss_err s = None \<longleftrightarrow> (\<forall>t. \<not> failed_at (ss_at s t))))"
  (is "?order \<and> ?chain \<and> ?last \<and> (?fin \<longrightarrow> ?end)")
proof -
  have inv: "serve_inv (serve_tasks cfg) s" using assms by (rule serve_reach_inv)
  then have tr: "trigger_inv s" and ok: "\<And>t. task_ok s t (ss_at s t)" by (auto simp: serve_inv_def)
  have stopped: "ss_phase s l = Stopped \<and> ss_open s l = 0 \<and> ss_shutting s" if "ss_trigger s = TriggerDone" for l
    using tr that by (cases l) (auto simp: trigger_inv_def)
  have "?order" using tr by (cases l) (auto simp: trigger_inv_def ReadyHandler_def Let_def split: if_splits)
  moreover have "?chain" using tr by (auto simp: trigger_inv_def Let_def split: if_splits)
  moreover have "?last"
  proof (cases "cf_metrics_addr cfg = '''' \<or> ss_diagnostics s \<or> failed_at (ss_at s Diagnostics)")
    case False
    then have "ss_at s Waiter = Exited None" using inv by (auto simp: serve_inv_def serve_tasks_def)
    then show ?thesis using ok [of Waiter] stopped by auto
  qed blast
  moreover have "?end" if fin: ?fin
  proof -
    obtain r where "ss_at s Waiter = Exited r" using finished_exited [OF fin serve_tasks_waiter] by blast
    then have "ss_trigger s = TriggerDone" using ok [of Waiter] by (cases r) auto
    moreover have "failed_at (ss_at s t) \<longleftrightarrow> (\<exists>e. ss_at s t = Exited (Some e))" for t
    proof (cases "t \<in> set (serve_tasks cfg)")
      case True
      then obtain r where "ss_at s t = Exited r" using finished_exited [OF fin] by blast
      then show ?thesis by (simp add: failed_at_def split: option.split)
    next
      case False
      then have "ss_at s t = AtWork" using inv unfolding serve_inv_def by blast
      then show ?thesis by (simp add: failed_at_def)
    qed
    ultimately show ?thesis using stopped inv by (auto simp: serve_inv_def)
  qed
  ultimately show ?thesis by blast
qed

theorem shutdown_order_witness:
  "serve_finished (serve_tasks fx_config) (fx_at 100) \<and> ss_phase (fx_at 100) PublicListener = Stopped
   \<and> ss_open (fx_at 100) PublicListener = 0 \<and> (\<forall>t. \<not> failed_at (ss_at (fx_at 100) t))"
proof -
  have n: "size fx_stop \<le> 100" by code_simp
  have f: "serve_finished (serve_tasks fx_config) (fx_at 100)" "ss_err (fx_at 100) = None"
    using fx_final [OF n] by (simp_all add: fx_tasks_def)
  show ?thesis
    using shutdown_order [of fx_config "fx_at 100" PublicListener] fx_reach [of 100] f by (simp add: fx_tasks_def)
qed

section \<open>Termination\<close>

text \<open>C35: Once a stop is requested the process ends, whatever interleaves: if the owed steps are
  taken and a graceful stop is not left waiting for a call for ever, all tasks return. A run that
  goes on for ever has no signal after cancel(), which would kill the process at once.\<close>

theorem shutdown_terminates:
  fixes \<sigma> :: "nat \<Rightarrow> serve_state"
  assumes "\<sigma> 0 = serve_init (serve_tasks cfg)" "\<And>k. perform (serve_tasks cfg) (ev k) (\<sigma> k) = Some (\<sigma> (Suc k))"
    "stop_requested (\<sigma> k0)"
    "\<And>k e. due (serve_tasks cfg) e (\<sigma> k) \<Longrightarrow> \<exists>m\<ge>k. advances (\<sigma> m) (\<sigma> (Suc m))"
    "\<And>k. waits_for_calls (\<sigma> k) \<Longrightarrow> \<exists>m\<ge>k. \<not> waits_for_calls (\<sigma> m)"
  shows "\<exists>k\<ge>k0. serve_finished (serve_tasks cfg) (\<sigma> k)"
  using run_finishes [OF assms(1,2) serve_tasks_waiter assms(3-5)] .

theorem shutdown_terminates_witness: "\<exists>k\<ge>2. serve_finished (serve_tasks fx_config) (fx_at k)"
proof (rule shutdown_terminates [where \<sigma> = fx_at and ev = fx_event])
  show "fx_at 0 = serve_init (serve_tasks fx_config)" by (simp add: fx_at_def fx_tasks_def)
  show "perform (serve_tasks fx_config) (fx_event k) (fx_at k) = Some (fx_at (Suc k))" for k
    using fx_run [of k] by (simp add: fx_tasks_def)
  have "runs_to ss_ctx_done (run_events fx_tasks (take 2 fx_stop) (serve_init fx_tasks))" by code_simp
  then show "stop_requested (fx_at 2)" by (auto simp: runs_to_iff fx_prefix stop_requested_def)
  show "\<exists>m\<ge>k. advances (fx_at m) (fx_at (Suc m))" if "due (serve_tasks fx_config) e (fx_at k)" for k e
    using that finished_settled(1) [of fx_tasks "fx_at k" e] fx_final [of k] fx_moves [of k]
    by (cases "k < size fx_stop") (auto simp: fx_tasks_def)
  show "\<exists>m\<ge>k. \<not> waits_for_calls (fx_at m)" for k
    using finished_settled(2) [of fx_tasks "fx_at (k + size fx_stop)"] fx_final [of "k + size fx_stop"]
    by (intro exI [of _ "k + size fx_stop"]) simp
qed

section \<open>What can keep it from ending\<close>

text \<open>C36: A graceful stop has no limit: while one call of the internal listener stays open, as a
  Watch stream does until its client leaves, the public server goes on serving, the workers are not
  drained and the tasks do not return, whatever else happens. The process ends in that time only by
  a further SIGTERM or SIGINT, and then at once: cancel() has given them their default action back,
  so such a signal kills the process where it stands.\<close>

theorem open_watch_blocks_shutdown:
  assumes "serve_reach (serve_tasks cfg) s" "ss_trigger s = AwaitInternal" "0 < ss_open s InternalListener"
    "run_events (serve_tasks cfg) es s = Some s'" "CallEnds InternalListener \<notin> set es"
  shows "ss_phase s' PublicListener = Up \<and> ss_at s' Waiter \<noteq> Draining \<and> \<not> serve_finished (serve_tasks cfg) s'
    \<and> (ss_killed s' \<longleftrightarrow> ss_killed s \<or> Signal \<in> set es)
    \<and> (\<forall>es1 es2. es = es1 @ Signal # es2 \<longrightarrow> es2 = [])"
proof -
  have "serve_reach (serve_tasks cfg) s' \<and> ss_trigger s' = AwaitInternal \<and> (ss_killed s' \<longleftrightarrow> ss_killed s \<or> Signal \<in> set es)
      \<and> (\<forall>es1 es2. es = es1 @ Signal # es2 \<longrightarrow> es2 = [])"
    using assms
  proof (induction es arbitrary: s)
    case (Cons e es)
    then obtain s1 where p: "perform (serve_tasks cfg) e s = Some s1" "run_events (serve_tasks cfg) es s1 = Some s'"
      by (auto simp del: perform_Some split: option.splits)
    have 1: "ss_trigger s1 = AwaitInternal \<and> 0 < ss_open s1 InternalListener"
      using blocked_step [OF serve_reach_inv [OF Cons.prems(1)] Cons.prems(2,3) p(1)] Cons.prems(5) by auto
    have alive: "\<not> ss_killed s" using p(1) by simp
    have k: "ss_killed s1 \<longleftrightarrow> e = Signal" using perform_killed [OF p(1)] Cons.prems(2) by (simp add: signals_restored_def)
    have last: "es = []" if "ss_killed s1" using p(2) that by (cases es) (auto simp: perform_def)
    have ih: "serve_reach (serve_tasks cfg) s' \<and> ss_trigger s' = AwaitInternal \<and> (ss_killed s' \<longleftrightarrow> ss_killed s1 \<or> Signal \<in> set es)
        \<and> (\<forall>es1 es2. es = es1 @ Signal # es2 \<longrightarrow> es2 = [])"
      using Cons.IH [OF serve_event [OF Cons.prems(1) p(1)]] 1 p(2) Cons.prems(5) by simp
    have "es2 = []" if "e # es = es1 @ Signal # es2" for es1 es2
      using that ih k last by (cases es1) auto
    then show ?case using ih k alive by auto
  qed auto
  then have inv: "serve_inv (serve_tasks cfg) s'" and tr: "ss_trigger s' = AwaitInternal"
    and kill: "ss_killed s' \<longleftrightarrow> ss_killed s \<or> Signal \<in> set es" "\<forall>es1 es2. es = es1 @ Signal # es2 \<longrightarrow> es2 = []"
    by (auto intro: serve_reach_inv)
  have ok: "task_ok s' Waiter (ss_at s' Waiter)" using inv by (simp add: serve_inv_def)
  have "ss_at s' Waiter \<noteq> Exited r" for r using ok tr by (cases r) auto
  then have "\<not> serve_finished (serve_tasks cfg) s'" using finished_exited [OF _ serve_tasks_waiter] by blast
  moreover have "ss_phase s' PublicListener = Up" using inv tr by (simp add: serve_inv_def trigger_inv_def)
  moreover have "ss_at s' Waiter \<noteq> Draining" using ok tr by auto
  ultimately show ?thesis using kill by blast
qed

theorem open_watch_blocks_shutdown_witness:
  "ss_phase (the (perform fx_tasks (CallBegins PublicListener) (fx_at 8))) PublicListener = Up
   \<and> ss_killed (the (perform fx_tasks Signal (fx_at 8)))"
proof -
  have "runs_to (\<lambda>s. ss_trigger s = AwaitInternal \<and> 0 < ss_open s InternalListener \<and> ss_phase s PublicListener = Up \<and> \<not> ss_killed s)
      (run_events fx_tasks (take 8 fx_stop) (serve_init fx_tasks))"
    by code_simp
  then have s: "ss_trigger (fx_at 8) = AwaitInternal" "0 < ss_open (fx_at 8) InternalListener"
    and p: "ss_phase (fx_at 8) PublicListener = Up" "\<not> ss_killed (fx_at 8)"
    by (auto simp: runs_to_iff fx_prefix)
  have c: "run_events (serve_tasks fx_config) [CallBegins PublicListener] (fx_at 8)
      = Some (the (perform fx_tasks (CallBegins PublicListener) (fx_at 8)))"
    and k: "run_events (serve_tasks fx_config) [Signal] (fx_at 8) = Some (the (perform fx_tasks Signal (fx_at 8)))"
    using p by (simp_all add: fx_tasks_def perform_def)
  have r: "serve_reach (serve_tasks fx_config) (fx_at 8)" using fx_reach [of 8] by (simp add: fx_tasks_def)
  from open_watch_blocks_shutdown [OF r s c] open_watch_blocks_shutdown [OF r s k] show ?thesis by simp
qed

end
