(* ===== verification/RemoteProperties.thy ===== *)
theory RemoteProperties
  imports RemoteOwners
begin

text \<open>
  What holds of the sagas of the wired process, over RPC adapters and a network
  that loses requests and answers.
\<close>

text \<open>C9: Over the RPC adapters, with peers that keep their contract but whose answers may be
  lost, any number of failed deletes keeps the row, at most moved to DELETING; as soon as one
  run succeeds the row is gone, the peers hold no binding of the instance, and no binding and
  no row of another instance has moved since the first run.\<close>

theorem delete_retries_over_rpc:
  assumes "nic_service invn bn Rn" "volume_service invv bv Rv" "invn (w_nics w)" "invv (w_vols w)"
    "inst_sel (instances (w_db w)) i = Some r"
    "failed_deletes (vpc_nic_client Rn) (storage_client Rv) i w w1"
    "iv_nics I = Some (vpc_nic_client Rn)" "iv_vols I = Some (storage_client Rv)" "pg_delete_repo E1 E2 (iv_repo I)"
    "delete_worker I i w1 = (Inr m, w2)"
  shows "inst_sel (instances (w_db w1)) i \<in> {Some r, Some (r\<lparr> tr_status := ''DELETING'' \<rparr>)}
    \<and> inst_sel (instances (w_db w2)) i = None
    \<and> bn (w_nics w2) = {b \<in> bn (w_nics w). snd b \<noteq> i} \<and> bv (w_vols w2) = {b \<in> bv (w_vols w). snd b \<noteq> i}
    \<and> (\<forall>j. j \<noteq> i \<longrightarrow> inst_sel (instances (w_db w2)) j = inst_sel (instances (w_db w)) j)"
proof -
  note owners = remote_owners [OF assms(1,2)]
  note k = failed_deletes_keep [OF assms(6) owners assms(3-5)]
  have v: "invn (w_nics w1)" "invv (w_vols w1)" using k by auto
  have "inst_sel (instances (w_db w1)) i \<noteq> None" using k by auto
  then show ?thesis
    using binding_owners.delete_worker_releases [OF owners assms(7-9) v assms(10)] k by auto
qed

text \<open>A detach whose answer is lost, then a lost request, then a run that gets through.\<close>

definition fx_remote :: "(db, nic_owner \<times> fate list, volume_owner \<times> fate list) instance_service" where
  "fx_remote = \<lparr> iv_repo = pg_instance_port fx_core fx_env, iv_peers = fx_peers, iv_nics = Some (vpc_nic_client net_nic_rpc),
    iv_vols = Some (storage_client net_volume_rpc), iv_core = fx_core \<rparr>"

definition fx_lossy :: "(db, nic_owner \<times> fate list, volume_owner \<times> fate list) world" where
  "fx_lossy = \<lparr> w_db = fx_db, w_nics = (fx_nics, [AnswerLost]), w_vols = (fx_vols, [RequestLost]) \<rparr>"

definition fx_lossy1 :: "(db, nic_owner \<times> fate list, volume_owner \<times> fate list) world" where
  "fx_lossy1 = snd (delete_worker fx_remote ''epd1'' fx_lossy)"

definition fx_lossy2 :: "(db, nic_owner \<times> fate list, volume_owner \<times> fate list) world" where
  "fx_lossy2 = snd (delete_worker fx_remote ''epd1'' fx_lossy1)"

lemma fx_remote_runs:
  "(\<not> is_ok (fst (delete_worker fx_remote ''epd1'' fx_lossy)))
   \<and> (\<not> is_ok (fst (delete_worker fx_remote ''epd1'' fx_lossy1)))
   \<and> (is_ok (fst (delete_worker fx_remote ''epd1'' fx_lossy2)))
   \<and> (inst_sel (instances fx_db) ''epd1'' \<noteq> None)"
  by code_simp

lemma failed_run: "\<not> is_ok (fst p) \<Longrightarrow> \<exists>e. p = (Inl e, snd p)"
  by (cases p; cases "fst p") (auto simp: is_ok_iff)

theorem delete_retries_over_rpc_witness:
  "\<exists>m w2. delete_worker fx_remote ''epd1'' fx_lossy2 = (Inr m, w2)
     \<and> vol_bindings (fst (w_vols w2)) = {b \<in> vol_bindings fx_vols. snd b \<noteq> ''epd1''}
     \<and> nic_bindings (fst (w_nics w2)) = {b \<in> nic_bindings fx_nics. snd b \<noteq> ''epd1''}"
proof -
  have repo: "pg_delete_repo fx_env fx_env (iv_repo fx_remote)" and ports: "iv_nics fx_remote = Some (vpc_nic_client net_nic_rpc)"
      "iv_vols fx_remote = Some (storage_client net_volume_rpc)"
    using fx_pg_delete by (simp_all add: fx_remote_def fx_instances_def)
  have "\<not> is_ok (fst (delete_worker fx_remote ''epd1'' fx_lossy))" using fx_remote_runs by (elim conjE)
  from failed_run [OF this] obtain e1 where 1: "delete_worker fx_remote ''epd1'' fx_lossy = (Inl e1, fx_lossy1)"
    by (auto simp: fx_lossy1_def)
  have "\<not> is_ok (fst (delete_worker fx_remote ''epd1'' fx_lossy1))" using fx_remote_runs by (elim conjE)
  from failed_run [OF this] obtain e2 where 2: "delete_worker fx_remote ''epd1'' fx_lossy1 = (Inl e2, fx_lossy2)"
    by (auto simp: fx_lossy2_def)
  have "is_ok (fst (delete_worker fx_remote ''epd1'' fx_lossy2))" using fx_remote_runs by (elim conjE)
  from ok_run [OF this] obtain m w2 where 3: "delete_worker fx_remote ''epd1'' fx_lossy2 = (Inr m, w2)" by blast
  have "inst_sel (instances fx_db) ''epd1'' \<noteq> None" using fx_remote_runs by (elim conjE)
  then obtain r where r: "inst_sel (instances (w_db fx_lossy)) ''epd1'' = Some r" by (auto simp: fx_lossy_def)
  have f: "failed_deletes (vpc_nic_client net_nic_rpc) (storage_client net_volume_rpc) ''epd1'' fx_lossy fx_lossy2"
    by (rule one_more [OF one_more [OF no_failure ports repo 1] ports repo 2])
  show ?thesis
    using delete_retries_over_rpc [OF net_nics.nic_service_axioms net_volumes.volume_service_axioms _ _ r f ports repo 3]
      fx_nic_owner_ok fx_vol_owner_ok 3 by (simp add: fx_lossy_def)
qed

end
