(* ===== verification/PipelineProperties.thy ===== *)
theory PipelineProperties
  imports RuntimeProperties AsyncProperties
begin

text \<open>
  What spans the whole pipeline: from an accepted request through the worker and its
  transaction to those who watch the events and to the registry of IAM.
\<close>

section \<open>What a create leaves behind\<close>

definition stored_disk :: "string \<Rightarrow> int \<Rightarrow> create_disk_req \<Rightarrow> disk" where
  "stored_disk i now req = (disk_of_req i now req)\<lparr> d_created_at := pg_time now \<rparr>"

definition disk_tuple :: "string \<Rightarrow> string \<Rightarrow> fga_tuple" where
  "disk_tuple i p = \<lparr> tp_subject = ''project:'' @ p, tp_relation = ''project'', tp_object = ''compute_disk:'' @ i \<rparr>"

lemma disk_create_leaves:
  assumes "disk_service_create (pg_disk_service L E P) O1 now i req = Inr (op1, wk)" "wk s = (Inr m, s')"
    "protojson_ok (e_pj E)" "i \<noteq> ''''"
  shows "m = AnyDisk (stored_disk i now req)"
    "outbox s' = outbox s @ [event_of E ''Disk'' i ''CREATED'' (PDisk (stored_disk i now req))]"
    "drop (size (fga_outbox s)) (fga_outbox s')
      = [intent_row E EventRegister ''Disk'' i (cd_project_id req) (cd_labels req) (disk_tuple i (cd_project_id req))]"
    "intents_of E EventRegister ''Disk'' i (cd_project_id req) (cd_labels req)
      = [intent_row E EventRegister ''Disk'' i (cd_project_id req) (cd_labels req) (disk_tuple i (cd_project_id req))]"
proof -
  have p: "cd_project_id req \<noteq> ''''" and w: "wk = disk_do_create (pg_disk_service L E P) now i req"
    using assms(1) by (auto simp: disk_service_create_def split: if_splits dest!: runOp_ok)
  obtain d where m: "m = AnyDisk d" and ins: "disk_insert E (disk_of_req i now req) s = (Inr d, s')"
    using disk_do_create_ok(5) [OF assms(2) [unfolded w]] by auto
  obtain row u where row: "diskInsertArgs (e_pj E) (disk_of_req i now req) = Inr row" "scanDisk (e_pj E) row = Inr d"
    and s': "s' = s\<lparr> disks := u, outbox := outbox s @ [event_of E ''Disk'' (d_id d) ''CREATED'' (PDisk d)],
            fga_outbox := fga_outbox s @ intents_of E EventRegister ''Disk'' (d_id d) (d_project_id d) (d_labels d) \<rparr>"
    using disk_insert_ok [OF ins] by blast
  have d: "d = stored_disk i now req"
    using scanDisk_insertArgs [OF assms(3) row(1)] row(2) by (simp add: stored_disk_def disk_of_req_def)
  have sel: "d_id d = i" "d_project_id d = cd_project_id req" "d_labels d = cd_labels req"
    by (simp_all add: d stored_disk_def disk_of_req_def)
  have "FGAType ''Disk'' = ''compute_disk''" using fx_runtime_runs by (elim conjE)
  then show int: "intents_of E EventRegister ''Disk'' i (cd_project_id req) (cd_labels req)
      = [intent_row E EventRegister ''Disk'' i (cd_project_id req) (cd_labels req) (disk_tuple i (cd_project_id req))]"
    using p assms(4) by (simp add: intents_of_def ProjectHierarchyTuple_def disk_tuple_def)
  show "m = AnyDisk (stored_disk i now req)"
    "outbox s' = outbox s @ [event_of E ''Disk'' i ''CREATED'' (PDisk (stored_disk i now req))]"
    "drop (size (fga_outbox s)) (fga_outbox s')
      = [intent_row E EventRegister ''Disk'' i (cd_project_id req) (cd_labels req) (disk_tuple i (cd_project_id req))]"
    by (simp_all add: s' m sel int flip: d)
qed

section \<open>A created disk is announced\<close>

text \<open>C12: A created disk is announced. When a Create was accepted and its worker succeeded, every
  watcher of disks that waits for more, and whose last read saw the outbox, has received the
  CREATED event with the stored disk; and once the intents the transaction left have been
  delivered, in whatever order and repetition, IAM holds the tuple of the owning project with
  the labels of the disk.\<close>

theorem created_disk_is_announced:
  fixes W :: "'j watch_env" and C :: "'r iam_register_client"
  assumes "disk_service_create (pg_disk_service L E P) O1 now i req = Inr (op1, wk)" "wk s = (Inr m, s')"
    "protojson_ok (e_pj E)" "i \<noteq> ''''"
    "quiet W" "in_order W" "Watch W slots inUse None None fromSeq kinds ws = Some (Waiting, sent)"
    "set (outbox s') \<subseteq> set (we_table W (size ws))" "fromSeq < int (e_seq E)" "kinds = [] \<or> ''Disk'' \<in> set kinds"
    "last_version_wins C entries" "entries t (''compute_disk:'' @ i) = None" "\<forall>r\<in>set rows. well_formed_intent r"
    "\<forall>r\<in>set rows. row_object r = ''compute_disk:'' @ i \<longrightarrow> r \<in> set (drop (size (fga_outbox s)) (fga_outbox s'))"
    "\<forall>r\<in>set (drop (size (fga_outbox s)) (fga_outbox s')). (r, None) \<in> set (fst (attempts C rows t))"
  shows "event_of_row W (event_of E ''Disk'' i ''CREATED'' (PDisk (stored_disk i now req))) \<in> set sent
    \<and> (\<exists>q. entries (snd (attempts C rows t)) (''compute_disk:'' @ i) = Some (e_now E, Some q)
         \<and> rq_subject q = ''project:'' @ cd_project_id req \<and> rq_relation q = ''project'' \<and> rq_labels q = norm_labels (cd_labels req))"
proof
  note new = disk_create_leaves [OF assms(1-4)]
  let ?e = "event_of E ''Disk'' i ''CREATED'' (PDisk (stored_disk i now req))"
  obtain k where k: "size ws \<le> k" "sent = all_after W kinds fromSeq k" using Watch_complete [OF assms(5-7)] by blast
  have "?e \<in> set (we_table W k)" using assms(8) in_order_grows [OF assms(6) k(1)] by (auto simp: new(2))
  then have "?e \<in> set (filter (\<lambda>r. fromSeq < seq r) (matching kinds (we_table W k)))"
    using assms(9,10) by (simp add: matching_set event_of_def)
  then show "event_of_row W ?e \<in> set sent" unfolding k(2) all_after_def by simp
next
  let ?r = "intent_row E EventRegister ''Disk'' i (cd_project_id req) (cd_labels req) (disk_tuple i (cd_project_id req))"
  note new = disk_create_leaves [OF assms(1-4)]
  have o: "row_object ?r = ''compute_disk:'' @ i" by (simp add: row_object_def intent_req_row disk_tuple_def)
  have "holds_row (entries (snd (attempts C rows t))) ?r"
    by (rule attempts_settle [OF assms(11)]) (use assms(12-15) new(3) o in \<open>auto simp: older_than_def\<close>)
  then have "entries (snd (attempts C rows t)) (''compute_disk:'' @ i) = Some (e_now E, intent_req ?r)"
    by (simp only: holds_row_def o) (simp add: row_version_def row_effect_def intent_req_row)
  then show "\<exists>q. entries (snd (attempts C rows t)) (''compute_disk:'' @ i) = Some (e_now E, Some q)
      \<and> rq_subject q = ''project:'' @ cd_project_id req \<and> rq_relation q = ''project'' \<and> rq_labels q = norm_labels (cd_labels req)"
    by (simp only: intent_req_row) (simp add: disk_tuple_def)
qed

text \<open>A create after the others, a watch that then wakes once, and two deliveries of its intent.\<close>

definition fx_env7 :: env where "fx_env7 = fx_env\<lparr> e_now := 7000, e_seq := 7 \<rparr>"

definition fx_announced :: db where
  "fx_announced = snd (disk_do_create (pg_disk_service fx_core fx_env7 fx_peers) 6500 ''dsk7'' fx_disk_req fx_db0)"

definition fx_pipe_watch :: "unit watch_env" where
  "fx_pipe_watch = (fx_watch_env [[]])\<lparr> we_table := (\<lambda>_. outbox fx_announced) \<rparr>"

definition fx_pipe_rows :: "fga_row list" where
  "fx_pipe_rows = (let new = drop (size (fga_outbox fx_db0)) (fga_outbox fx_announced) in new @ new)"

lemma fx_pipeline_runs:
  "is_ok (disk_service_create (pg_disk_service fx_core fx_env7 fx_peers) fx_op 6500 ''dsk7'' fx_disk_req)
   \<and> is_ok (fst (disk_do_create (pg_disk_service fx_core fx_env7 fx_peers) 6500 ''dsk7'' fx_disk_req fx_db0))
   \<and> map_option fst (Watch fx_pipe_watch 32 0 None None 0 [''Disk''] [Notified]) = Some Waiting
   \<and> distinct (List.map ob_seq (outbox fx_announced))
   \<and> list_all (\<lambda>r. (r, None) \<in> set (fst (attempts fx_iam_registry fx_pipe_rows Map.empty)))
       (drop (size (fga_outbox fx_db0)) (fga_outbox fx_announced))"
  by code_simp

theorem created_disk_is_announced_witness:
  "\<exists>sent q. Watch fx_pipe_watch 32 0 None None 0 [''Disk''] [Notified] = Some (Waiting, sent)
     \<and> ''dsk7'' \<in> set (List.map ev_id sent)
     \<and> snd (attempts fx_iam_registry fx_pipe_rows Map.empty) ''compute_disk:dsk7'' = Some (7000, Some q)
     \<and> rq_subject q = ''project:prj1'' \<and> rq_labels q = norm_labels (Some [(''env'', ''dev'')])"
proof -
  obtain op1 wk where c: "disk_service_create (pg_disk_service fx_core fx_env7 fx_peers) fx_op 6500 ''dsk7'' fx_disk_req = Inr (op1, wk)"
    using fx_pipeline_runs by (auto simp: is_ok_iff)
  have w: "wk = disk_do_create (pg_disk_service fx_core fx_env7 fx_peers) 6500 ''dsk7'' fx_disk_req"
    using c by (auto simp: disk_service_create_def split: if_splits dest!: runOp_ok)
  obtain m where r: "wk fx_db0 = (Inr m, fx_announced)"
    using ok_run fx_pipeline_runs unfolding w fx_announced_def by blast
  obtain sent where sent: "Watch fx_pipe_watch 32 0 None None 0 [''Disk''] [Notified] = Some (Waiting, sent)"
    using fx_pipeline_runs by auto
  have env: "protojson_ok (e_pj fx_env7)" "e_now fx_env7 = 7000" "e_seq fx_env7 = 7"
    using fx_pj_ok by (simp_all add: fx_env7_def)
  have req: "cd_project_id fx_disk_req = ''prj1''" "cd_labels fx_disk_req = Some [(''env'', ''dev'')]"
    by (simp_all add: fx_disk_req_def)
  have i: "(''dsk7'' :: string) \<noteq> ''''" by simp
  note new = disk_create_leaves [OF c r env(1) i]
  have q: "quiet fx_pipe_watch" by (simp add: quiet_def fx_pipe_watch_def fx_watch_env_def)
  have o: "in_order fx_pipe_watch" using fx_pipeline_runs by (simp add: in_order_def fx_pipe_watch_def)
  have rows: "set fx_pipe_rows = set (drop (size (fga_outbox fx_db0)) (fga_outbox fx_announced))"
    by (simp add: fx_pipe_rows_def Let_def)
  have wf: "\<forall>x\<in>set fx_pipe_rows. well_formed_intent x"
    unfolding rows new(3) well_formed_intent_def using new(4) by (metis insertI1 list.set(1,2) singletonD)
  have sees: "set (outbox fx_announced) \<subseteq> set (we_table fx_pipe_watch (size [Notified]))" by (simp add: fx_pipe_watch_def)
  have dn: "\<forall>x\<in>set (drop (size (fga_outbox fx_db0)) (fga_outbox fx_announced)). (x, None) \<in> set (fst (attempts fx_iam_registry fx_pipe_rows Map.empty))"
    using fx_pipeline_runs by (simp add: list_all_iff)
  have s: "0 < int (e_seq fx_env7)" "[''Disk''] = [] \<or> ''Disk'' \<in> set [''Disk'']" by (simp_all add: env)
  have n: "id Map.empty (''compute_disk:'' @ ''dsk7'') = None" by simp
  have mine: "\<forall>x\<in>set fx_pipe_rows. row_object x = ''compute_disk:'' @ ''dsk7''
      \<longrightarrow> x \<in> set (drop (size (fga_outbox fx_db0)) (fga_outbox fx_announced))" by (simp add: rows)
  note ann = created_disk_is_announced [OF c r env(1) i q o sent sees s fx_registry_ok n wf mine dn]
  obtain p where p: "snd (attempts fx_iam_registry fx_pipe_rows Map.empty) ''compute_disk:dsk7'' = Some (7000, Some p)"
      "rq_subject p = ''project:prj1''" "rq_labels p = norm_labels (Some [(''env'', ''dev'')])"
    using ann [THEN conjunct2] by (auto simp: env req)
  have "''dsk7'' \<in> set (List.map ev_id sent)"
    using imageI [OF ann [THEN conjunct1], of ev_id] unfolding set_map by (simp only: event_of_row_def event_of_def outbox_row.simps watch_event.simps)
  then show ?thesis using sent p by blast
qed

end
