(* ===== verification/StoredRows.thy ===== *)
theory StoredRows
  imports RepoContract Fixtures
begin

text \<open>
  The type invariant of the database: what every row that the repositories have
  written satisfies, along any sequence of their calls. A row is well typed when
  the scan of its repository reads it back; a table is well typed when its rows
  are and its constraints hold.
\<close>

definition typed_table ::
  "('r \<Rightarrow> string) \<Rightarrow> ('r \<Rightarrow> 'k option) \<Rightarrow> ('r \<Rightarrow> bool) \<Rightarrow> ('r \<Rightarrow> go_error + 'x) \<Rightarrow> 'r list \<Rightarrow> bool" where
  "typed_table pk uq chk scan t \<longleftrightarrow>
    table_ok pk uq chk t \<and> (\<forall>i r. sql_select pk i t = Some r \<longrightarrow> is_ok (scan r))"

abbreviation typed_disks :: "protojson \<Rightarrow> disk_row list \<Rightarrow> bool" where
  "typed_disks P \<equiv> typed_table dr_id disk_uq disk_chk (scanDisk P)"
abbreviation typed_images :: "protojson \<Rightarrow> image_row list \<Rightarrow> bool" where
  "typed_images P \<equiv> typed_table ir_id image_uq image_chk (scanImage P)"
abbreviation typed_snapshots :: "protojson \<Rightarrow> snapshot_row list \<Rightarrow> bool" where
  "typed_snapshots P \<equiv> typed_table sr_id snapshot_uq snapshot_chk (scanSnapshot P)"
abbreviation typed_instances :: "protojson \<Rightarrow> instance_trow list \<Rightarrow> bool" where
  "typed_instances P \<equiv> typed_table tr_id instance_uq instance_chk (scanInstance P)"

definition typed_db :: "protojson \<Rightarrow> db \<Rightarrow> bool" where
  "typed_db P s \<longleftrightarrow> typed_disks P (disks s) \<and> typed_images P (images s)
     \<and> typed_snapshots P (snapshots s) \<and> typed_instances P (instances s)"

lemma typed_insert:
  assumes "sql_insert pk uq chk row t = Inr t'" "scan row = Inr x" "typed_table pk uq chk scan t"
  shows "typed_table pk uq chk scan t'"
  using assms table_ok_insert [OF assms(1)] sql_insert_select [OF assms(1)] by (auto simp: typed_table_def)

lemma typed_update:
  assumes "\<forall>j. sql_select pk j t' = (if j = i then Some r else sql_select pk j t)" "scan r = Inr x"
    "table_ok pk uq chk t \<longrightarrow> table_ok pk uq chk t'" "typed_table pk uq chk scan t"
  shows "typed_table pk uq chk scan t'"
  using assms by (auto simp: typed_table_def)

lemma typed_delete:
  assumes "sql_delete pk i t = Some (r, t')" "typed_table pk uq chk scan t"
  shows "typed_table pk uq chk scan t'"
  using assms table_ok_delete [OF assms(1)] sql_delete_select [OF assms(1)] by (auto simp: typed_table_def)

section \<open>Every write\<close>

text \<open>One call of a repository method that writes, whatever it returned.\<close>

inductive db_write :: "protojson \<Rightarrow> db \<Rightarrow> db \<Rightarrow> bool" for P where
  disk_inserted: "e_pj E = P \<Longrightarrow> disk_insert E d s = (r, s') \<Longrightarrow> db_write P s s'"
| disk_updated: "e_pj E = P \<Longrightarrow> disk_update E d lab ch s = (r, s') \<Longrightarrow> db_write P s s'"
| disk_moved: "e_pj E = P \<Longrightarrow> disk_set_zone E i z s = (r, s') \<Longrightarrow> db_write P s s'"
| disk_deleted: "disk_delete E i s = (q, s') \<Longrightarrow> db_write P s s'"
| image_inserted: "e_pj E = P \<Longrightarrow> image_insert E im s = (ri, s') \<Longrightarrow> db_write P s s'"
| image_updated: "e_pj E = P \<Longrightarrow> image_update E im lab ch s = (ri, s') \<Longrightarrow> db_write P s s'"
| image_deleted: "image_delete E i s = (q, s') \<Longrightarrow> db_write P s s'"
| snapshot_inserted: "e_pj E = P \<Longrightarrow> snapshot_insert E sn s = (rs, s') \<Longrightarrow> db_write P s s'"
| snapshot_updated: "e_pj E = P \<Longrightarrow> snapshot_update E sn lab ch s = (rs, s') \<Longrightarrow> db_write P s s'"
| snapshot_deleted: "snapshot_delete E i s = (q, s') \<Longrightarrow> db_write P s s'"
| instance_inserted: "e_pj E = P \<Longrightarrow> instance_insert E x s = (rx, s') \<Longrightarrow> db_write P s s'"
| instance_updated: "e_pj E = P \<Longrightarrow> instance_update E x lab ch s = (rx, s') \<Longrightarrow> db_write P s s'"
| instance_status: "e_pj E = P \<Longrightarrow> setStatusCAS E i a b s = (rx, s') \<Longrightarrow> db_write P s s'"
| instance_marked: "e_pj E = P \<Longrightarrow> markDeleting E i s = (rx, s') \<Longrightarrow> db_write P s s'"
| instance_merged: "e_pj E = P \<Longrightarrow> mergeMetadata E i del up s = (rx, s') \<Longrightarrow> db_write P s s'"
| instance_deleted: "instance_delete E i s = (q, s') \<Longrightarrow> db_write P s s'"

lemma disk_writes_typed:
  "disk_insert E d s = (r, s') \<Longrightarrow> typed_db (e_pj E) s \<Longrightarrow> typed_db (e_pj E) s'"
  "disk_update E d lab ch s = (r, s') \<Longrightarrow> typed_db (e_pj E) s \<Longrightarrow> typed_db (e_pj E) s'"
  "disk_set_zone E i z s = (r, s') \<Longrightarrow> typed_db (e_pj E) s \<Longrightarrow> typed_db (e_pj E) s'"
  "disk_delete E i s = (q, s') \<Longrightarrow> typed_db P s \<Longrightarrow> typed_db P s'"
proof -
  show "typed_db (e_pj E) s'" if h: "disk_insert E d s = (r, s')" "typed_db (e_pj E) s"
  proof (cases r)
    case (Inl e)
    then show ?thesis using h disk_insert_err by blast
  next
    case (Inr d')
    then show ?thesis using disk_insert_ok [OF h(1) [unfolded Inr]] h(2) by (auto simp: typed_db_def intro: typed_insert)
  qed
  show "typed_db (e_pj E) s'" if h: "disk_update E d lab ch s = (r, s')" "typed_db (e_pj E) s"
  proof (cases r)
    case (Inl e)
    then show ?thesis using h disk_update_err by blast
  next
    case (Inr d')
    then show ?thesis using disk_update_ok [OF h(1) [unfolded Inr]] h(2) by (auto simp: typed_db_def intro: typed_update)
  qed
  show "typed_db (e_pj E) s'" if h: "disk_set_zone E i z s = (r, s')" "typed_db (e_pj E) s"
  proof (cases r)
    case (Inl e)
    then show ?thesis using h disk_set_zone_err by blast
  next
    case (Inr d')
    then obtain x t where x: "sql_update dr_id disk_uq disk_chk i (\<lambda>_. True) (disk_set ''zone_id'' (VText z)) (disks s) = Inr (Some (x, t))"
      "scanDisk (e_pj E) x = Inr d'" "disks s' = t" "images s' = images s" "snapshots s' = snapshots s" "instances s' = instances s"
      using disk_set_zone_ok [OF h(1) [unfolded Inr]] by auto
    have k: "dr_id (disk_set ''zone_id'' (VText z) y) = dr_id y" for y by (simp add: disk_set_def)
    have "typed_disks (e_pj E) t"
      by (rule typed_update [where i = i and r = x])
        (use disk_store.upd_sel [OF x(1) k] disk_store.upd_ok [OF x(1) k] x(2) h(2) in \<open>auto simp: typed_db_def\<close>)
    then show ?thesis using h(2) x by (simp add: typed_db_def)
  qed
  show "typed_db P s'" if h: "disk_delete E i s = (q, s')" "typed_db P s"
  proof (cases q)
    case (Inl e)
    then show ?thesis using h disk_delete_error by blast
  next
    case (Inr u)
    then show ?thesis using disk_delete_ok [of E i s s'] h by (auto simp: typed_db_def intro: typed_delete)
  qed
qed

lemma image_writes_typed:
  "image_insert E im s = (rim, s') \<Longrightarrow> typed_db (e_pj E) s \<Longrightarrow> typed_db (e_pj E) s'"
  "image_update E im lab ch s = (rim, s') \<Longrightarrow> typed_db (e_pj E) s \<Longrightarrow> typed_db (e_pj E) s'"
  "image_delete E i s = (q, s') \<Longrightarrow> typed_db P s \<Longrightarrow> typed_db P s'"
proof -
  show "typed_db (e_pj E) s'" if h: "image_insert E im s = (rim, s')" "typed_db (e_pj E) s"
  proof (cases rim)
    case (Inl e)
    then show ?thesis using h image_insert_err by blast
  next
    case (Inr x')
    then show ?thesis using image_insert_ok [OF h(1) [unfolded Inr]] h(2) by (auto simp: typed_db_def intro: typed_insert)
  qed
  show "typed_db (e_pj E) s'" if h: "image_update E im lab ch s = (rim, s')" "typed_db (e_pj E) s"
  proof (cases rim)
    case (Inl e)
    then show ?thesis using h image_update_err by blast
  next
    case (Inr x')
    then show ?thesis using image_update_ok [OF h(1) [unfolded Inr]] h(2) by (auto simp: typed_db_def intro: typed_update)
  qed
  show "typed_db P s'" if h: "image_delete E i s = (q, s')" "typed_db P s"
  proof (cases q)
    case (Inl e)
    then show ?thesis using h image_delete_error by blast
  next
    case (Inr u)
    then show ?thesis using image_delete_ok [of E i s s'] h by (auto simp: typed_db_def intro: typed_delete)
  qed
qed

lemma snapshot_writes_typed:
  "snapshot_insert E sn s = (rsn, s') \<Longrightarrow> typed_db (e_pj E) s \<Longrightarrow> typed_db (e_pj E) s'"
  "snapshot_update E sn lab ch s = (rsn, s') \<Longrightarrow> typed_db (e_pj E) s \<Longrightarrow> typed_db (e_pj E) s'"
  "snapshot_delete E i s = (q, s') \<Longrightarrow> typed_db P s \<Longrightarrow> typed_db P s'"
proof -
  show "typed_db (e_pj E) s'" if h: "snapshot_insert E sn s = (rsn, s')" "typed_db (e_pj E) s"
  proof (cases rsn)
    case (Inl e)
    then show ?thesis using h snapshot_insert_err by blast
  next
    case (Inr x')
    then show ?thesis using snapshot_insert_ok [OF h(1) [unfolded Inr]] h(2) by (auto simp: typed_db_def intro: typed_insert)
  qed
  show "typed_db (e_pj E) s'" if h: "snapshot_update E sn lab ch s = (rsn, s')" "typed_db (e_pj E) s"
  proof (cases rsn)
    case (Inl e)
    then show ?thesis using h snapshot_update_err by blast
  next
    case (Inr x')
    then show ?thesis using snapshot_update_ok [OF h(1) [unfolded Inr]] h(2) by (auto simp: typed_db_def intro: typed_update)
  qed
  show "typed_db P s'" if h: "snapshot_delete E i s = (q, s')" "typed_db P s"
  proof (cases q)
    case (Inl e)
    then show ?thesis using h snapshot_delete_error by blast
  next
    case (Inr u)
    then show ?thesis using snapshot_delete_ok [of E i s s'] h by (auto simp: typed_db_def intro: typed_delete)
  qed
qed

lemma instance_writes_typed:
  "instance_insert E x s = (rx, s') \<Longrightarrow> typed_db (e_pj E) s \<Longrightarrow> typed_db (e_pj E) s'"
  "instance_update E x lab ch s = (rx, s') \<Longrightarrow> typed_db (e_pj E) s \<Longrightarrow> typed_db (e_pj E) s'"
  "instance_delete E i s = (q, s') \<Longrightarrow> typed_db P s \<Longrightarrow> typed_db P s'"
  "setStatusCAS E i a b s = (rx, s') \<Longrightarrow> typed_db (e_pj E) s \<Longrightarrow> typed_db (e_pj E) s'"
  "markDeleting E i s = (rx, s') \<Longrightarrow> typed_db (e_pj E) s \<Longrightarrow> typed_db (e_pj E) s'"
  "mergeMetadata E i del up s = (rx, s') \<Longrightarrow> typed_db (e_pj E) s \<Longrightarrow> typed_db (e_pj E) s'"
proof -
  show "typed_db (e_pj E) s'" if h: "instance_insert E x s = (rx, s')" "typed_db (e_pj E) s"
  proof (cases rx)
    case (Inl e)
    then show ?thesis using h instance_insert_err by blast
  next
    case (Inr x')
    then show ?thesis using instance_insert_ok [OF h(1) [unfolded Inr]] h(2) by (auto simp: typed_db_def intro: typed_insert)
  qed
  show "typed_db (e_pj E) s'" if h: "instance_update E x lab ch s = (rx, s')" "typed_db (e_pj E) s"
  proof (cases rx)
    case (Inl e)
    then show ?thesis using h instance_update_err by blast
  next
    case (Inr x')
    then show ?thesis using instance_update_ok [OF h(1) [unfolded Inr]] h(2) by (auto simp: typed_db_def intro: typed_update)
  qed
  show "typed_db P s'" if h: "instance_delete E i s = (q, s')" "typed_db P s"
  proof (cases q)
    case (Inl e)
    then show ?thesis using h instance_delete_error by blast
  next
    case (Inr u)
    then show ?thesis using instance_delete_ok [of E i s s'] h by (auto simp: typed_db_def intro: typed_delete)
  qed
  show "typed_db (e_pj E) s'" if h: "setStatusCAS E i a b s = (rx, s')" "typed_db (e_pj E) s"
  proof (cases rx)
    case (Inl e)
    then show ?thesis using h setStatusCAS_err by blast
  next
    case (Inr x')
    then show ?thesis using setStatusCAS_ok [OF h(1) [unfolded Inr]] h(2) by (auto simp: typed_db_def intro: typed_update)
  qed
  show "typed_db (e_pj E) s'" if h: "markDeleting E i s = (rx, s')" "typed_db (e_pj E) s"
  proof (cases rx)
    case (Inl e)
    then show ?thesis using h markDeleting_err by blast
  next
    case (Inr x')
    then show ?thesis using markDeleting_ok [OF h(1) [unfolded Inr]] h(2) by (auto simp: typed_db_def intro: typed_update)
  qed
  show "typed_db (e_pj E) s'" if h: "mergeMetadata E i del up s = (rx, s')" "typed_db (e_pj E) s"
  proof (cases rx)
    case (Inl e)
    then show ?thesis using h mergeMetadata_err by blast
  next
    case (Inr x')
    then show ?thesis using mergeMetadata_ok [OF h(1) [unfolded Inr]] h(2) by (auto simp: typed_db_def intro: typed_update)
  qed
qed

lemmas writes_typed = disk_writes_typed image_writes_typed snapshot_writes_typed instance_writes_typed

lemma db_write_typed: "db_write P s s' \<Longrightarrow> typed_db P s \<Longrightarrow> typed_db P s'"
  by (induction rule: db_write.induct) (blast intro: writes_typed)+

lemma typed_empty: "typed_db P empty_db"
  by (simp add: typed_db_def typed_table_def empty_db_def table_ok_def uq_distinct_def sql_select_def)

lemma reachable_typed: "(db_write P)\<^sup>*\<^sup>* empty_db s \<Longrightarrow> typed_db P s"
  by (induction rule: rtranclp_induct) (auto intro: typed_empty db_write_typed)

text \<open>Reading a well-typed row fails only when there is none.\<close>

lemma typed_get:
  assumes "typed_table pk uq chk scan t" "get_row kind scan i (sql_select pk i t) = Inl e"
  shows "is_sentinel e ErrNotFound"
proof (cases "sql_select pk i t")
  case None
  then show ?thesis using assms(2) get_row_None [of kind scan i] by simp
next
  case (Some r)
  then obtain x where "scan r = Inr x" using assms(1) by (auto simp: typed_table_def is_ok_iff)
  then show ?thesis using assms(2) Some by (simp add: get_row_Some)
qed

text \<open>C17: The database is well typed along every sequence of repository writes from an
  empty one: in the tables of disks, images, snapshots and instances ids are
  unique, names are unique where the index says so, the CHECK constraints hold,
  and every row is read back by the scan of its repository, so that a Get over
  a working connection fails only with NOT_FOUND.\<close>

theorem stored_rows_well_typed:
  assumes "(db_write P)\<^sup>*\<^sup>* empty_db s" "e_pj E = P"
  shows "disks_ok (disks s) \<and> images_ok (images s) \<and> snapshots_ok (snapshots s) \<and> instances_ok (instances s)
    \<and> (\<forall>i e. disk_get (calm E) i s = Inl e \<longrightarrow> is_sentinel e ErrNotFound)
    \<and> (\<forall>i e. image_get (calm E) i s = Inl e \<longrightarrow> is_sentinel e ErrNotFound)
    \<and> (\<forall>i e. snapshot_get (calm E) i s = Inl e \<longrightarrow> is_sentinel e ErrNotFound)
    \<and> (\<forall>i e. instance_get (calm E) i s = Inl e \<longrightarrow> is_sentinel e ErrNotFound)"
proof -
  have t: "typed_disks (e_pj E) (disks s)" "typed_images (e_pj E) (images s)" "typed_snapshots (e_pj E) (snapshots s)"
    "typed_instances (e_pj E) (instances s)"
    using reachable_typed [OF assms(1)] assms(2) by (simp_all add: typed_db_def)
  have "disks_ok (disks s) \<and> images_ok (images s) \<and> snapshots_ok (snapshots s) \<and> instances_ok (instances s)"
    using t by (simp add: typed_table_def)
  then show ?thesis
    using typed_get [OF t(1)] typed_get [OF t(2)] typed_get [OF t(3)] typed_get [OF t(4)] by (simp add: calm_get)
qed

theorem stored_rows_well_typed_witness:
  "let s = snd (disk_insert fx_env fx_disk empty_db) in
   disks_ok (disks s) \<and> (\<exists>d. disk_get (calm fx_env) ''dsk1'' s = Inr d)"
proof -
  let ?s = "snd (disk_insert fx_env fx_disk empty_db)"
  have "(db_write fx_pj)\<^sup>*\<^sup>* empty_db ?s"
    by (rule r_into_rtranclp) (rule disk_inserted [of fx_env _ fx_disk _ "fst (disk_insert fx_env fx_disk empty_db)"], simp_all)
  note p = stored_rows_well_typed [OF this, of fx_env]
  have "case disk_get (calm fx_env) ''dsk1'' ?s of Inl e \<Rightarrow> \<not> is_sentinel e ErrNotFound | Inr _ \<Rightarrow> True" by code_simp
  then show ?thesis using p by (cases "disk_get (calm fx_env) ''dsk1'' ?s") (auto simp: Let_def)
qed

end
