(* ===== verification/DiskRefinement.thy ===== *)
theory DiskRefinement
  imports StoredRows
begin

text \<open>
  DiskRepo against its abstract specification: a finite map from ids to disks with one
  rule for names. Every method, run on a well-typed table by a driver that does not fail,
  does to the map it stores what the specification says, and answers what it says.
\<close>

section \<open>The specification\<close>

type_synonym disk_map = "string \<Rightarrow> disk option"

datatype disk_call =
    Read string
  | Insert disk
  | Change disk bool "string list"
  | Move string string
  | Remove string

text \<open>A non-empty name belongs to one disk of a project.\<close>

definition taken :: "string \<Rightarrow> string \<Rightarrow> string \<Rightarrow> disk_map \<Rightarrow> bool" where
  "taken i p n m \<longleftrightarrow> n \<noteq> '''' \<and> (\<exists>j d. j \<noteq> i \<and> m j = Some d \<and> d_project_id d = p \<and> d_name d = n)"

definition masked :: "disk \<Rightarrow> string list \<Rightarrow> disk \<Rightarrow> disk" where
  "masked d ch old = old\<lparr>
     d_name := (if ''name'' \<in> set ch then d_name d else d_name old),
     d_description := (if ''description'' \<in> set ch then d_description d else d_description old),
     d_labels := (if ''labels'' \<in> set ch then d_labels d else d_labels old),
     d_size := (if ''size'' \<in> set ch then d_size d else d_size old),
     d_placement_policy := (if ''disk_placement_policy'' \<in> set ch then d_placement_policy d else d_placement_policy old) \<rparr>"

fun disk_spec :: "disk_call \<Rightarrow> disk_map \<Rightarrow> (sentinel + disk option) \<times> disk_map" where
  "disk_spec (Read i) m = (case m i of None \<Rightarrow> Inl ErrNotFound | Some d \<Rightarrow> Inr (Some d), m)"
| "disk_spec (Insert d) m =
    (if m (d_id d) \<noteq> None \<or> taken (d_id d) (d_project_id d) (d_name d) m then (Inl ErrAlreadyExists, m)
     else (let d' = d\<lparr> d_created_at := pg_time (d_created_at d) \<rparr> in (Inr (Some d'), m(d_id d \<mapsto> d'))))"
| "disk_spec (Change d emit ch) m =
    (case m (d_id d) of None \<Rightarrow> (Inl ErrNotFound, m)
     | Some old \<Rightarrow>
        if ''size'' \<in> set ch \<and> d_size d < d_size old then (Inl ErrFailedPrecondition, m)
        else if taken (d_id d) (d_project_id old) (d_name (masked d ch old)) m then (Inl ErrAlreadyExists, m)
        else (Inr (Some (masked d ch old)), m(d_id d \<mapsto> masked d ch old)))"
| "disk_spec (Move i z) m =
    (case m i of None \<Rightarrow> (Inl ErrNotFound, m)
     | Some old \<Rightarrow> (Inr (Some (old\<lparr> d_zone_id := z \<rparr>)), m(i \<mapsto> old\<lparr> d_zone_id := z \<rparr>)))"
| "disk_spec (Remove i) m = (case m i of None \<Rightarrow> (Inl ErrNotFound, m) | Some _ \<Rightarrow> (Inr None, m(i := None)))"

section \<open>The repository\<close>

fun disk_run :: "env \<Rightarrow> disk_call \<Rightarrow> db \<Rightarrow> (go_error + disk option) \<times> db" where
  "disk_run E (Read i) s = (map_res Some (disk_get E i s), s)"
| "disk_run E (Insert d) s = apfst (map_res Some) (disk_insert E d s)"
| "disk_run E (Change d emit ch) s = apfst (map_res Some) (disk_update E d emit ch s)"
| "disk_run E (Move i z) s = apfst (map_res Some) (disk_set_zone E i z s)"
| "disk_run E (Remove i) s = apfst (map_res (\<lambda>_. None)) (disk_delete E i s)"

text \<open>The class of an error, and the map a table stores.\<close>

definition kind :: "go_error \<Rightarrow> sentinel" where
  "kind e = (if is_sentinel e ErrNotFound then ErrNotFound else if is_sentinel e ErrAlreadyExists then ErrAlreadyExists
     else if is_sentinel e ErrInvalidArg then ErrInvalidArg else if is_sentinel e ErrFailedPrecondition then ErrFailedPrecondition
     else ErrInternal)"

definition abs_table :: "protojson \<Rightarrow> disk_row list \<Rightarrow> disk_map" where
  "abs_table P t i = (case disk_sel t i of None \<Rightarrow> None | Some r \<Rightarrow> (case scanDisk P r of Inl _ \<Rightarrow> None | Inr d \<Rightarrow> Some d))"

abbreviation abs_disks :: "protojson \<Rightarrow> db \<Rightarrow> disk_map" where
  "abs_disks P s \<equiv> abs_table P (disks s)"

text \<open>protojson writes every message.\<close>

definition protojson_total :: "protojson \<Rightarrow> bool" where
  "protojson_total P \<longleftrightarrow> (\<forall>p. pj_marshal P p \<noteq> None)"

lemma marshal_total: "protojson_total P \<Longrightarrow> \<exists>j. marshalProtoJSONB P m f = Inr j"
  by (cases m) (auto simp: marshalProtoJSONB_def protojson_total_def split: option.splits)

lemma kind_simps [simp]: "kind (Sentinel k) = k" "kind (Wrapped k m) = k"
  "kind (wrapPgErr r i NoRows) = ErrNotFound" "kind (wrapPgErr r i pg_unique) = ErrAlreadyExists"
proof -
  show "kind (Sentinel k) = k" "kind (Wrapped k m) = k" by (cases k; simp add: kind_def)+
  show "kind (wrapPgErr r i NoRows) = ErrNotFound" "kind (wrapPgErr r i pg_unique) = ErrAlreadyExists"
    by (simp_all add: kind_def wrapPgErr_def pg_unique_def isUniqueViolation_def)
qed

section \<open>Rows and disks\<close>

lemma abs_None [simp]: "disk_sel t i = None \<Longrightarrow> abs_table P t i = None"
  by (simp add: abs_table_def)

lemma abs_Some:
  assumes "typed_disks P t" "disk_sel t i = Some r"
  obtains d where "scanDisk P r = Inr d" "abs_table P t i = Some d"
proof -
  obtain d where "scanDisk P r = Inr d" using assms by (auto simp: typed_table_def is_ok_iff)
  then show thesis using that assms(2) by (simp add: abs_table_def)
qed

lemma abs_None_iff: "typed_disks P t \<Longrightarrow> abs_table P t i = None \<longleftrightarrow> disk_sel t i = None"
  by (cases "disk_sel t i") (auto elim: abs_Some)

lemma abs_upd: "(\<And>j. disk_sel t' j = (if j = i then Some r else disk_sel t j)) \<Longrightarrow> scanDisk P r = Inr d \<Longrightarrow>
    abs_table P t' = (abs_table P t)(i \<mapsto> d)"
  by (auto simp: abs_table_def)

lemma member_sel: "disks_ok t \<Longrightarrow> r \<in> set t \<longleftrightarrow> disk_sel t (dr_id r) = Some r"
  by (induction t) (auto simp: table_ok_def uq_distinct_def sql_select_def split: if_splits)

text \<open>The unique index sees a clash exactly when the name is taken.\<close>

lemma clash_taken:
  assumes "typed_disks P t"
  shows "uq_clash disk_uq r (filter (\<lambda>x. dr_id x \<noteq> i) t) \<longleftrightarrow> taken i (dr_project_id r) (dr_name r) (abs_table P t)"
proof
  assume "uq_clash disk_uq r (filter (\<lambda>x. dr_id x \<noteq> i) t)"
  then obtain x where x: "x \<in> set t" "dr_id x \<noteq> i" "dr_name r \<noteq> ''''" "dr_project_id x = dr_project_id r" "dr_name x = dr_name r"
    by (auto simp: uq_clash_def disk_uq_def name_key_def split: if_splits)
  have "disk_sel t (dr_id x) = Some x" using x(1) assms member_sel by (auto simp: typed_table_def)
  from abs_Some [OF assms this] obtain d where d: "scanDisk P x = Inr d" "abs_table P t (dr_id x) = Some d" .
  have "d_project_id d = dr_project_id r" "d_name d = dr_name r" using scanDisk_cols [OF d(1)] x(4,5) by simp_all
  then show "taken i (dr_project_id r) (dr_name r) (abs_table P t)"
    unfolding taken_def using x(2,3) d(2) by blast
next
  assume "taken i (dr_project_id r) (dr_name r) (abs_table P t)"
  then obtain j d where j: "dr_name r \<noteq> ''''" "j \<noteq> i" "abs_table P t j = Some d" "d_project_id d = dr_project_id r" "d_name d = dr_name r"
    by (auto simp: taken_def)
  then obtain x where x: "disk_sel t j = Some x" "scanDisk P x = Inr d"
    by (auto simp: abs_table_def split: option.splits sum.splits)
  then have x': "x \<in> set (filter (\<lambda>x. dr_id x \<noteq> i) t)" using sql_select_Some_D j(2) by fastforce
  have "disk_uq x = disk_uq r" "disk_uq r \<noteq> None" using j(1,4,5) scanDisk_cols [OF x(2)] by (simp_all add: disk_uq_def name_key_def)
  with x' show "uq_clash disk_uq r (filter (\<lambda>x. dr_id x \<noteq> i) t)" unfolding uq_clash_def by blast
qed

lemma clash_whole: "disk_sel t i = None \<Longrightarrow> filter (\<lambda>x. dr_id x \<noteq> i) t = t"
  by (auto simp: sql_select_None filter_id_conv)

lemma no_self_clash:
  assumes "typed_disks P t" "disk_sel t i = Some r"
  shows "\<not> uq_clash disk_uq r (filter (\<lambda>x. dr_id x \<noteq> i) t)"
proof
  assume "uq_clash disk_uq r (filter (\<lambda>x. dr_id x \<noteq> i) t)"
  then obtain x where x: "x \<in> set t" "dr_id x \<noteq> i" "disk_uq r \<noteq> None" "disk_uq x = disk_uq r" by (auto simp: uq_clash_def)
  have r: "r \<in> set t" "dr_id r = i" using sql_select_Some_D [OF assms(2)] by simp_all
  have "inj_on disk_uq (set (filter (\<lambda>r. disk_uq r \<noteq> None) t))"
    using assms(1) by (simp add: typed_table_def table_ok_def uq_distinct_def distinct_map)
  then have "x = r" using x r by (auto dest: inj_onD)
  then show False using x(2) r(2) by simp
qed

lemma scan_masked:
  assumes "protojson_ok P" "protojson_total P" "scanDisk P r = Inr old"
  shows "scanDisk P (disk_exec P d ch r) = Inr (masked d ch old)"
proof -
  obtain j where "marshalProtoJSONB P (d_placement_policy d) ''Disk.disk_placement_policy'' = Inr j" using marshal_total [OF assms(2)] by blast
  then show ?thesis using assms(3) proto_roundtrip [OF assms(1)]
    by (auto simp: scanDisk_def disk_exec_def masked_def)
qed

lemma scan_moved:
  assumes "scanDisk P r = Inr old"
  shows "scanDisk P (disk_set ''zone_id'' (VText z) r) = Inr (old\<lparr> d_zone_id := z \<rparr>)"
  using assms by (auto simp: scanDisk_def disk_set_simps)

section \<open>The methods\<close>

text \<open>Outside the driver's faults the emitters do not fail.\<close>

lemma emit_calm:
  "e_faults E = no_faults \<Longrightarrow> \<exists>s'. emitCompute E k i ev p s = Inr s' \<and> disks s' = disks s"
  "e_faults E = no_faults \<Longrightarrow> \<exists>s'. emitFGARegisterIntent E ev k i pr l s = Inr s' \<and> disks s' = disks s"
  by (auto simp: emitCompute_def emitFGARegisterIntent_def no_faults_def split: option.splits)

text \<open>One call refines the specification.\<close>

definition refines :: "env \<Rightarrow> disk_call \<Rightarrow> db \<Rightarrow> bool" where
  "refines E c s \<longleftrightarrow> (case disk_run E c s of (r, s') \<Rightarrow>
     (map_err kind r, abs_disks (e_pj E) s') = disk_spec c (abs_disks (e_pj E) s))"

lemma insert_clash:
  assumes "e_faults E = no_faults" "diskInsertArgs (e_pj E) d = Inr row" "sql_insert dr_id disk_uq disk_chk row (disks s) = Inl e"
  shows "disk_insert E d s = (Inl (wrapPgErr ''Disk'' (d_name d) e), s)"
  using assms by (simp add: disk_insert_def pre_tx_def in_tx_def no_faults_def run_query_def map_res_def scan_returning_def)

lemma insert_done:
  assumes "e_faults E = no_faults" "diskInsertArgs (e_pj E) d = Inr row" "sql_insert dr_id disk_uq disk_chk row (disks s) = Inr t"
    "scanDisk (e_pj E) row = Inr x"
  shows "\<exists>s'. disk_insert E d s = (Inr x, s') \<and> disks s' = t"
proof -
  obtain s1 where s1: "emitCompute E ''Disk'' (d_id x) ''CREATED'' (PDisk x) (s\<lparr> disks := t \<rparr>) = Inr s1" "disks s1 = t"
    using emit_calm(1) [OF assms(1)] by (metis (lifting) db.select_convs(1) db.surjective db.update_convs(1))
  obtain s2 where s2: "emitFGARegisterIntent E EventRegister ''Disk'' (d_id x) (d_project_id x) (d_labels x) s1 = Inr s2" "disks s2 = t"
    using emit_calm(2) [OF assms(1)] s1(2) by metis
  show ?thesis
    using assms s1(1) s2 by (simp add: disk_insert_def pre_tx_def in_tx_def no_faults_def run_query_def map_res_def scan_returning_def or_internal_def)
qed

lemma insert_refines:
  assumes "e_faults E = no_faults" "protojson_ok (e_pj E)" "protojson_total (e_pj E)" "typed_disks (e_pj E) (disks s)"
  shows "refines E (Insert d) s"
proof -
  let ?P = "e_pj E" and ?t = "disks s"
  obtain row where row: "diskInsertArgs ?P d = Inr row"
    using marshal_total [OF assms(3)] by (auto simp: diskInsertArgs_def) (metis bindE_simps(2))
  note cols = diskInsertArgs_cols [OF row] and scan = scanDisk_insertArgs [OF assms(2) row]
  have free: "disk_sel ?t (d_id d) = None \<Longrightarrow> uq_clash disk_uq row ?t = taken (d_id d) (d_project_id d) (d_name d) (abs_table ?P ?t)"
    using clash_taken [OF assms(4), of row "d_id d"] clash_whole cols by simp
  show ?thesis
  proof (cases "disk_sel ?t (d_id d) \<noteq> None \<or> uq_clash disk_uq row ?t")
    case True
    then have "disk_insert E d s = (Inl (wrapPgErr ''Disk'' (d_name d) pg_unique), s)"
      using insert_clash [OF assms(1) row] cols by (simp add: sql_insert_def disk_chk_def)
    then show ?thesis using True free abs_None_iff [OF assms(4)] by (auto simp: refines_def)
  next
    case False
    then have t: "sql_insert dr_id disk_uq disk_chk row ?t = Inr (?t @ [row])" using cols by (simp add: sql_insert_def disk_chk_def)
    obtain s' where s': "disk_insert E d s = (Inr (d\<lparr> d_created_at := pg_time (d_created_at d) \<rparr>), s')" "disks s' = ?t @ [row]"
      using insert_done [OF assms(1) row t scan] by blast
    have "abs_table ?P (?t @ [row]) = (abs_table ?P ?t)(d_id d \<mapsto> d\<lparr> d_created_at := pg_time (d_created_at d) \<rparr>)"
      using abs_upd [OF _ scan] sql_insert_select [OF t] cols by simp
    then show ?thesis using s' False free by (simp add: refines_def Let_def)
  qed
qed

lemma update_outcome:
  assumes "e_faults E = no_faults" "disk_update_set (e_pj E) d ch = Inr (u, sp)"
  shows "disk_update_stmt E (d_id d) u sp s = Inl e \<Longrightarrow> disk_update E d emit ch s = (Inl e, s)"
    "disk_update_stmt E (d_id d) u sp s = Inr (x, t) \<Longrightarrow> \<exists>s'. disk_update E d emit ch s = (Inr x, s')"
proof -
  show "disk_update E d emit ch s = (Inl e, s)" if "disk_update_stmt E (d_id d) u sp s = Inl e"
    using assms that by (simp add: disk_update_def pre_tx_def in_tx_def no_faults_def)
  assume st: "disk_update_stmt E (d_id d) u sp s = Inr (x, t)"
  obtain s1 where s1: "emitCompute E ''Disk'' (d_id x) ''UPDATED'' (PDisk x) (s\<lparr> disks := t \<rparr>) = Inr s1"
    using emit_calm(1) [OF assms(1)] by blast
  obtain s2 where s2: "emitFGARegisterIntent E EventRegister ''Disk'' (d_id x) (d_project_id x) (d_labels x) s1 = Inr s2"
    using emit_calm(2) [OF assms(1)] by blast
  show "\<exists>s'. disk_update E d emit ch s = (Inr x, s')"
    using assms st s1 s2 by (simp add: disk_update_def pre_tx_def in_tx_def no_faults_def or_internal_def)
qed

text \<open>The statement of Update, case by case.\<close>

lemma stmt_missing:
  assumes "e_faults E = no_faults" "disk_sel (disks s) i = None"
  shows "\<exists>e. disk_update_stmt E i u sp s = Inl e \<and> kind e = ErrNotFound"
  using assms by (simp add: disk_update_stmt_def run_query_def no_faults_def scan_row_def scan_returning_def sql_update_def map_res_def)

lemma stmt_clash:
  assumes "e_faults E = no_faults" "disk_sel (disks s) i = Some r" "\<not> us_empty u" "0 < sp \<Longrightarrow> size_le u sp r"
    "uq_clash disk_uq (us_exec disk_set u r) (filter (\<lambda>x. dr_id x \<noteq> i) (disks s))"
  shows "disk_update_stmt E i u sp s = Inl (wrapPgErr ''Disk'' i pg_unique)"
  using assms
  by (simp add: disk_update_stmt_def run_query_def no_faults_def scan_returning_def sql_update_def disk_chk_def pg_unique_def)

lemma stmt_done:
  assumes "e_faults E = no_faults" "disk_sel (disks s) i = Some r" "0 < sp \<Longrightarrow> size_le u sp r"
    "\<not> uq_clash disk_uq (us_exec disk_set u r) (filter (\<lambda>x. dr_id x \<noteq> i) (disks s))"
    "scanDisk (e_pj E) (us_exec disk_set u r) = Inr x" "us_empty u \<Longrightarrow> us_exec disk_set u r = r"
  shows "\<exists>t. disk_update_stmt E i u sp s = Inr (x, t)"
  using assms
  by (cases "us_empty u")
    (simp_all add: disk_update_stmt_def run_query_def no_faults_def scan_returning_def scan_row_def sql_update_def disk_chk_def map_res_def)

lemma update_refines:
  assumes "e_faults E = no_faults" "protojson_ok (e_pj E)" "protojson_total (e_pj E)" "typed_disks (e_pj E) (disks s)"
  shows "refines E (Change d emit ch) s"
proof -
  let ?P = "e_pj E" and ?t = "disks s" and ?i = "d_id d"
  obtain u sp where us: "disk_update_set ?P d ch = Inr (u, sp)"
    using marshal_total [OF assms(3)] by (auto simp: disk_update_set_def Let_def) (metis bindE_simps(2))
  note out = update_outcome [OF assms(1) us, of s] and sz = disk_update_size_param [OF us] and ex = disk_exec_us [OF us]
  show ?thesis
  proof (cases "disk_sel ?t ?i")
    case None
    obtain e where "disk_update_stmt E ?i u sp s = Inl e" "kind e = ErrNotFound" using stmt_missing [OF assms(1) None] by blast
    then show ?thesis using out(1) None by (simp add: refines_def)
  next
    case (Some r)
    obtain old where old: "scanDisk ?P r = Inr old" "abs_table ?P ?t ?i = Some old" using abs_Some [OF assms(4) Some] .
    note new = scan_masked [OF assms(2,3) old(1), of d ch]
    have clash: "uq_clash disk_uq (us_exec disk_set u r) (filter (\<lambda>x. dr_id x \<noteq> ?i) ?t)
        = taken ?i (d_project_id old) (d_name (masked d ch old)) (abs_table ?P ?t)"
      using clash_taken [OF assms(4), of "us_exec disk_set u r" ?i] ex scanDisk_cols [OF new] scanDisk_cols [OF old(1)] by simp
    have size: "d_size old = dr_size r" using scanDisk_cols [OF old(1)] by simp
    show ?thesis
    proof (cases "''size'' \<in> set ch \<and> d_size d < dr_size r")
      case True
      then have "disk_update E d emit ch s = (Inl (Wrapped ErrFailedPrecondition ''Disk size can only be increased''), s)"
        using disk_update_shrink [OF Some _ _ assms(1) us] by blast
      then show ?thesis using True old size by (simp add: refines_def)
    next
      case False
      then have le: "0 < sp \<Longrightarrow> size_le u sp r" using sz by (auto simp: size_le_def)
      have same: "us_empty u \<Longrightarrow> us_exec disk_set u r = r" using disk_exec_empty [OF us] ex by simp
      show ?thesis
      proof (cases "taken ?i (d_project_id old) (d_name (masked d ch old)) (abs_table ?P ?t)")
        case True
        then have "\<not> us_empty u" using clash same no_self_clash [OF assms(4) Some] by auto
        then have "disk_update E d emit ch s = (Inl (wrapPgErr ''Disk'' ?i pg_unique), s)"
          using out(1) stmt_clash [OF assms(1) Some _ le] True clash by blast
        then show ?thesis using True False old size by (simp add: refines_def)
      next
        case fr: False
        then obtain s' where s': "disk_update E d emit ch s = (Inr (masked d ch old), s')"
          using out(2) stmt_done [OF assms(1) Some le _ _ same] clash new ex by metis
        obtain t where "\<forall>j. disk_sel t j = (if j = ?i then Some (disk_exec ?P d ch r) else disk_sel ?t j)" "disks s' = t"
          using disk_update_ok [OF s'] Some by auto
        then have "abs_disks ?P s' = (abs_table ?P ?t)(?i \<mapsto> masked d ch old)" using abs_upd [OF _ new] by simp
        then show ?thesis using s' fr False old size by (simp add: refines_def)
      qed
    qed
  qed
qed

lemma move_refines:
  assumes "e_faults E = no_faults" "typed_disks (e_pj E) (disks s)"
  shows "refines E (Move i z) s"
proof (cases "disk_sel (disks s) i")
  case None
  then have "disk_set_zone E i z s = (Inl (wrapPgErr ''Disk'' i NoRows), s)"
    using assms(1) by (simp add: disk_set_zone_def in_tx_def no_faults_def run_query_def scan_returning_def sql_update_def)
  then show ?thesis using None by (simp add: refines_def)
next
  case (Some r)
  let ?f = "disk_set ''zone_id'' (VText z)"
  obtain old where old: "scanDisk (e_pj E) r = Inr old" "abs_table (e_pj E) (disks s) i = Some old" using abs_Some [OF assms(2) Some] .
  note new = scan_moved [OF old(1), of z]
  have "disk_uq (?f r) = disk_uq r" by (simp add: disk_set_simps disk_uq_def)
  then have "\<not> uq_clash disk_uq (?f r) (filter (\<lambda>x. dr_id x \<noteq> i) (disks s))"
    using no_self_clash [OF assms(2) Some] by (simp add: uq_clash_def)
  then obtain t where t: "sql_update dr_id disk_uq disk_chk i (\<lambda>_. True) ?f (disks s) = Inr (Some (?f r, t))"
    using Some by (simp add: sql_update_def disk_chk_def)
  obtain s1 where "emitCompute E ''Disk'' (d_id (old\<lparr> d_zone_id := z \<rparr>)) ''UPDATED'' (PDisk (old\<lparr> d_zone_id := z \<rparr>)) (s\<lparr> disks := t \<rparr>) = Inr s1"
    using emit_calm(1) [OF assms(1)] by blast
  then have run: "disk_set_zone E i z s = (Inr (old\<lparr> d_zone_id := z \<rparr>), s1)"
    using t new assms(1) by (simp add: disk_set_zone_def in_tx_def no_faults_def run_query_def scan_returning_def or_internal_def)
  have "disks s1 = t" using disk_set_zone_ok [OF run] t by auto
  moreover have "abs_table (e_pj E) t = (abs_table (e_pj E) (disks s))(i \<mapsto> old\<lparr> d_zone_id := z \<rparr>)"
    by (rule abs_upd [OF _ new]) (rule disk_store.upd_sel [OF t], simp add: disk_set_simps)
  ultimately show ?thesis using run old(2) by (simp add: refines_def)
qed

lemma remove_refines:
  assumes "e_faults E = no_faults" "typed_disks (e_pj E) (disks s)"
  shows "refines E (Remove i) s"
proof (cases "disk_sel (disks s) i")
  case None
  then have "\<exists>e. disk_delete E i s = (Inl e, s) \<and> kind e = ErrNotFound"
    using assms(1) by (simp add: disk_delete_def in_tx_def no_faults_def run_query_def scan_returning_def sql_delete_def disk_delete_err_def)
  then show ?thesis using None by (auto simp: refines_def)
next
  case (Some r)
  obtain old where old: "abs_table (e_pj E) (disks s) i = Some old" using abs_Some [OF assms(2) Some] .
  obtain t where t: "sql_delete dr_id i (disks s) = Some (r, t)" using Some by (simp add: sql_delete_def)
  obtain s1 where s1: "emitCompute E ''Disk'' i ''DELETED'' (PId i) (s\<lparr> disks := t \<rparr>) = Inr s1"
    using emit_calm(1) [OF assms(1)] by blast
  obtain s2 where s2: "emitFGARegisterIntent E EventUnregister ''Disk'' i (dr_project_id r) None s1 = Inr s2"
    using emit_calm(2) [OF assms(1)] by blast
  have run: "disk_delete E i s = (Inr (), s2)"
    using t s1 s2 assms(1) by (simp add: disk_delete_def in_tx_def no_faults_def run_query_def scan_returning_def or_internal_def)
  have "disks s2 = t" using disk_delete_ok [OF run] t by auto
  moreover have "abs_table (e_pj E) t = (abs_table (e_pj E) (disks s))(i := None)"
    using disk_store.del_sel [OF t] by (auto simp: abs_table_def)
  ultimately show ?thesis using run old by (simp add: refines_def)
qed

lemma read_refines:
  assumes "e_faults E = no_faults" "typed_disks (e_pj E) (disks s)"
  shows "refines E (Read i) s"
proof (cases "disk_sel (disks s) i")
  case None
  then show ?thesis using assms(1) by (simp add: refines_def disk_get_def run_query_def no_faults_def scan_row_def map_res_def)
next
  case (Some r)
  obtain d where "scanDisk (e_pj E) r = Inr d" "abs_table (e_pj E) (disks s) i = Some d" using abs_Some [OF assms(2) Some] .
  then show ?thesis using assms(1) Some by (simp add: refines_def disk_get_def run_query_def no_faults_def scan_row_def)
qed

lemma call_refines:
  assumes "e_faults E = no_faults" "protojson_ok (e_pj E)" "protojson_total (e_pj E)" "typed_disks (e_pj E) (disks s)"
  shows "refines E c s"
  using insert_refines [OF assms] update_refines [OF assms] move_refines [OF assms(1,4)] remove_refines [OF assms(1,4)]
    read_refines [OF assms(1,4)] by (cases c) simp_all

section \<open>Sequences of calls\<close>

text \<open>Each call has an environment of its own: the time, the sequence number.\<close>

fun disk_runs :: "(env \<times> disk_call) list \<Rightarrow> db \<Rightarrow> (go_error + disk option) list \<times> db" where
  "disk_runs [] s = ([], s)"
| "disk_runs ((E, c) # cs) s =
    (case disk_run E c s of (r, s1) \<Rightarrow> (case disk_runs cs s1 of (rs, s2) \<Rightarrow> (r # rs, s2)))"

fun disk_specs :: "disk_call list \<Rightarrow> disk_map \<Rightarrow> (sentinel + disk option) list \<times> disk_map" where
  "disk_specs [] m = ([], m)"
| "disk_specs (c # cs) m =
    (case disk_spec c m of (r, m1) \<Rightarrow> (case disk_specs cs m1 of (rs, m2) \<Rightarrow> (r # rs, m2)))"

definition working :: "protojson \<Rightarrow> env \<Rightarrow> bool" where
  "working P E \<longleftrightarrow> e_faults E = no_faults \<and> e_pj E = P"

lemma run_typed: "disk_run E c s = (r, s') \<Longrightarrow> typed_db (e_pj E) s \<Longrightarrow> typed_db (e_pj E) s'"
  by (cases c) (auto simp: apfst_def map_prod_def intro: disk_writes_typed split: prod.splits)

text \<open>C7: DiskRepo is a finite map of disks with unique names. Over a working database, any
  sequence of Get, Insert, Update, SetZoneIfDetached and Delete from any state that the
  repositories can reach answers, call by call, what the same calls on a map of disks answer,
  errors by their class, and leaves a table that stores the resulting map: an id or a name that is
  taken is refused, an update writes the fields of its mask only and never shrinks a disk, and
  whatever fails changes nothing.\<close>

theorem disk_repo_refines_map:
  assumes "(db_write P)\<^sup>*\<^sup>* empty_db s" "protojson_ok P" "protojson_total P" "\<forall>(E, c)\<in>set cs. working P E"
    "disk_runs cs s = (rs, s')" "disk_specs (List.map snd cs) (abs_disks P s) = (qs, m')"
  shows "List.map (map_err kind) rs = qs \<and> abs_disks P s' = m'"
  using reachable_typed [OF assms(1)] assms(4-6)
proof (induction cs arbitrary: s rs qs)
  case (Cons ec cs)
  obtain E c where ec: "ec = (E, c)" by (cases ec)
  have E: "e_faults E = no_faults" "e_pj E = P" using Cons.prems(2) ec by (simp_all add: working_def)
  obtain r s1 rs1 where r: "disk_run E c s = (r, s1)" "disk_runs cs s1 = (rs1, s')" "rs = r # rs1"
    using Cons.prems(3) ec by (auto split: prod.splits)
  obtain q m1 qs1 where q: "disk_spec c (abs_disks P s) = (q, m1)" "disk_specs (List.map snd cs) m1 = (qs1, m')" "qs = q # qs1"
    using Cons.prems(4) ec by (auto split: prod.splits)
  have "refines E c s" using call_refines E Cons.prems(1) assms(2,3) by (simp add: typed_db_def)
  then have "map_err kind r = q" "abs_disks P s1 = m1" using r(1) q(1) E(2) by (simp_all add: refines_def)
  moreover have "typed_db P s1" using run_typed [OF r(1)] Cons.prems(1) E(2) by simp
  ultimately show ?case using Cons.IH [of s1 rs1 qs1] Cons.prems(2) r q by simp
qed simp

definition fx_disk_calls :: "disk_call list" where
  "fx_disk_calls = [Insert fx_disk, Insert (fx_disk\<lparr> d_id := ''dsk2'' \<rparr>), Change (fx_disk\<lparr> d_size := 4194304 \<rparr>) False [''size''],
     Move ''dsk1'' ''zone-b'', Remove ''dsk1'', Read ''dsk1'']"

lemma fx_disk_calls_run:
  "List.map (map_res (\<lambda>_. ())) (List.map (map_err kind) (fst (disk_runs (List.map (Pair fx_env) fx_disk_calls) empty_db)))
   = [Inr (), Inl ErrAlreadyExists, Inl ErrFailedPrecondition, Inr (), Inr (), Inl ErrNotFound]"
  by code_simp

theorem disk_repo_refines_map_witness:
  "\<exists>qs m. disk_specs fx_disk_calls (\<lambda>_. None) = (qs, m)
     \<and> List.map (map_res (\<lambda>_. ())) qs = [Inr (), Inl ErrAlreadyExists, Inl ErrFailedPrecondition, Inr (), Inr (), Inl ErrNotFound]"
proof -
  obtain rs s' where r: "disk_runs (List.map (Pair fx_env) fx_disk_calls) empty_db = (rs, s')" by fastforce
  obtain qs m where q: "disk_specs fx_disk_calls (abs_disks fx_pj empty_db) = (qs, m)" by fastforce
  have "protojson_total fx_pj" by (simp add: protojson_total_def fx_pj_def)
  moreover have "disk_specs (List.map snd (List.map (Pair fx_env) fx_disk_calls)) (abs_disks fx_pj empty_db) = (qs, m)"
    using q by (simp add: comp_def)
  ultimately have "List.map (map_err kind) rs = qs"
    using disk_repo_refines_map [OF rtranclp.rtrancl_refl fx_pj_ok _ _ r] by (auto simp: working_def)
  moreover have "abs_disks fx_pj empty_db = (\<lambda>_. None)" by (simp add: fun_eq_iff abs_table_def empty_db_def sql_select_def)
  ultimately show ?thesis using fx_disk_calls_run r q by auto
qed

end
