(* ===== verification/Findings.thy ===== *)
theory Findings
  imports Opaque
begin

text \<open>
  What the code does in the places where it departs from its intent or its comments, for
  the departures that no property of another theory shows: full updates are not validated, a
  database fault has one code in Get and another in List, the errors of the list filter and of
  the repository of operations reach the caller with their text, an equal size passes the check of
  an increase, and the boot flag of an attach is lost in the handler.
\<close>

section \<open>Full updates are not validated\<close>

text \<open>The checks of name, description and labels range over the mask; an empty mask, which
  means all fields, names none.\<close>

lemma empty_mask_validates_nothing:
  "ud_mask d = [] \<Longrightarrow> validateDiskUpdate C d = cl_update_mask C ''update_mask'' [] disk_full_mask"
  "ui_mask i = [] \<Longrightarrow> validateImageUpdate C i = cl_update_mask C ''update_mask'' [] image_full_mask"
  "us_mask s = [] \<Longrightarrow> validateSnapshotUpdate C s = cl_update_mask C ''update_mask'' [] snapshot_full_mask"
  "uv_mask v = [] \<Longrightarrow> validateInstanceUpdate C v = cl_update_mask C ''update_mask'' [] instance_known_mask"
  by (simp_all add: validateDiskUpdate_def validateImageUpdate_def validateSnapshotUpdate_def
      validateInstanceUpdate_def or_else_def split: option.splits)

lemma full_update_writes_request:
  assumes "ud_mask req = []" "ud_size req = 0" "diskGet (ds_repo D) (ud_disk_id req) s = Inr d"
  shows "disk_do_update D req s = finish AnyDisk (diskUpdate (ds_repo D)
      (d\<lparr> d_name := ud_name req, d_description := ud_description req, d_labels := ud_labels req,
          d_placement_policy := ud_placement_policy req \<rparr>)
      True [''name'', ''description'', ''labels'', ''disk_placement_policy''] s)"
  using assms by (simp add: disk_do_update_def disk_full_mask_def)

text \<open>A name that Create refuses is stored by a full Update.\<close>

theorem invalid_name_stored:
  assumes "cl_name (ds_core D) ''name'' (ud_name req) = Some e" "cd_name c = ud_name req" "cd_project_id c \<noteq> ''''"
    and "cl_update_mask (ds_core D) ''update_mask'' [] disk_full_mask = None"
    and "ud_mask req = []" "ud_size req = 0" "ud_disk_id req \<noteq> ''''"
    and "diskGet (ds_repo D) (ud_disk_id req) s = Inr d"
    and "disk_service_update D O1 req = Inr (op1, wk)"
  shows "\<exists>e'. disk_service_create D O1 now i c = Inl e'"
    and "\<exists>d'. d_name d' = ud_name req \<and> d_id d' = d_id d
      \<and> wk s = finish AnyDisk (diskUpdate (ds_repo D) d' True [''name'', ''description'', ''labels'', ''disk_placement_policy''] s)"
proof -
  show "\<exists>e'. disk_service_create D O1 now i c = Inl e'"
    using assms(1-3) by (simp add: disk_service_create_def guardE_def)
  have wk: "wk = disk_do_update D req"
    using assms(4,5,7,9) empty_mask_validates_nothing(1) [OF assms(5)]
    by (auto simp: disk_service_update_def guardE_def runOp_def split: option.splits if_splits sum.splits)
  show "\<exists>d'. d_name d' = ud_name req \<and> d_id d' = d_id d
      \<and> wk s = finish AnyDisk (diskUpdate (ds_repo D) d' True [''name'', ''description'', ''labels'', ''disk_placement_policy''] s)"
    unfolding wk full_update_writes_request [OF assms(5,6,8)] by (rule exI, intro conjI, rule_tac [3] refl) simp_all
qed

section \<open>A database fault in List\<close>

text \<open>The sentinel of a failed statement reaches the client of List as Unknown and that of Get as
  Internal.\<close>

lemma wrapPgErr_internal_kind: "wrapPgErr k i e = Sentinel ErrInternal \<Longrightarrow> wrapPgErr k' i' e = Sentinel ErrInternal"
  by (simp add: wrapPgErr_def split: if_splits)

theorem list_fault_is_unmapped:
  assumes "f_query (e_faults E) = Some e" "wrapPgErr ''Disk'' '''' e = Sentinel ErrInternal"
    and "lf_project_id f \<noteq> ''''" "lf_allowed_ids f \<noteq> Some []" "cl_page_size C (pg_size p) = Inr n"
    and "parse_list_filter C f = Inr ast" "parse_token (pg_token p) = Inr c"
  shows "map_err wire_code (disk_service_list (pg_disk_service C E P) f p s) = Inl Unknown"
    and "map_err wire_code (disk_service_get (pg_disk_service C E P) i s) = Inl Internal"
proof -
  show "map_err wire_code (disk_service_list (pg_disk_service C E P) f p s) = Inl Unknown"
    using assms by (simp add: disk_service_list_def pg_disk_service_def pg_disk_port_def disk_list_def repo_list_def
        disk_view_def run_query_def guardE_def wire_code_def)
  show "map_err wire_code (disk_service_get (pg_disk_service C E P) i s) = Inl Internal"
    using assms(1) wrapPgErr_internal_kind [OF assms(2)]
    by (simp add: disk_service_get_def pg_disk_service_def pg_disk_port_def disk_get_def run_query_def guardE_def
        mapRepoErr_def wire_code_def)
qed

lemma list_fault_is_unmapped_here:
  "map_err wire_code (disk_service_list
     (pg_disk_service fx_core (fx_env\<lparr> e_faults := no_faults\<lparr> f_query := Some (Plain ''conn closed'') \<rparr> \<rparr>) fx_peers)
     \<lparr> lf_project_id = ''prj1'', lf_filter = '''', lf_allowed_ids = None \<rparr> \<lparr> pg_token = '''', pg_size = 1 \<rparr> fx_db1) = Inl Unknown"
proof -
  have "wrapPgErr ''Disk'' '''' (Plain ''conn closed'') = Sentinel ErrInternal" by code_simp
  moreover have "\<exists>n ast c. cl_page_size fx_core (pg_size \<lparr> pg_token = '''', pg_size = 1 \<rparr>) = Inr n \<and> parse_list_filter fx_core \<lparr> lf_project_id = ''prj1'', lf_filter = '''', lf_allowed_ids = None \<rparr> = Inr ast
      \<and> parse_token (pg_token \<lparr> pg_token = '''', pg_size = 1 \<rparr>) = Inr c"
    by (simp add: fx_core_def parse_list_filter_def parse_token_def)
  moreover have "lf_project_id \<lparr> lf_project_id = ''prj1'', lf_filter = '''', lf_allowed_ids = None \<rparr> \<noteq> ''''" "lf_allowed_ids \<lparr> lf_project_id = ''prj1'', lf_filter = '''', lf_allowed_ids = None \<rparr> \<noteq> Some []" by simp_all
  ultimately show ?thesis by (elim exE conjE) (rule list_fault_is_unmapped(1) [where e = "Plain ''conn closed''"]; simp)
qed

section \<open>Errors that are not opaque\<close>

text \<open>The message of kacho-iam's ListObjects is part of the answer of a List.\<close>

theorem list_filter_error_reaches_caller:
  assumes "le_filter L = Some F" "fc_enabled (ff_cfg F)" "ff_cli F = Some cli" "\<not> fc_fail_open (ff_cfg F)"
    and "HasProjectAccess (TenantFromCtx ctx) (lq_project_id req)" "SubjectFromPrincipal ctx \<noteq> ''''"
    and "map_of m (cacheKey (SubjectFromPrincipal ctx) ResourceTypeDisk ActionDiskRead) = None"
    and "cli (snd (le_times L)) (list_objects_request F (SubjectFromPrincipal ctx) ResourceTypeDisk ActionDiskRead) = Inl (status c msg)"
    and "c \<noteq> OK" "c \<noteq> Unknown"
  shows "fst (disk_handler_list D L ctx req s m)
    = Inl (status Unavailable (''list filter: iam.ListObjects '' @ code_string c @ '': '' @ msg))"
  using assms
  by (simp add: AssertProjectOwnership_def disk_handler_list_def list_handler_def resolve_filter_def resolveListFilter_def ListAllowedIDs_def getCache_def
      handleErr_def contextDeadlineExceeded_def ResourceTypeDisk_def ActionDiskRead_def Let_def)

text \<open>So is the error of the insert of an operation, whatever it is.\<close>

theorem operation_error_reaches_caller:
  assumes "i \<noteq> ''''" "\<And>desc meta. \<exists>op1. oe_new O1 desc meta = Inr op1" "\<And>op1. oe_create O1 op1 = Some e"
  shows "disk_service_delete D O1 i = Inl e"
proof -
  obtain op1 where "oe_new O1 (''Delete disk '' @ i) \<lparr> om_type = ''DeleteDiskMetadata'', om_fields = [(''disk_id'', i)] \<rparr> = Inr op1"
    using assms(2) by blast
  then show ?thesis using assms(1,3) by (simp add: disk_service_delete_def runOp_def)
qed

section \<open>Sizes and the boot flag\<close>

text \<open>A size in the mask that equals the stored one is accepted.\<close>

theorem equal_size_is_accepted:
  assumes "ud_mask req = [''size'']" "ud_size req = d_size d" "d_size d \<le> diskSizeMaxUpdate"
    and "diskGet (ds_repo D) (ud_disk_id req) s = Inr d"
  shows "disk_do_update D req s = finish AnyDisk (diskUpdate (ds_repo D) d False [''size''] s)"
  using assms by (simp add: disk_do_update_def)

text \<open>Whatever the client sends, the use case is asked for a data volume.\<close>

theorem boot_flag_is_dropped: "\<not> ar_is_boot (attachDiskReqFromSpec spec)"
  by (simp add: attachDiskReqFromSpec_def split: option.splits)

end
