(* ===== verification/Metrics.thy ===== *)
theory Metrics
  imports Complex_Main Health
begin

text \<open>
  internal/observability/metrics: the private Prometheus registry, the recorder
  methods kacho-corelib and the readiness aggregator call, and what a scrape
  shows after them. A vector keeps one child per label value, created at zero by its
  first use; values are float64 and kept as rationals.
\<close>

section \<open>The registry\<close>

type_synonym vec = "string \<Rightarrow> rat option"

definition vec_inc :: "string \<Rightarrow> vec \<Rightarrow> vec" where
  "vec_inc l v = v(l \<mapsto> (case v l of None \<Rightarrow> 0 | Some x \<Rightarrow> x) + 1)"

definition vec_set :: "string \<Rightarrow> rat \<Rightarrow> vec \<Rightarrow> vec" where
  "vec_set l x v = v(l \<mapsto> x)"

record metrics =
  mt_terminal_retries :: vec
  mt_terminal_failures :: vec
  mt_orphans :: vec
  mt_reconcile_runs :: rat
  mt_reconcile_errors :: rat
  mt_inflight :: int
  mt_backlog :: vec
  mt_oldest :: vec
  mt_poison_cur :: vec
  mt_poison_tot :: vec
  mt_dependency_up :: vec
  mt_build_info :: "string \<times> string"

definition terminal_retries_name :: string where
  "terminal_retries_name = ''kacho_compute_operations_terminal_write_retries_total''"
definition terminal_failures_name :: string where
  "terminal_failures_name = ''kacho_compute_operations_terminal_write_failures_total''"
definition orphans_name :: string where "orphans_name = ''kacho_compute_operations_orphans_recovered_total''"
definition reconcile_runs_name :: string where "reconcile_runs_name = ''kacho_compute_operations_reconcile_runs_total''"
definition reconcile_errors_name :: string where "reconcile_errors_name = ''kacho_compute_operations_reconcile_errors_total''"
definition backlog_name :: string where "backlog_name = ''kacho_compute_outbox_backlog_depth''"
definition oldest_name :: string where "oldest_name = ''kacho_compute_outbox_oldest_pending_age_seconds''"
definition poison_cur_name :: string where "poison_cur_name = ''kacho_compute_outbox_poisoned_current''"
definition poison_tot_name :: string where "poison_tot_name = ''kacho_compute_outbox_poisoned_total''"
definition dependency_up_name :: string where "dependency_up_name = ''kacho_compute_dependency_up''"
definition build_info_name :: string where "build_info_name = ''kacho_compute_build_info''"
definition lro_active_name :: string where "lro_active_name = ''kacho_compute_lro_workers_active''"

lemmas metric_names = terminal_retries_name_def terminal_failures_name_def orphans_name_def reconcile_runs_name_def
  reconcile_errors_name_def backlog_name_def oldest_name_def poison_cur_name_def poison_tot_name_def
  dependency_up_name_def build_info_name_def lro_active_name_def

text \<open>The collectors in the order they are registered. MustRegister panics on a name that is taken;
  \<^verbatim>\<open>runtime\<close> are the names of the Go and process collectors.\<close>

definition own_collectors :: "string list" where
  "own_collectors = [terminal_retries_name, terminal_failures_name, orphans_name, reconcile_runs_name,
     reconcile_errors_name, backlog_name, oldest_name, poison_cur_name, poison_tot_name, dependency_up_name,
     build_info_name, lro_active_name]"

fun must_register :: "string list \<Rightarrow> string list \<Rightarrow> string list option" where
  "must_register [] reg = Some reg"
| "must_register (n # ns) reg = (if n \<in> set reg then None else must_register ns (reg @ [n]))"

definition NewMetrics :: "string list \<Rightarrow> string \<Rightarrow> string \<Rightarrow> metrics option" where
  "NewMetrics runtime version commit =
    (case must_register (runtime @ own_collectors) [] of
       None \<Rightarrow> None
     | Some _ \<Rightarrow> Some \<lparr> mt_terminal_retries = (\<lambda>_. None), mt_terminal_failures = (\<lambda>_. None), mt_orphans = (\<lambda>_. None),
         mt_reconcile_runs = 0, mt_reconcile_errors = 0, mt_inflight = 0, mt_backlog = (\<lambda>_. None),
         mt_oldest = (\<lambda>_. None), mt_poison_cur = (\<lambda>_. None), mt_poison_tot = (\<lambda>_. None),
         mt_dependency_up = (\<lambda>_. None), mt_build_info = (version, commit) \<rparr>)"

section \<open>Recorder methods\<close>

definition IncTerminalWriteRetries :: "string \<Rightarrow> metrics \<Rightarrow> metrics" where
  "IncTerminalWriteRetries op m = m\<lparr> mt_terminal_retries := vec_inc op (mt_terminal_retries m) \<rparr>"

definition IncTerminalWriteFailures :: "string \<Rightarrow> metrics \<Rightarrow> metrics" where
  "IncTerminalWriteFailures op m = m\<lparr> mt_terminal_failures := vec_inc op (mt_terminal_failures m) \<rparr>"

text \<open>int64(n) of a float64 cuts off the fraction.\<close>

definition cut_fraction :: "rat \<Rightarrow> int" where
  "cut_fraction n = (if 0 \<le> n then \<lfloor>n\<rfloor> else \<lceil>n\<rceil>)"

definition SetInflight :: "rat \<Rightarrow> metrics \<Rightarrow> metrics" where
  "SetInflight n m = m\<lparr> mt_inflight := cut_fraction n \<rparr>"

definition IncOrphansRecovered :: "string \<Rightarrow> metrics \<Rightarrow> metrics" where
  "IncOrphansRecovered outcome m = m\<lparr> mt_orphans := vec_inc outcome (mt_orphans m) \<rparr>"

definition IncReconcileRuns :: "metrics \<Rightarrow> metrics" where
  "IncReconcileRuns m = m\<lparr> mt_reconcile_runs := mt_reconcile_runs m + 1 \<rparr>"

definition IncReconcileErrors :: "metrics \<Rightarrow> metrics" where
  "IncReconcileErrors m = m\<lparr> mt_reconcile_errors := mt_reconcile_errors m + 1 \<rparr>"

definition SetBacklogDepth :: "string \<Rightarrow> rat \<Rightarrow> metrics \<Rightarrow> metrics" where
  "SetBacklogDepth table depth m = m\<lparr> mt_backlog := vec_set table depth (mt_backlog m) \<rparr>"

definition SetOldestPendingAgeSeconds :: "string \<Rightarrow> rat \<Rightarrow> metrics \<Rightarrow> metrics" where
  "SetOldestPendingAgeSeconds table age m = m\<lparr> mt_oldest := vec_set table age (mt_oldest m) \<rparr>"

definition SetPoisonedCount :: "string \<Rightarrow> rat \<Rightarrow> metrics \<Rightarrow> metrics" where
  "SetPoisonedCount table n m = m\<lparr> mt_poison_cur := vec_set table n (mt_poison_cur m) \<rparr>"

definition IncPoisoned :: "string \<Rightarrow> metrics \<Rightarrow> metrics" where
  "IncPoisoned table m = m\<lparr> mt_poison_tot := vec_inc table (mt_poison_tot m) \<rparr>"

definition SetDependencyUp :: "string \<Rightarrow> bool \<Rightarrow> metrics \<Rightarrow> metrics" where
  "SetDependencyUp dependency up m =
    m\<lparr> mt_dependency_up := vec_set dependency (if up then 1 else 0) (mt_dependency_up m) \<rparr>"

section \<open>What a scrape shows\<close>

text \<open>The sample of a family under a label value; families without a label use the empty one.\<close>

definition unlabelled :: "rat \<Rightarrow> vec" where
  "unlabelled x l = (if l = '''' then Some x else None)"

definition families :: "metrics \<Rightarrow> (string \<times> vec) list" where
  "families m =
    [(terminal_retries_name, mt_terminal_retries m), (terminal_failures_name, mt_terminal_failures m),
     (orphans_name, mt_orphans m), (reconcile_runs_name, unlabelled (mt_reconcile_runs m)),
     (reconcile_errors_name, unlabelled (mt_reconcile_errors m)), (backlog_name, mt_backlog m),
     (oldest_name, mt_oldest m), (poison_cur_name, mt_poison_cur m), (poison_tot_name, mt_poison_tot m),
     (dependency_up_name, mt_dependency_up m), (build_info_name, unlabelled 1),
     (lro_active_name, unlabelled (of_int (mt_inflight m)))]"

definition sample :: "metrics \<Rightarrow> string \<Rightarrow> string \<Rightarrow> rat option" where
  "sample m family label = (case map_of (families m) family of None \<Rightarrow> None | Some v \<Rightarrow> v label)"

section \<open>Registration\<close>

lemma must_register_iff: "must_register ns reg \<noteq> None \<longleftrightarrow> distinct ns \<and> set ns \<inter> set reg = {}"
  by (induction ns arbitrary: reg) auto

lemma own_collectors_ok: "distinct own_collectors \<and> list_all (\<lambda>n. has_prefix n ''kacho_compute_'') own_collectors"
  by code_simp

text \<open>The names of the service are distinct and carry its prefix, so New panics only on a
  clash among the runtime collectors or one of theirs with that prefix.\<close>

lemma NewMetrics_starts:
  assumes "distinct runtime" "\<forall>n\<in>set runtime. \<not> has_prefix n ''kacho_compute_''"
  shows "NewMetrics runtime version commit \<noteq> None"
proof -
  have "must_register (runtime @ own_collectors) [] \<noteq> None"
    unfolding must_register_iff using assms own_collectors_ok by (auto simp: list_all_iff)
  then show ?thesis by (auto simp: NewMetrics_def)
qed

section \<open>Scrapes after calls\<close>

datatype metric_call = TerminalWriteRetry string | TerminalWriteFailure string | Inflight rat | OrphanRecovered string
  | ReconcileRun | ReconcileError | BacklogDepth string rat | OldestPending string rat | PoisonedCount string rat
  | Poisoned string | DependencyUp string bool

fun record_call :: "metric_call \<Rightarrow> metrics \<Rightarrow> metrics" where
  "record_call (TerminalWriteRetry op) = IncTerminalWriteRetries op"
| "record_call (TerminalWriteFailure op) = IncTerminalWriteFailures op"
| "record_call (Inflight n) = SetInflight n"
| "record_call (OrphanRecovered outcome) = IncOrphansRecovered outcome"
| "record_call ReconcileRun = IncReconcileRuns"
| "record_call ReconcileError = IncReconcileErrors"
| "record_call (BacklogDepth table n) = SetBacklogDepth table n"
| "record_call (OldestPending table n) = SetOldestPendingAgeSeconds table n"
| "record_call (PoisonedCount table n) = SetPoisonedCount table n"
| "record_call (Poisoned table) = IncPoisoned table"
| "record_call (DependencyUp dependency up) = SetDependencyUp dependency up"

text \<open>What one call does to a sample.\<close>

datatype effect = Adds | Puts rat

fun effect_of :: "metric_call \<Rightarrow> string \<times> string \<times> effect" where
  "effect_of (TerminalWriteRetry op) = (terminal_retries_name, op, Adds)"
| "effect_of (TerminalWriteFailure op) = (terminal_failures_name, op, Adds)"
| "effect_of (Inflight n) = (lro_active_name, '''', Puts (of_int (cut_fraction n)))"
| "effect_of (OrphanRecovered outcome) = (orphans_name, outcome, Adds)"
| "effect_of ReconcileRun = (reconcile_runs_name, '''', Adds)"
| "effect_of ReconcileError = (reconcile_errors_name, '''', Adds)"
| "effect_of (BacklogDepth table n) = (backlog_name, table, Puts n)"
| "effect_of (OldestPending table n) = (oldest_name, table, Puts n)"
| "effect_of (PoisonedCount table n) = (poison_cur_name, table, Puts n)"
| "effect_of (Poisoned table) = (poison_tot_name, table, Adds)"
| "effect_of (DependencyUp dependency up) = (dependency_up_name, dependency, Puts (if up then 1 else 0))"

fun applied :: "effect \<Rightarrow> rat option \<Rightarrow> rat" where
  "applied Adds v = (case v of None \<Rightarrow> 0 | Some x \<Rightarrow> x) + 1"
| "applied (Puts x) v = x"

lemma families_distinct: "distinct (List.map fst (families m))"
proof -
  have "List.map fst (families m) = own_collectors" by (simp add: families_def own_collectors_def)
  then show ?thesis using own_collectors_ok by simp
qed

lemma sample_eq: "(f, v) \<in> set (families m) \<Longrightarrow> sample m f l = v l"
  using families_distinct [of m] by (simp add: sample_def)

text \<open>A recorder call moves its own sample and no other.\<close>

lemma record_call_sample:
  assumes "effect_of c = (f, l, e)"
  shows "sample (record_call c m) g k = (if g = f \<and> k = l then Some (applied e (sample m f l)) else sample m g k)"
proof -
  have d: "distinct own_collectors" using own_collectors_ok by blast
  show ?thesis
    using assms d [unfolded own_collectors_def]
    by (cases c) (auto simp: sample_def families_def unlabelled_def vec_inc_def vec_set_def
      IncTerminalWriteRetries_def IncTerminalWriteFailures_def SetInflight_def IncOrphansRecovered_def IncReconcileRuns_def
      IncReconcileErrors_def SetBacklogDepth_def SetOldestPendingAgeSeconds_def SetPoisonedCount_def IncPoisoned_def
      SetDependencyUp_def)
qed

text \<open>After a sequence of calls a counter is the number of its increments and a gauge its last value.\<close>

definition own_effects :: "string \<Rightarrow> string \<Rightarrow> metric_call list \<Rightarrow> effect list" where
  "own_effects f l cs = List.map (\<lambda>c. snd (snd (effect_of c))) (filter (\<lambda>c. fst (effect_of c) = f \<and> fst (snd (effect_of c)) = l) cs)"

lemma samples_of_calls:
  "sample (fold record_call cs m) f l = fold (\<lambda>e v. Some (applied e v)) (own_effects f l cs) (sample m f l)"
proof (induction cs arbitrary: m)
  case (Cons c cs)
  obtain g k e where "effect_of c = (g, k, e)" using prod_cases3 by blast
  then show ?case using Cons record_call_sample [of c g k e m f l] by (auto simp: own_effects_def)
qed (simp add: own_effects_def)

lemma counter_counts:
  assumes "set es \<subseteq> {Adds}"
  shows "fold (\<lambda>e v. Some (applied e v)) es v
    = (if es = [] then v else Some ((case v of None \<Rightarrow> 0 | Some x \<Rightarrow> x) + of_nat (size es)))"
  using assms by (induction es arbitrary: v) auto

lemma gauge_is_last:
  "e \<in> range Puts \<Longrightarrow> fold (\<lambda>e v. Some (applied e v)) (es @ [e]) v = Some (applied e None)"
  by auto

section \<open>The mirror of readiness\<close>

text \<open>New(checkers, WithResultObserver(SetDependencyUp)): every result of an evaluation reaches the gauge.\<close>

definition mirror_results :: "(string \<times> bool) list \<Rightarrow> metrics \<Rightarrow> metrics" where
  "mirror_results results = fold record_call (List.map (\<lambda>(n, up). DependencyUp n up) results)"

lemma mirror_sample:
  "sample (mirror_results results m) dependency_up_name n =
    (case map_of (rev results) n of None \<Rightarrow> sample m dependency_up_name n | Some up \<Rightarrow> Some (if up then 1 else 0))"
proof (induction results rule: rev_induct)
  case (snoc x xs)
  obtain k up where x: "x = (k, up)" by (cases x)
  have "mirror_results (xs @ [x]) m = record_call (DependencyUp k up) (mirror_results xs m)"
    by (simp add: mirror_results_def x)
  then show ?case using snoc record_call_sample [of "DependencyUp k up"] by (auto simp: x)
qed (simp add: mirror_results_def)

text \<open>After a readiness probe the gauge of each dependency says what the probe found, and the
  dependencies it answers as down are those whose gauge is zero.\<close>

lemma readiness_mirrored:
  fixes m :: metrics
  assumes d: "distinct (List.map fst checkers)" and p: "mset arrival = mset [0..<size checkers]"
    and ev: "Evaluate budget checkers arrival = (ready, down, results)"
  defines "m' \<equiv> mirror_results results m"
  shows "\<forall>k<size checkers. sample m' dependency_up_name (fst (checkers ! k))
      = Some (if runChecker budget (snd (checkers ! k)) then 1 else 0)"
    "set down = {n \<in> fst ` set checkers. sample m' dependency_up_name n = Some 0}"
proof -
  have r: "results = arrived budget checkers arrival" using ev by (simp add: Evaluate_def Let_def)
  show up: "\<forall>k<size checkers. sample m' dependency_up_name (fst (checkers ! k))
      = Some (if runChecker budget (snd (checkers ! k)) then 1 else 0)"
  proof (intro allI impI)
    fix k assume k: "k < size checkers"
    have "set arrival = set [0..<size checkers]" using p by (rule mset_eq_setD)
    then have "k \<in> set arrival" using k by (simp only: set_upt atLeast0LessThan lessThan_iff)
    moreover have "fst ` set results = (\<lambda>k. fst (checkers ! k)) ` set arrival"
      using arg_cong [OF arrived_fst [of budget checkers arrival], of set] by (simp only: set_map r)
    ultimately have "fst (checkers ! k) \<in> fst ` set results" using k by simp
    then obtain u where "map_of (rev results) (fst (checkers ! k)) = Some u"
      by (metis domD dom_map_of_conv_image_fst set_rev)
    then show "sample m' dependency_up_name (fst (checkers ! k)) = Some (if runChecker budget (snd (checkers ! k)) then 1 else 0)"
      using up_by_name_arrived [OF d p k, of budget] by (simp add: m'_def mirror_sample up_by_name_def r)
  qed
  have s: "sample m' dependency_up_name (fst x) = Some (if runChecker budget (snd x) then 1 else 0)" if "x \<in> set checkers" for x
    using that up by (metis in_set_conv_nth)
  have "set down = fst ` {x \<in> set checkers. \<not> runChecker budget (snd x)}"
    using Evaluate_exact [OF d p, of budget] ev by (simp add: case_prod_beta)
  also have "\<dots> = fst ` {x \<in> set checkers. sample m' dependency_up_name (fst x) = Some 0}"
    by (intro arg_cong [where f = "image fst"] Collect_cong conj_cong refl) (simp add: s)
  finally show "set down = {n \<in> fst ` set checkers. sample m' dependency_up_name n = Some 0}" by auto
qed

end
