(* ===== verification/Background.thy ===== *)
theory Background
  imports Boot Recovery Metrics
begin

text \<open>
  The background passes of cmd/compute (backstop.go, recovery.go), the command of
  cmd/migrator/main.go, and the two one-call adapters of kacho-iam. The passes
  themselves, goose and the calls are inputs.
\<close>

section \<open>The outbox backstop\<close>

definition computeFGAOutboxTable :: string where "computeFGAOutboxTable = ''public.compute_fga_register_outbox''"
definition computeFGAOutboxChannel :: string where "computeFGAOutboxChannel = ''compute_fga_register_outbox''"

record reconciler_config =
  rc_table :: string
  rc_channel :: string
  rc_grace :: int

text \<open>startBackstop: the reconciler over the outbox, or the error of its constructor; with it the
  table of the metrics collector.\<close>

definition startBackstop :: "(reconciler_config \<Rightarrow> go_error option) \<Rightarrow> go_error + (reconciler_config \<times> string)" where
  "startBackstop new =
    (let rc = \<lparr> rc_table = computeFGAOutboxTable, rc_channel = computeFGAOutboxChannel, rc_grace = 60 * 10 ^ 9 \<rparr> in
     case new rc of Some e \<Rightarrow> Inl e | None \<Rightarrow> Inr (rc, computeFGAOutboxTable))"

text \<open>The loop of runReconciler: each wake-up is the end of the context or a tick, with what
  RedrivePoisoned then answers. The result is whether the loop has returned, how
  often it ran the pass, and what it logged.\<close>

datatype rc_wake = Cancelled | Ticked "go_error + nat"

datatype rc_log = RedriveFailed go_error | Redrove nat

definition rc_logged :: "go_error + nat \<Rightarrow> rc_log list" where
  "rc_logged r = (case r of Inl e \<Rightarrow> [RedriveFailed e] | Inr n \<Rightarrow> if 0 < n then [Redrove n] else [])"

fun runReconciler :: "rc_wake list \<Rightarrow> bool \<times> nat \<times> rc_log list" where
  "runReconciler [] = (False, 0, [])"
| "runReconciler (Cancelled # _) = (True, 0, [])"
| "runReconciler (Ticked r # ws) = (case runReconciler ws of (d, n, ls) \<Rightarrow> (d, Suc n, rc_logged r @ ls))"

lemma runReconciler_returns: "fst (runReconciler ws) \<longleftrightarrow> Cancelled \<in> set ws"
  by (induction ws rule: runReconciler.induct) (auto split: prod.split)

text \<open>No failing pass stops the loop: it runs once for every tick before the end of the context.\<close>

lemma runReconciler_passes: "fst (snd (runReconciler ws)) = size (takeWhile (\<lambda>w. w \<noteq> Cancelled) ws)"
  by (induction ws rule: runReconciler.induct) (auto split: prod.split)

text \<open>As a supervised task it never takes the process down: it returns nil, and only after the
  context has ended.\<close>

lemma reconciler_never_stops_process:
  assumes "fst (runReconciler ws)" "Cancelled \<in> set ws \<longrightarrow> ctxDone"
  shows "superviseBackground ''fga-register-reconciler'' None ctxDone = (None, False)"
  using assms by (simp add: runReconciler_returns superviseBackground_def)

section \<open>Recovery of operations\<close>

record lro_config =
  lc_schema :: string
  lc_orphan_grace :: int
  lc_batch_size :: int
  lc_interval :: int

definition lro_reconciler_config :: lro_config where
  "lro_reconciler_config = \<lparr> lc_schema = ''public'', lc_orphan_grace = 5 * 60 * 10 ^ 9, lc_batch_size = 100,
     lc_interval = 30 * 10 ^ 9 \<rparr>"

text \<open>startLRORecovery: the recovery of all orphans runs before the servers, and its failure is only logged.\<close>

definition startLRORecovery :: "(lro_config \<Rightarrow> 's \<Rightarrow> go_error option \<times> 's) \<Rightarrow> 's \<Rightarrow> lro_config \<times> bool \<times> 's" where
  "startLRORecovery recoverAll s =
    (case recoverAll lro_reconciler_config s of (err, s') \<Rightarrow> (lro_reconciler_config, err = None, s'))"

section \<open>The migrator\<close>

datatype migrator_end = LogFatal string | MigratorDone

text \<open>main of cmd/migrator: the end of the process and the goose commands it ran, each with its
  data source.\<close>

definition migrator_commands :: "string list" where "migrator_commands = [''up'', ''down'', ''status'']"

definition migrator_main ::
  "(go_error + config) \<Rightarrow> go_error option \<Rightarrow> (string \<Rightarrow> go_error option) \<Rightarrow> (string \<Rightarrow> string \<Rightarrow> go_error option)
    \<Rightarrow> string list \<Rightarrow> migrator_end \<times> (string \<times> string) list" where
  "migrator_main load dialect openDB goose args =
    (if size args < 2 then (LogFatal ''usage: kacho-migrator {up|down|status}'', []) else
     let direction = args ! 1 in
     case load of Inl e \<Rightarrow> (LogFatal (''config: '' @ err_text e), []) | Inr cfg \<Rightarrow>
     (case dialect of Some e \<Rightarrow> (LogFatal (''goose dialect: '' @ err_text e), []) | None \<Rightarrow>
     (case openDB (MigrateDSN cfg) of Some e \<Rightarrow> (LogFatal (''open db: '' @ err_text e), []) | None \<Rightarrow>
      if direction \<notin> set migrator_commands
      then (LogFatal (''unknown command '' @ go_quote direction @ '' (usage: kacho-migrator {up|down|status})''), [])
      else (case goose direction (MigrateDSN cfg) of
              Some e \<Rightarrow> (LogFatal (''migrate '' @ direction @ '': '' @ err_text e), [(direction, MigrateDSN cfg)])
            | None \<Rightarrow> (MigratorDone, [(direction, MigrateDSN cfg)])))))"

text \<open>At most one command touches the schema, it is the one asked for, on the database of the
  configuration; and the process ends well only if it succeeded.\<close>

lemma migrator_runs_one:
  assumes "migrator_main load dialect openDB goose args = (r, cmds)"
  shows "cmds = [] \<or> (\<exists>cfg. load = Inr cfg \<and> cmds = [(args ! 1, MigrateDSN cfg)] \<and> args ! 1 \<in> set migrator_commands)"
    "r = MigratorDone \<longleftrightarrow> (\<exists>cfg. load = Inr cfg \<and> cmds = [(args ! 1, MigrateDSN cfg)] \<and> goose (args ! 1) (MigrateDSN cfg) = None)"
  using assms by (auto simp: migrator_main_def Let_def split: if_splits sum.splits option.splits)

section \<open>Calls of kacho-iam\<close>

record check_request =
  cq_subject :: string
  cq_relation :: string
  cq_object :: string

text \<open>IAMCheckClient.Check and grpcAuthorizeClient.ListObjects hand the caller's principal on
  (\<^verbatim>\<open>propagate\<close>) and add nothing to the answer.\<close>

definition IAMCheckClient_Check ::
  "('ctx \<Rightarrow> 'ctx) \<Rightarrow> ('ctx \<Rightarrow> check_request \<Rightarrow> go_error + bool) \<Rightarrow> 'ctx \<Rightarrow> string \<Rightarrow> string \<Rightarrow> string \<Rightarrow> bool \<times> go_error option" where
  "IAMCheckClient_Check propagate call ctx subjectID relation object =
    (case call (propagate ctx) \<lparr> cq_subject = subjectID, cq_relation = relation, cq_object = object \<rparr> of
       Inl e \<Rightarrow> (False, Some e) | Inr allowed \<Rightarrow> (allowed, None))"

definition authorize_ListObjects :: "('ctx \<Rightarrow> 'ctx) \<Rightarrow> ('ctx \<Rightarrow> 'q \<Rightarrow> go_error + 'r) \<Rightarrow> 'ctx \<Rightarrow> 'q \<Rightarrow> go_error + 'r" where
  "authorize_ListObjects propagate call ctx req = call (propagate ctx) req"

lemma check_allows_only_by_iam:
  "fst (IAMCheckClient_Check propagate call ctx s r b) \<longleftrightarrow>
     call (propagate ctx) \<lparr> cq_subject = s, cq_relation = r, cq_object = b \<rparr> = Inr True"
  by (auto simp: IAMCheckClient_Check_def split: sum.split)

end
