(* ===== verification/Spec2Isabelle.thy ===== *)
theory Spec2Isabelle
  imports InstanceProperties StorageProperties PlatformProperties ApiProperties AsyncProperties
    RuntimeProperties ProcessProperties RemoteProperties PipelineProperties DiskRefinement
    Findings
    Background
begin

text \<open>
  \<^bold>\<open>kacho-compute: a verification development of the compute control plane.\<close>

  The program is a Go service for disks, images, snapshots, virtual machine instances and a
  catalog of disk types. A gRPC handler (internal/handler) checks the request and the caller's
  project and calls a use case (internal/service). A mutating use case validates synchronously,
  creates a long-running operation and leaves a worker that runs later on the then-current state.
  A use case reaches its store and its peers only through ports (internal/ports); the store is
  Postgres (internal/repo), one SQL transaction per call, which also writes an event row
  (\<^verbatim>\<open>compute_outbox\<close>, read by the watch stream) and, for resources with an owner tuple, an
  intent row (\<^verbatim>\<open>compute_fga_register_outbox\<close>) that a drainer delivers to IAM. Volumes and
  network interfaces belong to other services (kacho-storage, kacho-vpc): an instance holds no
  list of them, it asks the owners, binds through them and releases every binding in its Delete.
  cmd/compute is the composition root.

  \<^bold>\<open>Theories, in import order, and the code each of them follows.\<close>

  \<^item> Prelude: the exception monad on \<^verbatim>\<open>error + 'a\<close> that stands for Go's
    \<^verbatim>\<open>(T, error)\<close>, string functions of the standard library, Go maps, int64 bounds.
  \<^item> GoError: internal/ports/errors.go, internal/service/maperr.go, internal/repo/unique.go,
    internal/handler/internal\_maperr.go: error values, wrapping, and the mappers to gRPC status.
  \<^item> Domain: internal/domain and the value objects of internal/ports; enumerations as datatypes.
  \<^item> Sql: internal/repo/jsonb.go and update\_set.go, tables with their PRIMARY KEY, partial UNIQUE
    index and CHECK, the four statements the program issues, the transaction bracket. The locale
    \<^verbatim>\<open>row_store\<close> is what a lookup returns after an insert, interpreted on every table.
  \<^item> FgaIntent, Db: internal/fgaintent and internal/repo/outbox.go: the database as a record of
    tables and the two emitters. Payload: what an event carries, the JSON of the domain objects
    read back into a map with float64 numbers.
  \<^item> Paging: internal/repo/paging.go and the query shared by the List methods.
  \<^item> DiskRepo, ImageRepo, SnapshotRepo, CatalogRepo, InstanceRepo: the repositories of
    internal/repo, one definition per method, statement by statement in the code's order.
  \<^item> Ports: internal/ports/ports.go as records of functions over an abstract state, their Postgres
    implementation, and internal/service/runop.go. An operation is the snapshot that is answered
    together with the worker to run.
  \<^item> RepoContract: the locales \<^verbatim>\<open>resource_repo\<close> and \<^verbatim>\<open>strict_repo\<close>, what a
    repository promises a use case, interpreted on the four Postgres repositories; Portmock:
    internal/ports/portmock, the in-memory implementation, interpreted in the same contract.
  \<^item> DiskService, ImageService, SnapshotService: internal/service disk.go, image.go, snapshot.go
    and catalog.go.
  \<^item> Peers: internal/clients iam\_client.go and geo\_client.go, the ports of the binding owners and
    their in-memory implementation; the locales \<^verbatim>\<open>attachment_owner\<close> and
    \<^verbatim>\<open>live_owner\<close> are the contract of an owner; an attach or a detach
    that returns an error may still have taken effect, as a lost answer does. PeerRpc:
    storage\_client.go and vpc\_nic\_client.go, the requests they build and what they make of the
    answers. RemoteOwners: the adapters joined to the services behind them. The locales
    \<^verbatim>\<open>volume_service\<close> and \<^verbatim>\<open>nic_service\<close> are what kacho-storage and
    kacho-vpc document of their calls; an adapter over such a service is an owner in the sense of
    Peers (sublocales), interpreted on services behind a network that loses requests and answers.
  \<^item> InstanceService: internal/service instance.go and instance\_nic.go over a world made of the
    database and the states of both owners.
  \<^item> InstanceSaga: attach, detach and the Delete saga; the locale \<^verbatim>\<open>binding_owners\<close> is what
    the saga needs of the two owners, \<^verbatim>\<open>live_binding_owners\<close> adds that they answer.
  \<^item> InstanceLifecycle: the writes of InstanceRepo as a step relation, the abstract state machine
    they refine, the step relation of attach and delete sagas whose statements and calls interleave
    (locale \<^verbatim>\<open>storage_owner\<close>).
  \<^item> Access: internal/handler/tenant\_interceptor.go and internal/authzfilter, with its cache.
  \<^item> Wire: internal/protoconv and internal/handler/mapping.go.
  \<^item> Handlers: the handlers of internal/handler; Operations: operation\_handler.go and the in-memory
    operations repository (locale \<^verbatim>\<open>owned_operations\<close>); Watch: internal\_watch\_handler.go.
  \<^item> Authz: the calls of the resource services as one datatype with the server's answer to each,
    internal/check (permission map, interceptor factory), cmd/compute/authz\_wiring.go and
    internal/fgaboot. AccessControl: the locale \<^verbatim>\<open>listed\<close>, what a List handler needs of a
    listing, interpreted on the four repositories, and the table of required checks. PublicApi:
    every call of the public listener, with OperationService and the inherited access bindings.
  \<^item> Recovery: internal/operationresolver. Register: internal/clients/iam\_register\_applier.go and
    fga\_reconcile\_adapter.go, and the payload decoder of the drainer.
  \<^item> Boot: internal/config and the parts of cmd/compute/main.go that \<^verbatim>\<open>runServe\<close> calls:
    the gates, the dialling of the peers, the list filter, the register drainer, the chains of
    interceptors. Start: \<^verbatim>\<open>runServe\<close> itself up to serving, as a result with the trace
    of what it opened, registered and released. Health: internal/observability/health and
    cmd/compute/observability.go. Metrics: internal/observability/metrics, the registry, its
    recorder methods and what a scrape shows. Background: cmd/compute/backstop.go and recovery.go,
    cmd/migrator, and the two one-call adapters of kacho-iam. Shutdown: \<^verbatim>\<open>runServe\<close> from serving to its return, the
    supervised tasks and the shutdown trigger as a step function on their joint state, and
    \<^verbatim>\<open>main\<close>.
  \<^item> StoredRows: every sequence of repository writes, and the type invariant of the stored rows.
    DiskRefinement: the abstract specification of DiskRepo, a finite map of disks whose names are
    unique in a project, and the refinement of every method.
  \<^item> Opaque: errors of the database and of the peers whose text is blanked, and that no port,
    use case or handler of the resources sees the difference; \<^verbatim>\<open>buildServices\<close> of cmd/compute/main.go.
  \<^item> Findings: where the use cases depart from their intent (full updates are not validated, a
    database fault in List has no code, the errors of the list filter and of the repository of
    operations are handed out with their text, an equal size counts as an increase, the boot flag of an
    attach is dropped).
  \<^item> Fixtures: the concrete database, requests and owners the witnesses run on.
  \<^item> InstanceProperties, StorageProperties, PlatformProperties, ApiProperties, AsyncProperties,
    RuntimeProperties, ProcessProperties, RemoteProperties, PipelineProperties: the properties,
    each a few steps over the lemmas of the theories above.
\<close>

text \<open>
  \<^bold>\<open>What the groups of lemmas show.\<close>

  Sql, Db and the repositories: keys, partial uniqueness and checks survive every statement; a
  transaction that fails leaves the database as it was; a write and its outbox rows are in one
  transaction. Paging: tokens round-trip and walking the pages visits every visible row once.
  Services: each Create stores only what passed its validation, whatever changed between the
  synchronous part and the worker; a failing worker changes nothing (for instances: keeps what its
  steps before did). Sagas and lifecycle: the delete saga releases every binding before the row
  goes, a retry converges, the rows move only along the lifecycle, and what the attach gate does
  and does not exclude. Access and handlers: foreign projects get nothing, lists show only what IAM
  allowed. Recovery, Watch, Register: an orphaned operation gets the outcome its worker committed,
  a watch delivers every event that becomes visible in order and its reading loop ends, the
  registry converges to the newest intent; put together, a disk whose creation succeeded reaches
  every watcher of disks and the registry of IAM (PipelineProperties). DiskRefinement: any
  sequence of calls on the disk repository is a sequence of calls on a map. Opaque: no text of an
  error of the resource and catalog repositories, the project and zone lookups, or (but for the
  messages of their contract) kacho-vpc and kacho-storage reaches a caller or an operation; the
  errors of the list filter and of the repository of operations do (Findings). PublicApi: which
  calls the permission map checks, exempts and does not know. RemoteOwners: the delete saga, its calls going over
  a network that may lose an answer, still forgets no binding, and a retry finishes. Boot, Start and
  Health: what a production start guarantees, and that a start which fails gives back all it
  opened. Shutdown: readiness goes first and the diagnostic
  listener last, the process ends if its
  streams do, and one open internal watch is enough to keep it from ending, unless a second signal
  kills it. Payload: the payload of
  an event determines its object while its numbers have 53 bits. Metrics: a counter counts its
  calls, a gauge shows the last value, and the dependency gauge mirrors the last readiness probe.

  \<^bold>\<open>How the code is read.\<close>

  \<^item> An int64 is an int with its bounds stated where the code depends on them. A time is a number
    of Unix nanoseconds; \<^verbatim>\<open>pg_time\<close> truncates it to the microseconds of a column. Strings
    are byte lists assumed to be valid UTF-8 (the two non-ASCII characters of messages are written
    as their bytes), text order is byte order, and \<^verbatim>\<open>%q\<close> takes bytes from 128 on as
    printable. Ties of \<^verbatim>\<open>sort.Slice\<close> keep their order. A Go map is an association list
    whose order stands for the unspecified iteration order.
  \<^item> Code outside src/ is a parameter: protojson, kacho-corelib (validators, operation records, the
    operations repository, the drainer and reconciler loops, the authorization interceptor,
    principal extraction, TLS credentials, boot gate, retry.OnUnavailable), the peers, IAM's
    answers, driver faults, clocks, the outbox sequence, and the generated tables. What the code
    relies on is a named hypothesis. The instance status names are those of
    docs/architecture/03-instance-lifecycle.md.
  \<^item> Workers run one after the other except in \<^verbatim>\<open>sys_step\<close> (InstanceLifecycle), where the
    statements and calls of several sagas interleave and new ids are fresh. The victim of a cache
    eviction is an input, since it depends on map order.
  \<^item> \<^verbatim>\<open>list_walk\<close> takes fuel; the number of visible rows plus one is enough, which the
    property shows. The batch loop of the watch has no bound in the code and is a
    \<^verbatim>\<open>partial_function\<close>; \<^verbatim>\<open>watch_ends\<close> proves that it returns when every query
    sees finitely many rows. All other functions are total.
  \<^item> The outbox row keeps the domain object of its payload; Payload turns it into the map that is
    stored. A created-at is marshalled as the instant it denotes, a generated message by a parameter.
    The readers of Recovery meet no driver fault (\<^verbatim>\<open>calm\<close>); a fault there is the error branch of \<^verbatim>\<open>Resolve\<close>. A query
    of the watch sees the table its environment gives it. A health check is its answer and the time
    it takes, and a tie with the budget is a timeout. The registry that intents are delivered to
    keeps, per resource, the state of the highest source version, as IAM documents.
  \<^item> The gRPC and HTTP servers and the loops of kacho-corelib are the environment of Shutdown: an
    event says what one of them does next, a signal after \<^verbatim>\<open>cancel()\<close> kills the process, and \<^verbatim>\<open>shutdown_terminates\<close> assumes only that
    what can return eventually does. In RemoteOwners the fate of each request (delivered, lost, its
    answer lost) is an input.
  \<^item> \<^verbatim>\<open>portmock\<close> hands out pointers; they are read as the values they point to.

  \<^bold>\<open>Not modelled.\<close>

  The Prometheus client, the delivery of signals and the servers' own code, the polling helpers of
  portmock (AwaitOpDone, AwaitAllOpsDone), constructors that only fill a struct, type aliases,
  log lines, and the SQL of the migrations, whose constraints are parameters of the tables in Sql.
\<close>

end
